(* ===== verification/Prelude.thy ===== *)
theory Prelude
  imports Main "HOL-Library.Word"
begin

unbundle bit_operations_syntax

text \<open>
  Shared vocabulary of the development: the machine types of the Rust sources, the result
  type that keeps an error return apart from a panic, checked and wrapping arithmetic on
  \<open>u64\<close>, byte strings with their little- and big-endian readings, slices, the decimal
  rendering of unsigned integers and generic facts about lists.  Nothing here models a
  particular file under src/.
\<close>

named_theorems outcome_simps "evaluation of the result type"
named_theorems bytes_simps "lengths and readings of byte strings"

section \<open>Machine types\<close>

type_synonym u8 = "8 word"
type_synonym u32 = "32 word"
type_synonym u64 = "64 word"
type_synonym u128 = "128 word"
type_synonym bytes = "u8 list"
type_synonym b256 = "256 word"
type_synonym address = "160 word"

section \<open>Results, errors and panics\<close>

text \<open>
  A Rust operation either returns a value, returns an error through \<open>Result\<close>, or panics.
  The three are kept apart: a caller may handle an error but never sees a panic.
\<close>

datatype panic =
    ArithmeticOverflow
  | DivisionByZero
  | SliceOutOfRange
  | AssertionFailed
  | ExpectFailed

datatype ('e, 'a) outcome = Ok 'a | Err 'e | Panic panic

fun and_then :: "('e, 'a) outcome \<Rightarrow> ('a \<Rightarrow> ('e, 'b) outcome) \<Rightarrow> ('e, 'b) outcome" where
  "and_then (Ok a) f = f a"
| "and_then (Err e) f = Err e"
| "and_then (Panic p) f = Panic p"

fun map_err :: "('e \<Rightarrow> 'f) \<Rightarrow> ('e, 'a) outcome \<Rightarrow> ('f, 'a) outcome" where
  "map_err g (Ok a) = Ok a"
| "map_err g (Err e) = Err (g e)"
| "map_err g (Panic p) = Panic p"

fun ok_or :: "'e \<Rightarrow> 'a option \<Rightarrow> ('e, 'a) outcome" where
  "ok_or e None = Err e"
| "ok_or e (Some a) = Ok a"

fun expect :: "('e, 'a) outcome \<Rightarrow> ('f, 'a) outcome" where
  "expect (Ok a) = Ok a"
| "expect (Err e) = Panic ExpectFailed"
| "expect (Panic p) = Panic p"

fun result_ok :: "('e, 'a) outcome \<Rightarrow> 'a option" where
  "result_ok (Ok a) = Some a"
| "result_ok _ = None"

lemma and_then_eq_Ok_iff:
  "and_then r f = Ok b \<longleftrightarrow> (\<exists>a. r = Ok a \<and> f a = Ok b)"
  by (cases r) auto

lemma and_then_assoc:
  "and_then (and_then r f) g = and_then r (\<lambda>a. and_then (f a) g)"
  by (cases r) auto

lemma map_err_eq_Ok_iff [simp]: "map_err g r = Ok a \<longleftrightarrow> r = Ok a"
  by (cases r) auto

lemma map_err_eq_Err_iff: "map_err g r = Err e \<longleftrightarrow> (\<exists>e'. r = Err e' \<and> e = g e')"
  by (cases r) auto

lemma map_err_eq_Panic_iff [simp]: "map_err g r = Panic p \<longleftrightarrow> r = Panic p"
  by (cases r) auto

lemma ok_or_eq_Ok_iff [simp]: "ok_or e x = Ok a \<longleftrightarrow> x = Some a"
  by (cases x) auto

lemma expect_eq_Ok_iff [simp]: "expect r = Ok a \<longleftrightarrow> r = Ok a"
  by (cases r) auto

lemma expect_not_Err [simp]: "expect r \<noteq> Err e"
  by (cases r) auto

lemma ok_or_not_Panic [simp]: "ok_or e x \<noteq> Panic p"
  by (cases x) auto

lemma result_ok_simps [simp]: "result_ok (map_err g r) = result_ok r"
  by (cases r) auto

lemma result_ok_eq_Some_iff [simp]: "result_ok r = Some a \<longleftrightarrow> r = Ok a"
  by (cases r) auto

lemmas outcome_Ok_iffs = and_then_eq_Ok_iff map_err_eq_Ok_iff ok_or_eq_Ok_iff expect_eq_Ok_iff

section \<open>Actions on a world\<close>

text \<open>
  Remote calls, the file system and the proving backends act on a world of type \<open>'w\<close>; an
  action takes the world and returns its outcome with the new world.  \<open>act_bind\<close> is
  Rust's sequencing with \<open>?\<close>: the first error or panic ends the sequence.
\<close>

type_synonym ('w, 'e, 'a) action = "'w \<Rightarrow> ('e, 'a) outcome \<times> 'w"

definition act_return :: "'a \<Rightarrow> ('w, 'e, 'a) action" where
  "act_return a = (\<lambda>w. (Ok a, w))"

definition act_fail :: "'e \<Rightarrow> ('w, 'e, 'a) action" where
  "act_fail e = (\<lambda>w. (Err e, w))"

definition act_lift :: "('e, 'a) outcome \<Rightarrow> ('w, 'e, 'a) action" where
  "act_lift r = (\<lambda>w. (r, w))"

definition act_bind :: "('w, 'e, 'a) action \<Rightarrow> ('a \<Rightarrow> ('w, 'e, 'b) action) \<Rightarrow> ('w, 'e, 'b) action" where
  "act_bind m f = (\<lambda>w. case m w of
       (Ok a, w') \<Rightarrow> f a w'
     | (Err e, w') \<Rightarrow> (Err e, w')
     | (Panic p, w') \<Rightarrow> (Panic p, w'))"

definition act_map_err :: "('e \<Rightarrow> 'f) \<Rightarrow> ('w, 'e, 'a) action \<Rightarrow> ('w, 'f, 'a) action" where
  "act_map_err g m = (\<lambda>w. case m w of (r, w') \<Rightarrow> (map_err g r, w'))"

definition act_try :: "('w, 'e, 'a) action \<Rightarrow> ('w, 'f, ('e, 'a) outcome) action" where
  "act_try m = (\<lambda>w. case m w of (Panic p, w') \<Rightarrow> (Panic p, w') | (r, w') \<Rightarrow> (Ok r, w'))"

lemma act_simps [simp, outcome_simps]:
  "act_return a w = (Ok a, w)"
  "act_fail e w = (Err e, w)"
  "act_lift r w = (r, w)"
  by (simp_all add: act_return_def act_fail_def act_lift_def)

lemma act_bind_cases [outcome_simps]:
  "m w = (Ok a, w') \<Longrightarrow> act_bind m f w = f a w'"
  "m w = (Err e, w') \<Longrightarrow> act_bind m f w = (Err e, w')"
  "m w = (Panic p, w') \<Longrightarrow> act_bind m f w = (Panic p, w')"
  by (simp_all add: act_bind_def)

lemma act_bind_Ok_iff:
  "act_bind m f w = (Ok b, w'') \<longleftrightarrow> (\<exists>a w'. m w = (Ok a, w') \<and> f a w' = (Ok b, w''))"
  by (auto simp: act_bind_def split: prod.splits outcome.splits)

lemma act_bindE:
  assumes "act_bind m f w = (Ok b, w'')"
  obtains a w' where "m w = (Ok a, w')" "f a w' = (Ok b, w'')"
  using assms by (auto simp: act_bind_Ok_iff)

lemma act_map_err_Ok_iff [simp]:
  "act_map_err g m w = (Ok a, w') \<longleftrightarrow> m w = (Ok a, w')"
  by (auto simp: act_map_err_def split: prod.splits)

lemma act_bind_assoc:
  "act_bind (act_bind m f) g = act_bind m (\<lambda>a. act_bind (f a) g)"
  by (rule ext) (auto simp: act_bind_def split: prod.splits outcome.splits)

section \<open>Arithmetic on u64\<close>

text \<open>
  The workspace sets no \<open>overflow-checks\<close> option, so an overflow panics in a debug build
  and wraps in a release build.  Operations that can overflow take the build as a parameter.
\<close>

datatype build = Debug | Release

definition fits_u64 :: "nat \<Rightarrow> bool" where
  "fits_u64 n \<longleftrightarrow> n < 2 ^ 64"

definition add_u64 :: "build \<Rightarrow> u64 \<Rightarrow> u64 \<Rightarrow> ('e, u64) outcome" where
  "add_u64 m a b =
     (if m = Release \<or> fits_u64 (unat a + unat b) then Ok (a + b) else Panic ArithmeticOverflow)"

definition sub_u64 :: "build \<Rightarrow> u64 \<Rightarrow> u64 \<Rightarrow> ('e, u64) outcome" where
  "sub_u64 m a b =
     (if m = Release \<or> b \<le> a then Ok (a - b) else Panic ArithmeticOverflow)"

definition mul_u64 :: "build \<Rightarrow> u64 \<Rightarrow> u64 \<Rightarrow> ('e, u64) outcome" where
  "mul_u64 m a b =
     (if m = Release \<or> fits_u64 (unat a * unat b) then Ok (a * b) else Panic ArithmeticOverflow)"

definition div_u64 :: "u64 \<Rightarrow> u64 \<Rightarrow> ('e, u64) outcome" where
  "div_u64 a b = (if b = 0 then Panic DivisionByZero else Ok (a div b))"

definition saturating_sub_u64 :: "u64 \<Rightarrow> u64 \<Rightarrow> u64" where
  "saturating_sub_u64 a b = (if a < b then 0 else a - b)"

definition div_ceil_u64 :: "u64 \<Rightarrow> u64 \<Rightarrow> ('e, u64) outcome" where
  "div_ceil_u64 a b =
     (if b = 0 then Panic DivisionByZero
      else Ok (if a mod b = 0 then a div b else a div b + 1))"

lemma unat_add_fits: "fits_u64 (unat a + unat b) \<Longrightarrow> unat (a + b :: u64) = unat a + unat b"
  by (simp add: fits_u64_def unat_word_ariths)

lemma unat_mul_fits: "fits_u64 (unat a * unat b) \<Longrightarrow> unat (a * b :: u64) = unat a * unat b"
  by (simp add: fits_u64_def unat_word_ariths)

lemma unat_u64_less [simp]: "unat (a :: u64) < 2 ^ 64"
  using unsigned_less [of a, where ?'a = nat] by simp

lemma add_u64_fits: "fits_u64 (unat a + unat b) \<Longrightarrow> add_u64 m a b = Ok (a + b)"
  by (simp add: add_u64_def)

lemma sub_u64_le: "b \<le> a \<Longrightarrow> sub_u64 m a b = Ok (a - b)"
  by (simp add: sub_u64_def)

lemma unat_sub_u64: "b \<le> a \<Longrightarrow> unat (a - b :: u64) = unat a - unat b"
  by (simp add: unat_sub)

lemma unat_saturating_sub: "unat (saturating_sub_u64 a b) = unat a - unat b"
  by (auto simp: saturating_sub_u64_def word_less_nat_alt word_le_nat_alt unat_sub)

section \<open>Byte strings\<close>

text \<open>
  \<open>le_bytes n w\<close> is the little-endian \<open>n\<close>-byte rendering of a word (Rust's
  \<open>to_le_bytes\<close>), \<open>le_word\<close> reads one back; the big-endian versions reverse.
\<close>

fun le_bytes :: "nat \<Rightarrow> 'a::len word \<Rightarrow> bytes" where
  "le_bytes 0 w = []"
| "le_bytes (Suc n) w = ucast w # le_bytes n (drop_bit 8 w)"

fun le_word :: "bytes \<Rightarrow> 'a::len word" where
  "le_word [] = 0"
| "le_word (b # bs) = ucast b OR push_bit 8 (le_word bs)"

definition be_bytes :: "nat \<Rightarrow> 'a::len word \<Rightarrow> bytes" where
  "be_bytes n w = rev (le_bytes n w)"

definition be_word :: "bytes \<Rightarrow> 'a::len word" where
  "be_word bs = le_word (rev bs)"

lemma length_le_bytes [simp, bytes_simps]: "length (le_bytes n w) = n"
  by (induction n w rule: le_bytes.induct) auto

lemma length_be_bytes [simp, bytes_simps]: "length (be_bytes n w) = n"
  by (simp add: be_bytes_def)

lemma bit_le_bytes:
  "k < n \<Longrightarrow> j < 8 \<Longrightarrow> bit (le_bytes n w ! k) j = bit w (8 * k + j)"
proof (induction n w arbitrary: k rule: le_bytes.induct)
  case (2 n w)
  show ?case
  proof (cases k)
    case 0
    with 2 show ?thesis
      by (auto simp: bit_simps dest: bit_imp_le_length)
  next
    case (Suc k')
    with 2 show ?thesis
      by (simp add: bit_simps algebra_simps)
  qed
qed simp

lemma bit_le_word:
  "bit (le_word bs :: 'a::len word) i \<longleftrightarrow>
     i < LENGTH('a) \<and> i div 8 < length bs \<and> bit (bs ! (i div 8)) (i mod 8)"
proof (induction bs arbitrary: i)
  case (Cons b bs)
  show ?case
  proof (cases "i < 8")
    case True
    then show ?thesis
      by (auto simp: bit_simps)
  next
    case False
    then obtain k where k: "i = 8 + k"
      using le_Suc_ex by (metis not_less)
    have "(8 + k) div 8 = Suc (k div 8)" "(8 + k) mod 8 = k mod 8"
      by simp_all
    with k Cons.IH [of k] show ?thesis
      by (auto simp: bit_simps dest: bit_imp_le_length)
  qed
qed simp

lemma le_word_le_bytes:
  "le_word (le_bytes n w) = (take_bit (8 * n) w :: 'a::len word)"
proof (rule bit_eqI)
  fix i
  have "i div 8 < n \<longleftrightarrow> i < 8 * n" by (simp add: div_less_iff_less_mult mult.commute)
  moreover have "8 * (i div 8) + i mod 8 = i" by simp
  ultimately show "bit (le_word (le_bytes n w) :: 'a word) i = bit (take_bit (8 * n) w) i"
    by (auto simp: bit_le_word bit_le_bytes bit_simps dest: bit_imp_le_length)
qed

lemma le_bytes_le_word:
  assumes "8 * length bs \<le> LENGTH('a::len)"
  shows "le_bytes (length bs) (le_word bs :: 'a word) = bs"
proof (rule nth_equalityI)
  fix k
  assume "k < length (le_bytes (length bs) (le_word bs :: 'a word))"
  then have k: "k < length bs" by simp
  show "le_bytes (length bs) (le_word bs :: 'a word) ! k = bs ! k"
  proof (rule bit_eqI)
    fix j
    show "bit (le_bytes (length bs) (le_word bs :: 'a word) ! k) j = bit (bs ! k) j"
    proof (cases "j < 8")
      case True
      with k assms have "8 * k + j < LENGTH('a)" by simp
      moreover from True have "(8 * k + j) div 8 = k" "(8 * k + j) mod 8 = j" by simp_all
      ultimately show ?thesis
        using True k by (simp add: bit_le_bytes bit_le_word)
    next
      case False
      then show ?thesis by (auto dest!: bit_imp_le_length)
    qed
  qed
qed simp

lemma be_word_be_bytes:
  "LENGTH('a::len) \<le> 8 * n \<Longrightarrow> be_word (be_bytes n w) = (w :: 'a word)"
  by (simp add: be_word_def be_bytes_def le_word_le_bytes take_bit_word_eq_self)

lemma be_bytes_be_word:
  "length bs = n \<Longrightarrow> 8 * n \<le> LENGTH('a::len) \<Longrightarrow> be_bytes n (be_word bs :: 'a word) = bs"
  using le_bytes_le_word [of "rev bs", where ?'a = 'a]
  by (simp add: be_word_def be_bytes_def)

lemma be_bytes_inject:
  "LENGTH('a::len) \<le> 8 * n \<Longrightarrow> be_bytes n v = be_bytes n w \<longleftrightarrow> v = (w :: 'a word)"
  by (metis be_word_be_bytes)

lemma le_bytes_add:
  "le_bytes (k + j) w = le_bytes k w @ le_bytes j (drop_bit (8 * k) w)"
  by (induction k w rule: le_bytes.induct) (simp_all add: ac_simps)

lemma le_bytes_zero [simp]: "le_bytes n 0 = replicate n 0"
  by (induction n) auto

lemma le_bytes_ucast:
  fixes v :: "'a::len word"
  assumes "8 * n \<le> LENGTH('b::len)"
  shows "le_bytes n (ucast v :: 'b word) = le_bytes n v"
proof (rule nth_equalityI)
  fix k
  assume "k < length (le_bytes n (ucast v :: 'b word))"
  then have k: "k < n" by simp
  show "le_bytes n (ucast v :: 'b word) ! k = le_bytes n v ! k"
  proof (rule bit_eqI)
    fix j
    show "bit (le_bytes n (ucast v :: 'b word) ! k) j = bit (le_bytes n v ! k) j"
      using k assms by (cases "j < 8") (auto simp: bit_le_bytes bit_simps dest: bit_imp_le_length)
  qed
qed simp

text \<open>A \<open>uint64\<close> right-aligned in a 32-byte slot.\<close>

lemma be_bytes_ucast_64:
  "be_bytes 32 (ucast (n :: u64) :: b256) = replicate 24 0 @ be_bytes 8 n"
proof -
  have "drop_bit 64 (ucast n :: b256) = 0"
    by (rule bit_eqI) (auto simp: bit_simps dest: bit_imp_le_length)
  then have "le_bytes 32 (ucast n :: b256) = le_bytes 8 n @ replicate 24 0"
    using le_bytes_add [of 8 24 "ucast n :: b256"] by (simp add: le_bytes_ucast)
  then show ?thesis
    by (simp add: be_bytes_def)
qed

section \<open>Slices\<close>

text \<open>\<open>xs[a..b]\<close>: a panic when the range is decreasing or reaches past the end.\<close>

definition subslice :: "'a list \<Rightarrow> nat \<Rightarrow> nat \<Rightarrow> ('e, 'a list) outcome" where
  "subslice xs a b = (if a \<le> b \<and> b \<le> length xs then Ok (take (b - a) (drop a xs)) else Panic SliceOutOfRange)"

lemma subslice_append_left: "b \<le> length xs \<Longrightarrow> subslice (xs @ ys) a b = subslice xs a b"
  by (auto simp: subslice_def)

lemma subslice_append_right:
  "length xs \<le> a \<Longrightarrow> subslice (xs @ ys) a b = (if a \<le> b then subslice ys (a - length xs) (b - length xs) else Panic SliceOutOfRange)"
  by (auto simp: subslice_def)

section \<open>Decimal rendering\<close>

text \<open>The text \<open>{}\<close> prints for an unsigned integer.\<close>

fun show_nat :: "nat \<Rightarrow> string" where
  "show_nat n =
     (if n < 10 then [char_of (48 + n)] else show_nat (n div 10) @ [char_of (48 + n mod 10)])"

declare show_nat.simps [simp del]

definition show_u64 :: "u64 \<Rightarrow> string" where
  "show_u64 w = show_nat (unat w)"

definition digit :: "char \<Rightarrow> bool" where
  "digit c \<longleftrightarrow> 48 \<le> (of_char c :: nat) \<and> (of_char c :: nat) \<le> 57"

fun read_nat :: "string \<Rightarrow> nat" where
  "read_nat cs = foldl (\<lambda>n c. 10 * n + ((of_char c :: nat) - 48)) 0 cs"

lemma show_nat_digits: "\<forall>c \<in> set (show_nat n). digit c"
proof (induction n rule: show_nat.induct)
  case (1 n)
  show ?case
    using 1 by (subst show_nat.simps) (auto simp: digit_def)
qed

lemma show_nat_nonempty [simp]: "show_nat n \<noteq> []"
  by (subst show_nat.simps) simp

lemma read_show_nat: "read_nat (show_nat n) = n"
proof (induction n rule: show_nat.induct)
  case (1 n)
  show ?case
    using 1 by (subst show_nat.simps) auto
qed

lemma show_nat_inject [simp]: "show_nat m = show_nat n \<longleftrightarrow> m = n"
  by (metis read_show_nat)

lemma show_u64_inject [simp]: "show_u64 v = show_u64 w \<longleftrightarrow> v = w"
  by (simp add: show_u64_def word_unat_eq_iff)

lemma show_u64_digits: "c \<in> set (show_u64 w) \<Longrightarrow> digit c"
  using show_nat_digits by (auto simp: show_u64_def)

text \<open>Two texts joined at a separator that occurs in neither left part split in one way.\<close>

lemma split_at_separator:
  assumes "xs @ s # ys = xs' @ s # ys'" and "s \<notin> set xs" and "s \<notin> set xs'"
  shows "xs = xs' \<and> ys = ys'"
proof -
  have "takeWhile (\<lambda>c. c \<noteq> s) (xs @ s # ys) = xs" "takeWhile (\<lambda>c. c \<noteq> s) (xs' @ s # ys') = xs'"
    using assms(2,3) by (auto simp: takeWhile_append)
  with assms(1) show ?thesis by auto
qed

end
