(* ===== verification/Core_Types.thy ===== *)
theory Core_Types
  imports Prelude
begin

text \<open>
  The data types of crates/core/src: proof modes and security levels (types/config.rs),
  backends, proving modes, requests, artifacts, estimates and plans (types/proof.rs), the
  state-transition journal with its ABI encoding (types/journal.rs), the boot information and
  the aggregation input (types/witness_data.rs) and the raw witness (traits/witness.rs).

  Record fields carry a short prefix because several structs share field names.  \<open>f64\<close> is the
  type parameter \<open>'f\<close> of the pricing records.  The encoder and decoder that the
  \<open>sol!\<close> macro generates for a struct are parameters; \<open>journal_abi\<close> and \<open>boot_abi\<close> state
  the Solidity ABI rule for a static tuple of 32-byte slots that the code relies on, and both
  are interpreted on complete codecs.
\<close>

section \<open>Configuration and proof types\<close>

datatype proof_mode = Beacon | Sentinel

datatype security_level = Maximum | Standard | Economy

datatype zkvm_backend = Sp1 | RiscZero | Auto | Mock

datatype proving_mode = Groth16 | Compressed | Execute

record proof_artifact =
  pa_backend :: zkvm_backend
  pa_mode :: proving_mode
  pa_proof_bytes :: bytes
  pa_public_values :: bytes
  pa_program_id :: b256
  pa_cycle_count :: "u64 option"

record proof_request =
  req_l1_head :: b256
  req_l2_start_block :: u64
  req_l2_end_block :: u64
  req_l2_start_output_root :: b256
  req_mode :: proving_mode

record cycle_estimate =
  ce_cycles :: u64
  ce_backend :: zkvm_backend

record 'f pricing_info =
  pi_cost_usd :: 'f
  pi_duration_secs :: u64
  pi_source :: string
  pi_native_cost :: "'f option"
  pi_native_symbol :: "string option"
  pi_token_usd_rate :: "'f option"

record 'f cost_estimate =
  co_estimated_cycles :: u64
  co_estimated_cost_usd :: 'f
  co_estimated_duration_secs :: u64

record 'f proof_plan =
  pp_backend :: zkvm_backend
  pp_mode :: proving_mode
  pp_range_requests :: "proof_request list"
  pp_needs_aggregation :: bool
  pp_estimated_total_cost :: "'f cost_estimate"

record raw_witness =
  rw_boot_info :: bytes
  rw_oracle_data :: bytes
  rw_blob_data :: bytes

section \<open>ABI slots\<close>

text \<open>A static tuple is the concatenation of its fields, each one big-endian 32-byte word.\<close>

definition abi_words :: "b256 list \<Rightarrow> bytes" where
  "abi_words ws = concat (map (be_bytes 32) ws)"

definition slot_at :: "nat \<Rightarrow> bytes \<Rightarrow> b256" where
  "slot_at i bs = be_word (take 32 (drop (32 * i) bs))"

lemma length_abi_words [simp, bytes_simps]: "length (abi_words ws) = 32 * length ws"
  by (induction ws) (auto simp: abi_words_def)

lemma abi_words_simps [simp]:
  "abi_words [] = []"
  "abi_words (w # ws) = be_bytes 32 w @ abi_words ws"
  by (simp_all add: abi_words_def)

lemma drop_abi_words: "drop (32 * i) (abi_words ws) = abi_words (drop i ws)"
proof (induction ws arbitrary: i)
  case (Cons w ws)
  then show ?case by (cases i) auto
qed simp

lemma slot_at_abi_words:
  assumes "i < length ws"
  shows "slot_at i (abi_words ws) = ws ! i"
proof -
  have "drop i ws = ws ! i # drop (Suc i) ws"
    using assms by (rule Cons_nth_drop_Suc [symmetric])
  then have "take 32 (drop (32 * i) (abi_words ws)) = be_bytes 32 (ws ! i)"
    by (simp add: drop_abi_words)
  then show ?thesis
    by (simp add: slot_at_def be_word_be_bytes)
qed

lemma abi_words_inject [simp]: "abi_words vs = abi_words ws \<longleftrightarrow> vs = ws"
proof
  assume eq: "abi_words vs = abi_words ws"
  then have "length (abi_words vs) = length (abi_words ws)" by simp
  then have len: "length vs = length ws" by simp
  then show "vs = ws"
    using eq by (metis nth_equalityI slot_at_abi_words)
qed simp

lemma ucast_u64_less: "(ucast (n :: u64) :: b256) < 2 ^ 64"
proof -
  have "unat (ucast n :: b256) < 2 ^ 64"
    using unat_u64_less [of n] by (simp add: unsigned_ucast_eq take_bit_nat_eq_self)
  then show ?thesis
    by (simp add: word_less_nat_alt)
qed

lemma ucast_ucast_u64 [simp]: "ucast (ucast (n :: u64) :: b256) = n"
  by (rule bit_eqI) (auto simp: bit_simps dest: bit_imp_le_length)

section \<open>The state-transition journal\<close>

record state_transition_journal =
  j_l1_head :: b256
  j_l2_pre_root :: b256
  j_l2_post_root :: b256
  j_l2_block_number :: u64
  j_rollup_config_hash :: b256
  j_program_id :: b256

text \<open>The Solidity struct that the \<open>sol!\<close> macro declares, field by field.\<close>

record state_transition_output =
  l1Head :: b256
  l2PreRoot :: b256
  l2PostRoot :: b256
  l2BlockNumber :: u64
  rollupConfigHash :: b256
  programId :: b256

text \<open>
  \<open>abi_encode_params\<close> and \<open>abi_decode_params\<close> of the generated struct are the parameters
  \<open>enc\<close> and \<open>dec\<close>.
\<close>

definition journal_to_abi_bytes ::
  "(state_transition_output \<Rightarrow> bytes) \<Rightarrow> state_transition_journal \<Rightarrow> bytes" where
  "journal_to_abi_bytes enc self =
     (let output = \<lparr>l1Head = j_l1_head self,
                    l2PreRoot = j_l2_pre_root self,
                    l2PostRoot = j_l2_post_root self,
                    l2BlockNumber = j_l2_block_number self,
                    rollupConfigHash = j_rollup_config_hash self,
                    programId = j_program_id self\<rparr>
      in enc output)"

definition journal_from_abi_bytes ::
  "(bytes \<Rightarrow> ('e, state_transition_output) outcome) \<Rightarrow> bytes \<Rightarrow> ('e, state_transition_journal) outcome"
where
  "journal_from_abi_bytes dec data =
     and_then (dec data) (\<lambda>output.
       Ok \<lparr>j_l1_head = l1Head output,
           j_l2_pre_root = l2PreRoot output,
           j_l2_post_root = l2PostRoot output,
           j_l2_block_number = l2BlockNumber output,
           j_rollup_config_hash = rollupConfigHash output,
           j_program_id = programId output\<rparr>)"

text \<open>The ABI rule for the struct: six slots in declaration order, the block number right-aligned.\<close>

locale journal_abi =
  fixes enc :: "state_transition_output \<Rightarrow> bytes"
    and dec :: "bytes \<Rightarrow> ('e, state_transition_output) outcome"
  assumes enc_slots:
    "enc s = abi_words [l1Head s, l2PreRoot s, l2PostRoot s, ucast (l2BlockNumber s),
                        rollupConfigHash s, programId s]"
    and dec_slots:
    "length bs = 192 \<Longrightarrow> slot_at 3 bs < 2 ^ 64 \<Longrightarrow>
       dec bs = Ok \<lparr>l1Head = slot_at 0 bs, l2PreRoot = slot_at 1 bs, l2PostRoot = slot_at 2 bs,
                    l2BlockNumber = ucast (slot_at 3 bs), rollupConfigHash = slot_at 4 bs,
                    programId = slot_at 5 bs\<rparr>"
    and dec_short: "length bs < 192 \<Longrightarrow> \<exists>e. dec bs = Err e"
begin

lemma to_abi_bytes_slots:
  "journal_to_abi_bytes enc j =
     abi_words [j_l1_head j, j_l2_pre_root j, j_l2_post_root j, ucast (j_l2_block_number j),
                j_rollup_config_hash j, j_program_id j]"
  by (simp add: journal_to_abi_bytes_def enc_slots)

lemma length_to_abi_bytes: "length (journal_to_abi_bytes enc j) = 192"
  by (simp add: to_abi_bytes_slots)

lemma to_abi_bytes_slot_at:
  "slot_at 0 (journal_to_abi_bytes enc j) = j_l1_head j"
  "slot_at 1 (journal_to_abi_bytes enc j) = j_l2_pre_root j"
  "slot_at 2 (journal_to_abi_bytes enc j) = j_l2_post_root j"
  "slot_at 3 (journal_to_abi_bytes enc j) = ucast (j_l2_block_number j)"
  "slot_at 4 (journal_to_abi_bytes enc j) = j_rollup_config_hash j"
  "slot_at 5 (journal_to_abi_bytes enc j) = j_program_id j"
  unfolding to_abi_bytes_slots by (subst slot_at_abi_words; simp)+

lemma from_to_abi_bytes: "journal_from_abi_bytes dec (journal_to_abi_bytes enc j) = Ok j"
proof -
  have "dec (journal_to_abi_bytes enc j) =
      Ok \<lparr>l1Head = j_l1_head j, l2PreRoot = j_l2_pre_root j, l2PostRoot = j_l2_post_root j,
          l2BlockNumber = j_l2_block_number j, rollupConfigHash = j_rollup_config_hash j,
          programId = j_program_id j\<rparr>"
    by (subst dec_slots) (simp_all add: length_to_abi_bytes to_abi_bytes_slot_at to_abi_bytes_slot_at [simplified]
      ucast_u64_less ucast_u64_less [simplified])
  then show ?thesis
    by (simp add: journal_from_abi_bytes_def)
qed

lemma to_abi_bytes_inject:
  "journal_to_abi_bytes enc i = journal_to_abi_bytes enc j \<longleftrightarrow> i = j"
proof
  assume "journal_to_abi_bytes enc i = journal_to_abi_bytes enc j"
  then have "journal_from_abi_bytes dec (journal_to_abi_bytes enc i) =
      journal_from_abi_bytes dec (journal_to_abi_bytes enc j)"
    by (rule arg_cong)
  then show "i = j"
    by (simp only: from_to_abi_bytes outcome.inject)
qed simp

lemma from_abi_bytes_short: "length bs < 192 \<Longrightarrow> \<exists>e. journal_from_abi_bytes dec bs = Err e"
  using dec_short [of bs] by (auto simp: journal_from_abi_bytes_def)

end

text \<open>A complete codec for the struct, on which the interface is interpreted.\<close>

datatype abi_error = Overrun | DirtyUpperBits

definition output_encode :: "state_transition_output \<Rightarrow> bytes" where
  "output_encode s =
     abi_words [l1Head s, l2PreRoot s, l2PostRoot s, ucast (l2BlockNumber s),
                rollupConfigHash s, programId s]"

definition output_decode :: "bytes \<Rightarrow> (abi_error, state_transition_output) outcome" where
  "output_decode bs =
     (if length bs < 192 then Err Overrun
      else if 2 ^ 64 \<le> slot_at 3 bs then Err DirtyUpperBits
      else Ok \<lparr>l1Head = slot_at 0 bs, l2PreRoot = slot_at 1 bs, l2PostRoot = slot_at 2 bs,
               l2BlockNumber = ucast (slot_at 3 bs), rollupConfigHash = slot_at 4 bs,
               programId = slot_at 5 bs\<rparr>)"

interpretation out_abi: journal_abi output_encode output_decode
  by unfold_locales (auto simp: output_encode_def output_decode_def not_le)

section \<open>Boot information\<close>

record boot_info =
  bi_l1_head :: b256
  bi_l2_pre_root :: b256
  bi_l2_claim :: b256
  bi_l2_block_number :: u64
  bi_rollup_config_hash :: b256

record boot_info_output =
  bo_l1Head :: b256
  bo_l2PreRoot :: b256
  bo_l2Claim :: b256
  bo_l2BlockNumber :: u64
  bo_rollupConfigHash :: b256

definition boot_to_abi_bytes :: "(boot_info_output \<Rightarrow> bytes) \<Rightarrow> boot_info \<Rightarrow> bytes" where
  "boot_to_abi_bytes enc self =
     (let output = \<lparr>bo_l1Head = bi_l1_head self,
                    bo_l2PreRoot = bi_l2_pre_root self,
                    bo_l2Claim = bi_l2_claim self,
                    bo_l2BlockNumber = bi_l2_block_number self,
                    bo_rollupConfigHash = bi_rollup_config_hash self\<rparr>
      in enc output)"

definition boot_from_abi_bytes ::
  "(bytes \<Rightarrow> ('e, boot_info_output) outcome) \<Rightarrow> bytes \<Rightarrow> ('e, boot_info) outcome" where
  "boot_from_abi_bytes dec data =
     and_then (dec data) (\<lambda>output.
       Ok \<lparr>bi_l1_head = bo_l1Head output,
           bi_l2_pre_root = bo_l2PreRoot output,
           bi_l2_claim = bo_l2Claim output,
           bi_l2_block_number = bo_l2BlockNumber output,
           bi_rollup_config_hash = bo_rollupConfigHash output\<rparr>)"

locale boot_abi =
  fixes enc :: "boot_info_output \<Rightarrow> bytes"
    and dec :: "bytes \<Rightarrow> ('e, boot_info_output) outcome"
  assumes enc_slots:
    "enc s = abi_words [bo_l1Head s, bo_l2PreRoot s, bo_l2Claim s, ucast (bo_l2BlockNumber s),
                        bo_rollupConfigHash s]"
    and dec_slots:
    "length bs = 160 \<Longrightarrow> slot_at 3 bs < 2 ^ 64 \<Longrightarrow>
       dec bs = Ok \<lparr>bo_l1Head = slot_at 0 bs, bo_l2PreRoot = slot_at 1 bs, bo_l2Claim = slot_at 2 bs,
                    bo_l2BlockNumber = ucast (slot_at 3 bs), bo_rollupConfigHash = slot_at 4 bs\<rparr>"
begin

lemma to_abi_bytes_slots:
  "boot_to_abi_bytes enc b =
     abi_words [bi_l1_head b, bi_l2_pre_root b, bi_l2_claim b, ucast (bi_l2_block_number b),
                bi_rollup_config_hash b]"
  by (simp add: boot_to_abi_bytes_def enc_slots)

lemma length_to_abi_bytes: "length (boot_to_abi_bytes enc b) = 160"
  by (simp add: to_abi_bytes_slots)

lemma to_abi_bytes_slot_at:
  "slot_at 0 (boot_to_abi_bytes enc b) = bi_l1_head b"
  "slot_at 1 (boot_to_abi_bytes enc b) = bi_l2_pre_root b"
  "slot_at 2 (boot_to_abi_bytes enc b) = bi_l2_claim b"
  "slot_at 3 (boot_to_abi_bytes enc b) = ucast (bi_l2_block_number b)"
  "slot_at 4 (boot_to_abi_bytes enc b) = bi_rollup_config_hash b"
  unfolding to_abi_bytes_slots by (subst slot_at_abi_words; simp)+

lemma from_to_abi_bytes: "boot_from_abi_bytes dec (boot_to_abi_bytes enc b) = Ok b"
proof -
  have "dec (boot_to_abi_bytes enc b) =
      Ok \<lparr>bo_l1Head = bi_l1_head b, bo_l2PreRoot = bi_l2_pre_root b, bo_l2Claim = bi_l2_claim b,
          bo_l2BlockNumber = bi_l2_block_number b, bo_rollupConfigHash = bi_rollup_config_hash b\<rparr>"
    by (subst dec_slots) (simp_all add: length_to_abi_bytes to_abi_bytes_slot_at to_abi_bytes_slot_at [simplified]
      ucast_u64_less ucast_u64_less [simplified])
  then show ?thesis
    by (simp add: boot_from_abi_bytes_def)
qed

end

definition boot_encode :: "boot_info_output \<Rightarrow> bytes" where
  "boot_encode s =
     abi_words [bo_l1Head s, bo_l2PreRoot s, bo_l2Claim s, ucast (bo_l2BlockNumber s),
                bo_rollupConfigHash s]"

definition boot_decode :: "bytes \<Rightarrow> (abi_error, boot_info_output) outcome" where
  "boot_decode bs =
     (if length bs < 160 then Err Overrun
      else if 2 ^ 64 \<le> slot_at 3 bs then Err DirtyUpperBits
      else Ok \<lparr>bo_l1Head = slot_at 0 bs, bo_l2PreRoot = slot_at 1 bs, bo_l2Claim = slot_at 2 bs,
               bo_l2BlockNumber = ucast (slot_at 3 bs), bo_rollupConfigHash = slot_at 4 bs\<rparr>)"

interpretation bt_abi: boot_abi boot_encode boot_decode
  by unfold_locales (auto simp: boot_encode_def boot_decode_def not_le)

record aggregation_input =
  ai_num_proofs :: u32
  ai_range_program_id :: b256
  ai_journals :: "bytes list"

end
