(* ===== verification/Intent.thy ===== *)
theory Intent
  imports Core_Types
begin

text \<open>
  crates/orchestrator/src/intent.rs: from the user's security level, backend choice and
  allowlist to the concrete proving parameters.  A \<open>Duration\<close> is its seconds and
  nanoseconds.
\<close>

type_synonym duration = "u64 \<times> u32"

definition duration_from_secs :: "u64 \<Rightarrow> duration" where
  "duration_from_secs s = (s, 0)"

record resolved_intent =
  ri_proof_mode :: proof_mode
  ri_backend :: zkvm_backend
  ri_proving_mode :: proving_mode
  ri_aggregation_window :: u64

definition DEFAULT_ALLOWED_BACKENDS :: "zkvm_backend list" where
  "DEFAULT_ALLOWED_BACKENDS = [Sp1, RiscZero]"

fun resolve_proof_mode :: "duration \<Rightarrow> security_level \<Rightarrow> proof_mode" where
  "resolve_proof_mode _ Maximum = Beacon"
| "resolve_proof_mode _ _ = Sentinel"

fun resolve_auto :: "zkvm_backend list \<Rightarrow> zkvm_backend" where
  "resolve_auto [] = Sp1"
| "resolve_auto (b # _) = b"

definition intent_resolve ::
  "zkvm_backend \<Rightarrow> zkvm_backend list \<Rightarrow> duration \<Rightarrow> security_level \<Rightarrow> resolved_intent" where
  "intent_resolve backend allowed_backends target_finality security =
     (let proof_mode = resolve_proof_mode target_finality security;
          aggregation_window = (case security of Maximum \<Rightarrow> 10 | Standard \<Rightarrow> 100 | Economy \<Rightarrow> 1000);
          resolved_backend = (case backend of Auto \<Rightarrow> resolve_auto allowed_backends | explicit \<Rightarrow> explicit)
      in \<lparr>ri_proof_mode = proof_mode,
          ri_backend = resolved_backend,
          ri_proving_mode = Groth16,
          ri_aggregation_window = aggregation_window\<rparr>)"

lemma intent_resolve_sel [simp]:
  "ri_proof_mode (intent_resolve b al tf s) = (if s = Maximum then Beacon else Sentinel)"
  "ri_backend (intent_resolve b al tf s) = (if b = Auto then resolve_auto al else b)"
  "ri_proving_mode (intent_resolve b al tf s) = Groth16"
  by (cases s; simp add: intent_resolve_def)
    (cases b; simp add: intent_resolve_def Let_def)+

lemma intent_resolve_window:
  "unat (ri_aggregation_window (intent_resolve b al tf s)) =
     (case s of Maximum \<Rightarrow> 10 | Standard \<Rightarrow> 100 | Economy \<Rightarrow> 1000)"
  by (cases s) (simp_all add: intent_resolve_def)

lemma resolve_auto_in: "al \<noteq> [] \<Longrightarrow> resolve_auto al \<in> set al"
  by (cases al) auto

lemma resolve_auto_concrete:
  "Auto \<notin> set al \<Longrightarrow> resolve_auto al \<noteq> Auto"
  by (cases al) auto

text \<open>
  A larger security level never widens the window: the levels are ordered from \<open>Economy\<close>
  up to \<open>Maximum\<close>.
\<close>

instantiation security_level :: linorder
begin

definition security_rank :: "security_level \<Rightarrow> nat" where
  "security_rank s = (case s of Economy \<Rightarrow> 0 | Standard \<Rightarrow> 1 | Maximum \<Rightarrow> 2)"

definition less_eq_security_level :: "security_level \<Rightarrow> security_level \<Rightarrow> bool" where
  "s \<le> t \<longleftrightarrow> security_rank s \<le> security_rank t"

definition less_security_level :: "security_level \<Rightarrow> security_level \<Rightarrow> bool" where
  "s < t \<longleftrightarrow> security_rank s < security_rank t"

instance
  by standard
    (auto simp: less_eq_security_level_def less_security_level_def security_rank_def
      split: security_level.splits)

end

lemma window_antimono:
  "s \<le> t \<Longrightarrow>
   ri_aggregation_window (intent_resolve b al tf t) \<le> ri_aggregation_window (intent_resolve b' al' tf' s)"
  by (cases s; cases t) (simp_all add: intent_resolve_def less_eq_security_level_def security_rank_def)

text \<open>
  A well-formed intent names a concrete backend, proves with Groth16, and has the window of its
  mode; so its window is neither zero nor long.
\<close>

definition intent_wf :: "resolved_intent \<Rightarrow> bool" where
  "intent_wf i \<longleftrightarrow> ri_backend i \<noteq> Auto \<and> ri_proving_mode i = Groth16
     \<and> (case ri_proof_mode i of
          Beacon \<Rightarrow> ri_aggregation_window i = 10
        | Sentinel \<Rightarrow> ri_aggregation_window i \<in> {100, 1000})"

lemma intent_resolve_wf:
  assumes "Auto \<notin> set al"
  shows "intent_wf (intent_resolve b al tf s)"
  using resolve_auto_concrete [OF assms] by (cases s) (simp_all add: intent_wf_def, simp_all add: intent_resolve_def)

lemma intent_wf_window:
  assumes "intent_wf i"
  shows "0 < ri_aggregation_window i" "unat (ri_aggregation_window i) \<le> 1000"
  using assms by (auto simp: intent_wf_def split: proof_mode.splits)

text \<open>
  Resolving an intent. The backend of the result is the explicit choice, or for
  \<open>Auto\<close> the head of the allowlist (\<open>Sp1\<close> when it is empty); only \<open>Maximum\<close> selects
  Beacon; raising the security level never widens the aggregation window, which is at least
  ten blocks in every case; the finality target has no influence.
\<close>

theorem intent_resolve_correct:
  "ri_backend (intent_resolve b al tf s) = (if b = Auto then resolve_auto al else b)
   \<and> (ri_proof_mode (intent_resolve b al tf s) = Beacon \<longleftrightarrow> s = Maximum)
   \<and> ri_proving_mode (intent_resolve b al tf s) = Groth16
   \<and> 10 \<le> unat (ri_aggregation_window (intent_resolve b al tf s))
   \<and> (s \<le> t \<longrightarrow> ri_aggregation_window (intent_resolve b al tf t) \<le> ri_aggregation_window (intent_resolve b al tf s))
   \<and> intent_resolve b al tf s = intent_resolve b al tf' s"
  by (cases s) (auto simp: intent_resolve_window window_antimono, simp_all add: intent_resolve_def)

theorem intent_resolve_correct_witness:
  "ri_aggregation_window (intent_resolve Auto [RiscZero] (0, 0) Maximum)
     \<le> ri_aggregation_window (intent_resolve Auto [RiscZero] (0, 0) Economy)
   \<and> ri_backend (intent_resolve Auto [RiscZero] (0, 0) Economy) = RiscZero"
  using intent_resolve_correct [where b = Auto and al = "[RiscZero]" and tf = "(0, 0)"
      and s = Economy and t = Maximum]
  by (simp add: less_eq_security_level_def security_rank_def)

end
