(* ===== verification/Config.thy ===== *)
theory Config
  imports Intent
begin

text \<open>
  The configuration path of a run: the SDK configuration and its builder
  (crates/sdk/src/config.rs), the CLI configuration file, its defaults and its conversion to
  the SDK configuration (crates/cli/src/config.rs).  Reading the file and parsing and
  printing TOML are parameters; a parsed document tells, key by key, which entries are
  present, so the serde defaults of the structs are part of the model.
\<close>

section \<open>SDK configuration\<close>

record open_zk_config =
  oz_backend :: zkvm_backend
  oz_allowed_backends :: "zkvm_backend list"
  oz_target_finality :: duration
  oz_security :: security_level
  oz_l1_rpc_url :: string
  oz_l2_rpc_url :: string
  oz_l1_beacon_url :: string

definition config_resolve :: "open_zk_config \<Rightarrow> resolved_intent" where
  "config_resolve self =
     intent_resolve (oz_backend self) (oz_allowed_backends self) (oz_target_finality self) (oz_security self)"

record open_zk_config_builder =
  ob_backend :: "zkvm_backend option"
  ob_allowed_backends :: "zkvm_backend list option"
  ob_target_finality :: "duration option"
  ob_security :: "security_level option"
  ob_l1_rpc_url :: "string option"
  ob_l2_rpc_url :: "string option"
  ob_l1_beacon_url :: "string option"

datatype config_error = MissingField string

definition builder_default :: open_zk_config_builder where
  "builder_default =
     \<lparr>ob_backend = None, ob_allowed_backends = None, ob_target_finality = None, ob_security = None,
      ob_l1_rpc_url = None, ob_l2_rpc_url = None, ob_l1_beacon_url = None\<rparr>"

definition with_backend :: "zkvm_backend \<Rightarrow> open_zk_config_builder \<Rightarrow> open_zk_config_builder" where
  "with_backend b self = self\<lparr>ob_backend := Some b\<rparr>"

definition with_allowed_backends ::
  "zkvm_backend list \<Rightarrow> open_zk_config_builder \<Rightarrow> open_zk_config_builder" where
  "with_allowed_backends bs self = self\<lparr>ob_allowed_backends := Some bs\<rparr>"

definition with_target_finality :: "duration \<Rightarrow> open_zk_config_builder \<Rightarrow> open_zk_config_builder" where
  "with_target_finality d self = self\<lparr>ob_target_finality := Some d\<rparr>"

definition with_security :: "security_level \<Rightarrow> open_zk_config_builder \<Rightarrow> open_zk_config_builder" where
  "with_security s self = self\<lparr>ob_security := Some s\<rparr>"

definition with_l1_rpc_url :: "string \<Rightarrow> open_zk_config_builder \<Rightarrow> open_zk_config_builder" where
  "with_l1_rpc_url u self = self\<lparr>ob_l1_rpc_url := Some u\<rparr>"

definition with_l2_rpc_url :: "string \<Rightarrow> open_zk_config_builder \<Rightarrow> open_zk_config_builder" where
  "with_l2_rpc_url u self = self\<lparr>ob_l2_rpc_url := Some u\<rparr>"

definition with_l1_beacon_url :: "string \<Rightarrow> open_zk_config_builder \<Rightarrow> open_zk_config_builder" where
  "with_l1_beacon_url u self = self\<lparr>ob_l1_beacon_url := Some u\<rparr>"

definition unwrap_or :: "'a \<Rightarrow> 'a option \<Rightarrow> 'a" where
  "unwrap_or d x = (case x of None \<Rightarrow> d | Some a \<Rightarrow> a)"

definition builder_build :: "open_zk_config_builder \<Rightarrow> (config_error, open_zk_config) outcome" where
  "builder_build self =
     (let backend = unwrap_or Auto (ob_backend self);
          allowed_backends = unwrap_or DEFAULT_ALLOWED_BACKENDS (ob_allowed_backends self);
          target_finality = unwrap_or (duration_from_secs (30 * 60)) (ob_target_finality self);
          security = unwrap_or Standard (ob_security self)
      in and_then (ok_or (MissingField ''l1_rpc_url'') (ob_l1_rpc_url self)) (\<lambda>l1.
         and_then (ok_or (MissingField ''l2_rpc_url'') (ob_l2_rpc_url self)) (\<lambda>l2.
         and_then (ok_or (MissingField ''l1_beacon_url'') (ob_l1_beacon_url self)) (\<lambda>beacon.
           Ok \<lparr>oz_backend = backend,
               oz_allowed_backends = allowed_backends,
               oz_target_finality = target_finality,
               oz_security = security,
               oz_l1_rpc_url = l1,
               oz_l2_rpc_url = l2,
               oz_l1_beacon_url = beacon\<rparr>))))"

lemmas builder_defs =
  with_backend_def with_allowed_backends_def with_target_finality_def with_security_def
  with_l1_rpc_url_def with_l2_rpc_url_def with_l1_beacon_url_def builder_default_def

lemma builder_build_Ok_iff:
  "(\<exists>c. builder_build b = Ok c) \<longleftrightarrow>
     ob_l1_rpc_url b \<noteq> None \<and> ob_l2_rpc_url b \<noteq> None \<and> ob_l1_beacon_url b \<noteq> None"
  by (cases "ob_l1_rpc_url b"; cases "ob_l2_rpc_url b"; cases "ob_l1_beacon_url b")
    (auto simp: builder_build_def Let_def)

section \<open>CLI configuration\<close>

record network_config =
  nc_l1_rpc_url :: string
  nc_l2_rpc_url :: string
  nc_l1_beacon_url :: string
  nc_op_node_url :: "string option"
  nc_chain_id :: "u64 option"

record proving_config =
  vc_backend :: string
  vc_allowed_backends :: "string list"
  vc_security :: string
  vc_target_finality_secs :: u64
  vc_max_concurrent_proofs :: u64

record 'f pricing_config =
  gc_provider :: string
  gc_eth_usd_price :: "'f option"
  gc_prove_usd_price :: "'f option"
  gc_boundless_percentile :: string

record 'f cli_config =
  cc_network :: network_config
  cc_proving :: proving_config
  cc_pricing :: "'f pricing_config"

definition default_pricing_provider :: string where
  "default_pricing_provider = ''auto''"

definition default_percentile :: string where
  "default_percentile = ''p50''"

definition pricing_config_default :: "'f pricing_config" where
  "pricing_config_default =
     \<lparr>gc_provider = default_pricing_provider, gc_eth_usd_price = None, gc_prove_usd_price = None,
      gc_boundless_percentile = default_percentile\<rparr>"

definition default_backend :: string where
  "default_backend = ''auto''"

definition default_allowed_backends :: "string list" where
  "default_allowed_backends = [''sp1'', ''risc0'']"

definition default_security :: string where
  "default_security = ''standard''"

definition default_target_finality :: u64 where
  "default_target_finality = 1800"

definition default_max_concurrent :: u64 where
  "default_max_concurrent = 4"

definition proving_config_default :: proving_config where
  "proving_config_default =
     \<lparr>vc_backend = default_backend, vc_allowed_backends = default_allowed_backends,
      vc_security = default_security, vc_target_finality_secs = default_target_finality,
      vc_max_concurrent_proofs = default_max_concurrent\<rparr>"

text \<open>
  A parsed TOML document: an absent key is \<open>None\<close>.  Keys without a serde default are
  required (the network URLs).
\<close>

record toml_proving =
  tp_backend :: "string option"
  tp_allowed_backends :: "string list option"
  tp_security :: "string option"
  tp_target_finality_secs :: "u64 option"
  tp_max_concurrent_proofs :: "u64 option"

record 'f toml_pricing =
  tg_provider :: "string option"
  tg_eth_usd_price :: "'f option"
  tg_prove_usd_price :: "'f option"
  tg_boundless_percentile :: "string option"

record 'f toml_document =
  td_network :: network_config
  td_proving :: "toml_proving option"
  td_pricing :: "'f toml_pricing option"

definition proving_from_toml :: "toml_proving \<Rightarrow> proving_config" where
  "proving_from_toml t =
     \<lparr>vc_backend = unwrap_or default_backend (tp_backend t),
      vc_allowed_backends = unwrap_or default_allowed_backends (tp_allowed_backends t),
      vc_security = unwrap_or default_security (tp_security t),
      vc_target_finality_secs = unwrap_or default_target_finality (tp_target_finality_secs t),
      vc_max_concurrent_proofs = unwrap_or default_max_concurrent (tp_max_concurrent_proofs t)\<rparr>"

definition pricing_from_toml :: "'f toml_pricing \<Rightarrow> 'f pricing_config" where
  "pricing_from_toml t =
     \<lparr>gc_provider = unwrap_or default_pricing_provider (tg_provider t),
      gc_eth_usd_price = tg_eth_usd_price t,
      gc_prove_usd_price = tg_prove_usd_price t,
      gc_boundless_percentile = unwrap_or default_percentile (tg_boundless_percentile t)\<rparr>"

definition cli_from_toml :: "'f toml_document \<Rightarrow> 'f cli_config" where
  "cli_from_toml d =
     \<lparr>cc_network = td_network d,
      cc_proving = (case td_proving d of None \<Rightarrow> proving_config_default | Some t \<Rightarrow> proving_from_toml t),
      cc_pricing = (case td_pricing d of None \<Rightarrow> pricing_config_default | Some t \<Rightarrow> pricing_from_toml t)\<rparr>"

text \<open>\<open>read_to_string\<close> and the TOML parser are parameters.\<close>

definition cli_from_file ::
  "('p \<Rightarrow> ('e, string) outcome) \<Rightarrow> (string \<Rightarrow> ('e, 'f toml_document) outcome) \<Rightarrow> 'p \<Rightarrow> ('e, 'f cli_config) outcome"
where
  "cli_from_file read_to_string from_str path =
     and_then (read_to_string path) (\<lambda>content.
     and_then (from_str content) (\<lambda>doc. Ok (cli_from_toml doc)))"

definition parse_security :: "string \<Rightarrow> security_level" where
  "parse_security s =
     (if s = ''maximum'' then Maximum else if s = ''economy'' then Economy else Standard)"

definition parse_backend :: "string \<Rightarrow> zkvm_backend" where
  "parse_backend s =
     (if s = ''sp1'' then Sp1 else if s = ''risc0'' then RiscZero
      else if s = ''mock'' then Mock else Auto)"

definition parse_allowed_backend :: "string \<Rightarrow> zkvm_backend option" where
  "parse_allowed_backend s =
     (if s = ''sp1'' then Some Sp1 else if s = ''risc0'' then Some RiscZero else None)"

definition to_sdk_config :: "'f cli_config \<Rightarrow> (config_error, open_zk_config) outcome" where
  "to_sdk_config self =
     (let security = parse_security (vc_security (cc_proving self));
          backend = parse_backend (vc_backend (cc_proving self));
          allowed_backends = List.map_filter parse_allowed_backend (vc_allowed_backends (cc_proving self))
      in builder_build
           (with_l1_beacon_url (nc_l1_beacon_url (cc_network self))
           (with_l2_rpc_url (nc_l2_rpc_url (cc_network self))
           (with_l1_rpc_url (nc_l1_rpc_url (cc_network self))
           (with_security security
           (with_target_finality (duration_from_secs (vc_target_finality_secs (cc_proving self)))
           (with_allowed_backends allowed_backends
           (with_backend backend builder_default))))))))"

text \<open>\<open>sp1_prover\<close> is the value of the environment variable \<open>SP1_PROVER\<close>, if set.\<close>

definition is_mock_mode :: "string option \<Rightarrow> 'f cli_config \<Rightarrow> bool" where
  "is_mock_mode sp1_prover self \<longleftrightarrow>
     vc_backend (cc_proving self) = ''mock'' \<or> sp1_prover = Some ''mock''"

definition default_cli_config :: "'f cli_config" where
  "default_cli_config =
     \<lparr>cc_network =
        \<lparr>nc_l1_rpc_url = ''http://localhost:8545'', nc_l2_rpc_url = ''http://localhost:9545'',
         nc_l1_beacon_url = ''http://localhost:5052'', nc_op_node_url = None, nc_chain_id = None\<rparr>,
      cc_proving = proving_config_default,
      cc_pricing = pricing_config_default\<rparr>"

section \<open>Lemmas\<close>

lemma to_sdk_config_Ok:
  "to_sdk_config c =
     Ok \<lparr>oz_backend = parse_backend (vc_backend (cc_proving c)),
         oz_allowed_backends = List.map_filter parse_allowed_backend (vc_allowed_backends (cc_proving c)),
         oz_target_finality = duration_from_secs (vc_target_finality_secs (cc_proving c)),
         oz_security = parse_security (vc_security (cc_proving c)),
         oz_l1_rpc_url = nc_l1_rpc_url (cc_network c),
         oz_l2_rpc_url = nc_l2_rpc_url (cc_network c),
         oz_l1_beacon_url = nc_l1_beacon_url (cc_network c)\<rparr>"
  by (simp add: to_sdk_config_def builder_build_def builder_defs unwrap_or_def Let_def)

lemma parse_allowed_backend_cases:
  "parse_allowed_backend s = Some b \<Longrightarrow> b \<in> {Sp1, RiscZero}"
  by (auto simp: parse_allowed_backend_def split: if_splits)

lemma allowed_backends_concrete:
  "b \<in> set (List.map_filter parse_allowed_backend ss) \<Longrightarrow> b \<in> {Sp1, RiscZero}"
  by (auto simp: List.map_filter_def dest: parse_allowed_backend_cases)

lemma resolved_wf:
  assumes "to_sdk_config cfg = Ok c"
  shows "intent_wf (config_resolve c)"
proof -
  have "Auto \<notin> set (List.map_filter parse_allowed_backend ss)" for ss
    using allowed_backends_concrete by blast
  with assms show ?thesis
    by (auto simp: to_sdk_config_Ok config_resolve_def intro: intent_resolve_wf)
qed

lemma resolve_auto_map_filter:
  "resolve_auto (List.map_filter parse_allowed_backend ss) =
     (case List.find (\<lambda>s. s = ''sp1'' \<or> s = ''risc0'') ss of
        None \<Rightarrow> Sp1 | Some s \<Rightarrow> if s = ''sp1'' then Sp1 else RiscZero)"
  by (induction ss) (simp_all add: List.map_filter_simps parse_allowed_backend_def)

text \<open>
  A chain of setter calls as data, and the value a chain leaves in a field: that of its last
  call that sets the field.
\<close>

datatype builder_call =
    CallBackend zkvm_backend
  | CallAllowed "zkvm_backend list"
  | CallFinality duration
  | CallSecurity security_level
  | CallL1 string
  | CallL2 string
  | CallBeacon string

fun run_call :: "builder_call \<Rightarrow> open_zk_config_builder \<Rightarrow> open_zk_config_builder" where
  "run_call (CallBackend b) = with_backend b"
| "run_call (CallAllowed bs) = with_allowed_backends bs"
| "run_call (CallFinality d) = with_target_finality d"
| "run_call (CallSecurity s) = with_security s"
| "run_call (CallL1 u) = with_l1_rpc_url u"
| "run_call (CallL2 u) = with_l2_rpc_url u"
| "run_call (CallBeacon u) = with_l1_beacon_url u"

definition last_set :: "(builder_call \<Rightarrow> 'v option) \<Rightarrow> builder_call list \<Rightarrow> 'v option" where
  "last_set f calls =
     (let vs = List.map_filter f calls in if vs = [] then None else Some (last vs))"

lemma last_set_simps [simp]:
  "last_set f [] = None"
  "last_set f (cs @ [c]) = (case f c of None \<Rightarrow> last_set f cs | Some v \<Rightarrow> Some v)"
  by (auto simp: last_set_def List.map_filter_def Let_def split: option.splits)

lemma fold_call_field:
  assumes "\<And>c b. sel (run_call c b) = (case f c of None \<Rightarrow> sel b | Some v \<Rightarrow> Some v)"
    and "sel builder_default = None"
  shows "sel (fold run_call cs builder_default) = last_set f cs"
  using assms by (induction cs rule: rev_induct) (simp_all split: option.splits)

definition backend_of :: "builder_call \<Rightarrow> zkvm_backend option" where
  "backend_of c = (case c of CallBackend b \<Rightarrow> Some b | _ \<Rightarrow> None)"

definition allowed_of :: "builder_call \<Rightarrow> zkvm_backend list option" where
  "allowed_of c = (case c of CallAllowed bs \<Rightarrow> Some bs | _ \<Rightarrow> None)"

definition finality_of :: "builder_call \<Rightarrow> duration option" where
  "finality_of c = (case c of CallFinality d \<Rightarrow> Some d | _ \<Rightarrow> None)"

definition security_of :: "builder_call \<Rightarrow> security_level option" where
  "security_of c = (case c of CallSecurity s \<Rightarrow> Some s | _ \<Rightarrow> None)"

definition l1_of :: "builder_call \<Rightarrow> string option" where
  "l1_of c = (case c of CallL1 u \<Rightarrow> Some u | _ \<Rightarrow> None)"

definition l2_of :: "builder_call \<Rightarrow> string option" where
  "l2_of c = (case c of CallL2 u \<Rightarrow> Some u | _ \<Rightarrow> None)"

definition beacon_of :: "builder_call \<Rightarrow> string option" where
  "beacon_of c = (case c of CallBeacon u \<Rightarrow> Some u | _ \<Rightarrow> None)"

lemmas call_field_defs =
  backend_of_def allowed_of_def finality_of_def security_of_def l1_of_def l2_of_def beacon_of_def

lemma fold_call_fields:
  "ob_backend (fold run_call cs builder_default) = last_set backend_of cs"
  "ob_allowed_backends (fold run_call cs builder_default) = last_set allowed_of cs"
  "ob_target_finality (fold run_call cs builder_default) = last_set finality_of cs"
  "ob_security (fold run_call cs builder_default) = last_set security_of cs"
  "ob_l1_rpc_url (fold run_call cs builder_default) = last_set l1_of cs"
  "ob_l2_rpc_url (fold run_call cs builder_default) = last_set l2_of cs"
  "ob_l1_beacon_url (fold run_call cs builder_default) = last_set beacon_of cs"
  by (rule fold_call_field; simp add: builder_defs call_field_defs split: builder_call.splits)+

text \<open>
  The builder. After any chain of setter calls, in any order and with repetitions, the
  last call for a field decides it; building fails exactly when one of the three URLs was
  never set, naming the first missing one in the order L1, L2, beacon, and otherwise fills
  fields that were never set with the documented defaults (Auto, the allowlist SP1 then RISC
  Zero, half an hour, Standard).
\<close>

theorem builder_build_correct:
  "builder_build (fold run_call cs builder_default) =
     (case (last_set l1_of cs, last_set l2_of cs, last_set beacon_of cs) of
        (None, _, _) \<Rightarrow> Err (MissingField ''l1_rpc_url'')
      | (Some _, None, _) \<Rightarrow> Err (MissingField ''l2_rpc_url'')
      | (Some _, Some _, None) \<Rightarrow> Err (MissingField ''l1_beacon_url'')
      | (Some l1, Some l2, Some beacon) \<Rightarrow>
          Ok \<lparr>oz_backend = unwrap_or Auto (last_set backend_of cs),
              oz_allowed_backends = unwrap_or [Sp1, RiscZero] (last_set allowed_of cs),
              oz_target_finality = unwrap_or (1800, 0) (last_set finality_of cs),
              oz_security = unwrap_or Standard (last_set security_of cs),
              oz_l1_rpc_url = l1, oz_l2_rpc_url = l2, oz_l1_beacon_url = beacon\<rparr>)"
  by (simp add: builder_build_def fold_call_fields DEFAULT_ALLOWED_BACKENDS_def duration_from_secs_def
      Let_def split: option.splits)

text \<open>
  C37: every configuration file resolves to a well-formed intent. The conversion never fails, and
  the intent has a concrete backend, Groth16 proofs and the window of its mode: Beacon with ten
  blocks exactly for maximum security, otherwise Sentinel with a thousand blocks for economy and
  a hundred for any other text. The backend is the explicit name, else the first recognised
  entry of the allowlist, else SP1; it is the mock backend only when the file says so, which
  then also switches mock mode on.
\<close>

theorem cli_config_resolves:
  "\<exists>c. to_sdk_config cfg = Ok c
     \<and> intent_wf (config_resolve c)
     \<and> (ri_proof_mode (config_resolve c) = Beacon \<longleftrightarrow> vc_security (cc_proving cfg) = ''maximum'')
     \<and> (ri_aggregation_window (config_resolve c) = 1000 \<longleftrightarrow> vc_security (cc_proving cfg) = ''economy'')
     \<and> ri_backend (config_resolve c) =
         (if vc_backend (cc_proving cfg) = ''sp1'' then Sp1
          else if vc_backend (cc_proving cfg) = ''risc0'' then RiscZero
          else if vc_backend (cc_proving cfg) = ''mock'' then Mock
          else case List.find (\<lambda>s. s = ''sp1'' \<or> s = ''risc0'') (vc_allowed_backends (cc_proving cfg)) of
                 None \<Rightarrow> Sp1
               | Some s \<Rightarrow> if s = ''sp1'' then Sp1 else RiscZero)
     \<and> (ri_backend (config_resolve c) = Mock \<longrightarrow> is_mock_mode env cfg)"
proof -
  let ?p = "cc_proving cfg"
  let ?al = "List.map_filter parse_allowed_backend (vc_allowed_backends ?p)"
  obtain c where c: "to_sdk_config cfg = Ok c" by (simp add: to_sdk_config_Ok)
  have security: "parse_security (vc_security ?p) = Maximum \<longleftrightarrow> vc_security ?p = ''maximum''"
    "ri_aggregation_window (intent_resolve b al (duration_from_secs t) (parse_security (vc_security ?p))) = 1000
       \<longleftrightarrow> vc_security ?p = ''economy''" for b al t
    by (auto simp: parse_security_def intent_resolve_def)
  have "resolve_auto ?al \<noteq> Mock"
    using allowed_backends_concrete [of "resolve_auto ?al"] resolve_auto_in [of ?al]
    by (cases "?al = []") auto
  with resolved_wf [OF c] security c show ?thesis
    unfolding resolve_auto_map_filter [symmetric] to_sdk_config_Ok
    by (simp add: config_resolve_def parse_backend_def is_mock_mode_def) auto
qed

theorem cli_config_resolves_witness:
  "\<exists>c. to_sdk_config (default_cli_config\<lparr>cc_proving := proving_config_default\<lparr>vc_backend := ''mock''\<rparr>\<rparr>
         :: nat cli_config) = Ok c
     \<and> ri_backend (config_resolve c) = Mock"
  using cli_config_resolves [of "default_cli_config\<lparr>cc_proving := proving_config_default\<lparr>vc_backend := ''mock''\<rparr>\<rparr>
         :: nat cli_config"]
  by auto

text \<open>
  Defaults. A file that has only the network section, an empty proving section or an
  empty pricing section yields the same configuration as the defaults that
  \<open>open-zk init\<close> writes for those sections, and it resolves to Sentinel mode with SP1 and
  a hundred-block window.
\<close>

lemma cli_defaults:
  assumes "td_proving d \<in> {None, Some \<lparr>tp_backend = None, tp_allowed_backends = None, tp_security = None,
             tp_target_finality_secs = None, tp_max_concurrent_proofs = None\<rparr>}"
    and "td_pricing d \<in> {None, Some \<lparr>tg_provider = None, tg_eth_usd_price = None, tg_prove_usd_price = None,
             tg_boundless_percentile = None\<rparr>}"
  shows "cli_from_toml d = default_cli_config\<lparr>cc_network := td_network d\<rparr>
     \<and> (\<exists>c. to_sdk_config (cli_from_toml d) = Ok c
          \<and> config_resolve c = \<lparr>ri_proof_mode = Sentinel, ri_backend = Sp1, ri_proving_mode = Groth16,
                                ri_aggregation_window = 100\<rparr>)"
proof -
  have eq: "cli_from_toml d = default_cli_config\<lparr>cc_network := td_network d\<rparr>"
    using assms
    by (auto simp: cli_from_toml_def default_cli_config_def proving_from_toml_def pricing_from_toml_def
        proving_config_default_def pricing_config_default_def unwrap_or_def)
  show ?thesis
    unfolding eq
    by (simp add: to_sdk_config_Ok default_cli_config_def proving_config_default_def default_backend_def
        default_allowed_backends_def default_security_def config_resolve_def intent_resolve_def
        parse_backend_def parse_security_def parse_allowed_backend_def List.map_filter_simps)
qed

lemma cli_defaults_witness:
  "cli_from_toml \<lparr>td_network = cc_network (default_cli_config :: nat cli_config),
                  td_proving = None, td_pricing = None\<rparr> = (default_cli_config :: nat cli_config)"
  using cli_defaults [of "\<lparr>td_network = cc_network (default_cli_config :: nat cli_config),
      td_proving = None, td_pricing = None\<rparr> :: nat toml_document"]
  by (simp add: default_cli_config_def)

end
