(* ===== verification/Dispatcher.thy ===== *)
theory Dispatcher
  imports Core_Types
begin

text \<open>
  crates/orchestrator/src/dispatcher.rs: proof jobs, the \<open>ProofDispatcher\<close> trait as a record
  of actions, its contract as a locale, and the mock dispatcher, on which the contract is
  interpreted.
\<close>

datatype proof_job_status = Queued | InProgress | Completed proof_artifact | Failed string

record proof_job_handle =
  jh_id :: string
  jh_request :: proof_request

record ('w, 'x) proof_dispatcher =
  pd_submit :: "proof_request \<Rightarrow> ('w, 'x, proof_job_handle) action"
  pd_status :: "proof_job_handle \<Rightarrow> ('w, 'x, proof_job_status) action"
  pd_wait :: "proof_job_handle \<Rightarrow> ('w, 'x, proof_artifact) action"
  pd_submit_aggregation :: "proof_artifact list \<Rightarrow> ('w, 'x, proof_job_handle) action"
  pd_error_to_string :: "'x \<Rightarrow> string"

text \<open>
  The contract the trait documents: a handle carries the request it was made for, and waiting
  for a job whose status is \<open>Completed\<close> returns that artifact.
\<close>

locale dispatcher_contract =
  fixes D :: "('w, 'x) proof_dispatcher"
  assumes submit_request: "pd_submit D r w = (Ok h, w') \<Longrightarrow> jh_request h = r"
    and completed_wait: "pd_status D h w = (Ok (Completed a), w') \<Longrightarrow> \<exists>w''. pd_wait D h w' = (Ok a, w'')"
begin

lemma submit_status_wait:
  assumes "pd_submit D r w = (Ok h, w1)" and "pd_status D h w1 = (Ok (Completed a), w2)"
  shows "jh_request h = r \<and> (\<exists>w3. pd_wait D h w2 = (Ok a, w3))"
  using assms by (blast dest: submit_request completed_wait)

lemma wait_failure_not_completed:
  assumes "pd_status D h w = (Ok s, w')" and "fst (pd_wait D h w') = Err e"
  shows "s \<noteq> Completed a"
  using assms completed_wait [of h w a w'] by auto

end

section \<open>The mock dispatcher\<close>

datatype mock_dispatcher_error = MockDispatcherError string

fun mock_dispatcher_error_to_string :: "mock_dispatcher_error \<Rightarrow> string" where
  "mock_dispatcher_error_to_string (MockDispatcherError s) = ''mock dispatcher error: '' @ s"

definition mock_proof_artifact :: proof_artifact where
  "mock_proof_artifact =
     \<lparr>pa_backend = Mock, pa_mode = Groth16, pa_proof_bytes = [0xDE, 0xAD], pa_public_values = [],
      pa_program_id = 0, pa_cycle_count = Some 0\<rparr>"

definition mock_job_id :: "proof_request \<Rightarrow> string" where
  "mock_job_id request =
     ''mock-'' @ show_u64 (req_l2_start_block request) @ ''-'' @ show_u64 (req_l2_end_block request)"

definition mock_submit :: "proof_request \<Rightarrow> ('w, mock_dispatcher_error, proof_job_handle) action" where
  "mock_submit request = act_return \<lparr>jh_id = mock_job_id request, jh_request = request\<rparr>"

definition mock_status :: "proof_job_handle \<Rightarrow> ('w, mock_dispatcher_error, proof_job_status) action" where
  "mock_status _ = act_return (Completed mock_proof_artifact)"

definition mock_wait :: "proof_job_handle \<Rightarrow> ('w, mock_dispatcher_error, proof_artifact) action" where
  "mock_wait _ = act_return mock_proof_artifact"

definition mock_submit_aggregation ::
  "proof_artifact list \<Rightarrow> ('w, mock_dispatcher_error, proof_job_handle) action" where
  "mock_submit_aggregation _ =
     (let request = \<lparr>req_l1_head = 0, req_l2_start_block = 0, req_l2_end_block = 0,
                     req_l2_start_output_root = 0, req_mode = Groth16\<rparr>
      in act_return \<lparr>jh_id = ''mock-aggregation'', jh_request = request\<rparr>)"

definition mock_dispatcher :: "('w, mock_dispatcher_error) proof_dispatcher" where
  "mock_dispatcher =
     \<lparr>pd_submit = mock_submit,
      pd_status = mock_status,
      pd_wait = mock_wait,
      pd_submit_aggregation = mock_submit_aggregation,
      pd_error_to_string = mock_dispatcher_error_to_string\<rparr>"

lemmas mock_dispatcher_simps =
  mock_dispatcher_def mock_submit_def mock_status_def mock_wait_def mock_submit_aggregation_def Let_def

interpretation mock_disp: dispatcher_contract "mock_dispatcher :: ('w, mock_dispatcher_error) proof_dispatcher"
  by unfold_locales (auto simp: mock_dispatcher_simps)

lemma mock_job_id_inject:
  "mock_job_id r = mock_job_id r' \<longleftrightarrow>
     req_l2_start_block r = req_l2_start_block r' \<and> req_l2_end_block r = req_l2_end_block r'"
proof -
  have nosep: "CHR ''-'' \<notin> set (show_u64 w)" for w
    using show_u64_digits [of "CHR ''-''" w] by (auto simp: digit_def)
  show ?thesis
    by (auto simp: mock_job_id_def dest: split_at_separator [OF _ nosep nosep])
qed

end
