(* ===== verification/Monitor.thy ===== *)
theory Monitor
  imports Core_Types Intent
begin

text \<open>
  Chain monitoring in crates/orchestrator/src: the snapshot and the \<open>ChainMonitor\<close> trait with
  its provided methods (monitor.rs), the mock monitor (mock_monitor.rs) and the RPC monitor
  with and without the \<open>rpc\<close> feature (rpc_monitor.rs).  The JSON-RPC nodes are a record of
  actions on the world; ABI call data of the contract getters is a parameter.
\<close>

section \<open>Snapshots and the trait\<close>

record chain_state =
  cs_l1_head :: b256
  cs_l1_block_number :: u64
  cs_l2_proven_block :: u64
  cs_l2_safe_block :: u64
  cs_timestamp :: duration

record dispute_info =
  di_start_block :: u64
  di_end_block :: u64

record ('w, 'e) chain_monitor =
  cm_get_state :: "('w, 'e, chain_state) action"
  cm_pending_range :: "('w, 'e, (u64 \<times> u64) option) action"
  cm_active_dispute :: "'w \<Rightarrow> dispute_info option \<times> 'w"
  cm_error_to_string :: "'e \<Rightarrow> string"

text \<open>The provided methods of the trait.\<close>

definition pending_of_state :: "build \<Rightarrow> chain_state \<Rightarrow> ('e, (u64 \<times> u64) option) outcome" where
  "pending_of_state m state =
     (if cs_l2_safe_block state > cs_l2_proven_block state
      then and_then (add_u64 m (cs_l2_proven_block state) 1) (\<lambda>a. Ok (Some (a, cs_l2_safe_block state)))
      else Ok None)"

definition default_pending_range ::
  "build \<Rightarrow> ('w, 'e, chain_state) action \<Rightarrow> ('w, 'e, (u64 \<times> u64) option) action" where
  "default_pending_range m get_state =
     act_bind get_state (\<lambda>state. act_lift (pending_of_state m state))"

definition default_active_dispute :: "'w \<Rightarrow> dispute_info option \<times> 'w" where
  "default_active_dispute w = (None, w)"

lemma succ_u64_unat:
  assumes "a < (b :: u64)"
  shows "add_u64 m a 1 = Ok (a + 1)" and "unat (a + 1) = Suc (unat a)"
proof -
  have "unat a < unat b" using assms by (simp add: word_less_nat_alt)
  with unat_u64_less [of b] have fit: "fits_u64 (unat a + unat (1 :: u64))"
    by (simp add: fits_u64_def)
  then show "add_u64 m a 1 = Ok (a + 1)" by (rule add_u64_fits)
  show "unat (a + 1) = Suc (unat a)" using unat_add_fits [OF fit] by simp
qed

lemma pending_of_state_eq:
  "pending_of_state m st =
     Ok (if cs_l2_proven_block st < cs_l2_safe_block st
         then Some (cs_l2_proven_block st + 1, cs_l2_safe_block st) else None)"
  by (simp add: pending_of_state_def succ_u64_unat(1) [of _ "cs_l2_safe_block st"])

text \<open>
  The contract of a monitor whose \<open>pending_range\<close> is the provided one: it succeeds whenever
  the snapshot does, and the range it reports starts right after the proven block and ends at
  the safe block.
\<close>

locale range_monitor =
  fixes mon :: "('w, 'e) chain_monitor" and m :: build
  assumes provided: "cm_pending_range mon = default_pending_range m (cm_get_state mon)"
begin

lemma pending_range_eq:
  "cm_pending_range mon w =
     (case cm_get_state mon w of
        (Ok st, w') \<Rightarrow>
          (Ok (if cs_l2_proven_block st < cs_l2_safe_block st
               then Some (cs_l2_proven_block st + 1, cs_l2_safe_block st) else None), w')
      | (Err e, w') \<Rightarrow> (Err e, w')
      | (Panic p, w') \<Rightarrow> (Panic p, w'))"
  by (simp add: provided default_pending_range_def act_bind_def pending_of_state_eq
      split: prod.splits outcome.splits)

lemma pending_range_bounds:
  assumes "cm_pending_range mon w = (Ok (Some (a, b)), w')"
  obtains st where "cm_get_state mon w = (Ok st, w')" "unat a = Suc (unat (cs_l2_proven_block st))"
    "b = cs_l2_safe_block st" "a \<le> b"
proof -
  from assms obtain st where st: "cm_get_state mon w = (Ok st, w')"
      "cs_l2_proven_block st < cs_l2_safe_block st" "a = cs_l2_proven_block st + 1"
      "b = cs_l2_safe_block st"
    by (auto simp: pending_range_eq split: prod.splits outcome.splits if_splits)
  have "unat a = Suc (unat (cs_l2_proven_block st))"
    using st(2,3) succ_u64_unat(2) by blast
  with st that show ?thesis
    by (simp add: word_le_nat_alt word_less_nat_alt)
qed

lemma pending_range_None_iff:
  "cm_get_state mon w = (Ok st, w') \<Longrightarrow>
     cm_pending_range mon w = (Ok None, w') \<longleftrightarrow> cs_l2_safe_block st \<le> cs_l2_proven_block st"
  by (auto simp: pending_range_eq)

end

section \<open>The mock monitor\<close>

definition mock_monitor_default_state :: "duration \<Rightarrow> chain_state" where
  "mock_monitor_default_state now =
     \<lparr>cs_l1_head = 0, cs_l1_block_number = 0, cs_l2_proven_block = 0, cs_l2_safe_block = 0,
      cs_timestamp = now\<rparr>"

datatype mock_monitor_error = MockMonitorError

definition mock_monitor :: "build \<Rightarrow> chain_state \<Rightarrow> ('w, mock_monitor_error) chain_monitor" where
  "mock_monitor m state =
     (let get_state = act_return state
      in \<lparr>cm_get_state = get_state,
          cm_pending_range = default_pending_range m get_state,
          cm_active_dispute = default_active_dispute,
          cm_error_to_string = (\<lambda>_. ''mock monitor error'')\<rparr>)"

interpretation mock_range: range_monitor "mock_monitor m state" m
  by unfold_locales (simp add: mock_monitor_def Let_def)

section \<open>The RPC monitor\<close>

datatype rpc_monitor_error = L1Rpc string | L2Rpc string | Contract string | UrlParse string

fun rpc_monitor_error_to_string :: "rpc_monitor_error \<Rightarrow> string" where
  "rpc_monitor_error_to_string (L1Rpc s) = ''L1 RPC error: '' @ s"
| "rpc_monitor_error_to_string (L2Rpc s) = ''L2 RPC error: '' @ s"
| "rpc_monitor_error_to_string (Contract s) = ''contract call error: '' @ s"
| "rpc_monitor_error_to_string (UrlParse s) = ''URL parse error: '' @ s"

text \<open>Without the \<open>rpc\<close> feature the monitor only reports that it is not available.\<close>

definition em_dash :: string where
  "em_dash = [CHR 0xE2, CHR 0x80, CHR 0x94]"

definition skeleton_get_state :: "('w, rpc_monitor_error, chain_state) action" where
  "skeleton_get_state =
     act_fail (L1Rpc (''RPC chain monitor not available '' @ em_dash @ '' enable `rpc` feature''))"

definition skeleton_monitor :: "build \<Rightarrow> ('w, rpc_monitor_error) chain_monitor" where
  "skeleton_monitor m =
     \<lparr>cm_get_state = skeleton_get_state,
      cm_pending_range = default_pending_range m skeleton_get_state,
      cm_active_dispute = (\<lambda>w. (None, w)),
      cm_error_to_string = rpc_monitor_error_to_string\<rparr>"

interpretation skeleton_range: range_monitor "skeleton_monitor m" m
  by unfold_locales (simp add: skeleton_monitor_def)

text \<open>The nodes: block headers by tag, read-only contract calls and the clock.\<close>

datatype block_tag = Latest | Finalized | Safe | Number u64

record block_header =
  bh_hash :: b256
  bh_number :: u64
  bh_state_root :: b256
  bh_withdrawals_root :: "b256 option"

record ('w, 'url) node_ops =
  no_get_block_by_number :: "'url \<Rightarrow> block_tag \<Rightarrow> ('w, string, block_header option) action"
  no_call :: "'url \<Rightarrow> address \<Rightarrow> bytes \<Rightarrow> ('w, string, bytes) action"
  no_now :: "'w \<Rightarrow> duration"

record 'url rpc_chain_monitor =
  rm_l1_rpc_url :: 'url
  rm_l2_rpc_url :: 'url
  rm_oracle_address :: address
  rm_dispute_address :: "address option"

definition rpc_monitor_new ::
  "(string \<Rightarrow> (string, 'url) outcome) \<Rightarrow> string \<Rightarrow> string \<Rightarrow> address
     \<Rightarrow> (rpc_monitor_error, 'url rpc_chain_monitor) outcome" where
  "rpc_monitor_new parse_url l1_rpc_url l2_rpc_url oracle_address =
     and_then (map_err UrlParse (parse_url l1_rpc_url)) (\<lambda>l1.
     and_then (map_err UrlParse (parse_url l2_rpc_url)) (\<lambda>l2.
       Ok \<lparr>rm_l1_rpc_url = l1, rm_l2_rpc_url = l2, rm_oracle_address = oracle_address,
           rm_dispute_address = None\<rparr>))"

definition rpc_monitor_with_dispute_address ::
  "'url rpc_chain_monitor \<Rightarrow> address \<Rightarrow> 'url rpc_chain_monitor" where
  "rpc_monitor_with_dispute_address self address = self\<lparr>rm_dispute_address := Some address\<rparr>"

text \<open>The last eight bytes of the first slot, when there is one.\<close>

definition decode_proven_block :: "bytes \<Rightarrow> (rpc_monitor_error, u64) outcome" where
  "decode_proven_block call_result =
     (if 32 \<le> length call_result
      then and_then (subslice call_result 24 32) (\<lambda>bs. Ok (be_word bs))
      else Ok 0)"

definition rpc_get_state ::
  "('w, 'url) node_ops \<Rightarrow> bytes \<Rightarrow> 'url rpc_chain_monitor \<Rightarrow> ('w, rpc_monitor_error, chain_state) action"
where
  "rpc_get_state N latest_block_number_call self =
     act_bind (act_map_err L1Rpc (no_get_block_by_number N (rm_l1_rpc_url self) Finalized)) (\<lambda>b1.
     act_bind (act_lift (ok_or (L1Rpc ''finalized block not found'') b1)) (\<lambda>l1_block.
     act_bind (act_map_err L2Rpc (no_get_block_by_number N (rm_l2_rpc_url self) Safe)) (\<lambda>b2.
     act_bind (act_lift (ok_or (L2Rpc ''safe block not found'') b2)) (\<lambda>l2_block.
     act_bind (act_map_err Contract
        (no_call N (rm_l1_rpc_url self) (rm_oracle_address self) latest_block_number_call)) (\<lambda>call_result.
     act_bind (act_lift (decode_proven_block call_result)) (\<lambda>l2_proven_block.
     (\<lambda>w. (Ok \<lparr>cs_l1_head = bh_hash l1_block,
               cs_l1_block_number = bh_number l1_block,
               cs_l2_proven_block = l2_proven_block,
               cs_l2_safe_block = bh_number l2_block,
               cs_timestamp = no_now N w\<rparr>, w))))))))"

text \<open>
  \<open>ok()?\<close> turns a failed call into \<open>None\<close>; an action never panics here, because both
  reads are guarded by the length.
\<close>

definition rpc_active_dispute ::
  "('w, 'url) node_ops \<Rightarrow> bytes \<Rightarrow> (u64 \<Rightarrow> bytes) \<Rightarrow> 'url rpc_chain_monitor
     \<Rightarrow> 'w \<Rightarrow> dispute_info option \<times> 'w" where
  "rpc_active_dispute N latest_block_number_call is_disputed_call self w =
     (case rm_dispute_address self of
        None \<Rightarrow> (None, w)
      | Some dispute_address \<Rightarrow>
          (case no_call N (rm_l1_rpc_url self) (rm_oracle_address self) latest_block_number_call w of
             (r1, w1) \<Rightarrow>
               (case result_ok r1 of
                  None \<Rightarrow> (None, w1)
                | Some call_result \<Rightarrow>
                    if length call_result < 32 then (None, w1)
                    else
                      let latest_block = be_word (take 8 (drop 24 call_result))
                      in (case no_call N (rm_l1_rpc_url self) dispute_address (is_disputed_call latest_block) w1 of
                            (r2, w2) \<Rightarrow>
                              (case result_ok r2 of
                                 None \<Rightarrow> (None, w2)
                               | Some disputed_result \<Rightarrow>
                                   if 32 \<le> length disputed_result \<and> disputed_result ! 31 = 1
                                   then (Some \<lparr>di_start_block = latest_block, di_end_block = latest_block\<rparr>, w2)
                                   else (None, w2))))))"

definition rpc_monitor ::
  "build \<Rightarrow> ('w, 'url) node_ops \<Rightarrow> bytes \<Rightarrow> (u64 \<Rightarrow> bytes) \<Rightarrow> 'url rpc_chain_monitor
     \<Rightarrow> ('w, rpc_monitor_error) chain_monitor" where
  "rpc_monitor m N latest_call disputed_call self =
     \<lparr>cm_get_state = rpc_get_state N latest_call self,
      cm_pending_range = default_pending_range m (rpc_get_state N latest_call self),
      cm_active_dispute = rpc_active_dispute N latest_call disputed_call self,
      cm_error_to_string = rpc_monitor_error_to_string\<rparr>"

interpretation rpc_range: range_monitor "rpc_monitor m N lc dc self" m
  by unfold_locales (simp add: rpc_monitor_def)

lemma decode_proven_block_slot:
  assumes "length bs = 32"
  shows "decode_proven_block bs = Ok (ucast (slot_at 0 bs))"
proof -
  have split: "bs = take 24 bs @ drop 24 bs" by simp
  have "be_word (drop 24 bs) = (ucast (be_word bs :: b256) :: u64)"
  proof (rule bit_eqI)
    fix i
    show "bit (be_word (drop 24 bs) :: u64) i = bit (ucast (be_word bs :: b256) :: u64) i"
    proof (cases "i < 64")
      case True
      then have "i div 8 < 8" by simp
      with assms have "rev (drop 24 bs) ! (i div 8) = rev bs ! (i div 8)"
        by (simp add: rev_nth)
      with True assms show ?thesis
        by (auto simp: be_word_def bit_le_word bit_simps)
    qed (auto dest: bit_imp_le_length)
  qed
  with assms show ?thesis
    by (simp add: decode_proven_block_def subslice_def slot_at_def)
qed

lemma decode_proven_block_encoded:
  "decode_proven_block (abi_words [ucast n]) = Ok n"
  using slot_at_abi_words [of 0 "[ucast n]"] by (subst decode_proven_block_slot) simp_all

text \<open>
  What needs proving. Every monitor of the crate (mock, skeleton, RPC) uses the provided
  \<open>pending_range\<close>; when the RPC monitor's snapshot succeeds it reports a range exactly when
  the safe block is ahead of the proven one, the range starts one block after the proven block
  without overflow, ends at the safe block and is never empty.
\<close>

theorem rpc_pending_range:
  assumes "rpc_get_state N lc self w = (Ok st, w')"
  shows "cm_pending_range (rpc_monitor m N lc dc self) w =
      (Ok (if cs_l2_proven_block st < cs_l2_safe_block st
           then Some (cs_l2_proven_block st + 1, cs_l2_safe_block st) else None), w')
    \<and> (cs_l2_proven_block st < cs_l2_safe_block st \<longrightarrow>
         unat (cs_l2_proven_block st + 1) = Suc (unat (cs_l2_proven_block st))
         \<and> cs_l2_proven_block st + 1 \<le> cs_l2_safe_block st)"
proof -
  have get: "cm_get_state (rpc_monitor m N lc dc self) w = (Ok st, w')"
    using assms by (simp add: rpc_monitor_def)
  have "cs_l2_proven_block st < cs_l2_safe_block st \<Longrightarrow>
      unat (cs_l2_proven_block st + 1) = Suc (unat (cs_l2_proven_block st))"
    by (rule succ_u64_unat(2))
  then show ?thesis
    using rpc_range.pending_range_eq [of m N lc dc self w] get
    by (simp add: word_le_nat_alt word_less_nat_alt)
qed

text \<open>
  Decoding the oracle's answer. With both blocks available and the oracle answering the
  ABI encoding of a block number, the snapshot carries exactly that number as the proven
  block, next to the finalized L1 head and the safe L2 block; an answer shorter than a slot is
  read as block 0.
\<close>

theorem rpc_get_state_decodes:
  assumes "no_get_block_by_number N (rm_l1_rpc_url self) Finalized w = (Ok (Some l1), w1)"
    and "no_get_block_by_number N (rm_l2_rpc_url self) Safe w1 = (Ok (Some l2), w2)"
    and "no_call N (rm_l1_rpc_url self) (rm_oracle_address self) lc w2 = (Ok answer, w3)"
    and "answer = abi_words [ucast n] \<or> length answer < 32 \<and> n = 0"
  shows "rpc_get_state N lc self w =
      (Ok \<lparr>cs_l1_head = bh_hash l1, cs_l1_block_number = bh_number l1, cs_l2_proven_block = n,
           cs_l2_safe_block = bh_number l2, cs_timestamp = no_now N w3\<rparr>, w3)"
proof -
  have "decode_proven_block answer = Ok n"
    using assms(4) decode_proven_block_encoded [of n] by (auto simp: decode_proven_block_def)
  with assms(1-3) show ?thesis
    by (simp add: rpc_get_state_def act_bind_def act_map_err_def)
qed

definition sample_node :: "(unit, unit) node_ops" where
  "sample_node =
     \<lparr>no_get_block_by_number = (\<lambda>_ tag.
        act_return (Some \<lparr>bh_hash = 7, bh_number = (if tag = Safe then 750 else 100),
                          bh_state_root = 0, bh_withdrawals_root = None\<rparr>)),
      no_call = (\<lambda>_ _ _. act_return (abi_words [500])),
      no_now = (\<lambda>_. (0, 0))\<rparr>"

definition sample_rpc_monitor :: "unit rpc_chain_monitor" where
  "sample_rpc_monitor =
     \<lparr>rm_l1_rpc_url = (), rm_l2_rpc_url = (), rm_oracle_address = 1, rm_dispute_address = None\<rparr>"

theorem rpc_get_state_decodes_witness:
  "rpc_get_state sample_node [] sample_rpc_monitor () =
     (Ok \<lparr>cs_l1_head = 7, cs_l1_block_number = 100, cs_l2_proven_block = 500,
          cs_l2_safe_block = 750, cs_timestamp = (0, 0)\<rparr>, ())"
  by (subst rpc_get_state_decodes [where n = 500 and answer = "abi_words [500]"])
    (auto simp: sample_node_def sample_rpc_monitor_def)

theorem rpc_pending_range_witness:
  "cm_pending_range (rpc_monitor Debug sample_node [] (\<lambda>_. []) sample_rpc_monitor) () =
     (Ok (Some (501, 750)), ())"
proof -
  have "no_call sample_node () 1 [] () = (Ok (abi_words [ucast (500 :: u64)]), ())"
    by (simp add: sample_node_def)
  then have st: "rpc_get_state sample_node [] sample_rpc_monitor () =
     (Ok \<lparr>cs_l1_head = 7, cs_l1_block_number = 100, cs_l2_proven_block = 500,
          cs_l2_safe_block = 750, cs_timestamp = (0, 0)\<rparr>, ())"
    using decode_proven_block_encoded [of 500]
    by (simp add: rpc_get_state_def act_bind_def act_map_err_def sample_node_def sample_rpc_monitor_def)
  show ?thesis
    using rpc_pending_range [OF st, of Debug "\<lambda>_. []"] by simp
qed

end
