(* ===== verification/Planning.thy ===== *)
theory Planning
  imports Monitor
begin

text \<open>
  \<open>OrchestrationEngine::plan_range\<close> of crates/orchestrator/src/engine.rs.  The \<open>while\<close> loop
  over \<open>u64\<close> cursors is a \<open>partial_function\<close>: \<open>None\<close> is a loop that never ends.  The
  abstract counterpart \<open>windows\<close> splits an interval of natural numbers.
\<close>

section \<open>The loop\<close>

datatype engine_error = EngineMonitor string | EngineDispatch string

fun engine_error_to_string :: "engine_error \<Rightarrow> string" where
  "engine_error_to_string (EngineMonitor s) = ''monitor error: '' @ s"
| "engine_error_to_string (EngineDispatch s) = ''dispatch error: '' @ s"

definition next_range_end :: "build \<Rightarrow> u64 \<Rightarrow> u64 \<Rightarrow> u64 \<Rightarrow> (engine_error, u64) outcome" where
  "next_range_end m window cursor end_block =
     and_then (add_u64 m cursor window) (\<lambda>x.
     and_then (sub_u64 m x 1) (\<lambda>y. Ok (min y end_block)))"

partial_function (option) plan_loop ::
  "build \<Rightarrow> u64 \<Rightarrow> proving_mode \<Rightarrow> b256 \<Rightarrow> u64 \<Rightarrow> u64 \<Rightarrow> proof_request list
     \<Rightarrow> (engine_error, proof_request list) outcome option"
where
  "plan_loop m window mode l1_head end_block cursor requests =
     (if cursor \<le> end_block
      then (case next_range_end m window cursor end_block of
              Ok range_end \<Rightarrow>
                (case add_u64 m range_end 1 of
                   Ok cursor' \<Rightarrow>
                     plan_loop m window mode l1_head end_block cursor'
                       (requests @ [\<lparr>req_l1_head = l1_head, req_l2_start_block = cursor,
                                     req_l2_end_block = range_end, req_l2_start_output_root = 0,
                                     req_mode = mode\<rparr>])
                 | Err e \<Rightarrow> Some (Err e)
                 | Panic p \<Rightarrow> Some (Panic p))
            | Err e \<Rightarrow> Some (Err e)
            | Panic p \<Rightarrow> Some (Panic p))
      else Some (Ok requests))"

definition plan_range ::
  "build \<Rightarrow> resolved_intent \<Rightarrow> u64 \<Rightarrow> u64 \<Rightarrow> chain_state \<Rightarrow> (engine_error, proof_request list) outcome option" where
  "plan_range m intent start end_block state =
     (let window = ri_aggregation_window intent;
          mode = ri_proving_mode intent
      in plan_loop m window mode (cs_l1_head state) end_block start [])"

section \<open>The abstract splitting\<close>

function windows :: "nat \<Rightarrow> nat \<Rightarrow> nat \<Rightarrow> (nat \<times> nat) list" where
  "windows w a b =
     (if 0 < w \<and> a \<le> b then (a, min (a + w - 1) b) # windows w (min (a + w - 1) b + 1) b else [])"
  by pat_completeness auto
termination
  by (relation "measure (\<lambda>(w, a, b). Suc b - a)") auto

declare windows.simps [simp del]

lemma windows_empty [simp]: "b < a \<Longrightarrow> windows w a b = []"
  by (simp add: windows.simps)

lemma windows_step:
  "0 < w \<Longrightarrow> a \<le> b \<Longrightarrow> windows w a b = (a, min (a + w - 1) b) # windows w (min (a + w - 1) b + 1) b"
  by (subst windows.simps) simp

lemma windows_partition:
  "0 < w \<Longrightarrow> concat (map (\<lambda>(x, y). [x..<Suc y]) (windows w a b)) = [a..<Suc b]"
proof (induction w a b rule: windows.induct)
  case (1 w a b)
  show ?case
  proof (cases "a \<le> b")
    case True
    let ?y = "min (a + w - 1) b"
    have "[a..<Suc ?y] @ [?y + 1..<Suc b] = [a..<Suc b]"
      using True "1.prems" upt_add_eq_append [of a "Suc ?y" "b - ?y"] by (simp add: min_def)
    then show ?thesis
      using 1 True by (simp add: windows_step)
  qed simp
qed

lemma windows_bounds:
  assumes "(x, y) \<in> set (windows w a b)"
  shows "a \<le> x \<and> x \<le> y \<and> y \<le> b \<and> y < x + w"
  using assms
proof (induction w a b rule: windows.induct)
  case (1 w a b)
  then show ?case
    by (subst (asm) windows.simps) (auto split: if_splits)
qed

lemma length_windows:
  "0 < w \<Longrightarrow> length (windows w a b) = (Suc b - a + (w - 1)) div w"
proof (induction w a b rule: windows.induct)
  case (1 w a b)
  show ?case
  proof (cases "a \<le> b")
    case False
    with 1 show ?thesis by simp
  next
    case True
    let ?y = "min (a + w - 1) b"
    have IH: "length (windows w (?y + 1) b) = (Suc b - (?y + 1) + (w - 1)) div w"
      using 1 True by simp
    have "(Suc b - a + (w - 1)) div w = Suc ((Suc b - (?y + 1) + (w - 1)) div w)"
    proof (cases "a + w - 1 \<le> b")
      case True
      then have "Suc b - a + (w - 1) = (Suc b - (?y + 1) + (w - 1)) + w"
        using "1.prems" by (simp add: min_def)
      then show ?thesis using "1.prems" by (simp only: div_add_self2)
    next
      case False
      define d where "d = b - a"
      from False have d: "Suc b - (?y + 1) = 0" "Suc b - a + (w - 1) = w + d" "d < w"
        using True "1.prems" by (auto simp: d_def)
      have "(w + d) div w = 1"
        using "1.prems" d(3) by (simp add: div_add_self1)
      with d(1) show ?thesis
        unfolding d(2) using "1.prems" by simp
    qed
    with IH show ?thesis
      using 1 True by (simp add: windows_step)
  qed
qed

lemma windows_full_but_last:
  "i + 1 < length (windows w a b) \<Longrightarrow> windows w a b ! i = (a + i * w, a + i * w + (w - 1))"
proof (induction w a b arbitrary: i rule: windows.induct)
  case (1 w a b)
  show ?case
  proof (cases "0 < w \<and> a \<le> b")
    case False
    with "1.prems" show ?thesis by (simp add: windows.simps)
  next
    case True
    let ?y = "min (a + w - 1) b"
    have len: "i < length (windows w (?y + 1) b)"
      using "1.prems" True by (simp add: windows_step)
    then have "?y + 1 \<le> b" by (cases "?y + 1 \<le> b") auto
    then have y: "?y = a + w - 1" by auto
    show ?thesis
    proof (cases i)
      case 0
      with True y show ?thesis by (simp add: windows_step)
    next
      case (Suc j)
      have "windows w (?y + 1) b ! j = (?y + 1 + j * w, ?y + 1 + j * w + (w - 1))"
        using "1.IH" [OF True, of j] len Suc by simp
      with True y Suc show ?thesis by (simp add: windows_step)
    qed
  qed
qed

section \<open>The loop refines the splitting\<close>

definition request_range :: "proof_request \<Rightarrow> nat \<times> nat" where
  "request_range r = (unat (req_l2_start_block r), unat (req_l2_end_block r))"

lemma next_range_end_fits:
  assumes "fits_u64 (unat e + unat w)" and "0 < w" and "c \<le> e"
  shows "next_range_end m w c e = Ok (min (c + w - 1) e)"
    and "unat (min (c + w - 1) e) = min (unat c + unat w - 1) (unat e)"
proof -
  have w: "0 < unat w" using assms(2) by (simp add: word_less_nat_alt)
  have fit: "fits_u64 (unat c + unat w)"
    using assms(1,3) by (simp add: fits_u64_def word_le_nat_alt)
  have one: "1 \<le> c + w"
    using w unat_add_fits [OF fit] by (simp add: word_le_nat_alt)
  show "next_range_end m w c e = Ok (min (c + w - 1) e)"
    using one by (simp add: next_range_end_def add_u64_fits [OF fit] sub_u64_le)
  have "unat (c + w - 1) = unat c + unat w - 1"
    using unat_sub_u64 [OF one] unat_add_fits [OF fit] by simp
  then show "unat (min (c + w - 1) e) = min (unat c + unat w - 1) (unat e)"
    by (simp add: min_def word_le_nat_alt)
qed

lemma plan_loop_windows:
  assumes "fits_u64 (unat e + unat w)" and "0 < w" and "unat c \<le> Suc (unat e)"
  shows "\<exists>rs. plan_loop m w mode l1 e c acc = Some (Ok (acc @ rs))
     \<and> map request_range rs = windows (unat w) (unat c) (unat e)
     \<and> (\<forall>r \<in> set rs. req_l1_head r = l1 \<and> req_mode r = mode \<and> req_l2_start_output_root r = 0)"
  using assms(3)
proof (induction "Suc (unat e) - unat c" arbitrary: c acc rule: less_induct)
  case less
  have w: "0 < unat w" using assms(2) by (simp add: word_less_nat_alt)
  show ?case
  proof (cases "c \<le> e")
    case False
    then have "unat e < unat c" by (simp add: word_le_nat_alt)
    with False show ?thesis by (subst plan_loop.simps) simp
  next
    case True
    note re = next_range_end_fits [OF assms(1,2) True]
    let ?y = "min (c + w - 1) e"
    have fit: "fits_u64 (unat ?y + unat (1 :: u64))"
      using assms(1) w by (simp add: re(2) fits_u64_def)
    have suc: "unat (?y + 1) = Suc (unat ?y)"
      using unat_add_fits [OF fit] by simp
    have ce: "unat c \<le> unat e" using True by (simp add: word_le_nat_alt)
    have less: "Suc (unat e) - unat (?y + 1) < Suc (unat e) - unat c"
      and le: "unat (?y + 1) \<le> Suc (unat e)"
      using ce w by (auto simp: suc re(2))
    let ?r = "\<lparr>req_l1_head = l1, req_l2_start_block = c, req_l2_end_block = ?y,
               req_l2_start_output_root = 0, req_mode = mode\<rparr>"
    obtain rs where rs: "plan_loop m w mode l1 e (?y + 1) (acc @ [?r]) = Some (Ok ((acc @ [?r]) @ rs))"
        "map request_range rs = windows (unat w) (unat (?y + 1)) (unat e)"
        "\<forall>r \<in> set rs. req_l1_head r = l1 \<and> req_mode r = mode \<and> req_l2_start_output_root r = 0"
      using less.hyps [OF less le, of "acc @ [?r]"] by blast
    have "plan_loop m w mode l1 e c acc = Some (Ok (acc @ ?r # rs))"
      using True rs(1) by (subst plan_loop.simps) (simp add: re(1) add_u64_fits [OF fit])
    moreover have "map request_range (?r # rs) = windows (unat w) (unat c) (unat e)"
      using rs(2) w ce by (simp add: windows_step suc re(2) request_range_def)
    ultimately show ?thesis
      using rs(3) by (intro exI [of _ "?r # rs"]) simp
  qed
qed

lemma plan_range_windows:
  assumes "fits_u64 (unat e + unat (ri_aggregation_window i))" and "0 < ri_aggregation_window i"
    and "start \<le> e"
  obtains rs where "plan_range m i start e st = Some (Ok rs)"
    "map request_range rs = windows (unat (ri_aggregation_window i)) (unat start) (unat e)"
    "\<forall>r \<in> set rs. req_l1_head r = cs_l1_head st \<and> req_mode r = ri_proving_mode i
        \<and> req_l2_start_output_root r = 0"
proof -
  have "unat start \<le> Suc (unat e)" using assms(3) by (simp add: word_le_nat_alt)
  from plan_loop_windows [OF assms(1,2) this, of m "ri_proving_mode i" "cs_l1_head st" "[]"] that
  show ?thesis by (auto simp: plan_range_def Let_def)
qed

text \<open>Where the loop does not end.\<close>

lemma plan_loop_zero_window:
  assumes "plan_loop m 0 mode l1 e c acc = Some r" and "1 \<le> c" and "c \<le> e"
  shows False
proof -
  have "w = 0 \<longrightarrow> 1 \<le> c \<longrightarrow> c \<le> e \<longrightarrow> False"
    if "plan_loop m w mode l1 e c acc = Some r" for m w mode l1 e c acc r
  proof (rule plan_loop.raw_induct [where P = "\<lambda>m w mode l1 e c acc r. w = 0 \<longrightarrow> 1 \<le> c \<longrightarrow> c \<le> e \<longrightarrow> False",
        OF _ that], intro impI)
    fix f m w mode l1 e c acc r
    assume IH: "\<And>m w mode l1 e c acc r. f m w mode l1 e c acc = Some r \<Longrightarrow>
        w = 0 \<longrightarrow> 1 \<le> c \<longrightarrow> c \<le> e \<longrightarrow> False"
      and w: "w = 0" "1 \<le> c" "c \<le> (e :: u64)"
      and eq: "(if c \<le> e
        then case next_range_end m w c e of
            Ok range_end \<Rightarrow>
              (case add_u64 m range_end 1 of
                 Ok cursor' \<Rightarrow>
                   f m w mode l1 e cursor'
                     (acc @ [\<lparr>req_l1_head = l1, req_l2_start_block = c, req_l2_end_block = range_end,
                              req_l2_start_output_root = 0, req_mode = mode\<rparr>])
               | Err e \<Rightarrow> Some (Err e)
               | Panic p \<Rightarrow> Some (Panic p))
          | Err e \<Rightarrow> Some (Err e)
          | Panic p \<Rightarrow> Some (Panic p)
        else Some (Ok acc)) = Some r"
    have le: "c - 1 \<le> c" using w(2) by (simp add: word_le_nat_alt unat_sub)
    have pos: "0 < unat c" using w(2) by (simp add: word_le_nat_alt)
    have "unat (c - 1) + 1 = unat c"
      using w(2) pos by (simp add: unat_sub_u64)
    then have fit: "fits_u64 (unat (c - 1) + unat (1 :: u64))"
      using unat_u64_less [of c] by (simp add: fits_u64_def)
    have "next_range_end m w c e = Ok (c - 1)"
    proof -
      have "c - 1 \<le> e" using le w(3) by (rule order_trans)
      moreover have "fits_u64 (unat c + unat (0 :: u64))"
        using unat_u64_less [of c] by (simp add: fits_u64_def)
      ultimately show ?thesis
        using w by (simp add: next_range_end_def add_u64_def sub_u64_le min_def)
    qed
    then show False
      using eq w IH by (auto simp: add_u64_fits [OF fit])
  qed
  with assms show False by blast
qed

lemma plan_loop_max_release:
  assumes "plan_loop Release w mode l1 (- 1) c acc = Some r"
  shows False
proof -
  have "m = Release \<longrightarrow> e = - 1 \<longrightarrow> False"
    if "plan_loop m w mode l1 e c acc = Some r" for m w mode l1 e c acc r
  proof (rule plan_loop.raw_induct [where P = "\<lambda>m w mode l1 e c acc r. m = Release \<longrightarrow> e = - 1 \<longrightarrow> False",
        OF _ that], intro impI)
    fix f m w mode l1 e c acc r
    assume IH: "\<And>m w mode l1 e c acc r. f m w mode l1 e c acc = Some r \<Longrightarrow>
        m = Release \<longrightarrow> e = - 1 \<longrightarrow> False"
      and m: "m = Release" "e = (- 1 :: u64)"
      and eq: "(if c \<le> e
        then case next_range_end m w c e of
            Ok range_end \<Rightarrow>
              (case add_u64 m range_end 1 of
                 Ok cursor' \<Rightarrow>
                   f m w mode l1 e cursor'
                     (acc @ [\<lparr>req_l1_head = l1, req_l2_start_block = c, req_l2_end_block = range_end,
                              req_l2_start_output_root = 0, req_mode = mode\<rparr>])
               | Err e \<Rightarrow> Some (Err e)
               | Panic p \<Rightarrow> Some (Panic p))
          | Err e \<Rightarrow> Some (Err e)
          | Panic p \<Rightarrow> Some (Panic p)
        else Some (Ok acc)) = Some r"
    obtain c' acc' where "f Release w mode l1 (- 1) c' acc' = Some r"
      using eq m by (auto simp: next_range_end_def add_u64_def sub_u64_def)
    then show False
      using IH by blast
  qed
  with assms show False by blast
qed

text \<open>
  C3: planning a range. For a positive window and an end block that leaves room for one more
  window below 2 to the 64, planning ends without overflow in either build, and the requests'
  intervals are exactly the windows of the block range: concatenated they list every block
  once, in order; each is non-empty and at most a window long, all but the last exactly a
  window; every request carries the snapshot's L1 head, the intent's proving mode and the
  zero output root.
\<close>

theorem plan_range_partition:
  assumes "fits_u64 (unat e + unat (ri_aggregation_window i))"
    and "0 < ri_aggregation_window i" and "start \<le> e"
  shows "\<exists>rs. plan_range m i start e st = Some (Ok rs)
     \<and> concat (map (\<lambda>r. [unat (req_l2_start_block r)..<Suc (unat (req_l2_end_block r))]) rs)
         = [unat start..<Suc (unat e)]
     \<and> (\<forall>r \<in> set rs. req_l2_start_block r \<le> req_l2_end_block r
          \<and> unat (req_l2_end_block r) - unat (req_l2_start_block r) < unat (ri_aggregation_window i)
          \<and> req_l1_head r = cs_l1_head st \<and> req_mode r = ri_proving_mode i
          \<and> req_l2_start_output_root r = 0)
     \<and> (\<forall>k. k + 1 < length rs \<longrightarrow>
          Suc (unat (req_l2_end_block (rs ! k))) - unat (req_l2_start_block (rs ! k))
            = unat (ri_aggregation_window i))
     \<and> length rs = (Suc (unat e) - unat start + (unat (ri_aggregation_window i) - 1))
                     div unat (ri_aggregation_window i)"
proof -
  obtain rs where rs: "plan_range m i start e st = Some (Ok rs)"
      "map request_range rs = windows (unat (ri_aggregation_window i)) (unat start) (unat e)"
      "\<forall>r \<in> set rs. req_l1_head r = cs_l1_head st \<and> req_mode r = ri_proving_mode i
        \<and> req_l2_start_output_root r = 0"
    using plan_range_windows [OF assms] by blast
  let ?W = "unat (ri_aggregation_window i)"
  have w: "0 < ?W" using assms(2) by (simp add: word_less_nat_alt)
  have cover: "concat (map (\<lambda>r. [unat (req_l2_start_block r)..<Suc (unat (req_l2_end_block r))]) rs)
      = [unat start..<Suc (unat e)]"
    using windows_partition [OF w, of "unat start" "unat e"]
    by (simp add: rs(2) [symmetric] request_range_def o_def)
  have bounds: "\<forall>r \<in> set rs. req_l2_start_block r \<le> req_l2_end_block r
          \<and> unat (req_l2_end_block r) - unat (req_l2_start_block r) < ?W"
  proof
    fix r
    assume "r \<in> set rs"
    then have "request_range r \<in> set (windows ?W (unat start) (unat e))"
      by (simp flip: rs(2))
    from windows_bounds [OF this [unfolded request_range_def]] show
      "req_l2_start_block r \<le> req_l2_end_block r
          \<and> unat (req_l2_end_block r) - unat (req_l2_start_block r) < ?W"
      by (auto simp: word_le_nat_alt)
  qed
  have full: "Suc (unat (req_l2_end_block (rs ! k))) - unat (req_l2_start_block (rs ! k)) = ?W"
    if "k + 1 < length rs" for k
  proof -
    have "request_range (rs ! k) = (unat start + k * ?W, unat start + k * ?W + (?W - 1))"
      using windows_full_but_last [of k ?W "unat start" "unat e"] that
      by (simp flip: rs(2))
    with w show ?thesis by (simp add: request_range_def)
  qed
  have "length rs = (Suc (unat e) - unat start + (?W - 1)) div ?W"
    using length_windows [OF w, of "unat start" "unat e"] by (simp flip: rs(2))
  with rs cover bounds full show ?thesis by blast
qed

definition sample_intent :: resolved_intent where
  "sample_intent = intent_resolve Sp1 [] (0, 0) Standard"

theorem plan_range_partition_witness:
  "\<exists>rs. plan_range Debug sample_intent 501 750 (mock_monitor_default_state (0, 0)) = Some (Ok rs)
     \<and> length rs = 3"
  using plan_range_partition [of 750 sample_intent 501 Debug "mock_monitor_default_state (0, 0)"]
  by (auto simp: sample_intent_def intent_resolve_def fits_u64_def)

text \<open>
  C34: where planning does not end. With a zero window (a field of the public configuration)
  and a non-empty range above block 0 the loop never returns, in either build; with the
  largest block number as the end it never returns in a release build.
\<close>

theorem plan_range_diverges:
  "(ri_aggregation_window i = 0 \<and> 1 \<le> start \<and> start \<le> e \<longrightarrow> plan_range m i start e st = None)
   \<and> plan_range Release i start (- 1) st = None"
proof (intro conjI impI)
  assume zero: "ri_aggregation_window i = 0 \<and> 1 \<le> start \<and> start \<le> e"
  show "plan_range m i start e st = None"
  proof (cases "plan_range m i start e st")
    case (Some r)
    with zero plan_loop_zero_window show ?thesis
      by (auto simp: plan_range_def)
  qed simp
next
  show "plan_range Release i start (- 1) st = None"
  proof (cases "plan_range Release i start (- 1) st :: (engine_error, proof_request list) outcome option")
    case (Some r)
    with plan_loop_max_release show ?thesis
      by (auto simp: plan_range_def)
  qed simp
qed

theorem plan_range_diverges_witness:
  "plan_range Debug (sample_intent\<lparr>ri_aggregation_window := 0\<rparr>) 1 5 (mock_monitor_default_state (0, 0))
     = None"
  using plan_range_diverges [where i = "sample_intent\<lparr>ri_aggregation_window := 0\<rparr>" and start = 1
      and e = 5 and m = Debug and st = "mock_monitor_default_state (0, 0)"]
  by (simp add: word_le_nat_alt)

end
