(* ===== verification/Engine.thy ===== *)
theory Engine
  imports Config Dispatcher Planning
begin

text \<open>
  The orchestration engine of crates/orchestrator/src/engine.rs.  One turn of each proving
  loop is an action on the world and the log of sent events; the endless loops are
  \<open>partial_function\<close>s, so a service that runs until it is cancelled is \<open>None\<close>.  The
  unbounded event channel is an identifier: a send is logged with it, whether or not somebody
  still receives (the code ignores send errors).
\<close>

section \<open>Engine, channel and events\<close>

record engine_config =
  ec_intent :: resolved_intent
  ec_poll_interval :: duration
  ec_max_concurrent_proofs :: u64

datatype engine_event =
    RangeDetected u64 u64
  | ProofStarted u64 u64
  | ProofCompleted u64 u64
  | ProofSubmitted u64 u64
  | AggregationStarted nat
  | AggregationCompleted u64 u64
  | DisputeDetected u64 u64
  | DisputeResolved u64 u64
  | EngineErrorEvent string

type_synonym channel = nat

record ('w, 'e, 'x) engine =
  en_config :: engine_config
  en_monitor :: "('w, 'e) chain_monitor"
  en_dispatcher :: "('w, 'x) proof_dispatcher"
  en_event_tx :: channel
  en_event_rx :: channel

text \<open>\<open>fresh\<close> is the next unused channel; each constructor call of a channel advances it.\<close>

definition engine_new ::
  "channel \<Rightarrow> engine_config \<Rightarrow> ('w, 'e) chain_monitor \<Rightarrow> ('w, 'x) proof_dispatcher
     \<Rightarrow> ('w, 'e, 'x) engine \<times> channel" where
  "engine_new fresh config mon dispatcher =
     (\<lparr>en_config = config, en_monitor = mon, en_dispatcher = dispatcher,
       en_event_tx = fresh, en_event_rx = fresh\<rparr>, Suc fresh)"

definition event_sender :: "('w, 'e, 'x) engine \<Rightarrow> channel" where
  "event_sender self = en_event_tx self"

definition take_event_receiver ::
  "channel \<Rightarrow> ('w, 'e, 'x) engine \<Rightarrow> channel \<times> ('w, 'e, 'x) engine \<times> channel" where
  "take_event_receiver fresh self =
     (let placeholder_rx = fresh
      in (en_event_rx self, self\<lparr>en_event_rx := placeholder_rx\<rparr>, Suc fresh))"

record 'w run_state =
  rs_world :: 'w
  rs_sent :: "(channel \<times> engine_event) list"

definition emit :: "('w, 'e, 'x) engine \<Rightarrow> engine_event \<Rightarrow> ('w run_state, engine_error, unit) action" where
  "emit E ev s = (Ok (), s\<lparr>rs_sent := rs_sent s @ [(en_event_tx E, ev)]\<rparr>)"

definition on_world :: "('w, 'a, 'b) action \<Rightarrow> ('w run_state, 'a, 'b) action" where
  "on_world m s = (case m (rs_world s) of (r, w') \<Rightarrow> (r, s\<lparr>rs_world := w'\<rparr>))"

definition monitor_call ::
  "('w, 'e, 'x) engine \<Rightarrow> ('w, 'e, 'a) action \<Rightarrow> ('w run_state, engine_error, 'a) action" where
  "monitor_call E m = act_map_err (\<lambda>e. EngineMonitor (cm_error_to_string (en_monitor E) e)) (on_world m)"

definition dispatch_call ::
  "('w, 'e, 'x) engine \<Rightarrow> ('w, 'x, 'a) action \<Rightarrow> ('w run_state, engine_error, 'a) action" where
  "dispatch_call E m =
     act_map_err (\<lambda>e. EngineDispatch (pd_error_to_string (en_dispatcher E) e)) (on_world m)"

definition engine_plan_range ::
  "build \<Rightarrow> ('w, 'e, 'x) engine \<Rightarrow> u64 \<Rightarrow> u64 \<Rightarrow> chain_state
     \<Rightarrow> (engine_error, proof_request list) outcome option" where
  "engine_plan_range m E start end_block state = plan_range m (ec_intent (en_config E)) start end_block state"

section \<open>Beacon mode\<close>

fun beacon_requests ::
  "('w, 'e, 'x) engine \<Rightarrow> proof_request list \<Rightarrow> proof_artifact list
     \<Rightarrow> ('w run_state, engine_error, proof_artifact list) action" where
  "beacon_requests E [] range_proofs = act_return range_proofs"
| "beacon_requests E (request # requests) range_proofs =
     act_bind (emit E (ProofStarted (req_l2_start_block request) (req_l2_end_block request))) (\<lambda>_.
     act_bind (dispatch_call E (pd_submit (en_dispatcher E) request)) (\<lambda>handle.
     act_bind (dispatch_call E (pd_wait (en_dispatcher E) handle)) (\<lambda>proof.
     act_bind (emit E (ProofCompleted (req_l2_start_block request) (req_l2_end_block request))) (\<lambda>_.
     beacon_requests E requests (range_proofs @ [proof])))))"

definition beacon_aggregate ::
  "('w, 'e, 'x) engine \<Rightarrow> u64 \<Rightarrow> u64 \<Rightarrow> proof_artifact list \<Rightarrow> ('w run_state, engine_error, unit) action"
where
  "beacon_aggregate E start end_block range_proofs =
     (if 1 < length range_proofs
      then act_bind (emit E (AggregationStarted (length range_proofs))) (\<lambda>_.
           act_bind (dispatch_call E (pd_submit_aggregation (en_dispatcher E) range_proofs)) (\<lambda>agg_handle.
           act_bind (dispatch_call E (pd_wait (en_dispatcher E) agg_handle)) (\<lambda>_.
           emit E (AggregationCompleted start end_block))))
      else act_return ())"

definition beacon_round ::
  "build \<Rightarrow> ('w, 'e, 'x) engine \<Rightarrow> u64 \<Rightarrow> u64 \<Rightarrow> 'w run_state
     \<Rightarrow> ((engine_error, unit) outcome \<times> 'w run_state) option" where
  "beacon_round m E start end_block s =
     (case act_bind (emit E (RangeDetected start end_block)) (\<lambda>_.
             monitor_call E (cm_get_state (en_monitor E))) s of
        (Ok state, s1) \<Rightarrow>
          (case engine_plan_range m E start end_block state of
             None \<Rightarrow> None
           | Some plan \<Rightarrow>
               Some (act_bind (act_lift plan) (\<lambda>requests.
                     act_bind (beacon_requests E requests []) (\<lambda>range_proofs.
                     beacon_aggregate E start end_block range_proofs)) s1))
      | (Err e, s1) \<Rightarrow> Some (Err e, s1)
      | (Panic p, s1) \<Rightarrow> Some (Panic p, s1))"

text \<open>One turn of \<open>run_beacon_loop\<close>; sleeping until the next poll lets the world move on.\<close>

definition then_sleep ::
  "(duration \<Rightarrow> 'w \<Rightarrow> 'w) \<Rightarrow> ('w, 'e, 'x) engine \<Rightarrow> (engine_error, unit) outcome \<times> 'w run_state
     \<Rightarrow> (engine_error, unit) outcome \<times> 'w run_state" where
  "then_sleep sleep E = (\<lambda>(r, s). case r of
       Ok _ \<Rightarrow> (Ok (), s\<lparr>rs_world := sleep (ec_poll_interval (en_config E)) (rs_world s)\<rparr>)
     | Err e \<Rightarrow> (Err e, s)
     | Panic p \<Rightarrow> (Panic p, s))"

definition beacon_iteration ::
  "build \<Rightarrow> (duration \<Rightarrow> 'w \<Rightarrow> 'w) \<Rightarrow> ('w, 'e, 'x) engine \<Rightarrow> 'w run_state
     \<Rightarrow> ((engine_error, unit) outcome \<times> 'w run_state) option" where
  "beacon_iteration m sleep E s =
     map_option (then_sleep sleep E)
       (case monitor_call E (cm_pending_range (en_monitor E)) s of
          (Ok (Some (start, end_block)), s1) \<Rightarrow> beacon_round m E start end_block s1
        | (Ok None, s1) \<Rightarrow> Some (Ok (), s1)
        | (Err e, s1) \<Rightarrow> Some (Err e, s1)
        | (Panic p, s1) \<Rightarrow> Some (Panic p, s1))"

section \<open>Sentinel mode\<close>

fun sentinel_requests ::
  "('w, 'e, 'x) engine \<Rightarrow> proof_request list \<Rightarrow> ('w run_state, engine_error, unit) action" where
  "sentinel_requests E [] = act_return ()"
| "sentinel_requests E (request # requests) =
     act_bind (dispatch_call E (pd_submit (en_dispatcher E) request)) (\<lambda>handle.
     act_bind (dispatch_call E (pd_wait (en_dispatcher E) handle)) (\<lambda>_.
     sentinel_requests E requests))"

definition sentinel_round ::
  "build \<Rightarrow> ('w, 'e, 'x) engine \<Rightarrow> dispute_info \<Rightarrow> 'w run_state
     \<Rightarrow> ((engine_error, unit) outcome \<times> 'w run_state) option" where
  "sentinel_round m E dispute s =
     (case act_bind (emit E (DisputeDetected (di_start_block dispute) (di_end_block dispute))) (\<lambda>_.
             monitor_call E (cm_get_state (en_monitor E))) s of
        (Ok state, s1) \<Rightarrow>
          (case engine_plan_range m E (di_start_block dispute) (di_end_block dispute) state of
             None \<Rightarrow> None
           | Some plan \<Rightarrow>
               Some (act_bind (act_lift plan) (\<lambda>requests.
                     act_bind (sentinel_requests E requests) (\<lambda>_.
                     emit E (DisputeResolved (di_start_block dispute) (di_end_block dispute)))) s1))
      | (Err e, s1) \<Rightarrow> Some (Err e, s1)
      | (Panic p, s1) \<Rightarrow> Some (Panic p, s1))"

definition sentinel_iteration ::
  "build \<Rightarrow> (duration \<Rightarrow> 'w \<Rightarrow> 'w) \<Rightarrow> ('w, 'e, 'x) engine \<Rightarrow> 'w run_state
     \<Rightarrow> ((engine_error, unit) outcome \<times> 'w run_state) option" where
  "sentinel_iteration m sleep E s =
     map_option (then_sleep sleep E)
       (case cm_active_dispute (en_monitor E) (rs_world s) of
          (Some dispute, w1) \<Rightarrow> sentinel_round m E dispute (s\<lparr>rs_world := w1\<rparr>)
        | (None, w1) \<Rightarrow> Some (Ok (), s\<lparr>rs_world := w1\<rparr>))"

section \<open>Running the engine\<close>

partial_function (option) run_loop ::
  "('s \<Rightarrow> ((engine_error, unit) outcome \<times> 's) option) \<Rightarrow> 's \<Rightarrow> ((engine_error, unit) outcome \<times> 's) option"
where
  "run_loop body s =
     (case body s of
        None \<Rightarrow> None
      | Some (r, s') \<Rightarrow>
          (case r of
             Ok _ \<Rightarrow> run_loop body s'
           | Err e \<Rightarrow> Some (Err e, s')
           | Panic p \<Rightarrow> Some (Panic p, s')))"

definition engine_iteration ::
  "build \<Rightarrow> (duration \<Rightarrow> 'w \<Rightarrow> 'w) \<Rightarrow> ('w, 'e, 'x) engine \<Rightarrow> 'w run_state
     \<Rightarrow> ((engine_error, unit) outcome \<times> 'w run_state) option" where
  "engine_iteration m sleep E =
     (case ri_proof_mode (ec_intent (en_config E)) of
        Beacon \<Rightarrow> beacon_iteration m sleep E
      | Sentinel \<Rightarrow> sentinel_iteration m sleep E)"

definition engine_run ::
  "build \<Rightarrow> (duration \<Rightarrow> 'w \<Rightarrow> 'w) \<Rightarrow> ('w, 'e, 'x) engine \<Rightarrow> 'w run_state
     \<Rightarrow> ((engine_error, unit) outcome \<times> 'w run_state) option" where
  "engine_run m sleep E s =
     (case ri_proof_mode (ec_intent (en_config E)) of
        Beacon \<Rightarrow> run_loop (beacon_iteration m sleep E) s
      | Sentinel \<Rightarrow> run_loop (sentinel_iteration m sleep E) s)"

lemma engine_run_loop: "engine_run m sleep E = run_loop (engine_iteration m sleep E)"
  by (rule ext) (simp add: engine_run_def engine_iteration_def split: proof_mode.splits)

text \<open>
  The states the service passes through: after any number of successful turns
  (\<open>loop_reach\<close>), and also the state a failing turn leaves behind (\<open>loop_visit\<close>).
\<close>

inductive loop_reach ::
  "('s \<Rightarrow> ((engine_error, unit) outcome \<times> 's) option) \<Rightarrow> 's \<Rightarrow> 's \<Rightarrow> bool" for body s0 where
  start: "loop_reach body s0 s0"
| turn: "loop_reach body s0 s \<Longrightarrow> body s = Some (Ok (), s') \<Longrightarrow> loop_reach body s0 s'"

inductive loop_visit ::
  "('s \<Rightarrow> ((engine_error, unit) outcome \<times> 's) option) \<Rightarrow> 's \<Rightarrow> 's \<Rightarrow> bool" for body s0 where
  reached: "loop_reach body s0 s \<Longrightarrow> loop_visit body s0 s"
| failed: "loop_reach body s0 s \<Longrightarrow> body s = Some (r, s') \<Longrightarrow> loop_visit body s0 s'"

inductive_cases loop_visitE: "loop_visit body s0 s"

lemma loop_visit_invariant:
  assumes "loop_visit body s0 s" and "I s0"
    and "\<And>s r s'. I s \<Longrightarrow> body s = Some (r, s') \<Longrightarrow> I s'"
  shows "I s"
proof -
  have reach: "loop_reach body s0 t \<Longrightarrow> I t" for t
    by (induction rule: loop_reach.induct) (use assms(2,3) in blast)+
  from assms(1) show ?thesis
    by (elim loop_visitE) (use reach assms(3) in blast)+
qed

text \<open>What a run that returns returns: the failure of a reachable turn.\<close>

lemma loop_reach_first:
  assumes "body s = Some (Ok (), s1)" and "loop_reach body s1 t"
  shows "loop_reach body s t"
  using assms(2)
proof (induction rule: loop_reach.induct)
  case start
  show ?case using loop_reach.start assms(1) by (rule loop_reach.turn)
next
  case (turn t t')
  then show ?case by (blast intro: loop_reach.turn)
qed

lemma run_loop_returns:
  assumes "run_loop body s = Some x"
  shows "\<exists>t. loop_reach body s t \<and> body t = Some x \<and> (\<forall>a. fst x \<noteq> Ok a)"
proof (rule run_loop.raw_induct
    [where P = "\<lambda>body s x. \<exists>t. loop_reach body s t \<and> body t = Some x \<and> (\<forall>a. fst x \<noteq> Ok a)",
     OF _ assms])
  fix f body s x
  assume IH: "\<And>body s x. f body s = Some x \<Longrightarrow>
      \<exists>t. loop_reach body s t \<and> body t = Some x \<and> (\<forall>a. fst x \<noteq> Ok a)"
    and eq: "(case body s of None \<Rightarrow> None
      | Some (r, s') \<Rightarrow> (case r of Ok a \<Rightarrow> f body s' | Err e \<Rightarrow> Some (Err e, s')
          | Panic p \<Rightarrow> Some (Panic p, s'))) = Some x"
  from eq obtain r1 s1 where body: "body s = Some (r1, s1)"
    by (auto split: option.splits)
  show "\<exists>t. loop_reach body s t \<and> body t = Some x \<and> (\<forall>a. fst x \<noteq> Ok a)"
  proof (cases r1)
    case (Ok u)
    with eq body have "f body s1 = Some x" by simp
    from IH [OF this] obtain t where
      "loop_reach body s1 t" "body t = Some x" "\<forall>a. fst x \<noteq> Ok a" by blast
    moreover have "body s = Some (Ok (), s1)" using body Ok by simp
    ultimately show ?thesis by (blast intro: loop_reach_first)
  qed (use eq body in \<open>auto intro!: exI [of _ s] loop_reach.start\<close>)
qed

lemma run_loop_forever:
  assumes "I s" and "\<And>s. I s \<Longrightarrow> \<exists>s'. body s = Some (Ok (), s') \<and> I s'"
  shows "run_loop body s = None"
proof (cases "run_loop body s")
  case (Some x)
  from run_loop_returns [OF this] obtain t where
    t: "loop_reach body s t" "body t = Some x" "\<forall>a. fst x \<noteq> Ok a"
    by (elim exE conjE)
  from t(1) have "I t"
  proof (induction rule: loop_reach.induct)
    case start
    show ?case by (rule assms(1))
  next
    case (turn u u')
    from assms(2) [OF turn.IH] turn.hyps(2) show ?case by auto
  qed
  from assms(2) [OF this] t(2,3) show ?thesis by auto
qed simp

end
