(* ===== verification/Engine_Props.thy ===== *)
theory Engine_Props
  imports Engine "HOL-Library.Sublist"
begin

text \<open>
  What the engine's loops do.  The abstract specification of a turn is the list of events it
  sends (\<open>beacon_trace\<close>, \<open>sentinel_trace\<close>), and of a whole run an automaton over the
  engine's phases (\<open>advance\<close>).  The lemmas show that a turn sends a prefix of its trace, the whole
  trace when it succeeds, and that every state of a run satisfies the automaton.
\<close>

section \<open>Specification\<close>

definition range_events :: "proof_request \<Rightarrow> engine_event list" where
  "range_events r =
     [ProofStarted (req_l2_start_block r) (req_l2_end_block r),
      ProofCompleted (req_l2_start_block r) (req_l2_end_block r)]"

definition aggregation_events :: "u64 \<Rightarrow> u64 \<Rightarrow> nat \<Rightarrow> engine_event list" where
  "aggregation_events a b n = (if 1 < n then [AggregationStarted n, AggregationCompleted a b] else [])"

definition beacon_trace :: "u64 \<Rightarrow> u64 \<Rightarrow> proof_request list \<Rightarrow> engine_event list" where
  "beacon_trace a b rs =
     RangeDetected a b # concat (map range_events rs) @ aggregation_events a b (length rs)"

definition sentinel_trace :: "dispute_info \<Rightarrow> engine_event list" where
  "sentinel_trace d =
     [DisputeDetected (di_start_block d) (di_end_block d), DisputeResolved (di_start_block d) (di_end_block d)]"

definition emitted ::
  "('w, 'e, 'x) engine \<Rightarrow> 'w run_state \<Rightarrow> 'w run_state \<Rightarrow> engine_event list \<Rightarrow> bool" where
  "emitted E s s' es \<longleftrightarrow> rs_sent s' = rs_sent s @ map (Pair (en_event_tx E)) es"

section \<open>Events of the parts of a turn\<close>

lemma emitted_refl [simp]: "emitted E s s []"
  by (simp add: emitted_def)

lemma emitted_trans: "emitted E s t es \<Longrightarrow> emitted E t u fs \<Longrightarrow> emitted E s u (es @ fs)"
  by (simp add: emitted_def)

lemma emitted_world [simp]: "emitted E s (t\<lparr>rs_world := w\<rparr>) es = emitted E s t es"
  by (simp add: emitted_def)

lemma emit_emitted: "emit E ev s = (r, s') \<Longrightarrow> r = Ok () \<and> emitted E s s' [ev]"
  by (auto simp: emit_def emitted_def)

lemma on_world_emitted: "on_world m s = (r, s') \<Longrightarrow> emitted E s s' []"
  by (auto simp: on_world_def emitted_def split: prod.splits)

lemma act_map_err_eqD:
  "act_map_err g m s = (r, s') \<Longrightarrow> \<exists>r0. m s = (r0, s') \<and> r = map_err g r0"
  by (auto simp: act_map_err_def split: prod.splits)

lemma monitor_call_emitted:
  assumes "monitor_call E m s = (r, s')"
  shows "emitted E s s' []"
  using act_map_err_eqD [OF assms [unfolded monitor_call_def]] on_world_emitted by (elim exE conjE)

lemma dispatch_call_emitted:
  assumes "dispatch_call E m s = (r, s')"
  shows "emitted E s s' []"
  using act_map_err_eqD [OF assms [unfolded dispatch_call_def]] on_world_emitted by (elim exE conjE)

text \<open>
  An action that sends a prefix of \<open>es\<close>, and all of \<open>es\<close> when it succeeds, followed by
  one with the trace \<open>fs\<close>, has the trace \<open>es @ fs\<close>.
\<close>

definition sends ::
  "('w, 'e, 'x) engine \<Rightarrow> ('w run_state, engine_error, 'a) action \<Rightarrow> engine_event list
     \<Rightarrow> ('a \<Rightarrow> bool) \<Rightarrow> bool" where
  "sends E m es Q \<longleftrightarrow>
     (\<forall>s r s'. m s = (r, s') \<longrightarrow>
        (\<exists>fs. emitted E s s' fs \<and> prefix fs es \<and> (\<forall>a. r = Ok a \<longrightarrow> fs = es \<and> Q a)))"

lemma sendsD:
  assumes "sends E m es Q" and "m s = (r, s')"
  obtains fs where "emitted E s s' fs" "prefix fs es" "\<And>a. r = Ok a \<Longrightarrow> fs = es \<and> Q a"
proof -
  from assms(1) [unfolded sends_def, rule_format, OF assms(2)] that show ?thesis
    by (elim exE conjE) simp
qed

lemma sends_bind:
  assumes m: "sends E m es Q" and f: "\<And>a. Q a \<Longrightarrow> sends E (f a) fs R"
  shows "sends E (act_bind m f) (es @ fs) R"
  unfolding sends_def
proof (intro allI impI)
  fix s r s'
  assume eq: "act_bind m f s = (r, s')"
  obtain r0 s0 where m0: "m s = (r0, s0)" by (cases "m s")
  from sendsD [OF m m0] obtain gs where
    gs: "emitted E s s0 gs" "prefix gs es" "\<And>a. r0 = Ok a \<Longrightarrow> gs = es \<and> Q a" by blast
  show "\<exists>hs. emitted E s s' hs \<and> prefix hs (es @ fs) \<and> (\<forall>a. r = Ok a \<longrightarrow> hs = es @ fs \<and> R a)"
  proof (cases r0)
    case (Ok a)
    with gs(3) have "gs = es" "Q a" by simp_all
    from Ok eq m0 have "f a s0 = (r, s')" by (simp add: act_bind_def)
    from sendsD [OF f [OF \<open>Q a\<close>] this] obtain hs where
      "emitted E s0 s' hs" "prefix hs fs" "\<And>b. r = Ok b \<Longrightarrow> hs = fs \<and> R b" by blast
    with gs(1) \<open>gs = es\<close> show ?thesis
      by (intro exI [of _ "es @ hs"]) (auto intro: emitted_trans)
  qed (use eq m0 gs in \<open>auto simp: act_bind_def intro!: exI [of _ gs] prefix_prefix\<close>)
qed

lemma sendsI:
  assumes "\<And>s r s'. m s = (r, s') \<Longrightarrow> emitted E s s' es \<and> (\<forall>a. r = Ok a \<longrightarrow> Q a)"
  shows "sends E m es Q"
  unfolding sends_def
proof (intro allI impI)
  fix s r s'
  assume "m s = (r, s')"
  from assms [OF this] show "\<exists>fs. emitted E s s' fs \<and> prefix fs es \<and> (\<forall>a. r = Ok a \<longrightarrow> fs = es \<and> Q a)"
    by (intro exI [of _ es]) simp
qed

lemma sends_emit: "sends E (emit E ev) [ev] (\<lambda>_. True)"
  by (rule sendsI) (simp add: emit_emitted)

lemma sends_monitor: "sends E (monitor_call E m) [] (\<lambda>_. True)"
  by (rule sendsI) (simp add: monitor_call_emitted)

lemma sends_dispatch: "sends E (dispatch_call E m) [] (\<lambda>_. True)"
  by (rule sendsI) (simp add: dispatch_call_emitted)

lemma sends_return: "Q a \<Longrightarrow> sends E (act_return a) [] Q"
  by (rule sendsI) auto

lemma sends_lift: "(\<And>a. r = Ok a \<Longrightarrow> Q a) \<Longrightarrow> sends E (act_lift r) [] Q"
  by (rule sendsI) auto

lemma sends_weaken:
  assumes "sends E m es Q" and "\<And>a. Q a \<Longrightarrow> R a"
  shows "sends E m es R"
  unfolding sends_def
proof (intro allI impI)
  fix s r s'
  assume "m s = (r, s')"
  from sendsD [OF assms(1) this] obtain fs where
    "emitted E s s' fs" "prefix fs es" "\<And>a. r = Ok a \<Longrightarrow> fs = es \<and> Q a" by blast
  with assms(2) show "\<exists>fs. emitted E s s' fs \<and> prefix fs es \<and> (\<forall>a. r = Ok a \<longrightarrow> fs = es \<and> R a)"
    by (intro exI [of _ fs]) simp
qed

lemma sends_beacon_requests:
  "sends E (beacon_requests E rs ps) (concat (map range_events rs)) (\<lambda>qs. length qs = length ps + length rs)"
proof (induction rs arbitrary: ps)
  case Nil
  show ?case unfolding beacon_requests.simps list.map concat.simps by (rule sends_return) simp
next
  case (Cons r rs)
  let ?st = "ProofStarted (req_l2_start_block r) (req_l2_end_block r)"
  let ?co = "ProofCompleted (req_l2_start_block r) (req_l2_end_block r)"
  have tail: "sends E (beacon_requests E rs (ps @ [p])) (concat (map range_events rs))
      (\<lambda>qs. length qs = length ps + length (r # rs))" for p
    by (rule sends_weaken [OF Cons.IH]) simp
  have "sends E (beacon_requests E (r # rs) ps)
      ([?st] @ [] @ [] @ [?co] @ concat (map range_events rs)) (\<lambda>qs. length qs = length ps + length (r # rs))"
    unfolding beacon_requests.simps
    by (rule sends_bind [OF sends_emit] sends_bind [OF sends_dispatch] tail)+
  moreover have "[?st] @ [] @ [] @ [?co] @ concat (map range_events rs) = concat (map range_events (r # rs))"
    by (simp add: range_events_def [of r])
  ultimately show ?case by (simp only:)
qed

lemma sends_beacon_aggregate:
  "length ps = n \<Longrightarrow> sends E (beacon_aggregate E a b ps) (aggregation_events a b n) (\<lambda>_. True)"
proof (cases "1 < length ps")
  case True
  assume n: "length ps = n"
  have "sends E (act_bind (emit E (AggregationStarted (length ps))) (\<lambda>_.
      act_bind (dispatch_call E (pd_submit_aggregation (en_dispatcher E) ps)) (\<lambda>h.
      act_bind (dispatch_call E (pd_wait (en_dispatcher E) h)) (\<lambda>_. emit E (AggregationCompleted a b)))))
    ([AggregationStarted (length ps)] @ [] @ [] @ [AggregationCompleted a b]) (\<lambda>_. True)"
    by (rule sends_bind [OF sends_emit] sends_bind [OF sends_dispatch] sends_emit)+
  with True n show ?thesis
    by (simp add: beacon_aggregate_def aggregation_events_def)
next
  case False
  assume "length ps = n"
  with False show ?thesis
    by (simp add: beacon_aggregate_def aggregation_events_def sends_return [where a = "()", simplified])
qed

lemma sends_sentinel_requests: "sends E (sentinel_requests E rs) [] (\<lambda>_. True)"
proof (induction rs)
  case Nil
  show ?case unfolding sentinel_requests.simps by (rule sends_return) simp
next
  case (Cons r rs)
  have "sends E (sentinel_requests E (r # rs)) ([] @ [] @ []) (\<lambda>_. True)"
    unfolding sentinel_requests.simps by (rule sends_bind [OF sends_dispatch] Cons.IH)+
  then show ?case by simp
qed

section \<open>Events of a turn\<close>

text \<open>
  Both rounds announce what they found, ask the monitor for the chain state, plan, and work
  through the plan; this is their common shape.
\<close>

lemma announced_round:
  assumes round: "(case act_bind (emit E ev) (\<lambda>_. monitor_call E q) s of
      (Ok st, s1) \<Rightarrow>
        (case pl st of None \<Rightarrow> None | Some plan \<Rightarrow> Some (act_bind (act_lift plan) work s1))
    | (Err e, s1) \<Rightarrow> Some (Err e, s1) | (Panic p, s1) \<Rightarrow> Some (Panic p, s1)) = Some (r, s')"
    and work: "\<And>rs. sends E (work rs) (tr rs) (\<lambda>_. True)"
  shows "\<exists>fs rs. emitted E s s' (ev # fs) \<and> prefix fs (tr rs)
     \<and> (\<forall>a. r = Ok a \<longrightarrow> fs = tr rs \<and> (\<exists>st. pl st = Some (Ok rs)))"
proof -
  define s0 where "s0 = snd (emit E ev s)"
  have s0: "emit E ev s = (Ok (), s0)" "emitted E s s0 [ev]"
    by (auto simp: s0_def emit_def emitted_def)
  obtain r1 s1 where m: "monitor_call E q s0 = (r1, s1)" by (cases "monitor_call E q s0")
  have s1: "emitted E s s1 [ev]"
    using emitted_trans [OF s0(2) monitor_call_emitted [OF m]] by simp
  have head: "act_bind (emit E ev) (\<lambda>_. monitor_call E q) s = (r1, s1)"
    by (simp add: act_bind_def s0 m)
  note round = round [unfolded head prod.case]
  have stop: ?thesis if "s' = s1" "\<forall>a. r \<noteq> Ok a"
    using s1 that by (intro exI [of _ "[]"] exI [of _ undefined]) simp
  show ?thesis
  proof (cases r1)
    case (Ok st)
    from round [unfolded Ok outcome.case] obtain plan where plan: "pl st = Some plan"
      and rest: "act_bind (act_lift plan) work s1 = (r, s')"
      by (auto split: option.splits)
    show ?thesis
    proof (cases plan)
      case (Ok rs)
      with rest have "work rs s1 = (r, s')" by (simp add: act_bind_def act_lift_def)
      from sendsD [OF work this] obtain gs where gs: "emitted E s1 s' gs" "prefix gs (tr rs)"
          "\<And>a. r = Ok a \<Longrightarrow> gs = tr rs \<and> True" by blast
      have "emitted E s s' (ev # gs)" using emitted_trans [OF s1 gs(1)] by simp
      with gs(2,3) plan Ok show ?thesis by (intro exI [of _ gs] exI [of _ rs]) blast
    qed (use rest stop in \<open>auto simp: act_bind_def act_lift_def\<close>)
  qed (use round stop in auto)
qed

lemma sends_beacon_work:
  "sends E (act_bind (beacon_requests E rs []) (beacon_aggregate E a b))
      (concat (map range_events rs) @ aggregation_events a b (length rs)) (\<lambda>_. True)"
  by (rule sends_bind [OF sends_beacon_requests]) (simp add: sends_beacon_aggregate)

lemma beacon_round_trace:
  assumes "beacon_round m E a b s = Some (r, s')"
  shows "\<exists>es rs. emitted E s s' es \<and> es \<noteq> [] \<and> prefix es (beacon_trace a b rs)
     \<and> (r = Ok () \<longrightarrow> es = beacon_trace a b rs \<and> (\<exists>st. engine_plan_range m E a b st = Some (Ok rs)))"
proof -
  from announced_round [OF assms [unfolded beacon_round_def], OF sends_beacon_work] obtain fs rs where
    "emitted E s s' (RangeDetected a b # fs)"
    "prefix fs (concat (map range_events rs) @ aggregation_events a b (length rs))"
    "\<forall>u. r = Ok u \<longrightarrow> fs = concat (map range_events rs) @ aggregation_events a b (length rs)
       \<and> (\<exists>st. engine_plan_range m E a b st = Some (Ok rs))"
    by (elim exE conjE)
  then show ?thesis
    by (intro exI [of _ "RangeDetected a b # fs"] exI [of _ rs]) (simp add: beacon_trace_def)
qed

lemma sentinel_round_trace:
  assumes "sentinel_round m E d s = Some (r, s')"
  shows "\<exists>es. emitted E s s' es \<and> es \<noteq> [] \<and> prefix es (sentinel_trace d)
     \<and> (r = Ok () \<longrightarrow> es = sentinel_trace d)"
proof -
  let ?fin = "DisputeResolved (di_start_block d) (di_end_block d)"
  have "sends E (act_bind (sentinel_requests E rs) (\<lambda>_. emit E ?fin)) ([] @ [?fin]) (\<lambda>_. True)" for rs
    by (rule sends_bind [OF sends_sentinel_requests sends_emit])
  from announced_round [OF assms [unfolded sentinel_round_def], OF this] obtain fs rs where
    "emitted E s s' (DisputeDetected (di_start_block d) (di_end_block d) # fs)"
    "prefix fs ([] @ [?fin])" "\<forall>u. r = Ok u \<longrightarrow> fs = [] @ [?fin]
       \<and> (\<exists>st. engine_plan_range m E (di_start_block d) (di_end_block d) st = Some (Ok rs))"
    by (elim exE conjE)
  then show ?thesis
    by (intro exI [of _ "DisputeDetected (di_start_block d) (di_end_block d) # fs"])
      (simp add: sentinel_trace_def)
qed

section \<open>Events of a run\<close>

text \<open>
  The protocol a receiver of the events may rely on: which phase of its work the engine is in,
  and the events each phase allows.  Submissions and error events are never allowed.
\<close>

datatype phase =
    Idle
  | Working u64 u64 nat
  | Proving u64 u64 u64 u64 nat
  | Aggregating u64 u64
  | Disputed u64 u64

fun advance :: "phase \<Rightarrow> engine_event \<Rightarrow> phase option" where
  "advance Idle (RangeDetected a b) = Some (Working a b 0)"
| "advance (Working _ _ n) (RangeDetected a b) = (if n \<le> 1 then Some (Working a b 0) else None)"
| "advance (Working a b n) (ProofStarted s e) = Some (Proving a b s e n)"
| "advance (Proving a b s e n) (ProofCompleted s' e') =
     (if s' = s \<and> e' = e then Some (Working a b (Suc n)) else None)"
| "advance (Working a b n) (AggregationStarted k) =
     (if k = n \<and> 1 < n then Some (Aggregating a b) else None)"
| "advance (Aggregating a b) (AggregationCompleted a' b') =
     (if a' = a \<and> b' = b then Some Idle else None)"
| "advance Idle (DisputeDetected a b) = Some (Disputed a b)"
| "advance (Disputed a b) (DisputeResolved a' b') = (if a' = a \<and> b' = b then Some Idle else None)"
| "advance _ _ = None"

fun advances :: "phase \<Rightarrow> engine_event list \<Rightarrow> phase option" where
  "advances ph [] = Some ph"
| "advances ph (ev # evs) = (case advance ph ev of None \<Rightarrow> None | Some ph' \<Rightarrow> advances ph' evs)"

definition between_turns :: "phase \<Rightarrow> bool" where
  "between_turns ph \<longleftrightarrow> ph = Idle \<or> (\<exists>a b n. ph = Working a b n \<and> n \<le> 1)"

lemma advances_append:
  "advances ph (es @ fs) = (case advances ph es of None \<Rightarrow> None | Some ph' \<Rightarrow> advances ph' fs)"
  by (induction es arbitrary: ph) (auto split: option.splits)

lemma advances_prefix: "prefix es fs \<Longrightarrow> advances ph fs = Some ph' \<Longrightarrow> \<exists>q. advances ph es = Some q"
  by (auto simp: prefix_def advances_append split: option.splits)

lemma advances_range_events:
  "advances (Working a b n) (concat (map range_events rs)) = Some (Working a b (n + length rs))"
  by (induction rs arbitrary: n) (simp_all add: range_events_def)

lemma advances_beacon_trace:
  assumes "between_turns ph"
  shows "\<exists>ph'. advances ph (beacon_trace a b rs) = Some ph' \<and> between_turns ph'"
proof -
  have "advance ph (RangeDetected a b) = Some (Working a b 0)"
    using assms by (auto simp: between_turns_def)
  then show ?thesis
    by (simp add: beacon_trace_def advances_append advances_range_events aggregation_events_def
        between_turns_def)
qed

lemma advances_sentinel_trace: "advances Idle (sentinel_trace d) = Some Idle"
  by (simp add: sentinel_trace_def)

lemma advance_never:
  "advances ph es = Some ph' \<Longrightarrow> ev \<in> set es \<Longrightarrow>
     \<not> (\<exists>a b. ev = ProofSubmitted a b) \<and> \<not> (\<exists>s. ev = EngineErrorEvent s)"
proof (induction es arbitrary: ph)
  case (Cons e es)
  then show ?case by (cases "advance ph e"; cases ph; auto)
qed simp

text \<open>A turn of either mode sends a prefix of one trace, all of it if it succeeds.\<close>

definition turn_traces :: "('w, 'e, 'x) engine \<Rightarrow> engine_event list set" where
  "turn_traces E =
     (case ri_proof_mode (ec_intent (en_config E)) of
        Beacon \<Rightarrow> insert [] {beacon_trace a b rs | a b rs. True}
      | Sentinel \<Rightarrow> insert [] {sentinel_trace d | d. True})"

lemma then_sleep_Some:
  assumes "map_option (then_sleep sleep E) x = Some (r, s')"
  obtains r0 s0 where "x = Some (r0, s0)" "r0 = Ok () \<longleftrightarrow> r = Ok ()" "rs_sent s0 = rs_sent s'"
  using assms by (cases x) (auto simp: then_sleep_def split: outcome.splits)

lemma engine_iteration_trace:
  assumes "engine_iteration m sleep E s = Some (r, s')"
  shows "\<exists>es tr. emitted E s s' es \<and> prefix es tr \<and> tr \<in> turn_traces E \<and> (r = Ok () \<longrightarrow> es = tr)"
proof (cases "ri_proof_mode (ec_intent (en_config E))")
  case Beacon
  note it = assms [unfolded engine_iteration_def Beacon proof_mode.case beacon_iteration_def]
  obtain p s1 where p: "monitor_call E (cm_pending_range (en_monitor E)) s = (p, s1)"
    by (cases "monitor_call E (cm_pending_range (en_monitor E)) s")
  note quiet = monitor_call_emitted [OF p]
  from it [unfolded p prod.case] obtain r0 s0 where
    r0: "(case p of Ok (Some (start, end_block)) \<Rightarrow> beacon_round m E start end_block s1
        | Ok None \<Rightarrow> Some (Ok (), s1) | Err e \<Rightarrow> Some (Err e, s1) | Panic q \<Rightarrow> Some (Panic q, s1))
       = Some (r0, s0)" and same: "r0 = Ok () \<longleftrightarrow> r = Ok ()" "rs_sent s0 = rs_sent s'"
    by (rule then_sleep_Some)
  have silent: ?thesis if "s0 = s1"
    using quiet that same(2) Beacon
    by (intro exI [of _ "[]"]) (auto simp: emitted_def turn_traces_def)
  show ?thesis
  proof (cases "\<exists>a b. p = Ok (Some (a, b))")
    case True
    then obtain a b where "p = Ok (Some (a, b))" by blast
    with r0 have "beacon_round m E a b s1 = Some (r0, s0)" by simp
    from beacon_round_trace [OF this] obtain es rs where "emitted E s1 s0 es"
      "prefix es (beacon_trace a b rs)" "r0 = Ok () \<longrightarrow> es = beacon_trace a b rs"
      by (elim exE conjE) blast
    with same quiet Beacon show ?thesis
      by (intro exI [of _ es] exI [of _ "beacon_trace a b rs"]) (auto simp: emitted_def turn_traces_def)
  next
    case False
    with r0 have same_state: "s0 = s1" by (auto split: outcome.splits option.splits)
    show ?thesis by (rule silent [OF same_state])
  qed
next
  case Sentinel
  note it = assms [unfolded engine_iteration_def Sentinel proof_mode.case sentinel_iteration_def]
  obtain d w1 where d: "cm_active_dispute (en_monitor E) (rs_world s) = (d, w1)"
    by (cases "cm_active_dispute (en_monitor E) (rs_world s)")
  let ?s = "s\<lparr>rs_world := w1\<rparr>"
  from it [unfolded d prod.case] obtain r0 s0 where
    r0: "(case d of None \<Rightarrow> Some (Ok (), ?s) | Some dispute \<Rightarrow> sentinel_round m E dispute ?s)
       = Some (r0, s0)" and same: "r0 = Ok () \<longleftrightarrow> r = Ok ()" "rs_sent s0 = rs_sent s'"
    by (rule then_sleep_Some) (auto split: option.splits)
  show ?thesis
  proof (cases d)
    case None
    with r0 same Sentinel show ?thesis
      by (intro exI [of _ "[]"]) (auto simp: emitted_def turn_traces_def)
  next
    case (Some di)
    with r0 have "sentinel_round m E di ?s = Some (r0, s0)" by simp
    from sentinel_round_trace [OF this] obtain es where "emitted E ?s s0 es"
      "prefix es (sentinel_trace di)" "r0 = Ok () \<longrightarrow> es = sentinel_trace di"
      by (elim exE conjE)
    with same Sentinel show ?thesis
      by (intro exI [of _ es] exI [of _ "sentinel_trace di"]) (auto simp: emitted_def turn_traces_def)
  qed
qed

lemma turn_traces_accepted:
  assumes "tr \<in> turn_traces E" and "between_turns ph"
    and "ri_proof_mode (ec_intent (en_config E)) = Sentinel \<Longrightarrow> ph = Idle"
  shows "\<exists>ph'. advances ph tr = Some ph' \<and> between_turns ph'
     \<and> (ri_proof_mode (ec_intent (en_config E)) = Sentinel \<longrightarrow> ph' = Idle)"
  using assms advances_beacon_trace [OF assms(2)] advances_sentinel_trace
  by (cases "ri_proof_mode (ec_intent (en_config E))") (auto simp: turn_traces_def)

text \<open>
  The invariant between turns: the engine's own sends so far are a word of the protocol, and
  the phase reached allows another turn.
\<close>

definition log_ok :: "('w, 'e, 'x) engine \<Rightarrow> 'w run_state \<Rightarrow> phase \<Rightarrow> bool" where
  "log_ok E s ph \<longleftrightarrow>
     advances Idle (map snd (rs_sent s)) = Some ph \<and> fst ` set (rs_sent s) \<subseteq> {en_event_tx E}"

definition ready :: "('w, 'e, 'x) engine \<Rightarrow> 'w run_state \<Rightarrow> bool" where
  "ready E s \<longleftrightarrow>
     (\<exists>ph. log_ok E s ph \<and> between_turns ph
        \<and> (ri_proof_mode (ec_intent (en_config E)) = Sentinel \<longrightarrow> ph = Idle))"

lemma log_ok_emitted:
  "log_ok E s ph \<Longrightarrow> emitted E s s' es \<Longrightarrow> advances ph es = Some ph' \<Longrightarrow> log_ok E s' ph'"
  by (auto simp: log_ok_def emitted_def advances_append comp_def)

lemma turn_keeps_log:
  assumes "ready E s" and "engine_iteration m sleep E s = Some (r, s')"
  shows "\<exists>ph. log_ok E s' ph" and "r = Ok () \<Longrightarrow> ready E s'"
proof -
  from assms(1) obtain ph where ph: "log_ok E s ph" "between_turns ph"
      "ri_proof_mode (ec_intent (en_config E)) = Sentinel \<Longrightarrow> ph = Idle"
    unfolding ready_def by blast
  from engine_iteration_trace [OF assms(2)] obtain es tr where
    es: "emitted E s s' es" "prefix es tr" "tr \<in> turn_traces E" "r = Ok () \<longrightarrow> es = tr"
    by (elim exE conjE)
  from turn_traces_accepted [OF es(3) ph(2,3)] obtain q where
    q: "advances ph tr = Some q" "between_turns q"
      "ri_proof_mode (ec_intent (en_config E)) = Sentinel \<longrightarrow> q = Idle"
    by blast
  from advances_prefix [OF es(2) q(1)] obtain q' where "advances ph es = Some q'" ..
  then show "\<exists>ph. log_ok E s' ph" using log_ok_emitted [OF ph(1) es(1)] by blast
  show "ready E s'" if "r = Ok ()"
    using log_ok_emitted [OF ph(1) es(1), of q] es(4) q that unfolding ready_def by blast
qed

lemma ready_start: "rs_sent s = [] \<Longrightarrow> ready E s"
  by (simp add: ready_def log_ok_def between_turns_def)

lemma loop_reach_ready:
  assumes "loop_reach (engine_iteration m sleep E) s t" and "rs_sent s = []"
  shows "ready E t"
  using assms
proof (induction rule: loop_reach.induct)
  case start
  then show ?case by (rule ready_start)
next
  case (turn t t')
  show ?case
    by (rule turn_keeps_log(2) [OF turn.IH [OF turn.prems] turn.hyps(2) refl])
qed

lemma loop_visit_log:
  assumes "loop_visit (engine_iteration m sleep E) s t" and "rs_sent s = []"
  shows "\<exists>ph. log_ok E t ph"
  using assms(1)
proof (rule loop_visitE)
  assume "loop_reach (engine_iteration m sleep E) s t"
  from loop_reach_ready [OF this assms(2)] show ?thesis by (auto simp: ready_def)
next
  fix u r
  assume "loop_reach (engine_iteration m sleep E) s u" and it: "engine_iteration m sleep E u = Some (r, t)"
  from turn_keeps_log(1) [OF loop_reach_ready [OF this(1) assms(2)] it] show ?thesis .
qed

text \<open>
  C1: the event protocol. Whatever monitor and dispatcher the engine is given, in every
  state its loop passes through, a failing last turn included, the events it sent form a
  word of the protocol automaton: a proof completes right after it started, an aggregation
  starts only after at least two proofs of the announced range and with their exact number,
  it completes with the announced bounds, a dispute is resolved with the bounds it was
  detected with, and no submission or error event is ever sent.
\<close>

theorem engine_event_protocol:
  assumes "loop_visit (engine_iteration m sleep E) s t" and "rs_sent s = []"
  shows "(\<exists>ph. advances Idle (map snd (rs_sent t)) = Some ph)
     \<and> (\<forall>c ev. (c, ev) \<in> set (rs_sent t) \<longrightarrow>
          c = en_event_tx E \<and> ev \<noteq> ProofSubmitted a b \<and> ev \<noteq> EngineErrorEvent msg)"
proof -
  from loop_visit_log [OF assms] obtain ph where ph: "advances Idle (map snd (rs_sent t)) = Some ph"
      "fst ` set (rs_sent t) \<subseteq> {en_event_tx E}"
    by (auto simp: log_ok_def)
  have "c = en_event_tx E \<and> ev \<noteq> ProofSubmitted a b \<and> ev \<noteq> EngineErrorEvent msg"
    if "(c, ev) \<in> set (rs_sent t)" for c ev
  proof -
    from that have "ev \<in> set (map snd (rs_sent t))" by force
    from advance_never [OF ph(1) this] that ph(2) show ?thesis by force
  qed
  with ph(1) show ?thesis by blast
qed

text \<open>
  The service never ends well. When \<open>run\<close> returns it returns an error (or panics), and
  that result is the one of the first failing turn, reached through successful turns only.
\<close>

lemma engine_run_returns:
  assumes "engine_run m sleep E s = Some (r, s')"
  shows "(\<forall>u. r \<noteq> Ok u)
     \<and> (\<exists>t. loop_reach (engine_iteration m sleep E) s t \<and> engine_iteration m sleep E t = Some (r, s'))"
proof -
  from run_loop_returns [OF assms [unfolded engine_run_loop]] show ?thesis
    by (elim exE conjE) auto
qed

section \<open>The engine on the mock dispatcher\<close>

fun turns ::
  "nat \<Rightarrow> ('s \<Rightarrow> ((engine_error, unit) outcome \<times> 's) option) \<Rightarrow> 's \<Rightarrow> 's option" where
  "turns 0 body s = Some s"
| "turns (Suc n) body s =
     (case body s of Some (Ok _, s') \<Rightarrow> turns n body s' | _ \<Rightarrow> None)"

text \<open>An action that always succeeds and leaves the world alone.\<close>

definition quiet_ok :: "('w run_state, 'e, 'a) action \<Rightarrow> bool" where
  "quiet_ok m \<longleftrightarrow> (\<forall>s. \<exists>a s'. m s = (Ok a, s') \<and> rs_world s' = rs_world s)"

lemma quiet_okD: "quiet_ok m \<Longrightarrow> \<exists>a s'. m s = (Ok a, s') \<and> rs_world s' = rs_world s"
  by (simp add: quiet_ok_def)

lemma quiet_ok_bind:
  assumes "quiet_ok m" and "\<And>a. quiet_ok (f a)"
  shows "quiet_ok (act_bind m f)"
  unfolding quiet_ok_def
proof
  fix s
  from quiet_okD [OF assms(1)] obtain a s1 where
    m: "m s = (Ok a, s1)" "rs_world s1 = rs_world s" by metis
  from quiet_okD [OF assms(2)] obtain b s2 where
    f: "f a s1 = (Ok b, s2)" "rs_world s2 = rs_world s1" by metis
  from m f have "act_bind m f s = (Ok b, s2)" "rs_world s2 = rs_world s"
    by (simp_all add: act_bind_cases(1))
  then show "\<exists>b s2. act_bind m f s = (Ok b, s2) \<and> rs_world s2 = rs_world s" by iprover
qed

lemma quiet_ok_emit: "quiet_ok (emit E ev)"
  by (simp add: quiet_ok_def emit_def)

lemma quiet_ok_return: "quiet_ok (act_return a)"
  by (simp add: quiet_ok_def)

lemma quiet_ok_dispatch:
  assumes "en_dispatcher E = mock_dispatcher"
  shows "quiet_ok (dispatch_call E (pd_submit (en_dispatcher E) q))"
    and "quiet_ok (dispatch_call E (pd_wait (en_dispatcher E) h))"
    and "quiet_ok (dispatch_call E (pd_submit_aggregation (en_dispatcher E) ps))"
  by (simp_all add: assms quiet_ok_def dispatch_call_def mock_dispatcher_simps act_map_err_def on_world_def)

lemmas quiet_ok_intros = quiet_ok_bind quiet_ok_emit quiet_ok_return

lemma quiet_ok_beacon_requests:
  assumes "en_dispatcher E = mock_dispatcher"
  shows "quiet_ok (beacon_requests E rs ps)"
proof (induction rs arbitrary: ps)
  case Nil
  show ?case unfolding beacon_requests.simps by (rule quiet_ok_return)
next
  case (Cons r rs)
  show ?case
    unfolding beacon_requests.simps
    by (intro quiet_ok_intros quiet_ok_dispatch [OF assms] Cons.IH)
qed

lemma quiet_ok_beacon_aggregate:
  assumes "en_dispatcher E = mock_dispatcher"
  shows "quiet_ok (beacon_aggregate E a b ps)"
  unfolding beacon_aggregate_def
  by (auto intro!: quiet_ok_intros quiet_ok_dispatch [OF assms])

text \<open>A turn of a Beacon engine with mock parts is one announced and proved range.\<close>

definition mock_service :: "channel \<Rightarrow> build \<Rightarrow> engine_config \<Rightarrow> chain_state
    \<Rightarrow> ('w, mock_monitor_error, mock_dispatcher_error) engine" where
  "mock_service c m config state = fst (engine_new c config (mock_monitor m state) mock_dispatcher)"

lemma mock_service_parts:
  assumes "E = mock_service c m config st"
  shows
  "en_dispatcher E = mock_dispatcher"
  "en_config E = config"
  "en_event_tx E = c"
  "monitor_call E (cm_get_state (en_monitor E)) s
     = (Ok st, s)"
  "monitor_call E (cm_pending_range (en_monitor E)) s
     = (Ok (if cs_l2_proven_block st < cs_l2_safe_block st
            then Some (cs_l2_proven_block st + 1, cs_l2_safe_block st) else None), s)"
  by (simp_all add: assms mock_service_def engine_new_def monitor_call_def mock_monitor_def Let_def
      act_map_err_def on_world_def default_pending_range_def act_bind_def pending_of_state_eq)

lemma mock_beacon_turn:
  fixes s :: "'w run_state" and E :: "('w, mock_monitor_error, mock_dispatcher_error) engine"
  assumes E: "E = mock_service c m config st"
    and beacon: "ri_proof_mode (ec_intent config) = Beacon"
    and behind: "cs_l2_proven_block st < cs_l2_safe_block st"
    and plan: "plan_range m (ec_intent config) (cs_l2_proven_block st + 1) (cs_l2_safe_block st) st
       = Some (Ok rs)"
  shows "\<exists>s'. engine_iteration m sleep E s = Some (Ok (), s')
     \<and> emitted E s s' (beacon_trace (cs_l2_proven_block st + 1) (cs_l2_safe_block st) rs)
     \<and> rs_world s' = sleep (ec_poll_interval config) (rs_world s)"
proof -
  let ?a = "cs_l2_proven_block st + 1" and ?b = "cs_l2_safe_block st"
  note parts = mock_service_parts [OF E]
  define s1 where "s1 = snd (emit E (RangeDetected ?a ?b) s)"
  have head: "act_bind (emit E (RangeDetected ?a ?b)) (\<lambda>_. monitor_call E (cm_get_state (en_monitor E))) s
      = (Ok st, s1)" "rs_world s1 = rs_world s"
    by (simp_all add: act_bind_def emit_def s1_def parts(4))
  have sent1: "emitted E s s1 [RangeDetected ?a ?b]"
    by (simp add: s1_def emit_def emitted_def)
  let ?work = "act_bind (beacon_requests E rs []) (beacon_aggregate E ?a ?b)"
  have "quiet_ok ?work"
    by (intro quiet_ok_bind quiet_ok_beacon_requests quiet_ok_beacon_aggregate parts(1))
  from quiet_okD [OF this, of s1] obtain s2 where
    s2: "?work s1 = (Ok (), s2)" "rs_world s2 = rs_world s1" by auto
  have round: "beacon_round m E ?a ?b s = Some (Ok (), s2)"
    by (simp add: beacon_round_def head plan engine_plan_range_def parts(2) act_bind_cases(1) s2(1))
  let ?s' = "s2\<lparr>rs_world := sleep (ec_poll_interval config) (rs_world s2)\<rparr>"
  have "engine_iteration m sleep E s = Some (Ok (), ?s')"
    by (simp add: engine_iteration_def parts(2,5) beacon behind beacon_iteration_def round then_sleep_def)
  moreover have "emitted E s ?s' (beacon_trace ?a ?b rs)"
  proof -
    from sendsD [OF sends_beacon_work s2(1)] obtain es where "emitted E s1 s2 es"
      "es = concat (map range_events rs) @ aggregation_events ?a ?b (length rs)"
      by blast
    with emitted_trans [OF sent1] show ?thesis by (force simp: beacon_trace_def)
  qed
  ultimately show ?thesis
    using s2(2) head(2) by (intro exI [of _ ?s']) simp
qed

text \<open>
  C32: liveness of the service. A Beacon engine on the mock dispatcher, with a safe head
  ahead of the proven block and room for one more window below 2 to the 64, runs until it is
  cancelled; after any number of turns its log is that many copies of one turn's trace, whose
  proofs cover the pending range block by block.
\<close>

theorem mock_service_runs:
  fixes s :: "'w run_state" and E :: "('w, mock_monitor_error, mock_dispatcher_error) engine"
  assumes E: "E = mock_service c m config st"
    and beacon: "ri_proof_mode (ec_intent config) = Beacon"
    and behind: "cs_l2_proven_block st < cs_l2_safe_block st"
    and fits: "fits_u64 (unat (cs_l2_safe_block st) + unat (ri_aggregation_window (ec_intent config)))"
    and window: "0 < ri_aggregation_window (ec_intent config)"
  shows "engine_run m sleep E s = None
     \<and> (\<exists>rs. concat (map (\<lambda>r. [unat (req_l2_start_block r)..<Suc (unat (req_l2_end_block r))]) rs)
             = [Suc (unat (cs_l2_proven_block st))..<Suc (unat (cs_l2_safe_block st))]
        \<and> (\<forall>n. \<exists>t. turns n (engine_iteration m sleep E) s = Some t
             \<and> emitted E s t (concat (replicate n
                 (beacon_trace (cs_l2_proven_block st + 1) (cs_l2_safe_block st) rs)))))"
proof -
  let ?a = "cs_l2_proven_block st + 1" and ?b = "cs_l2_safe_block st"
  have a: "unat ?a = Suc (unat (cs_l2_proven_block st))" by (rule succ_u64_unat(2) [OF behind])
  then have "?a \<le> ?b" using behind by (simp add: word_le_nat_alt word_less_nat_alt)
  from plan_range_windows [OF fits window this, of m st] obtain rs where
    rs: "plan_range m (ec_intent config) ?a ?b st = Some (Ok rs)"
      "map request_range rs = windows (unat (ri_aggregation_window (ec_intent config))) (unat ?a) (unat ?b)"
    by blast
  have "0 < unat (ri_aggregation_window (ec_intent config))"
    using window by (simp add: word_less_nat_alt)
  from windows_partition [OF this, of "unat ?a" "unat ?b"]
  have cover: "concat (map (\<lambda>r. [unat (req_l2_start_block r)..<Suc (unat (req_l2_end_block r))]) rs)
      = [Suc (unat (cs_l2_proven_block st))..<Suc (unat ?b)]"
    by (simp only: rs(2) [unfolded a, symmetric] map_map o_def request_range_def prod.case a)
  note turn = mock_beacon_turn [OF E beacon behind rs(1), of sleep]
  have "run_loop (engine_iteration m sleep E) s = None"
    by (rule run_loop_forever [where I = "\<lambda>_. True"]) (use turn in blast)+
  moreover have "\<exists>t. turns n (engine_iteration m sleep E) s = Some t
      \<and> emitted E s t (concat (replicate n (beacon_trace ?a ?b rs)))" for n
  proof (induction n arbitrary: s)
    case (Suc n)
    from turn [of s] obtain u where
      u: "engine_iteration m sleep E s = Some (Ok (), u)" "emitted E s u (beacon_trace ?a ?b rs)" by blast
    from Suc.IH [of u] obtain t where
      "turns n (engine_iteration m sleep E) u = Some t"
      "emitted E u t (concat (replicate n (beacon_trace ?a ?b rs)))" by blast
    with u emitted_trans [OF u(2)] show ?case by (intro exI [of _ t]) simp
  qed simp
  ultimately show ?thesis
    using cover unfolding engine_run_loop by (intro conjI exI [of _ rs] allI)
qed

text \<open>A service that is two windows behind.\<close>

definition sample_config :: engine_config where
  "sample_config = \<lparr>ec_intent = intent_resolve Sp1 [] (0, 0) Maximum, ec_poll_interval = (12, 0), ec_max_concurrent_proofs = 1\<rparr>"

definition sample_state :: chain_state where
  "sample_state = \<lparr>cs_l1_head = 7, cs_l1_block_number = 40, cs_l2_proven_block = 500,
     cs_l2_safe_block = 700, cs_timestamp = (0, 0)\<rparr>"

definition sample_engine :: "(nat, mock_monitor_error, mock_dispatcher_error) engine" where
  "sample_engine = mock_service 0 Release sample_config sample_state"

theorem mock_service_runs_witness:
  "engine_run Release (\<lambda>_ w. Suc w) sample_engine \<lparr>rs_world = 0, rs_sent = []\<rparr> = None"
  by (rule mock_service_runs [THEN conjunct1, OF sample_engine_def]) (simp_all add: sample_config_def intent_resolve_def sample_state_def fits_u64_def)

lemma sample_turn:
  "\<exists>t. engine_iteration Release (\<lambda>_ w. Suc w) sample_engine \<lparr>rs_world = 0, rs_sent = []\<rparr> = Some (Ok (), t)"
proof -
  have "fits_u64 (unat (cs_l2_safe_block sample_state) + unat (ri_aggregation_window (ec_intent sample_config)))"
    "0 < ri_aggregation_window (ec_intent sample_config)"
    "cs_l2_proven_block sample_state + 1 \<le> cs_l2_safe_block sample_state"
    by (simp_all add: sample_config_def sample_state_def intent_resolve_def fits_u64_def)
  from plan_range_windows [OF this] obtain rs where "plan_range Release (ec_intent sample_config)
      (cs_l2_proven_block sample_state + 1) (cs_l2_safe_block sample_state) sample_state = Some (Ok rs)"
    by blast
  from mock_beacon_turn [OF sample_engine_def _ _ this, of "\<lambda>_ w. Suc w" "\<lparr>rs_world = 0, rs_sent = []\<rparr>"]
  show ?thesis
    by (auto simp: sample_config_def sample_state_def)
qed

theorem engine_event_protocol_witness:
  "\<exists>t. engine_iteration Release (\<lambda>_ w. Suc w) sample_engine \<lparr>rs_world = 0, rs_sent = []\<rparr> = Some (Ok (), t)
     \<and> (0, EngineErrorEvent ''x'') \<notin> set (rs_sent t)"
proof -
  let ?s = "\<lparr>rs_world = 0 :: nat, rs_sent = []\<rparr>"
  let ?body = "engine_iteration Release (\<lambda>_ w. Suc w) sample_engine"
  obtain t where t: "?body ?s = Some (Ok (), t)" using sample_turn ..
  then have "loop_visit ?body ?s t"
    by (blast intro: loop_visit.reached loop_reach.turn loop_reach.start)
  from engine_event_protocol [OF this, where msg = "''x''"] t show ?thesis by auto
qed

section \<open>Failing monitors\<close>

lemma beacon_poll_error:
  assumes "ri_proof_mode (ec_intent (en_config E)) = Beacon"
    and "cm_pending_range (en_monitor E) (rs_world s) = (Err e, w)"
  shows "engine_run m sleep E s =
     Some (Err (EngineMonitor (cm_error_to_string (en_monitor E) e)), s\<lparr>rs_world := w\<rparr>)"
proof -
  have "engine_iteration m sleep E s =
     Some (Err (EngineMonitor (cm_error_to_string (en_monitor E) e)), s\<lparr>rs_world := w\<rparr>)"
    by (simp add: engine_iteration_def assms beacon_iteration_def monitor_call_def on_world_def
        act_map_err_def then_sleep_def)
  then show ?thesis
    unfolding engine_run_loop by (subst run_loop.simps) simp
qed

lemma sentinel_quiet:
  fixes E :: "('w, 'e, 'x) engine"
  assumes "ri_proof_mode (ec_intent (en_config E)) = Sentinel"
    and "\<And>w. fst (cm_active_dispute (en_monitor E) w) = None"
  shows "engine_run m sleep E s = None"
    and "loop_visit (engine_iteration m sleep E) s t \<Longrightarrow> rs_sent t = rs_sent s"
proof -
  have turn: "\<exists>s'. engine_iteration m sleep E s = Some (Ok (), s') \<and> rs_sent s' = rs_sent s" for s
    using assms(2) [of "rs_world s"]
    by (cases "cm_active_dispute (en_monitor E) (rs_world s)")
      (simp add: engine_iteration_def assms(1) sentinel_iteration_def then_sleep_def)
  show "engine_run m sleep E s = None"
    unfolding engine_run_loop by (rule run_loop_forever [where I = "\<lambda>_. True"]) (use turn in blast)+
  have step: "rs_sent u' = rs_sent u" if "engine_iteration m sleep E u = Some (r, u')" for u r u'
    using turn [of u] that by auto
  show "rs_sent t = rs_sent s" if "loop_visit (engine_iteration m sleep E) s t"
    using that by (rule loop_visit_invariant [where I = "\<lambda>t. rs_sent t = rs_sent s"])
      (simp_all add: step)
qed

lemma skeleton_beacon_run:
  assumes "ri_proof_mode (ec_intent config) = Beacon"
  shows "engine_run m sleep
       (fst (engine_new c config (skeleton_monitor m' :: ('w, rpc_monitor_error) chain_monitor) dispatcher)) s =
      Some (Err (EngineMonitor (''L1 RPC error: RPC chain monitor not available ''
                   @ em_dash @ '' enable `rpc` feature'')), s)"
proof -
  let ?E = "fst (engine_new c config (skeleton_monitor m' :: ('w, rpc_monitor_error) chain_monitor) dispatcher)"
  have "cm_pending_range (en_monitor ?E) (rs_world s)
      = (Err (L1Rpc (''RPC chain monitor not available '' @ em_dash @ '' enable `rpc` feature'')), rs_world s)"
    by (simp add: engine_new_def skeleton_monitor_def default_pending_range_def skeleton_get_state_def
        act_bind_def)
  from beacon_poll_error [OF _ this] assms show ?thesis
    by (simp add: engine_new_def skeleton_monitor_def)
qed

lemma skeleton_sentinel_run:
  assumes "ri_proof_mode (ec_intent config) = Sentinel"
  shows "engine_run m sleep
       (fst (engine_new c config (skeleton_monitor m' :: ('w, rpc_monitor_error) chain_monitor) dispatcher)) s = None"
  by (rule sentinel_quiet(1)) (simp_all add: engine_new_def skeleton_monitor_def assms)

text \<open>
  An engine on the RPC monitor that is compiled without the \<open>rpc\<close> feature. In Beacon
  mode the run ends at the first poll with a monitor error that carries the monitor's message,
  its state, the log of events included, unchanged; in Sentinel mode it never ends.
\<close>

lemma skeleton_service:
  "engine_run m sleep
       (fst (engine_new c config (skeleton_monitor m' :: ('w, rpc_monitor_error) chain_monitor) dispatcher)) s =
      (case ri_proof_mode (ec_intent config) of
         Beacon \<Rightarrow> Some (Err (EngineMonitor (''L1 RPC error: RPC chain monitor not available ''
                      @ em_dash @ '' enable `rpc` feature'')), s)
       | Sentinel \<Rightarrow> None)"
  by (cases "ri_proof_mode (ec_intent config)") (simp_all add: skeleton_beacon_run skeleton_sentinel_run)

lemma engine_run_returns_witness:
  "\<exists>E e. loop_reach (engine_iteration Release (\<lambda>_ w. w :: nat)
         (E :: (nat, rpc_monitor_error, mock_dispatcher_error) engine))
       \<lparr>rs_world = 0, rs_sent = []\<rparr> \<lparr>rs_world = 0, rs_sent = []\<rparr>
     \<and> engine_run Release (\<lambda>_ w. w) E \<lparr>rs_world = 0, rs_sent = []\<rparr>
         = Some (Err (EngineMonitor e), \<lparr>rs_world = 0, rs_sent = []\<rparr>)
     \<and> Err (EngineMonitor e) \<noteq> (Ok () :: (engine_error, unit) outcome)"
proof -
  define E :: "(nat, rpc_monitor_error, mock_dispatcher_error) engine" where
    "E = fst (engine_new 0 sample_config (skeleton_monitor Release) mock_dispatcher)"
  have "ri_proof_mode (ec_intent sample_config) = Beacon" by (simp add: sample_config_def)
  from skeleton_beacon_run [OF this, of Release "\<lambda>_ w. w" 0 Release mock_dispatcher
      "\<lparr>rs_world = 0 :: nat, rs_sent = []\<rparr>"]
  obtain e where run: "engine_run Release (\<lambda>_ w. w) E \<lparr>rs_world = 0, rs_sent = []\<rparr>
      = Some (Err (EngineMonitor e), \<lparr>rs_world = 0, rs_sent = []\<rparr>)"
    unfolding E_def by blast
  from engine_run_returns [OF run] run show ?thesis
    by (intro exI [of _ E] exI [of _ e]) (auto intro: loop_reach.start)
qed

text \<open>The receiver field has no influence on a turn.\<close>

lemma receiver_calls [simp]:
  "emit (E\<lparr>en_event_rx := rx\<rparr>) = emit E"
  "monitor_call (E\<lparr>en_event_rx := rx\<rparr>) q = monitor_call E q"
  "dispatch_call (E\<lparr>en_event_rx := rx\<rparr>) q' = dispatch_call E q'"
  by (simp_all add: fun_eq_iff emit_def monitor_call_def dispatch_call_def)

lemma receiver_requests [simp]:
  "beacon_requests (E\<lparr>en_event_rx := rx\<rparr>) rs ps = beacon_requests E rs ps"
  "sentinel_requests (E\<lparr>en_event_rx := rx\<rparr>) rs = sentinel_requests E rs"
  by (induction rs arbitrary: ps) simp_all

lemma receiver_aggregate [simp]:
  "beacon_aggregate (E\<lparr>en_event_rx := rx\<rparr>) a b = beacon_aggregate E a b"
  by (simp add: fun_eq_iff beacon_aggregate_def)

lemma receiver_rounds [simp]:
  "beacon_round m (E\<lparr>en_event_rx := rx\<rparr>) a b = beacon_round m E a b"
  "sentinel_round m (E\<lparr>en_event_rx := rx\<rparr>) d = sentinel_round m E d"
  by (simp_all add: fun_eq_iff beacon_round_def sentinel_round_def
      engine_plan_range_def cong: prod.case_cong outcome.case_cong option.case_cong)

lemma receiver_sleep [simp]: "then_sleep sleep (E\<lparr>en_event_rx := rx\<rparr>) = then_sleep sleep E"
  by (auto simp: fun_eq_iff then_sleep_def split: outcome.splits)

lemma receiver_irrelevant [simp]:
  "engine_iteration m sleep (E\<lparr>en_event_rx := rx\<rparr>) = engine_iteration m sleep E"
  by (simp add: fun_eq_iff engine_iteration_def beacon_iteration_def sentinel_iteration_def
      split: proof_mode.splits cong: prod.case_cong outcome.case_cong option.case_cong)

text \<open>
  The event receiver. The first receiver taken from a new engine is the channel the
  engine sends on, and every event of a run arrives there; a receiver taken a second time is
  a placeholder that no event of any run reaches.
\<close>

lemma receiver_taken_twice:
  assumes "engine_new fresh config mon dispatcher = (E, f1)"
    and "take_event_receiver f1 E = (rx1, E1, f2)" and "take_event_receiver f2 E1 = (rx2, E2, f3)"
    and "loop_visit (engine_iteration m sleep E2) s t" and "rs_sent s = []"
  shows "rx1 = event_sender E2 \<and> map snd (filter (\<lambda>x. fst x = rx1) (rs_sent t)) = map snd (rs_sent t)
     \<and> filter (\<lambda>x. fst x = rx2) (rs_sent t) = []"
proof -
  have tx: "en_event_tx E2 = fresh" "rx1 = fresh" "rx2 = Suc fresh"
    using assms(1-3) by (auto simp: engine_new_def take_event_receiver_def Let_def)
  from loop_visit_log [OF assms(4,5)] have "fst ` set (rs_sent t) \<subseteq> {fresh}"
    by (auto simp: log_ok_def tx)
  then have "filter (\<lambda>x. fst x = fresh) (rs_sent t) = rs_sent t"
    "filter (\<lambda>x. fst x = Suc fresh) (rs_sent t) = []"
    by (auto simp: filter_id_conv filter_empty_conv)
  then show ?thesis
    by (simp add: event_sender_def tx)
qed

lemma receiver_taken_twice_witness:
  "\<exists>t. engine_iteration Release (\<lambda>_ w. Suc w) (sample_engine\<lparr>en_event_rx := 2\<rparr>)
         \<lparr>rs_world = 0, rs_sent = []\<rparr> = Some (Ok (), t)
     \<and> filter (\<lambda>x. fst x = 1) (rs_sent t) = []"
proof -
  let ?s = "\<lparr>rs_world = 0 :: nat, rs_sent = []\<rparr>"
  let ?E = "sample_engine\<lparr>en_event_rx := 1\<rparr>" and ?F = "sample_engine\<lparr>en_event_rx := 2\<rparr>"
  have new: "engine_new 0 sample_config (mock_monitor Release sample_state) mock_dispatcher = (sample_engine, 1)"
    by (simp add: sample_engine_def mock_service_def engine_new_def)
  have take: "take_event_receiver 1 sample_engine = (0, ?E, 2)" "take_event_receiver 2 ?E = (1, ?F, 3)"
    by (simp_all add: take_event_receiver_def sample_engine_def mock_service_def engine_new_def)
  obtain t where t: "engine_iteration Release (\<lambda>_ w. Suc w) ?F ?s = Some (Ok (), t)"
    using sample_turn by auto
  then have "loop_visit (engine_iteration Release (\<lambda>_ w. Suc w) ?F) ?s t"
    by (blast intro: loop_visit.reached loop_reach.turn loop_reach.start)
  from receiver_taken_twice [OF new take this] t show ?thesis by auto
qed

end
