(* ===== verification/Engine_Steps.thy ===== *)
theory Engine_Steps
  imports Engine_Props
begin

text \<open>
  The engine of crates/orchestrator/src/engine.rs between its await points.  A dropped future
  stops at one of them, in the middle of a turn; the control state says at which, and with which
  local variables.  The small steps are shown equivalent to the turns of \<open>Engine\<close>, and the
  phases of the event protocol to abstract the control state.
\<close>

section \<open>Await points\<close>

datatype control =
    Polling
  | Snapshot u64 u64
  | Submitting u64 u64 proof_request "proof_request list" "proof_artifact list"
  | Waiting u64 u64 proof_request proof_job_handle "proof_request list" "proof_artifact list"
  | SubmittingAll u64 u64 "proof_artifact list"
  | WaitingAll u64 u64 proof_job_handle
  | DisputeSnapshot dispute_info
  | DisputeSubmitting dispute_info proof_request "proof_request list"
  | DisputeWaiting dispute_info proof_job_handle "proof_request list"
  | Sleeping
  | Stopped "(engine_error, unit) outcome"

definition sent :: "('w, 'e, 'x) engine \<Rightarrow> engine_event \<Rightarrow> 'w run_state \<Rightarrow> 'w run_state" where
  "sent E ev s = s\<lparr>rs_sent := rs_sent s @ [(en_event_tx E, ev)]\<rparr>"

text \<open>What follows an awaited call: the rest of the code, or the return by \<open>?\<close>.\<close>

definition resume ::
  "(engine_error, 'a) outcome \<times> 's \<Rightarrow> ('a \<Rightarrow> 's \<Rightarrow> control \<times> 's) \<Rightarrow> control \<times> 's" where
  "resume called continue =
     (case called of
        (Ok a, s) \<Rightarrow> continue a s
      | (Err e, s) \<Rightarrow> (Stopped (Err e), s)
      | (Panic p, s) \<Rightarrow> (Stopped (Panic p), s))"

text \<open>The loop over the planned requests, up to its next await, and the code after it.\<close>

fun next_proof ::
  "('w, 'e, 'x) engine \<Rightarrow> u64 \<Rightarrow> u64 \<Rightarrow> proof_request list \<Rightarrow> proof_artifact list \<Rightarrow> 'w run_state
     \<Rightarrow> control \<times> 'w run_state" where
  "next_proof E start end_block (request # requests) range_proofs s =
     (Submitting start end_block request requests range_proofs,
      sent E (ProofStarted (req_l2_start_block request) (req_l2_end_block request)) s)"
| "next_proof E start end_block [] range_proofs s =
     (if 1 < length range_proofs
      then (SubmittingAll start end_block range_proofs, sent E (AggregationStarted (length range_proofs)) s)
      else (Sleeping, s))"

fun next_dispute_proof ::
  "('w, 'e, 'x) engine \<Rightarrow> dispute_info \<Rightarrow> proof_request list \<Rightarrow> 'w run_state \<Rightarrow> control \<times> 'w run_state" where
  "next_dispute_proof E dispute (request # requests) s = (DisputeSubmitting dispute request requests, s)"
| "next_dispute_proof E dispute [] s =
     (Sleeping, sent E (DisputeResolved (di_start_block dispute) (di_end_block dispute)) s)"

text \<open>The planning after a snapshot, which may never return.\<close>

definition plan_and_then ::
  "build \<Rightarrow> ('w, 'e, 'x) engine \<Rightarrow> u64 \<Rightarrow> u64 \<Rightarrow> (proof_request list \<Rightarrow> 'w run_state \<Rightarrow> control \<times> 'w run_state)
     \<Rightarrow> 'w run_state \<Rightarrow> (control \<times> 'w run_state) option" where
  "plan_and_then m E start end_block continue s =
     (case monitor_call E (cm_get_state (en_monitor E)) s of
        (Ok state, s1) \<Rightarrow>
          (case engine_plan_range m E start end_block state of
             None \<Rightarrow> None
           | Some plan \<Rightarrow> Some (resume (plan, s1) continue))
      | (Err e, s1) \<Rightarrow> Some (Stopped (Err e), s1)
      | (Panic p, s1) \<Rightarrow> Some (Stopped (Panic p), s1))"

text \<open>The awaited future completes and the code runs to the next await.\<close>

fun engine_resume ::
  "build \<Rightarrow> (duration \<Rightarrow> 'w \<Rightarrow> 'w) \<Rightarrow> ('w, 'e, 'x) engine \<Rightarrow> control \<Rightarrow> 'w run_state
     \<Rightarrow> (control \<times> 'w run_state) option" where
  "engine_resume m sleep E Polling s =
     Some (case ri_proof_mode (ec_intent (en_config E)) of
        Beacon \<Rightarrow>
          resume (monitor_call E (cm_pending_range (en_monitor E)) s) (\<lambda>range s.
            case range of
              Some (start, end_block) \<Rightarrow> (Snapshot start end_block, sent E (RangeDetected start end_block) s)
            | None \<Rightarrow> (Sleeping, s))
      | Sentinel \<Rightarrow>
          (case cm_active_dispute (en_monitor E) (rs_world s) of
             (Some dispute, w1) \<Rightarrow>
               (DisputeSnapshot dispute,
                sent E (DisputeDetected (di_start_block dispute) (di_end_block dispute)) (s\<lparr>rs_world := w1\<rparr>))
           | (None, w1) \<Rightarrow> (Sleeping, s\<lparr>rs_world := w1\<rparr>)))"
| "engine_resume m sleep E (Snapshot start end_block) s =
     plan_and_then m E start end_block (\<lambda>requests. next_proof E start end_block requests []) s"
| "engine_resume m sleep E (Submitting start end_block request requests range_proofs) s =
     Some (resume (dispatch_call E (pd_submit (en_dispatcher E) request) s) (\<lambda>handle s.
       (Waiting start end_block request handle requests range_proofs, s)))"
| "engine_resume m sleep E (Waiting start end_block request handle requests range_proofs) s =
     Some (resume (dispatch_call E (pd_wait (en_dispatcher E) handle) s) (\<lambda>proof s.
       next_proof E start end_block requests (range_proofs @ [proof])
         (sent E (ProofCompleted (req_l2_start_block request) (req_l2_end_block request)) s)))"
| "engine_resume m sleep E (SubmittingAll start end_block range_proofs) s =
     Some (resume (dispatch_call E (pd_submit_aggregation (en_dispatcher E) range_proofs) s) (\<lambda>agg_handle s.
       (WaitingAll start end_block agg_handle, s)))"
| "engine_resume m sleep E (WaitingAll start end_block agg_handle) s =
     Some (resume (dispatch_call E (pd_wait (en_dispatcher E) agg_handle) s) (\<lambda>_ s.
       (Sleeping, sent E (AggregationCompleted start end_block) s)))"
| "engine_resume m sleep E (DisputeSnapshot dispute) s =
     plan_and_then m E (di_start_block dispute) (di_end_block dispute) (next_dispute_proof E dispute) s"
| "engine_resume m sleep E (DisputeSubmitting dispute request requests) s =
     Some (resume (dispatch_call E (pd_submit (en_dispatcher E) request) s) (\<lambda>handle s.
       (DisputeWaiting dispute handle requests, s)))"
| "engine_resume m sleep E (DisputeWaiting dispute handle requests) s =
     Some (resume (dispatch_call E (pd_wait (en_dispatcher E) handle) s) (\<lambda>_ s.
       next_dispute_proof E dispute requests s))"
| "engine_resume m sleep E Sleeping s =
     Some (Polling, s\<lparr>rs_world := sleep (ec_poll_interval (en_config E)) (rs_world s)\<rparr>)"
| "engine_resume m sleep E (Stopped r) s = None"

inductive engine_at ::
  "build \<Rightarrow> (duration \<Rightarrow> 'w \<Rightarrow> 'w) \<Rightarrow> ('w, 'e, 'x) engine \<Rightarrow> 'w run_state \<Rightarrow> control \<Rightarrow> 'w run_state \<Rightarrow> bool"
  for m sleep E s0 where
  begins: "engine_at m sleep E s0 Polling s0"
| resumes: "engine_at m sleep E s0 c s \<Longrightarrow> engine_resume m sleep E c s = Some (c', s') \<Longrightarrow> engine_at m sleep E s0 c' s'"

section \<open>The rest of a turn\<close>

text \<open>What is left of the turn at an await point, in terms of the turn's own parts.\<close>

definition rest_of_proofs ::
  "('w, 'e, 'x) engine \<Rightarrow> u64 \<Rightarrow> u64 \<Rightarrow> proof_request list \<Rightarrow> proof_artifact list
     \<Rightarrow> ('w run_state, engine_error, unit) action" where
  "rest_of_proofs E a b rs ps = act_bind (beacon_requests E rs ps) (beacon_aggregate E a b)"

definition rest_of_dispute ::
  "('w, 'e, 'x) engine \<Rightarrow> dispute_info \<Rightarrow> proof_request list \<Rightarrow> ('w run_state, engine_error, unit) action" where
  "rest_of_dispute E d rs = act_bind (sentinel_requests E rs)
     (\<lambda>_. emit E (DisputeResolved (di_start_block d) (di_end_block d)))"

definition planned ::
  "build \<Rightarrow> ('w, 'e, 'x) engine \<Rightarrow> u64 \<Rightarrow> u64 \<Rightarrow> (proof_request list \<Rightarrow> ('w run_state, engine_error, unit) action)
     \<Rightarrow> 'w run_state \<Rightarrow> ((engine_error, unit) outcome \<times> 'w run_state) option" where
  "planned m E a b k s =
     (case monitor_call E (cm_get_state (en_monitor E)) s of
        (Ok state, s1) \<Rightarrow> map_option (\<lambda>plan. act_bind (act_lift plan) k s1) (engine_plan_range m E a b state)
      | (Err e, s1) \<Rightarrow> Some (Err e, s1)
      | (Panic p, s1) \<Rightarrow> Some (Panic p, s1))"

fun remaining ::
  "build \<Rightarrow> (duration \<Rightarrow> 'w \<Rightarrow> 'w) \<Rightarrow> ('w, 'e, 'x) engine \<Rightarrow> control \<Rightarrow> 'w run_state
     \<Rightarrow> ((engine_error, unit) outcome \<times> 'w run_state) option" where
  "remaining m sleep E Polling s = engine_iteration m sleep E s"
| "remaining m sleep E (Snapshot a b) s =
     map_option (then_sleep sleep E) (planned m E a b (\<lambda>rs. rest_of_proofs E a b rs []) s)"
| "remaining m sleep E (Submitting a b r rs ps) s =
     Some (then_sleep sleep E (act_bind (dispatch_call E (pd_submit (en_dispatcher E) r)) (\<lambda>h.
       act_bind (dispatch_call E (pd_wait (en_dispatcher E) h)) (\<lambda>p.
       act_bind (emit E (ProofCompleted (req_l2_start_block r) (req_l2_end_block r))) (\<lambda>_.
       rest_of_proofs E a b rs (ps @ [p])))) s))"
| "remaining m sleep E (Waiting a b r h rs ps) s =
     Some (then_sleep sleep E (act_bind (dispatch_call E (pd_wait (en_dispatcher E) h)) (\<lambda>p.
       act_bind (emit E (ProofCompleted (req_l2_start_block r) (req_l2_end_block r))) (\<lambda>_.
       rest_of_proofs E a b rs (ps @ [p]))) s))"
| "remaining m sleep E (SubmittingAll a b ps) s =
     Some (then_sleep sleep E (act_bind (dispatch_call E (pd_submit_aggregation (en_dispatcher E) ps)) (\<lambda>h.
       act_bind (dispatch_call E (pd_wait (en_dispatcher E) h)) (\<lambda>_. emit E (AggregationCompleted a b))) s))"
| "remaining m sleep E (WaitingAll a b h) s =
     Some (then_sleep sleep E (act_bind (dispatch_call E (pd_wait (en_dispatcher E) h))
       (\<lambda>_. emit E (AggregationCompleted a b)) s))"
| "remaining m sleep E (DisputeSnapshot d) s =
     map_option (then_sleep sleep E) (planned m E (di_start_block d) (di_end_block d) (rest_of_dispute E d) s)"
| "remaining m sleep E (DisputeSubmitting d r rs) s =
     Some (then_sleep sleep E (act_bind (dispatch_call E (pd_submit (en_dispatcher E) r)) (\<lambda>h.
       act_bind (dispatch_call E (pd_wait (en_dispatcher E) h)) (\<lambda>_. rest_of_dispute E d rs)) s))"
| "remaining m sleep E (DisputeWaiting d h rs) s =
     Some (then_sleep sleep E (act_bind (dispatch_call E (pd_wait (en_dispatcher E) h)) (\<lambda>_. rest_of_dispute E d rs) s))"
| "remaining m sleep E Sleeping s = Some (then_sleep sleep E (Ok (), s))"
| "remaining m sleep E (Stopped r) s = Some (r, s)"

lemma emit_bind [simp]: "act_bind (emit E ev) f s = f () (sent E ev s)"
  by (simp add: act_bind_def emit_def sent_def)

lemma emit_sent: "emit E ev s = (Ok (), sent E ev s)"
  by (simp add: emit_def sent_def)

lemma return_bind [simp]: "act_bind (act_return a) f = f a"
  by (simp add: fun_eq_iff act_bind_def)

lemma then_sleep_stops [simp]:
  "then_sleep sleep E (Err e, s) = (Err e, s)"
  "then_sleep sleep E (Panic p, s) = (Panic p, s)"
  by (simp_all add: then_sleep_def)

lemma remaining_next_proof:
  "next_proof E a b rs ps s = (c', s') \<Longrightarrow>
     remaining m sleep E c' s' = Some (then_sleep sleep E (rest_of_proofs E a b rs ps s))"
  by (cases rs)
    (auto simp: rest_of_proofs_def act_bind_assoc beacon_aggregate_def split: if_splits)

lemma remaining_next_dispute_proof:
  "next_dispute_proof E d rs s = (c', s') \<Longrightarrow>
     remaining m sleep E c' s' = Some (then_sleep sleep E (rest_of_dispute E d rs s))"
  by (cases rs) (auto simp: rest_of_dispute_def act_bind_assoc emit_sent)

lemma remaining_resume:
  assumes "resume (call s) k = (c', s')"
    and "\<And>a t c t'. k a t = (c, t') \<Longrightarrow> remaining m sleep E c t' = Some (then_sleep sleep E (f a t))"
  shows "remaining m sleep E c' s' = Some (then_sleep sleep E (act_bind call f s))"
  using assms by (auto simp: resume_def act_bind_def split: prod.splits outcome.splits)

lemma remaining_awaited:
  assumes "engine_resume m sleep E c s = Some (resume (call s) k)"
    and "\<And>a t c t'. k a t = (c, t') \<Longrightarrow> remaining m sleep E c t' = Some (then_sleep sleep E (f a t))"
  shows "Some (then_sleep sleep E (act_bind call f s)) =
     (case engine_resume m sleep E c s of None \<Rightarrow> None | Some (c', s') \<Rightarrow> remaining m sleep E c' s')"
proof -
  obtain c' s' where r: "resume (call s) k = (c', s')" by (cases "resume (call s) k")
  show ?thesis unfolding assms(1) r option.case prod.case
    by (rule sym, rule remaining_resume [where call = call and k = k, OF r]) (rule assms(2))
qed

lemma remaining_plan:
  assumes "\<And>rs t c t'. k rs t = (c, t') \<Longrightarrow> remaining m sleep E c t' = Some (then_sleep sleep E (f rs t))"
  shows "(case plan_and_then m E a b k s of None \<Rightarrow> None | Some (c', s') \<Rightarrow> remaining m sleep E c' s')
      = map_option (then_sleep sleep E) (planned m E a b f s)"
proof -
  have "remaining m sleep E c' t' = Some (then_sleep sleep E (act_bind (act_lift plan) f t))"
    if "resume (plan, t) k = (c', t')" for plan t c' t'
    by (rule remaining_resume [where call = "act_lift plan"]) (use that assms in simp_all)
  then show ?thesis
    by (auto simp: plan_and_then_def planned_def split: prod.splits outcome.splits option.splits)
qed

lemma rounds_planned:
  "beacon_round m E a b s = planned m E a b (\<lambda>rs. rest_of_proofs E a b rs []) (sent E (RangeDetected a b) s)"
  "sentinel_round m E d s = planned m E (di_start_block d) (di_end_block d) (rest_of_dispute E d)
     (sent E (DisputeDetected (di_start_block d) (di_end_block d)) s)"
  by (auto simp: beacon_round_def sentinel_round_def planned_def rest_of_proofs_def rest_of_dispute_def [abs_def]
      split: prod.splits outcome.splits option.splits)

text \<open>A step inside a turn leaves the rest of the turn as it is; a diverging one has no rest.\<close>

lemma remaining_Polling:
  assumes "engine_resume m sleep E Polling s = Some (c', s')"
  shows "remaining m sleep E c' s' = engine_iteration m sleep E s"
proof (cases "ri_proof_mode (ec_intent (en_config E))")
  case Beacon
  with assms show ?thesis
    by (auto simp: engine_iteration_def beacon_iteration_def rounds_planned resume_def
        split: prod.splits outcome.splits option.splits)
next
  case Sentinel
  with assms show ?thesis
    by (auto simp: engine_iteration_def sentinel_iteration_def rounds_planned
        split: prod.splits option.splits)
qed

lemma remaining_step:
  assumes "c \<noteq> Sleeping" and "\<And>r. c \<noteq> Stopped r"
  shows "remaining m sleep E c s =
     (case engine_resume m sleep E c s of None \<Rightarrow> None | Some (c', s') \<Rightarrow> remaining m sleep E c' s')"
proof (cases c)
  case Polling
  obtain c' s' where "engine_resume m sleep E Polling s = Some (c', s')" by (cases "the (engine_resume m sleep E Polling s)") simp
  with Polling remaining_Polling show ?thesis by fastforce
next
  case (Snapshot a b)
  then show ?thesis by (simp add: remaining_plan [OF remaining_next_proof])
next
  case (DisputeSnapshot d)
  then show ?thesis by (simp add: remaining_plan [OF remaining_next_dispute_proof])
next
  case (Submitting a b r rs ps)
  show ?thesis
    unfolding Submitting remaining.simps
    by (rule remaining_awaited [where call = "dispatch_call E (pd_submit (en_dispatcher E) r)"], rule engine_resume.simps) (auto simp: remaining.simps)
next
  case (Waiting a b r h rs ps)
  show ?thesis
    unfolding Waiting remaining.simps
    by (rule remaining_awaited [where call = "dispatch_call E (pd_wait (en_dispatcher E) h)"], rule engine_resume.simps) (auto simp: remaining_next_proof)
next
  case (SubmittingAll a b ps)
  show ?thesis
    unfolding SubmittingAll remaining.simps
    by (rule remaining_awaited [where call = "dispatch_call E (pd_submit_aggregation (en_dispatcher E) ps)"], rule engine_resume.simps) (auto simp: remaining.simps)
next
  case (WaitingAll a b h)
  show ?thesis
    unfolding WaitingAll remaining.simps
    by (rule remaining_awaited [where call = "dispatch_call E (pd_wait (en_dispatcher E) h)"], rule engine_resume.simps) (auto simp: emit_sent)
next
  case (DisputeSubmitting d r rs)
  show ?thesis
    unfolding DisputeSubmitting remaining.simps
    by (rule remaining_awaited [where call = "dispatch_call E (pd_submit (en_dispatcher E) r)"], rule engine_resume.simps) (auto simp: remaining.simps)
next
  case (DisputeWaiting d h rs)
  show ?thesis
    unfolding DisputeWaiting remaining.simps
    by (rule remaining_awaited [where call = "dispatch_call E (pd_wait (en_dispatcher E) h)"], rule engine_resume.simps) (auto simp: remaining_next_dispute_proof)
qed (use assms in simp_all)

section \<open>Steps and turns\<close>

text \<open>Inside a turn every step leaves less to do.\<close>

fun stage :: "control \<Rightarrow> nat" where
  "stage Polling = 3"
| "stage (Snapshot _ _) = 2"
| "stage (DisputeSnapshot _) = 2"
| "stage Sleeping = 0"
| "stage (Stopped _) = 0"
| "stage _ = 1"

fun awaits_left :: "control \<Rightarrow> nat" where
  "awaits_left (Submitting _ _ _ rs _) = 2 * length rs + 4"
| "awaits_left (Waiting _ _ _ _ rs _) = 2 * length rs + 3"
| "awaits_left (SubmittingAll _ _ _) = 2"
| "awaits_left (WaitingAll _ _ _) = 1"
| "awaits_left (DisputeSubmitting _ _ rs) = 2 * length rs + 2"
| "awaits_left (DisputeWaiting _ _ rs) = 2 * length rs + 1"
| "awaits_left _ = 0"

lemma next_proof_progress:
  "next_proof E a b rs ps s = (c', s') \<Longrightarrow> stage c' \<le> 1 \<and> (stage c' = 1 \<longrightarrow> awaits_left c' \<le> 2 * length rs + 2)"
  by (cases rs) (auto split: if_splits)

lemma next_dispute_proof_progress:
  "next_dispute_proof E d rs s = (c', s') \<Longrightarrow> stage c' \<le> 1 \<and> (stage c' = 1 \<longrightarrow> awaits_left c' \<le> 2 * length rs)"
  by (cases rs) auto

lemma resume_progress:
  assumes "resume x k = (c', s')" and "\<And>a t c t'. k a t = (c, t') \<Longrightarrow> P c" and "\<And>r. P (Stopped r)"
  shows "P c'"
  using assms by (auto simp: resume_def split: prod.splits outcome.splits)

lemma plan_progress:
  assumes "plan_and_then m E a b k s = Some (c', s')"
    and "\<And>rs t c t'. k rs t = (c, t') \<Longrightarrow> P c" and "\<And>r. P (Stopped r)"
  shows "P c'"
  using assms resume_progress [of _ k c' s' P]
  by (auto simp: plan_and_then_def split: prod.splits outcome.splits option.splits)

lemma step_progress:
  assumes "engine_resume m sleep E c s = Some (c', s')" and "c \<noteq> Sleeping"
  shows "(c', c) \<in> measures [stage, awaits_left]"
proof -
  note progress = resume_progress [where P = "\<lambda>c'. (c', c) \<in> measures [stage, awaits_left]"]
    and planning = plan_progress [where P = "\<lambda>c'. (c', c) \<in> measures [stage, awaits_left]"]
  show ?thesis
proof (cases c)
  case Polling
  show ?thesis
  proof (cases "ri_proof_mode (ec_intent (en_config E))")
    case Beacon
    from assms(1) [unfolded Polling engine_resume.simps Beacon proof_mode.case option.inject] show ?thesis
      by (rule progress) (auto simp: Polling split: option.splits prod.splits)
  qed (use assms(1) Polling in \<open>auto split: prod.splits option.splits\<close>)
next
  case (Snapshot a b)
  from assms(1) [unfolded Snapshot, unfolded engine_resume.simps] show ?thesis
    by (rule planning) (auto simp: Snapshot dest: next_proof_progress)
next
  case (DisputeSnapshot d)
  from assms(1) [unfolded DisputeSnapshot, unfolded engine_resume.simps] show ?thesis
    by (rule planning) (auto simp: DisputeSnapshot dest: next_dispute_proof_progress)
next
  case (Waiting a b r h rs ps)
  from assms(1) [unfolded Waiting, unfolded engine_resume.simps option.inject] show ?thesis
    by (rule progress) (auto simp: Waiting le_less dest!: next_proof_progress)
next
  case (DisputeWaiting d h rs)
  from assms(1) [unfolded DisputeWaiting, unfolded engine_resume.simps option.inject] show ?thesis
    by (rule progress) (auto simp: DisputeWaiting le_less dest!: next_dispute_proof_progress)
qed (use assms in \<open>auto simp: resume_def split: prod.splits outcome.splits\<close>)
qed

lemma never_stops_well:
  assumes "engine_at m sleep E s0 c s"
  shows "c \<noteq> Stopped (Ok ())"
proof -
  have "c' \<noteq> Stopped (Ok ())" if "engine_resume m sleep E c s = Some (c', s')" for c s c' s'
  proof -
    have next_ok: "next_proof E a b rs ps t = (c, t') \<Longrightarrow> c \<noteq> Stopped r"
      "next_dispute_proof E d rs t = (c, t') \<Longrightarrow> c \<noteq> Stopped r" for a b rs ps t c t' d r
      by (cases rs; auto split: if_splits)+
    show ?thesis
      using that
      by (cases c) (auto simp: resume_def plan_and_then_def next_ok
          split: proof_mode.splits prod.splits outcome.splits option.splits)
  qed
  with assms show ?thesis by (cases rule: engine_at.cases) auto
qed

text \<open>So a turn's result is where its steps lead: to the next poll, or to the end of the service.\<close>

lemma turn_steps:
  assumes "engine_at m sleep E s0 c s" and "remaining m sleep E c s = Some (r, t)"
  shows "if r = Ok () then engine_at m sleep E s0 Polling t else engine_at m sleep E s0 (Stopped r) t"
  using assms
proof (induction c arbitrary: s rule: wf_induct_rule [OF wf_measures [of "[stage, awaits_left]"]])
  case (1 c)
  note at = 1(2) and left = 1(3)
  consider (sleeping) "c = Sleeping" | (stopped) r' where "c = Stopped r'"
    | (inside) "c \<noteq> Sleeping" "\<And>r'. c \<noteq> Stopped r'" by blast
  then show ?case
  proof cases
    case sleeping
    with left have "r = Ok ()" "engine_resume m sleep E c s = Some (Polling, t)" by (auto simp: then_sleep_def)
    with engine_at.resumes [OF at this(2)] show ?thesis by simp
  next
    case stopped
    with left at never_stops_well [OF at] show ?thesis by auto
  next
    case inside
    from left [unfolded remaining_step [OF inside]] obtain c' s' where
      step: "engine_resume m sleep E c s = Some (c', s')" and rest: "remaining m sleep E c' s' = Some (r, t)"
      by (auto split: option.splits)
    from 1(1) [OF step_progress [OF step inside(1)] engine_at.resumes [OF at step] rest] show ?thesis by blast
  qed
qed

lemma steps_turn:
  assumes "engine_at m sleep E s0 c s"
  shows "\<exists>u. loop_reach (engine_iteration m sleep E) s0 u
     \<and> remaining m sleep E c s = engine_iteration m sleep E u \<and> (c = Polling \<longrightarrow> s = u)"
  using assms
proof (induction rule: engine_at.induct)
  case begins
  show ?case by (intro exI [of _ s0]) (simp add: loop_reach.start)
next
  case (resumes c s c' s')
  then obtain u where u: "loop_reach (engine_iteration m sleep E) s0 u"
      "remaining m sleep E c s = engine_iteration m sleep E u" by blast
  show ?case
  proof (cases "c = Sleeping")
    case True
    with resumes.hyps(2) u(2) have "c' = Polling" "engine_iteration m sleep E u = Some (Ok (), s')"
      by (auto simp: then_sleep_def)
    with loop_reach.turn [OF u(1)] show ?thesis by (intro exI [of _ s']) simp
  next
    case False
    have "c' \<noteq> Polling"
      using step_progress [OF resumes.hyps(2) False] by (cases c) auto
    moreover have "c \<noteq> Stopped r" for r using resumes.hyps(2) by auto
    ultimately show ?thesis
      using u remaining_step [OF False, of m sleep E s] resumes.hyps(2) by (intro exI [of _ u]) simp
  qed
qed

lemma reached_polling: "engine_at m sleep E s Polling t \<longleftrightarrow> loop_reach (engine_iteration m sleep E) s t"
proof
  show "loop_reach (engine_iteration m sleep E) s t" if "engine_at m sleep E s Polling t"
    using steps_turn [OF that] by blast
  assume "loop_reach (engine_iteration m sleep E) s t"
  then show "engine_at m sleep E s Polling t"
  proof (induction rule: loop_reach.induct)
    case (turn t t')
    from turn_steps [OF turn.IH, of "Ok ()" t'] turn.hyps(2) show ?case by simp
  qed (rule engine_at.begins)
qed

lemma reached_stopped:
  "engine_at m sleep E s (Stopped r) t \<longleftrightarrow>
     r \<noteq> Ok () \<and> (\<exists>u. loop_reach (engine_iteration m sleep E) s u \<and> engine_iteration m sleep E u = Some (r, t))"
proof
  assume at: "engine_at m sleep E s (Stopped r) t"
  from steps_turn [OF at] never_stops_well [OF at]
  show "r \<noteq> Ok () \<and> (\<exists>u. loop_reach (engine_iteration m sleep E) s u \<and> engine_iteration m sleep E u = Some (r, t))"
    by auto
next
  assume "r \<noteq> Ok () \<and> (\<exists>u. loop_reach (engine_iteration m sleep E) s u \<and> engine_iteration m sleep E u = Some (r, t))"
  then obtain u where "r \<noteq> Ok ()" "engine_at m sleep E s Polling u" "engine_iteration m sleep E u = Some (r, t)"
    unfolding reached_polling by blast
  with turn_steps [OF this(2), of r t] show "engine_at m sleep E s (Stopped r) t" by simp
qed

lemma run_loop_reach:
  assumes "loop_reach body s t"
  shows "run_loop body s = run_loop body t"
  using assms
proof (induction rule: loop_reach.induct)
  case (turn t t')
  from turn.hyps(2) have "run_loop body t = run_loop body t'" by (subst run_loop.simps) simp
  with turn.IH show ?case by simp
qed simp

lemma engine_run_at: "engine_run m sleep E s = Some (r, t) \<longleftrightarrow> engine_at m sleep E s (Stopped r) t"
proof
  assume "engine_run m sleep E s = Some (r, t)"
  from run_loop_returns [OF this [unfolded engine_run_loop]]
  show "engine_at m sleep E s (Stopped r) t" unfolding reached_stopped by auto
next
  assume "engine_at m sleep E s (Stopped r) t"
  then obtain u where "r \<noteq> Ok ()" and u: "loop_reach (engine_iteration m sleep E) s u"
    and fails: "engine_iteration m sleep E u = Some (r, t)"
    unfolding reached_stopped by blast
  then have "run_loop (engine_iteration m sleep E) u = Some (r, t)"
    by (subst run_loop.simps) (cases r, simp_all)
  with run_loop_reach [OF u] show "engine_run m sleep E s = Some (r, t)" by (simp add: engine_run_loop)
qed

section \<open>Interrupted turns\<close>

text \<open>The phase of the event protocol that a receiver sees the engine in at an await point.\<close>

abbreviation mode_of :: "('w, 'e, 'x) engine \<Rightarrow> proof_mode" where
  "mode_of E \<equiv> ri_proof_mode (ec_intent (en_config E))"

definition resting :: "('w, 'e, 'x) engine \<Rightarrow> phase \<Rightarrow> bool" where
  "resting E ph \<longleftrightarrow> between_turns ph \<and> (mode_of E = Sentinel \<longrightarrow> ph = Idle)"

fun control_phase :: "('w, 'e, 'x) engine \<Rightarrow> control \<Rightarrow> phase \<Rightarrow> bool" where
  "control_phase E Polling ph = resting E ph"
| "control_phase E (Snapshot a b) ph = (mode_of E = Beacon \<and> ph = Working a b 0)"
| "control_phase E (Submitting a b r rs ps) ph =
     (mode_of E = Beacon \<and> ph = Proving a b (req_l2_start_block r) (req_l2_end_block r) (length ps))"
| "control_phase E (Waiting a b r h rs ps) ph =
     (mode_of E = Beacon \<and> ph = Proving a b (req_l2_start_block r) (req_l2_end_block r) (length ps))"
| "control_phase E (SubmittingAll a b ps) ph = (mode_of E = Beacon \<and> ph = Aggregating a b)"
| "control_phase E (WaitingAll a b h) ph = (mode_of E = Beacon \<and> ph = Aggregating a b)"
| "control_phase E (DisputeSnapshot d) ph = (mode_of E = Sentinel \<and> ph = Disputed (di_start_block d) (di_end_block d))"
| "control_phase E (DisputeSubmitting d r rs) ph =
     (mode_of E = Sentinel \<and> ph = Disputed (di_start_block d) (di_end_block d))"
| "control_phase E (DisputeWaiting d h rs) ph =
     (mode_of E = Sentinel \<and> ph = Disputed (di_start_block d) (di_end_block d))"
| "control_phase E Sleeping ph = resting E ph"
| "control_phase E (Stopped r) ph = True"

definition in_phase :: "('w, 'e, 'x) engine \<Rightarrow> control \<times> 'w run_state \<Rightarrow> bool" where
  "in_phase E x \<longleftrightarrow> (\<exists>ph. log_ok E (snd x) ph \<and> control_phase E (fst x) ph)"

lemma in_phase_here: "log_ok E s ph \<Longrightarrow> control_phase E c ph \<Longrightarrow> in_phase E (c, s)"
  by (auto simp: in_phase_def)

lemma log_ok_sent:
  "log_ok E s ph \<Longrightarrow> advance ph ev = Some ph' \<Longrightarrow> log_ok E (sent E ev s) ph'"
  by (auto simp: log_ok_def sent_def advances_append)

lemma log_ok_world [simp]: "log_ok E (s\<lparr>rs_world := w\<rparr>) ph = log_ok E s ph"
  by (simp add: log_ok_def)

lemma log_ok_called:
  "monitor_call E mc s = (r, t) \<Longrightarrow> log_ok E t ph = log_ok E s ph"
  "dispatch_call E dc s = (r', t) \<Longrightarrow> log_ok E t ph = log_ok E s ph"
  by (auto simp: monitor_call_def dispatch_call_def act_map_err_def on_world_def split: prod.splits)

lemma in_phase_next_proof:
  assumes "log_ok E s (Working a b (length ps))" and "mode_of E = Beacon"
  shows "in_phase E (next_proof E a b rs ps s)"
proof (cases rs)
  case Nil
  with assms show ?thesis
    using log_ok_sent [OF assms(1), of "AggregationStarted (length ps)" "Aggregating a b"]
    by (auto simp: in_phase_def resting_def between_turns_def)
next
  case (Cons r rs')
  with assms show ?thesis
    using log_ok_sent [OF assms(1), of "ProofStarted (req_l2_start_block r) (req_l2_end_block r)"]
    by (auto simp: in_phase_def)
qed

lemma in_phase_next_dispute_proof:
  assumes "log_ok E s (Disputed (di_start_block d) (di_end_block d))" and "mode_of E = Sentinel"
  shows "in_phase E (next_dispute_proof E d rs s)"
proof (cases rs)
  case Nil
  with assms show ?thesis
    using log_ok_sent [OF assms(1), of "DisputeResolved (di_start_block d) (di_end_block d)" Idle]
    by (auto simp: in_phase_def resting_def between_turns_def)
qed (use assms in \<open>auto simp: in_phase_def\<close>)

lemma in_phase_resume:
  assumes "log_ok E s ph" and "\<And>r t. x = (r, t) \<Longrightarrow> log_ok E t ph = log_ok E s ph"
    and "\<And>a t. log_ok E t ph \<Longrightarrow> in_phase E (k a t)"
  shows "in_phase E (resume x k)"
  using assms by (cases x) (auto simp: resume_def in_phase_def split: outcome.splits)

lemma in_phase_plan:
  assumes "plan_and_then m E a b k s = Some y" and "log_ok E s ph"
    and "\<And>rs t. log_ok E t ph \<Longrightarrow> in_phase E (k rs t)"
  shows "in_phase E y"
  using assms in_phase_resume [OF assms(2), where k = k]
  by (auto simp: plan_and_then_def in_phase_def log_ok_called
      split: prod.splits outcome.splits option.splits)

lemma step_keeps_phase:
  assumes "engine_resume m sleep E c s = Some y" and "in_phase E (c, s)"
  shows "in_phase E y"
proof -
  from assms(2) obtain ph where ph: "log_ok E s ph" "control_phase E c ph" by (auto simp: in_phase_def)
  note resumes = in_phase_resume [OF ph(1) log_ok_called(2)]
  show ?thesis
  proof (cases c)
    case Polling
    show ?thesis
    proof (cases "mode_of E")
      case Beacon
      have "in_phase E (resume (monitor_call E (cm_pending_range (en_monitor E)) s) (\<lambda>range s.
            case range of
              Some (start, end_block) \<Rightarrow> (Snapshot start end_block, sent E (RangeDetected start end_block) s)
            | None \<Rightarrow> (Sleeping, s)))"
      proof (rule in_phase_resume [OF ph(1) log_ok_called(1)], assumption)
        fix range t
        assume "log_ok E t ph"
        moreover have "advance ph (RangeDetected a b) = Some (Working a b 0)" for a b
          using ph(2) Polling by (auto simp: resting_def between_turns_def)
        ultimately show "in_phase E (case range of
              Some (start, end_block) \<Rightarrow> (Snapshot start end_block, sent E (RangeDetected start end_block) t)
            | None \<Rightarrow> (Sleeping, t))"
          using ph(2) Polling Beacon log_ok_sent [of E t ph] by (fastforce simp: in_phase_def split: option.splits)
      qed
      with assms(1) Polling Beacon show ?thesis by simp
    next
      case Sentinel
      with ph Polling have "log_ok E s Idle" by (simp add: resting_def)
      with assms(1) Polling Sentinel show ?thesis
        using log_ok_sent [of E _ Idle]
        by (fastforce simp: in_phase_def resting_def between_turns_def split: prod.splits option.splits)
    qed
  next
    case (Snapshot a b)
    with assms(1) ph in_phase_next_proof [of E _ a b "[]"] show ?thesis
      by (auto intro: in_phase_plan)
  next
    case (DisputeSnapshot d)
    with assms(1) ph in_phase_next_dispute_proof [of E _ d] show ?thesis
      by (auto intro: in_phase_plan)
  next
    case (Waiting a b r h rs ps)
    have "in_phase E (next_proof E a b rs (ps @ [p])
        (sent E (ProofCompleted (req_l2_start_block r) (req_l2_end_block r)) t))" if "log_ok E t ph" for p t
      using log_ok_sent [OF that] ph(2) Waiting by (intro in_phase_next_proof) auto
    with assms(1) Waiting show ?thesis by (auto intro!: resumes)
  next
    case (DisputeWaiting d h rs)
    with assms(1) ph(2) in_phase_next_dispute_proof [of E _ d rs] show ?thesis by (auto intro!: resumes)
  next
    case (WaitingAll a b h)
    have "in_phase E (Sleeping, sent E (AggregationCompleted a b) t)" if "log_ok E t ph" for t
      using log_ok_sent [OF that, of "AggregationCompleted a b" Idle] ph(2) WaitingAll
      by (auto simp: in_phase_def resting_def between_turns_def)
    with assms(1) WaitingAll show ?thesis by (auto intro!: resumes)
  qed (use assms(1) ph in \<open>auto intro!: resumes intro: in_phase_here\<close>)
qed

text \<open>
  C2: interrupts. Wherever the engine's future is dropped, in the middle of a turn included, the
  events sent so far are a word of the protocol, and its phase is that of the await point: while
  a request is submitted or waited for, it is announced as started with exactly the number of
  proofs done before it; while an aggregation is under way it is announced; a dispute whose
  requests are being proved is announced and not resolved; at a poll nothing is open.
\<close>

theorem interrupted_protocol:
  assumes "engine_at m sleep E s c t" and "rs_sent s = []"
  shows "\<exists>ph. advances Idle (map snd (rs_sent t)) = Some ph \<and> control_phase E c ph"
proof -
  from assms(1) have "in_phase E (c, t)"
  proof (induction rule: engine_at.induct)
    case begins
    have "log_ok E s Idle" using assms(2) by (simp add: log_ok_def)
    then show ?case by (auto simp: in_phase_def resting_def between_turns_def)
  next
    case (resumes c s c' s')
    show ?case by (rule step_keeps_phase [OF resumes.hyps(2) resumes.IH])
  qed
  then show ?thesis by (auto simp: in_phase_def log_ok_def)
qed

theorem interrupted_protocol_witness:
  "\<exists>a b t ph. engine_at Release (\<lambda>_ w. Suc w) sample_engine \<lparr>rs_world = 0, rs_sent = []\<rparr> (Snapshot a b) t
     \<and> advances Idle (map snd (rs_sent t)) = Some ph \<and> ph = Working a b 0"
proof -
  let ?s = "\<lparr>rs_world = 0 :: nat, rs_sent = []\<rparr>"
  have "mode_of sample_engine = Beacon" "cs_l2_proven_block sample_state < cs_l2_safe_block sample_state"
    by (simp_all add: mock_service_parts [OF sample_engine_def] sample_config_def sample_state_def)
  then obtain a b t where "engine_resume Release (\<lambda>_ w. Suc w) sample_engine Polling ?s = Some (Snapshot a b, t)"
    by (simp add: mock_service_parts [OF sample_engine_def] resume_def)
  from engine_at.resumes [OF engine_at.begins this] have
    at: "engine_at Release (\<lambda>_ w. Suc w) sample_engine ?s (Snapshot a b) t" .
  from interrupted_protocol [OF at] at show ?thesis by auto
qed

end
