(* ===== verification/Witness.thy ===== *)
theory Witness
  imports Core_Types
begin

text \<open>
  Witness data on its way from the host to the guest: the transport format of
  crates/host/src/witness/adapter.rs, the mock provider (mock.rs), the shared in-memory store
  that collects preimages (kv_store.rs), their archive, and the guest's read-only preimage
  store (crates/guest/src/oracle.rs).  The rkyv archive is a parameter: a serializer and a
  checked reader that needs an aligned buffer.
\<close>

section \<open>Transport format\<close>

definition raw_witness_to_bytes :: "raw_witness \<Rightarrow> bytes" where
  "raw_witness_to_bytes witness =
     (let buf = [];
          buf = buf @ le_bytes 4 (of_nat (length (rw_boot_info witness)) :: u32);
          buf = buf @ rw_boot_info witness;
          buf = buf @ le_bytes 4 (of_nat (length (rw_oracle_data witness)) :: u32);
          buf = buf @ rw_oracle_data witness;
          buf = buf @ le_bytes 4 (of_nat (length (rw_blob_data witness)) :: u32);
          buf = buf @ rw_blob_data witness
      in buf)"

text \<open>The closure \<open>read_chunk\<close>; the offset it advances is returned with the chunk.\<close>

definition read_chunk :: "bytes \<Rightarrow> nat \<Rightarrow> (bytes \<times> nat) option" where
  "read_chunk data offset =
     (if offset + 4 > length data then None
      else let len = unat (le_word (take 4 (drop offset data)) :: u32);
               offset = offset + 4
           in if offset + len > length data then None
              else Some (take len (drop offset data), offset + len))"

definition bytes_to_raw_witness :: "bytes \<Rightarrow> raw_witness option" where
  "bytes_to_raw_witness data =
     (case read_chunk data 0 of None \<Rightarrow> None
      | Some (boot_info, o1) \<Rightarrow>
     (case read_chunk data o1 of None \<Rightarrow> None
      | Some (oracle_data, o2) \<Rightarrow>
     (case read_chunk data o2 of None \<Rightarrow> None
      | Some (blob_data, _) \<Rightarrow>
          Some \<lparr>rw_boot_info = boot_info, rw_oracle_data = oracle_data, rw_blob_data = blob_data\<rparr>)))"

definition chunk :: "bytes \<Rightarrow> bytes" where
  "chunk bs = le_bytes 4 (of_nat (length bs) :: u32) @ bs"

lemma raw_witness_to_bytes_chunks:
  "raw_witness_to_bytes w = chunk (rw_boot_info w) @ chunk (rw_oracle_data w) @ chunk (rw_blob_data w)"
  by (simp add: raw_witness_to_bytes_def chunk_def Let_def)

lemma length_chunk [simp]: "length (chunk bs) = 4 + length bs"
  by (simp add: chunk_def)

text \<open>A chunk is read exactly when it is there, behind a prefix of the length of the offset.\<close>

lemma read_chunk_iff:
  assumes "length pre = off"
  shows "read_chunk (pre @ data) off = Some (bs, off') \<longleftrightarrow>
     (\<exists>rest. data = chunk bs @ rest) \<and> length bs < 2 ^ 32 \<and> off' = off + 4 + length bs"
proof
  assume rd: "read_chunk (pre @ data) off = Some (bs, off')"
  let ?n = "le_word (take 4 data) :: u32"
  from rd assms have len: "4 \<le> length data" "4 + unat ?n \<le> length data"
      and bs: "bs = take (unat ?n) (drop 4 data)" "off' = off + 4 + unat ?n"
    by (auto simp: read_chunk_def Let_def split: if_splits)
  have lbs: "length bs = unat ?n" using len bs by simp
  have lt: "unat ?n < 2 ^ 32" using unsigned_less [of ?n, where ?'a = nat] by simp
  have "le_bytes 4 (of_nat (length bs) :: u32) = take 4 data"
    using le_bytes_le_word [of "take 4 data", where ?'a = 32] len by (simp add: lbs)
  then have "data = chunk bs @ drop (4 + unat ?n) data"
    using bs(1) by (simp add: chunk_def) (metis append_take_drop_id drop_drop add.commute)
  with lbs lt bs(2) show "(\<exists>rest. data = chunk bs @ rest) \<and> length bs < 2 ^ 32 \<and> off' = off + 4 + length bs"
    by auto
next
  assume "(\<exists>rest. data = chunk bs @ rest) \<and> length bs < 2 ^ 32 \<and> off' = off + 4 + length bs"
  then obtain rest where r: "data = chunk bs @ rest" "length bs < 2 ^ 32" "off' = off + 4 + length bs"
    by blast
  have "unat (le_word (le_bytes 4 (of_nat (length bs) :: u32)) :: u32) = length bs"
    using r(2) by (simp add: le_word_le_bytes take_bit_word_eq_self unat_of_nat)
  with r assms show "read_chunk (pre @ data) off = Some (bs, off')"
    by (simp add: read_chunk_def chunk_def Let_def)
qed

lemma read_chunk_offset: "read_chunk data off = Some (bs, off') \<Longrightarrow> off \<le> length data \<and> off' \<le> length data"
  by (auto simp: read_chunk_def Let_def split: if_splits)

text \<open>Decoding reads three chunks off the front of a buffer.\<close>

lemma decodes_iff:
  "bytes_to_raw_witness data = Some w \<longleftrightarrow>
     (length (rw_boot_info w) < 2 ^ 32 \<and> length (rw_oracle_data w) < 2 ^ 32 \<and> length (rw_blob_data w) < 2 ^ 32)
     \<and> (\<exists>rest. data = raw_witness_to_bytes w @ rest)"
proof -
  have three: "bytes_to_raw_witness data = Some w \<longleftrightarrow>
      (\<exists>o1 o2 o3. read_chunk data 0 = Some (rw_boot_info w, o1)
         \<and> read_chunk data o1 = Some (rw_oracle_data w, o2)
         \<and> read_chunk data o2 = Some (rw_blob_data w, o3))"
    by (cases w) (auto simp: bytes_to_raw_witness_def split: option.splits)
  show ?thesis (is "_ \<longleftrightarrow> ?small \<and> ?pre")
  proof
    assume "bytes_to_raw_witness data = Some w"
    then obtain o1 o2 o3 where rd: "read_chunk data 0 = Some (rw_boot_info w, o1)"
        "read_chunk data o1 = Some (rw_oracle_data w, o2)"
        "read_chunk data o2 = Some (rw_blob_data w, o3)"
      unfolding three by blast
    from rd(1) obtain r1 where r1: "data = chunk (rw_boot_info w) @ r1" "length (rw_boot_info w) < 2 ^ 32"
        "o1 = length (chunk (rw_boot_info w))"
      using read_chunk_iff [of "[]" 0 data "rw_boot_info w" o1] by auto
    from rd(2) obtain r2 where r2: "r1 = chunk (rw_oracle_data w) @ r2" "length (rw_oracle_data w) < 2 ^ 32"
        "o2 = length (chunk (rw_boot_info w) @ chunk (rw_oracle_data w))"
      using read_chunk_iff [of "chunk (rw_boot_info w)" o1 r1 "rw_oracle_data w" o2] r1 by auto
    from rd(3) obtain r3 where r3: "r2 = chunk (rw_blob_data w) @ r3" "length (rw_blob_data w) < 2 ^ 32"
      using read_chunk_iff [of "chunk (rw_boot_info w) @ chunk (rw_oracle_data w)" o2 r2 "rw_blob_data w" o3] r1 r2
      by auto
    from r1 r2 r3 show "?small \<and> ?pre" by (simp add: raw_witness_to_bytes_chunks)
  next
    assume small: "?small \<and> ?pre"
    then obtain rest where data: "data = chunk (rw_boot_info w) @ chunk (rw_oracle_data w)
        @ chunk (rw_blob_data w) @ rest"
      by (auto simp: raw_witness_to_bytes_chunks)
    let ?a = "chunk (rw_boot_info w)" and ?b = "chunk (rw_oracle_data w)" and ?c = "chunk (rw_blob_data w)"
    have "read_chunk data 0 = Some (rw_boot_info w, length ?a)"
      using read_chunk_iff [of "[]" 0 data] small data by simp
    moreover have "read_chunk data (length ?a) = Some (rw_oracle_data w, length (?a @ ?b))"
      using read_chunk_iff [of ?a "length ?a" "?b @ ?c @ rest"] small data by simp
    moreover have "read_chunk data (length (?a @ ?b)) = Some (rw_blob_data w, length (?a @ ?b @ ?c))"
      using read_chunk_iff [of "?a @ ?b" "length (?a @ ?b)" "?c @ rest"] small data by simp
    ultimately show "bytes_to_raw_witness data = Some w" unfolding three by blast
  qed
qed

lemma transport_inverts:
  assumes "length (rw_boot_info w) < 2 ^ 32" and "length (rw_oracle_data w) < 2 ^ 32" and "length (rw_blob_data w) < 2 ^ 32"
  shows "bytes_to_raw_witness (raw_witness_to_bytes w) = Some w"
  unfolding decodes_iff using assms by (intro conjI exI [of _ "[]"]) simp_all

text \<open>
  C19: the transport format. A buffer decodes to a witness exactly when it begins with that
  witness's encoding and each of the three parts is shorter than 4 GiB; so decoding inverts
  encoding for every witness whose parts fit the 32-bit lengths, no other witness decodes from
  its encoding, trailing bytes are ignored, and a witness with a longer part does not survive
  the round trip.
\<close>

theorem witness_transport:
  "bytes_to_raw_witness data = Some w \<longleftrightarrow>
     length (rw_boot_info w) < 2 ^ 32 \<and> length (rw_oracle_data w) < 2 ^ 32
     \<and> length (rw_blob_data w) < 2 ^ 32 \<and> take (length (raw_witness_to_bytes w)) data = raw_witness_to_bytes w"
proof -
  have "(\<exists>rest. data = raw_witness_to_bytes w @ rest) \<longleftrightarrow>
      take (length (raw_witness_to_bytes w)) data = raw_witness_to_bytes w"
    by (metis append_eq_conv_conj)
  then show ?thesis by (simp add: decodes_iff)
qed

section \<open>Mock witness\<close>

text \<open>\<open>show_b256\<close> is the text that \<open>{}\<close> prints for a \<open>B256\<close>; \<open>into_bytes\<close> its UTF-8 bytes.\<close>

definition into_bytes :: "string \<Rightarrow> bytes" where
  "into_bytes s = map of_char s"

datatype mock_witness_error = MockWitnessError string

definition mock_generate_witness ::
  "(b256 \<Rightarrow> string) \<Rightarrow> proof_request \<Rightarrow> (mock_witness_error, raw_witness) outcome" where
  "mock_generate_witness show_b256 request =
     (let boot_info = into_bytes (''boot:'' @ show_u64 (req_l2_start_block request) @ '':''
            @ show_u64 (req_l2_end_block request) @ '':'' @ show_b256 (req_l1_head request));
          oracle_data = into_bytes (''oracle:'' @ show_u64 (req_l2_start_block request) @ '':''
            @ show_u64 (req_l2_end_block request));
          blob_data = into_bytes (''blob:'' @ show_b256 (req_l1_head request))
      in Ok \<lparr>rw_boot_info = boot_info, rw_oracle_data = oracle_data, rw_blob_data = blob_data\<rparr>)"

lemma u8_of_char_inject: "(of_char c :: u8) = of_char d \<longleftrightarrow> c = d"
proof
  assume "(of_char c :: u8) = of_char d"
  then have "(of_nat (of_char c) :: u8) = of_nat (of_char d)" by (simp only: of_nat_of_char)
  then have "unat (of_nat (of_char c) :: u8) = unat (of_nat (of_char d) :: u8)" by simp
  moreover have "(of_char c :: nat) < 2 ^ 8" "(of_char d :: nat) < 2 ^ 8" by simp_all
  ultimately have "(of_char c :: nat) = of_char d" by (simp add: unat_of_nat)
  then show "c = d" by (simp only: of_char_eq_iff)
qed simp

lemma into_bytes_inject [simp]: "into_bytes s = into_bytes t \<longleftrightarrow> s = t"
  unfolding into_bytes_def by (rule inj_map_eq_map) (simp add: inj_def u8_of_char_inject)

lemma colon_not_digit: "CHR '':'' \<notin> set (show_u64 w)"
  using show_u64_digits [of "CHR '':''" w] by (auto simp: digit_def)

text \<open>The oracle data of two requests agree exactly when their block ranges do.\<close>

lemma mock_oracle_data_inject:
  assumes "mock_generate_witness sh r = Ok w" and "mock_generate_witness sh r' = Ok w'"
  shows "rw_oracle_data w = rw_oracle_data w' \<longleftrightarrow>
     req_l2_start_block r = req_l2_start_block r' \<and> req_l2_end_block r = req_l2_end_block r'"
proof -
  have "rw_oracle_data w = rw_oracle_data w' \<longleftrightarrow>
      show_u64 (req_l2_start_block r) @ CHR '':'' # show_u64 (req_l2_end_block r)
      = show_u64 (req_l2_start_block r') @ CHR '':'' # show_u64 (req_l2_end_block r')"
    using assms by (auto simp: mock_generate_witness_def Let_def)
  also have "\<dots> \<longleftrightarrow> req_l2_start_block r = req_l2_start_block r' \<and> req_l2_end_block r = req_l2_end_block r'"
    using split_at_separator [OF _ colon_not_digit colon_not_digit] show_u64_inject by metis
  finally show ?thesis .
qed

section \<open>The shared preimage store\<close>

text \<open>
  A handle points to a map on the heap; cloning a handle copies the pointer, so all clones see
  every write.  The lock is never poisoned: no operation panics while it holds it.
\<close>

type_synonym preimages = "b256 \<rightharpoonup> bytes"

record kv_heap =
  kh_next :: nat
  kh_store :: "nat \<Rightarrow> preimages"

type_synonym kv_handle = nat

definition kv_new :: "kv_heap \<Rightarrow> kv_handle \<times> kv_heap" where
  "kv_new h = (kh_next h, h\<lparr>kh_next := Suc (kh_next h), kh_store := (kh_store h)(kh_next h := Map.empty)\<rparr>)"

definition kv_clone :: "kv_handle \<Rightarrow> kv_handle" where
  "kv_clone p = p"

definition kv_snapshot :: "kv_heap \<Rightarrow> kv_handle \<Rightarrow> preimages" where
  "kv_snapshot h p = kh_store h p"

definition kv_len :: "kv_heap \<Rightarrow> kv_handle \<Rightarrow> nat" where
  "kv_len h p = card (dom (kh_store h p))"

definition kv_is_empty :: "kv_heap \<Rightarrow> kv_handle \<Rightarrow> bool" where
  "kv_is_empty h p \<longleftrightarrow> kv_len h p = 0"

definition kv_get :: "kv_heap \<Rightarrow> kv_handle \<Rightarrow> b256 \<Rightarrow> bytes option" where
  "kv_get h p key = kh_store h p key"

definition kv_set :: "kv_heap \<Rightarrow> kv_handle \<Rightarrow> b256 \<Rightarrow> bytes \<Rightarrow> (string, unit) outcome \<times> kv_heap" where
  "kv_set h p key val = (Ok (), h\<lparr>kh_store := (kh_store h)(p := (kh_store h p)(key \<mapsto> val))\<rparr>)"

lemmas kv_defs = kv_new_def kv_clone_def kv_snapshot_def kv_len_def kv_is_empty_def kv_get_def kv_set_def

text \<open>Writing a list of pairs through a handle.\<close>

fun kv_set_all :: "kv_heap \<Rightarrow> kv_handle \<Rightarrow> (b256 \<times> bytes) list \<Rightarrow> kv_heap" where
  "kv_set_all h p [] = h"
| "kv_set_all h p ((k, v) # kvs) = kv_set_all (snd (kv_set h p k v)) p kvs"

lemma kv_set_all_store:
  "kh_store (kv_set_all h p kvs) = (kh_store h)(p := kh_store h p ++ map_of (rev kvs))"
proof (induction kvs arbitrary: h)
  case (Cons kv kvs)
  then show ?case
    by (cases kv) (auto simp: kv_set_def fun_eq_iff map_add_def map_of_append split: option.splits)
qed simp

section \<open>The archive\<close>

definition serialize_preimages :: "(preimages \<Rightarrow> ('e, bytes) outcome) \<Rightarrow> preimages \<Rightarrow> ('f, bytes) outcome" where
  "serialize_preimages to_bytes preimages = expect (to_bytes preimages)"

text \<open>\<open>aligned\<close> says whether the caller's buffer happens to be aligned for the archive.\<close>

definition deserialize_preimages ::
  "(bool \<Rightarrow> bytes \<Rightarrow> preimages option) \<Rightarrow> bool \<Rightarrow> bytes \<Rightarrow> preimages option" where
  "deserialize_preimages check_root aligned data = check_root aligned data"

record preimage_store =
  ps_data :: preimages

definition preimage_store_new :: "preimages \<Rightarrow> preimage_store" where
  "preimage_store_new data = \<lparr>ps_data = data\<rparr>"

text \<open>The guest first copies the bytes into an aligned buffer.\<close>

definition from_rkyv_bytes ::
  "(bool \<Rightarrow> bytes \<Rightarrow> preimages option) \<Rightarrow> bytes \<Rightarrow> preimage_store option" where
  "from_rkyv_bytes check_root raw =
     (let aligned = raw
      in case check_root True aligned of None \<Rightarrow> None | Some data \<Rightarrow> Some \<lparr>ps_data = data\<rparr>)"

definition preimage_store_len :: "preimage_store \<Rightarrow> nat" where
  "preimage_store_len self = card (dom (ps_data self))"

definition preimage_store_is_empty :: "preimage_store \<Rightarrow> bool" where
  "preimage_store_is_empty self \<longleftrightarrow> dom (ps_data self) = {}"

text \<open>
  kona's error type has more constructors; these are the ones the store returns.  \<open>into\<close> is
  kona's conversion of a preimage key to its 32 bytes.
\<close>

datatype preimage_oracle_error = KeyNotFound | BufferLengthMismatch nat nat

definition preimage_get ::
  "('k \<Rightarrow> b256) \<Rightarrow> preimage_store \<Rightarrow> 'k \<Rightarrow> (preimage_oracle_error, bytes) outcome" where
  "preimage_get into self key =
     (let key_bytes = into key in ok_or KeyNotFound (ps_data self key_bytes))"

text \<open>The caller's buffer comes back with the result.\<close>

definition preimage_get_exact ::
  "('k \<Rightarrow> b256) \<Rightarrow> preimage_store \<Rightarrow> 'k \<Rightarrow> bytes \<Rightarrow> (preimage_oracle_error, unit) outcome \<times> bytes" where
  "preimage_get_exact into self key buf =
     (case preimage_get into self key of
        Ok val \<Rightarrow>
          (if length buf \<noteq> length val then (Err (BufferLengthMismatch (length val) (length buf)), buf)
           else (Ok (), val))
      | Err e \<Rightarrow> (Err e, buf)
      | Panic p \<Rightarrow> (Panic p, buf))"

definition hint_write :: "preimage_store \<Rightarrow> string \<Rightarrow> (preimage_oracle_error, unit) outcome" where
  "hint_write self hint = Ok ()"

text \<open>The contract of the archive: reading back, from an aligned buffer, what was written.\<close>

locale preimage_archive =
  fixes to_bytes :: "preimages \<Rightarrow> ('e, bytes) outcome"
    and check_root :: "bool \<Rightarrow> bytes \<Rightarrow> preimages option"
  assumes read_back: "to_bytes m = Ok bs \<Longrightarrow> check_root True bs = Some m"
begin

lemma guest_reads:
  "serialize_preimages to_bytes m = Ok bs \<Longrightarrow> from_rkyv_bytes check_root bs = Some (preimage_store_new m)"
  by (auto simp: serialize_preimages_def from_rkyv_bytes_def preimage_store_new_def read_back)

lemma host_reads_aligned:
  "serialize_preimages to_bytes m = Ok bs \<Longrightarrow> deserialize_preimages check_root True bs = Some m"
  by (simp add: serialize_preimages_def deserialize_preimages_def read_back)

lemma archive_inject:
  "serialize_preimages to_bytes m = Ok bs \<Longrightarrow> serialize_preimages to_bytes m' = Ok bs \<Longrightarrow> m = m'"
  using host_reads_aligned by (metis option.inject)

lemma guest_get:
  assumes "serialize_preimages to_bytes m = Ok bs"
  obtains store where "from_rkyv_bytes check_root bs = Some store"
    "\<And>k. preimage_get into store k = (case m (into k) of None \<Rightarrow> Err KeyNotFound | Some v \<Rightarrow> Ok v)"
  using guest_reads [OF assms]
  by (auto simp: preimage_get_def preimage_store_new_def split: option.splits)

end

text \<open>
  A reference archive: the entries in key order, each one its key, the value's length and the
  value.  It shows that the contract can be met.
\<close>

definition archive_entry :: "b256 \<Rightarrow> bytes \<Rightarrow> bytes" where
  "archive_entry k v = be_bytes 32 k @ le_bytes 8 (of_nat (length v) :: u64) @ v"

definition archive_write :: "preimages \<Rightarrow> (string, bytes) outcome" where
  "archive_write m =
     (if finite (dom m) \<and> (\<forall>v \<in> ran m. length v < 2 ^ 64)
      then Ok (concat (map (\<lambda>k. archive_entry k (the (m k))) (sorted_list_of_set (dom m))))
      else Err ''value too long'')"

definition archive_head :: "bytes \<Rightarrow> ((b256 \<times> bytes) \<times> bytes) option" where
  "archive_head bs =
     (let l = unat (le_word (take 8 (drop 32 bs)) :: u64)
      in if length bs < 40 + l then None
         else Some ((be_word (take 32 bs), take l (drop 40 bs)), drop (40 + l) bs))"

primrec archive_entries :: "nat \<Rightarrow> bytes \<Rightarrow> (b256 \<times> bytes) list option" where
  "archive_entries 0 bs = (if bs = [] then Some [] else None)"
| "archive_entries (Suc n) bs =
     (if bs = [] then Some []
      else case archive_head bs of
             None \<Rightarrow> None
           | Some (kv, rest) \<Rightarrow> map_option (Cons kv) (archive_entries n rest))"

definition archive_read :: "bool \<Rightarrow> bytes \<Rightarrow> preimages option" where
  "archive_read aligned bs =
     (if aligned then map_option map_of (archive_entries (length bs) bs) else None)"

lemma length_archive_entry [simp]: "length (archive_entry k v) = 40 + length v"
  by (simp add: archive_entry_def)

lemma archive_head_entry:
  assumes "length v < 2 ^ 64"
  shows "archive_head (archive_entry k v @ bs) = Some ((k, v), bs)"
proof -
  have "unat (le_word (take 8 (drop 32 (archive_entry k v @ bs))) :: u64) = length v"
    using assms by (simp add: archive_entry_def le_word_le_bytes take_bit_word_eq_self unat_of_nat)
  moreover have "be_word (take 32 (archive_entry k v @ bs)) = k"
    by (simp add: archive_entry_def be_word_be_bytes)
  ultimately show ?thesis
    by (simp add: archive_head_def Let_def archive_entry_def)
qed

lemma archive_entries_concat:
  assumes "\<forall>k \<in> set ks. length (f k) < 2 ^ 64"
    and "length (concat (map (\<lambda>k. archive_entry k (f k)) ks)) \<le> n"
  shows "archive_entries n (concat (map (\<lambda>k. archive_entry k (f k)) ks)) = Some (map (\<lambda>k. (k, f k)) ks)"
  using assms
proof (induction ks arbitrary: n)
  case Nil
  show ?case by (cases n) simp_all
next
  case (Cons k ks)
  let ?tl = "concat (map (\<lambda>k. archive_entry k (f k)) ks)"
  from Cons.prems(2) obtain n' where n: "n = Suc n'" "length ?tl \<le> n'" by (cases n) auto
  have "archive_head (archive_entry k (f k) @ ?tl) = Some ((k, f k), ?tl)"
    by (rule archive_head_entry) (use Cons.prems(1) in simp)
  moreover have "archive_entry k (f k) @ ?tl \<noteq> []"
    by (simp add: archive_entry_def flip: length_0_conv)
  ultimately show ?case
    using Cons.IH [of n'] Cons.prems(1) n by simp
qed

lemma archive_read_write:
  assumes "archive_write m = Ok bs"
  shows "archive_read True bs = Some m"
proof -
  from assms have fin: "finite (dom m)" and small: "\<forall>v \<in> ran m. length v < 2 ^ 64"
    and bs: "bs = concat (map (\<lambda>k. archive_entry k (the (m k))) (sorted_list_of_set (dom m)))"
    by (auto simp: archive_write_def split: if_splits)
  have "\<forall>k \<in> set (sorted_list_of_set (dom m)). length (the (m k)) < 2 ^ 64"
    using fin small by (auto simp: ran_def)
  then have "archive_entries (length bs) bs = Some (map (\<lambda>k. (k, the (m k))) (sorted_list_of_set (dom m)))"
    unfolding bs by (rule archive_entries_concat) simp
  moreover have "map_of (map (\<lambda>k. (k, the (m k))) (sorted_list_of_set (dom m))) = m"
    by (rule ext) (simp add: map_of_map_keys fin map_of_map_restrict restrict_map_def domIff)
  ultimately show ?thesis by (simp add: archive_read_def)
qed

interpretation arch: preimage_archive archive_write archive_read
  by unfold_locales (rule archive_read_write)

lemma archive_writes:
  "finite (dom m) \<Longrightarrow> \<forall>v \<in> ran m. length v < 2 ^ 64 \<Longrightarrow> \<exists>bs. archive_write m = Ok bs"
  by (simp add: archive_write_def)

text \<open>
  C18: preimages from the host to the guest. Whatever is written to a new store through any
  clone of its handle, in any order and with overwrites, the store itself answers at once, and
  the guest's store serves after the snapshot is serialized, put into a witness of parts below
  4 GiB, sent as bytes and decoded, and its oracle data read back: the last value written for a
  key, or KeyNotFound; an exact read fills the buffer when the length agrees and otherwise
  reports both lengths and leaves the buffer alone. The other two parts of the witness arrive too.
\<close>

theorem host_to_guest:
  assumes archive: "preimage_archive to_bytes check_root"
    and new: "kv_new h = (p, h1)"
    and bs: "serialize_preimages to_bytes (kv_snapshot (kv_set_all h1 (kv_clone p) kvs) p) = Ok bs"
    and small: "length boot_info < 2 ^ 32" "length bs < 2 ^ 32" "length blob_data < 2 ^ 32"
  shows "kv_get (kv_set_all h1 (kv_clone p) kvs) p (into k) = map_of (rev kvs) (into k)
     \<and> (\<exists>witness store.
         bytes_to_raw_witness (raw_witness_to_bytes
           \<lparr>rw_boot_info = boot_info, rw_oracle_data = bs, rw_blob_data = blob_data\<rparr>) = Some witness
     \<and> rw_boot_info witness = boot_info \<and> rw_blob_data witness = blob_data
     \<and> from_rkyv_bytes check_root (rw_oracle_data witness) = Some store
     \<and> preimage_get into store k =
         (case map_of (rev kvs) (into k) of None \<Rightarrow> Err KeyNotFound | Some v \<Rightarrow> Ok v)
     \<and> preimage_get_exact into store k buf =
         (case map_of (rev kvs) (into k) of
            None \<Rightarrow> (Err KeyNotFound, buf)
          | Some v \<Rightarrow> if length buf = length v then (Ok (), v)
                      else (Err (BufferLengthMismatch (length v) (length buf)), buf)))"
proof -
  let ?w = "\<lparr>rw_boot_info = boot_info, rw_oracle_data = bs, rw_blob_data = blob_data\<rparr>"
  have snap: "kv_snapshot (kv_set_all h1 (kv_clone p) kvs) p = map_of (rev kvs)"
    using new by (auto simp: kv_snapshot_def kv_clone_def kv_set_all_store kv_new_def)
  then have "kv_get (kv_set_all h1 (kv_clone p) kvs) p (into k) = map_of (rev kvs) (into k)"
    by (simp add: kv_get_def kv_snapshot_def)
  moreover have "bytes_to_raw_witness (raw_witness_to_bytes ?w) = Some ?w"
    using small by (intro transport_inverts) simp_all
  moreover have "from_rkyv_bytes check_root bs = Some (preimage_store_new (map_of (rev kvs)))"
    by (rule preimage_archive.guest_reads [OF archive bs [unfolded snap]])
  ultimately show ?thesis
    by (auto simp: preimage_store_new_def preimage_get_def preimage_get_exact_def split: option.splits)
qed

theorem host_to_guest_witness:
  "\<exists>bs witness store. serialize_preimages archive_write [1 \<mapsto> [0xBB]] = Ok bs
     \<and> bytes_to_raw_witness (raw_witness_to_bytes
         \<lparr>rw_boot_info = [7], rw_oracle_data = bs, rw_blob_data = []\<rparr>) = Some witness
     \<and> from_rkyv_bytes archive_read (rw_oracle_data witness) = Some store \<and> preimage_get id store 1 = Ok [0xBB]"
proof -
  let ?h = "\<lparr>kh_next = 0, kh_store = (\<lambda>_. Map.empty)\<rparr>"
  let ?h1 = "snd (kv_new ?h)"
  have new: "kv_new ?h = (0, ?h1)" by (simp add: kv_new_def)
  have snap: "kv_snapshot (kv_set_all ?h1 (kv_clone 0) [(1, [0xAA]), (1, [0xBB])]) 0 = [1 \<mapsto> [0xBB]]"
    by (simp add: kv_defs)
  obtain bs where written: "archive_write [1 \<mapsto> [0xBB]] = Ok bs"
    using archive_writes [of "[1 \<mapsto> [0xBB]]"] by auto
  then have bs: "serialize_preimages archive_write [1 \<mapsto> [0xBB]] = Ok bs"
    by (simp add: serialize_preimages_def)
  from written have "bs = archive_entry 1 [0xBB]" by (auto simp: archive_write_def split: if_splits)
  then have "length bs < 2 ^ 32" "length [7 :: u8] < 2 ^ 32" "length ([] :: bytes) < 2 ^ 32"
    by (simp_all add: archive_entry_def)
  from host_to_guest [OF arch.preimage_archive_axioms new bs [folded snap] this(2,1,3), of id 1 "[]"] bs
  show ?thesis by auto
qed

end
