(* ===== verification/Da_Source.thy ===== *)
theory Da_Source
  imports Core_Types
begin

text \<open>
  The Alt-DA batch sources of the range guests: guests/range-celestia/src/da_source.rs and
  guests/range-eigenda/src/da_source.rs.  The L1 provider, signature recovery, keccak256 and
  the preimage oracle are the fields of an environment; inside the guest they only read the
  witness, so they are functions.  The contract that the derivation pipeline relies on is the
  locale \<open>da_provider\<close>, interpreted on both sources.
\<close>

section \<open>Transactions and the environment\<close>

record tx =
  tx_to :: "address option"
  tx_input :: bytes

datatype tx_envelope = Legacy tx | Eip2930 tx | Eip1559 tx | Eip4844 tx | Eip7702 tx

record block_info =
  blk_hash :: b256
  blk_number :: u64

record ('ce, 'oe, 'pe) da_env =
  de_transactions_by_hash :: "b256 \<Rightarrow> ('ce, tx_envelope list) outcome"
  de_oracle_get :: "b256 \<Rightarrow> ('oe, bytes) outcome"
  de_keccak256 :: "bytes \<Rightarrow> b256"
  de_recover_signer :: "tx_envelope \<Rightarrow> address option"
  de_provider_error :: "'ce \<Rightarrow> 'pe"
  de_eof_temp :: 'pe

section \<open>The contract\<close>

text \<open>
  A source is closed or holds the queue of the block it was opened on.  Asking for an item
  opens it if need be, takes the front of the queue and reports the end when it is empty.
\<close>

definition queue_for :: "'q option \<Rightarrow> ('pe, 'q) outcome \<Rightarrow> ('pe, 'q) outcome" where
  "queue_for opened fetched = (case opened of None \<Rightarrow> fetched | Some q \<Rightarrow> Ok q)"

fun take_next :: "'pe \<Rightarrow> ('pe, bytes list) outcome \<Rightarrow> ('pe, bytes) outcome \<times> bytes list option" where
  "take_next eof (Ok []) = (Err eof, Some [])"
| "take_next eof (Ok (x # xs)) = (Ok x, Some xs)"
| "take_next eof (Err e) = (Err e, None)"
| "take_next eof (Panic p) = (Panic p, None)"

text \<open>The results of \<open>n\<close> calls in a row.\<close>

fun next_calls :: "nat \<Rightarrow> ('src \<Rightarrow> 'r \<times> 'src) \<Rightarrow> 'src \<Rightarrow> 'r list \<times> 'src" where
  "next_calls 0 f s = ([], s)"
| "next_calls (Suc n) f s =
     (case f s of (r, s1) \<Rightarrow> (case next_calls n f s1 of (rs, s2) \<Rightarrow> (r # rs, s2)))"

locale da_provider =
  fixes next_item :: "block_info \<Rightarrow> address \<Rightarrow> 'src \<Rightarrow> ('pe, bytes) outcome \<times> 'src"
    and clear :: "'src \<Rightarrow> 'src"
    and inv :: "'src \<Rightarrow> bool"
    and opened :: "'src \<Rightarrow> bytes list option"
    and fetch :: "block_info \<Rightarrow> address \<Rightarrow> ('pe, bytes list) outcome"
    and eof :: 'pe
  assumes clear_closes: "inv s \<Longrightarrow> inv (clear s) \<and> opened (clear s) = None"
    and next_takes: "inv s \<Longrightarrow> next_item b a s = (r, s') \<Longrightarrow>
       (\<forall>p. queue_for (opened s) (fetch b a) \<noteq> Panic p) \<Longrightarrow>
       inv s' \<and> (r, opened s') = take_next eof (queue_for (opened s) (fetch b a))"
begin

lemma calls_opened:
  assumes "inv s" and "queue_for (opened s) (fetch b a) = Ok q"
  shows "inv (snd (next_calls n (next_item b a) s))
     \<and> fst (next_calls n (next_item b a) s) = map Ok (take n q) @ replicate (n - length q) (Err eof)
     \<and> (0 < n \<longrightarrow> opened (snd (next_calls n (next_item b a) s)) = Some (drop n q))"
  using assms
proof (induction n arbitrary: s q)
  case (Suc n)
  obtain r s1 where nx: "next_item b a s = (r, s1)" by (cases "next_item b a s")
  have step: "inv s1 \<and> (r, opened s1) = take_next eof (Ok q)"
    using next_takes [OF Suc.prems(1) nx] Suc.prems(2) by simp
  then have "queue_for (opened s1) (fetch b a) = Ok (drop 1 q)"
    by (cases q) (auto simp: queue_for_def)
  from Suc.IH [OF _ this] step have IH: "inv (snd (next_calls n (next_item b a) s1))"
      "fst (next_calls n (next_item b a) s1) = map Ok (take n (drop 1 q)) @ replicate (n - length (drop 1 q)) (Err eof)"
      "0 < n \<longrightarrow> opened (snd (next_calls n (next_item b a) s1)) = Some (drop n (drop 1 q))"
    by auto
  have parts: "fst (next_calls (Suc n) (next_item b a) s) = r # fst (next_calls n (next_item b a) s1)"
    "snd (next_calls (Suc n) (next_item b a) s) = snd (next_calls n (next_item b a) s1)"
    by (simp_all add: nx split: prod.splits)
  have last: "opened (snd (next_calls n (next_item b a) s1)) = Some (drop (Suc n) q)"
  proof (cases n)
    case 0
    with step show ?thesis by (cases q) auto
  next
    case (Suc k)
    with IH(3) show ?thesis by simp
  qed
  show ?case
    unfolding parts using IH(1,2) last step
    by (cases q) (auto simp: Suc_diff_le replicate_append_same [symmetric])
qed simp

text \<open>After \<open>clear\<close> the items of a block come out in order, each once, and then only the end.\<close>

lemma calls_after_clear:
  assumes "inv s" and "fetch b a = Ok q"
  shows "fst (next_calls n (next_item b a) (clear s)) = map Ok (take n q) @ replicate (n - length q) (Err eof)"
  using calls_opened [of "clear s" b a q n] clear_closes [OF assms(1)] assms(2) by (simp add: queue_for_def)

end

section \<open>Celestia\<close>

definition CELESTIA_COMMITMENT_PREFIX :: u8 where
  "CELESTIA_COMMITMENT_PREFIX = 0xce"

definition GENERIC_COMMITMENT_PREFIX :: u8 where
  "GENERIC_COMMITMENT_PREFIX = 0x00"

record celestia_data_source =
  cd_batch_inbox_address :: address
  cd_batch_data :: "bytes list"
  cd_open :: bool

definition celestia_new :: "address \<Rightarrow> celestia_data_source" where
  "celestia_new batch_inbox_address =
     \<lparr>cd_batch_inbox_address = batch_inbox_address, cd_batch_data = [], cd_open = False\<rparr>"

definition celestia_resolve_commitment ::
  "('ce, 'oe, 'pe) da_env \<Rightarrow> bytes \<Rightarrow> (unit, bytes) outcome" where
  "celestia_resolve_commitment E commitment =
     (let commitment_hash = de_keccak256 E commitment
      in map_err (\<lambda>_. ()) (de_oracle_get E commitment_hash))"

text \<open>The \<open>match\<close> on the envelope: blob and set-code transactions are skipped.\<close>

fun tx_kind_and_data :: "tx_envelope \<Rightarrow> (address option \<times> bytes) option" where
  "tx_kind_and_data (Legacy t) = Some (tx_to t, tx_input t)"
| "tx_kind_and_data (Eip2930 t) = Some (tx_to t, tx_input t)"
| "tx_kind_and_data (Eip1559 t) = Some (tx_to t, tx_input t)"
| "tx_kind_and_data _ = None"

fun celestia_load_txs ::
  "('ce, 'oe, 'pe) da_env \<Rightarrow> address \<Rightarrow> address \<Rightarrow> tx_envelope list \<Rightarrow> bytes list
     \<Rightarrow> ('ce, bytes list) outcome" where
  "celestia_load_txs E inbox batcher [] batch_data = Ok batch_data"
| "celestia_load_txs E inbox batcher (tx # txs) batch_data =
     (let continue = celestia_load_txs E inbox batcher txs
      in case tx_kind_and_data tx of
           None \<Rightarrow> continue batch_data
         | Some (None, _) \<Rightarrow> continue batch_data
         | Some (Some to, data) \<Rightarrow>
             if to \<noteq> inbox then continue batch_data
             else if de_recover_signer E tx \<noteq> Some batcher then continue batch_data
             else case data of
                    [] \<Rightarrow> continue batch_data
                  | b # commitment \<Rightarrow>
                      if b = CELESTIA_COMMITMENT_PREFIX \<or> b = GENERIC_COMMITMENT_PREFIX
                      then case celestia_resolve_commitment E commitment of
                             Ok resolved \<Rightarrow> continue (batch_data @ [resolved])
                           | Err _ \<Rightarrow> continue batch_data
                           | Panic p \<Rightarrow> Panic p
                      else continue (batch_data @ [data]))"

definition celestia_load_batch_data ::
  "('ce, 'oe, 'pe) da_env \<Rightarrow> block_info \<Rightarrow> address \<Rightarrow> celestia_data_source
     \<Rightarrow> ('ce, unit) outcome \<times> celestia_data_source" where
  "celestia_load_batch_data E block_ref batcher_address self =
     (if cd_open self then (Ok (), self)
      else case de_transactions_by_hash E (blk_hash block_ref) of
             Ok txs \<Rightarrow>
               (case celestia_load_txs E (cd_batch_inbox_address self) batcher_address txs
                       (cd_batch_data self) of
                  Ok data \<Rightarrow> (Ok (), self\<lparr>cd_batch_data := data, cd_open := True\<rparr>)
                | Err e \<Rightarrow> (Err e, self)
                | Panic p \<Rightarrow> (Panic p, self))
           | Err e \<Rightarrow> (Err e, self)
           | Panic p \<Rightarrow> (Panic p, self))"

definition celestia_next ::
  "('ce, 'oe, 'pe) da_env \<Rightarrow> block_info \<Rightarrow> address \<Rightarrow> celestia_data_source
     \<Rightarrow> ('pe, bytes) outcome \<times> celestia_data_source" where
  "celestia_next E block_ref batcher_address self =
     (case celestia_load_batch_data E block_ref batcher_address self of
        (Ok _, self1) \<Rightarrow>
          (case cd_batch_data self1 of
             [] \<Rightarrow> (Err (de_eof_temp E), self1)
           | x # xs \<Rightarrow> (Ok x, self1\<lparr>cd_batch_data := xs\<rparr>))
      | (Err e, self1) \<Rightarrow> (Err (de_provider_error E e), self1)
      | (Panic p, self1) \<Rightarrow> (Panic p, self1))"

definition celestia_clear :: "celestia_data_source \<Rightarrow> celestia_data_source" where
  "celestia_clear self = self\<lparr>cd_batch_data := [], cd_open := False\<rparr>"

section \<open>EigenDA\<close>

definition EIGENDA_COMMITMENT_PREFIX :: u8 where
  "EIGENDA_COMMITMENT_PREFIX = 0xed"

record eigenda_data_source =
  ed_batch_inbox_address :: address
  ed_batch_data :: "bytes list"
  ed_open :: bool

definition eigenda_new :: "address \<Rightarrow> eigenda_data_source" where
  "eigenda_new batch_inbox_address =
     \<lparr>ed_batch_inbox_address = batch_inbox_address, ed_batch_data = [], ed_open = False\<rparr>"

definition eigenda_resolve_commitment ::
  "('ce, 'oe, 'pe) da_env \<Rightarrow> bytes \<Rightarrow> (unit, bytes) outcome" where
  "eigenda_resolve_commitment E commitment =
     (let commitment_hash = de_keccak256 E commitment
      in map_err (\<lambda>_. ()) (de_oracle_get E commitment_hash))"

fun eigenda_load_txs ::
  "('ce, 'oe, 'pe) da_env \<Rightarrow> address \<Rightarrow> address \<Rightarrow> tx_envelope list \<Rightarrow> bytes list
     \<Rightarrow> ('ce, bytes list) outcome" where
  "eigenda_load_txs E inbox batcher [] batch_data = Ok batch_data"
| "eigenda_load_txs E inbox batcher (tx # txs) batch_data =
     (let continue = eigenda_load_txs E inbox batcher txs
      in case tx_kind_and_data tx of
           None \<Rightarrow> continue batch_data
         | Some (None, _) \<Rightarrow> continue batch_data
         | Some (Some to, data) \<Rightarrow>
             if to \<noteq> inbox then continue batch_data
             else if de_recover_signer E tx \<noteq> Some batcher then continue batch_data
             else case data of
                    [] \<Rightarrow> continue batch_data
                  | b # commitment \<Rightarrow>
                      if b = EIGENDA_COMMITMENT_PREFIX \<or> b = GENERIC_COMMITMENT_PREFIX
                      then case eigenda_resolve_commitment E commitment of
                             Ok resolved \<Rightarrow> continue (batch_data @ [resolved])
                           | Err _ \<Rightarrow> continue batch_data
                           | Panic p \<Rightarrow> Panic p
                      else continue (batch_data @ [data]))"

definition eigenda_load_batch_data ::
  "('ce, 'oe, 'pe) da_env \<Rightarrow> block_info \<Rightarrow> address \<Rightarrow> eigenda_data_source
     \<Rightarrow> ('ce, unit) outcome \<times> eigenda_data_source" where
  "eigenda_load_batch_data E block_ref batcher_address self =
     (if ed_open self then (Ok (), self)
      else case de_transactions_by_hash E (blk_hash block_ref) of
             Ok txs \<Rightarrow>
               (case eigenda_load_txs E (ed_batch_inbox_address self) batcher_address txs
                       (ed_batch_data self) of
                  Ok data \<Rightarrow> (Ok (), self\<lparr>ed_batch_data := data, ed_open := True\<rparr>)
                | Err e \<Rightarrow> (Err e, self)
                | Panic p \<Rightarrow> (Panic p, self))
           | Err e \<Rightarrow> (Err e, self)
           | Panic p \<Rightarrow> (Panic p, self))"

definition eigenda_next ::
  "('ce, 'oe, 'pe) da_env \<Rightarrow> block_info \<Rightarrow> address \<Rightarrow> eigenda_data_source
     \<Rightarrow> ('pe, bytes) outcome \<times> eigenda_data_source" where
  "eigenda_next E block_ref batcher_address self =
     (case eigenda_load_batch_data E block_ref batcher_address self of
        (Ok _, self1) \<Rightarrow>
          (case ed_batch_data self1 of
             [] \<Rightarrow> (Err (de_eof_temp E), self1)
           | x # xs \<Rightarrow> (Ok x, self1\<lparr>ed_batch_data := xs\<rparr>))
      | (Err e, self1) \<Rightarrow> (Err (de_provider_error E e), self1)
      | (Panic p, self1) \<Rightarrow> (Panic p, self1))"

definition eigenda_clear :: "eigenda_data_source \<Rightarrow> eigenda_data_source" where
  "eigenda_clear self = self\<lparr>ed_batch_data := [], ed_open := False\<rparr>"

section \<open>What the sources deliver\<close>

text \<open>The items of a block, transaction by transaction.\<close>

definition batch_item ::
  "u8 \<Rightarrow> ('ce, 'oe, 'pe) da_env \<Rightarrow> address \<Rightarrow> address \<Rightarrow> tx_envelope \<Rightarrow> bytes option" where
  "batch_item prefix E inbox batcher tx =
     (case tx_kind_and_data tx of
        Some (Some to, b # commitment) \<Rightarrow>
          if to = inbox \<and> de_recover_signer E tx = Some batcher
          then if b = prefix \<or> b = 0x00 then result_ok (de_oracle_get E (de_keccak256 E commitment))
               else Some (b # commitment)
          else None
      | _ \<Rightarrow> None)"

definition oracle_total :: "('ce, 'oe, 'pe) da_env \<Rightarrow> bool" where
  "oracle_total E \<longleftrightarrow> (\<forall>k p. de_oracle_get E k \<noteq> Panic p)"

lemma celestia_load_txs_items:
  "oracle_total E \<Longrightarrow> celestia_load_txs E inbox batcher txs data
     = Ok (data @ List.map_filter (batch_item 0xce E inbox batcher) txs)"
proof (induction txs arbitrary: data)
  case (Cons tx txs)
  then show ?case
    by (auto simp: List.map_filter_simps batch_item_def Let_def celestia_resolve_commitment_def
        CELESTIA_COMMITMENT_PREFIX_def GENERIC_COMMITMENT_PREFIX_def oracle_total_def
        map_err_eq_Err_iff split: option.splits list.splits prod.splits outcome.splits)
qed (simp add: List.map_filter_simps)

lemma eigenda_load_txs_items:
  "oracle_total E \<Longrightarrow> eigenda_load_txs E inbox batcher txs data
     = Ok (data @ List.map_filter (batch_item 0xed E inbox batcher) txs)"
proof (induction txs arbitrary: data)
  case (Cons tx txs)
  then show ?case
    by (auto simp: List.map_filter_simps batch_item_def Let_def eigenda_resolve_commitment_def
        EIGENDA_COMMITMENT_PREFIX_def GENERIC_COMMITMENT_PREFIX_def oracle_total_def
        map_err_eq_Err_iff split: option.splits list.splits prod.splits outcome.splits)
qed (simp add: List.map_filter_simps)

text \<open>The sources meet the contract.\<close>

definition celestia_inv :: "address \<Rightarrow> celestia_data_source \<Rightarrow> bool" where
  "celestia_inv inbox s \<longleftrightarrow> cd_batch_inbox_address s = inbox \<and> (cd_open s \<or> cd_batch_data s = [])"

definition celestia_opened :: "celestia_data_source \<Rightarrow> bytes list option" where
  "celestia_opened s = (if cd_open s then Some (cd_batch_data s) else None)"

definition celestia_fetch ::
  "('ce, 'oe, 'pe) da_env \<Rightarrow> address \<Rightarrow> block_info \<Rightarrow> address \<Rightarrow> ('pe, bytes list) outcome" where
  "celestia_fetch E inbox b a =
     map_err (de_provider_error E)
       (and_then (de_transactions_by_hash E (blk_hash b)) (\<lambda>txs. celestia_load_txs E inbox a txs []))"

interpretation celestia: da_provider "celestia_next E" celestia_clear "celestia_inv inbox"
  celestia_opened "celestia_fetch E inbox" "de_eof_temp E"
  by unfold_locales
    (auto simp: celestia_next_def celestia_load_batch_data_def celestia_clear_def celestia_inv_def
      celestia_opened_def celestia_fetch_def queue_for_def split: outcome.splits list.splits if_splits)

definition eigenda_inv :: "address \<Rightarrow> eigenda_data_source \<Rightarrow> bool" where
  "eigenda_inv inbox s \<longleftrightarrow> ed_batch_inbox_address s = inbox \<and> (ed_open s \<or> ed_batch_data s = [])"

definition eigenda_opened :: "eigenda_data_source \<Rightarrow> bytes list option" where
  "eigenda_opened s = (if ed_open s then Some (ed_batch_data s) else None)"

definition eigenda_fetch ::
  "('ce, 'oe, 'pe) da_env \<Rightarrow> address \<Rightarrow> block_info \<Rightarrow> address \<Rightarrow> ('pe, bytes list) outcome" where
  "eigenda_fetch E inbox b a =
     map_err (de_provider_error E)
       (and_then (de_transactions_by_hash E (blk_hash b)) (\<lambda>txs. eigenda_load_txs E inbox a txs []))"

interpretation eigenda: da_provider "eigenda_next E" eigenda_clear "eigenda_inv inbox"
  eigenda_opened "eigenda_fetch E inbox" "de_eof_temp E"
  by unfold_locales
    (auto simp: eigenda_next_def eigenda_load_batch_data_def eigenda_clear_def eigenda_inv_def
      eigenda_opened_def eigenda_fetch_def queue_for_def split: outcome.splits list.splits if_splits)

lemma celestia_after_clear:
  assumes "oracle_total E" and "de_transactions_by_hash E (blk_hash b) = Ok txs"
    and "q = List.map_filter (batch_item 0xce E (cd_batch_inbox_address s) a) txs"
  shows "fst (next_calls n (celestia_next E b a) (celestia_clear s))
     = map Ok (take n q) @ replicate (n - length q) (Err (de_eof_temp E))"
  by (rule celestia.calls_opened [where inbox = "cd_batch_inbox_address s", THEN conjunct2, THEN conjunct1])
    (simp_all add: assms celestia_inv_def celestia_clear_def celestia_opened_def queue_for_def
      celestia_fetch_def celestia_load_txs_items)

lemma eigenda_after_clear:
  assumes "oracle_total E" and "de_transactions_by_hash E (blk_hash b) = Ok txs"
    and "q = List.map_filter (batch_item 0xed E (ed_batch_inbox_address s) a) txs"
  shows "fst (next_calls n (eigenda_next E b a) (eigenda_clear s))
     = map Ok (take n q) @ replicate (n - length q) (Err (de_eof_temp E))"
  by (rule eigenda.calls_opened [where inbox = "ed_batch_inbox_address s", THEN conjunct2, THEN conjunct1])
    (simp_all add: assms eigenda_inv_def eigenda_clear_def eigenda_opened_def queue_for_def
      eigenda_fetch_def eigenda_load_txs_items)

text \<open>
  C20: the Alt-DA sources. After \<open>clear\<close>, whatever the source held before, calling \<open>next\<close> on
  a block delivers exactly the block's items in transaction order, each once, and then only
  the temporary end-of-data error. The items are those of legacy, EIP-2930 and EIP-1559
  transactions sent to the batch inbox and signed by the batcher: calldata that starts with
  the source's own prefix (0xce for Celestia, 0xed for EigenDA) or with zero is replaced by
  the preimage of the keccak256 of the rest, or dropped when there is none; any other
  non-empty calldata is delivered as it is.
\<close>

theorem da_sources_deliver:
  assumes "oracle_total E" and "de_transactions_by_hash E (blk_hash b) = Ok txs"
  shows "fst (next_calls n (celestia_next E b batcher) (celestia_clear s)) =
       (let q = List.map_filter (batch_item 0xce E (cd_batch_inbox_address s) batcher) txs
        in map Ok (take n q) @ replicate (n - length q) (Err (de_eof_temp E)))
     \<and> fst (next_calls n (eigenda_next E b batcher) (eigenda_clear s')) =
       (let q = List.map_filter (batch_item 0xed E (ed_batch_inbox_address s') batcher) txs
        in map Ok (take n q) @ replicate (n - length q) (Err (de_eof_temp E)))"
  by (simp add: Let_def celestia_after_clear [OF assms refl] eigenda_after_clear [OF assms refl])

definition sample_da_env :: "(string, string, string) da_env" where
  "sample_da_env =
     \<lparr>de_transactions_by_hash = (\<lambda>h. Ok
        [Legacy \<lparr>tx_to = Some 5, tx_input = [0xce, 1]\<rparr>,
         Eip1559 \<lparr>tx_to = Some 6, tx_input = [0xce, 1]\<rparr>,
         Eip1559 \<lparr>tx_to = Some 5, tx_input = [0xed, 2]\<rparr>,
         Eip4844 \<lparr>tx_to = Some 5, tx_input = [9]\<rparr>]),
      de_oracle_get = (\<lambda>k. if k = 1 then Ok [7, 7] else Err ''missing''),
      de_keccak256 = (\<lambda>bs. of_nat (unat (hd bs))),
      de_recover_signer = (\<lambda>_. Some 3),
      de_provider_error = id,
      de_eof_temp = ''eof''\<rparr>"

theorem da_sources_deliver_witness:
  "fst (next_calls 3 (celestia_next sample_da_env \<lparr>blk_hash = 0, blk_number = 1\<rparr> 3)
      (celestia_clear (celestia_new 5))) = [Ok [7, 7], Ok [0xed, 2], Err ''eof'']"
  using da_sources_deliver [of sample_da_env "\<lparr>blk_hash = 0, blk_number = 1\<rparr>" _ 3 3 "celestia_new 5" "eigenda_new 5"]
  by (auto simp: sample_da_env_def oracle_total_def List.map_filter_simps batch_item_def celestia_new_def)

section \<open>Withheld data\<close>

text \<open>The witness without the data of some commitments, and the transactions that carry one of them.\<close>

definition withholding ::
  "(b256 \<Rightarrow> bool) \<Rightarrow> 'oe \<Rightarrow> ('ce, 'oe, 'pe) da_env \<Rightarrow> ('ce, 'oe, 'pe) da_env" where
  "withholding withheld e E =
     E\<lparr>de_oracle_get := (\<lambda>k. if withheld k then Err e else de_oracle_get E k)\<rparr>"

definition carries :: "u8 \<Rightarrow> ('ce, 'oe, 'pe) da_env \<Rightarrow> (b256 \<Rightarrow> bool) \<Rightarrow> tx_envelope \<Rightarrow> bool" where
  "carries prefix E withheld tx =
     (case tx_kind_and_data tx of
        Some (_, b # commitment) \<Rightarrow> (b = prefix \<or> b = 0x00) \<and> withheld (de_keccak256 E commitment)
      | _ \<Rightarrow> False)"

lemma batch_item_withholding:
  "batch_item prefix (withholding withheld e E) inbox batcher tx =
     (if carries prefix E withheld tx then None else batch_item prefix E inbox batcher tx)"
  by (auto simp: batch_item_def carries_def withholding_def split: option.splits list.splits)

lemma items_withholding:
  "List.map_filter (batch_item prefix (withholding withheld e E) inbox batcher) txs =
     List.map_filter (batch_item prefix E inbox batcher) (filter (\<lambda>tx. \<not> carries prefix E withheld tx) txs)"
proof -
  have split: "batch_item prefix (withholding withheld e E) inbox batcher =
      (\<lambda>tx. if carries prefix E withheld tx then None else batch_item prefix E inbox batcher tx)"
    by (intro ext) (rule batch_item_withholding)
  have skip: "List.map_filter (\<lambda>x. if P x then None else f x) xs = List.map_filter f (filter (\<lambda>x. \<not> P x) xs)"
    for P and f :: "tx_envelope \<Rightarrow> bytes option" and xs
    by (induction xs) (auto simp: List.map_filter_simps split: option.splits)
  show ?thesis unfolding split by (rule skip)
qed

lemma withholding_sel [simp]:
  "de_transactions_by_hash (withholding withheld e E) = de_transactions_by_hash E"
  "de_eof_temp (withholding withheld e E) = de_eof_temp E"
  "oracle_total E \<Longrightarrow> oracle_total (withholding withheld e E)"
  by (simp_all add: withholding_def oracle_total_def)

text \<open>
  C21: withheld batches disappear. If the prover leaves the data of any commitments out of the
  witness, neither source notices: on every block they deliver exactly what they would deliver
  if the transactions carrying those commitments were not in it, without an error, so the
  guest derives a chain without those batches.
\<close>

theorem withheld_batches_vanish:
  assumes "oracle_total E" and "de_transactions_by_hash E (blk_hash b) = Ok txs"
  shows "fst (next_calls n (celestia_next (withholding withheld e E) b batcher) (celestia_clear s)) =
       fst (next_calls n (celestia_next
         (E\<lparr>de_transactions_by_hash := (\<lambda>_. Ok (filter (\<lambda>tx. \<not> carries 0xce E withheld tx) txs))\<rparr>) b batcher) (celestia_clear s))
     \<and> fst (next_calls n (eigenda_next (withholding withheld e E) b batcher) (eigenda_clear s')) =
       fst (next_calls n (eigenda_next
         (E\<lparr>de_transactions_by_hash := (\<lambda>_. Ok (filter (\<lambda>tx. \<not> carries 0xed E withheld tx) txs))\<rparr>) b batcher) (eigenda_clear s'))"
proof -
  have item: "batch_item prefix (E\<lparr>de_transactions_by_hash := f\<rparr>) = batch_item prefix E" for prefix f
    by (intro ext) (simp add: batch_item_def split: option.splits list.splits)
  have total: "oracle_total (E\<lparr>de_transactions_by_hash := f\<rparr>)" for f
    using assms(1) by (simp add: oracle_total_def)
  have txs: "de_transactions_by_hash (withholding withheld e E) (blk_hash b) = Ok txs"
    by (simp add: assms(2))
  show ?thesis
    using assms(1) txs
    by (simp add: celestia_after_clear [OF _ txs HOL.refl] eigenda_after_clear [OF _ txs HOL.refl]
        celestia_after_clear [OF total _ HOL.refl] eigenda_after_clear [OF total _ HOL.refl]
        items_withholding item)
qed

theorem withheld_batches_vanish_witness:
  "fst (next_calls 2 (celestia_next (withholding (\<lambda>k. k = 1) ''missing'' sample_da_env) \<lparr>blk_hash = 0, blk_number = 1\<rparr> 3)
      (celestia_clear (celestia_new 5))) = [Ok [0xed, 2], Err ''eof'']"
proof -
  let ?txs = "[Legacy \<lparr>tx_to = Some 5, tx_input = [0xce, 1]\<rparr>, Eip1559 \<lparr>tx_to = Some 6, tx_input = [0xce, 1]\<rparr>,
         Eip1559 \<lparr>tx_to = Some 5, tx_input = [0xed, 2]\<rparr>, Eip4844 \<lparr>tx_to = Some 5, tx_input = [9]\<rparr>]"
  let ?left = "filter (\<lambda>tx. \<not> carries 0xce sample_da_env (\<lambda>k. k = 1) tx) ?txs"
  let ?E = "sample_da_env\<lparr>de_transactions_by_hash := (\<lambda>_. Ok ?left)\<rparr>"
  have env: "oracle_total sample_da_env" "oracle_total ?E" "de_transactions_by_hash sample_da_env 0 = Ok ?txs"
    by (simp_all add: sample_da_env_def oracle_total_def)
  have items: "List.map_filter (batch_item 0xce ?E 5 3) ?left = [[0xed, 2]]"
    by (simp add: carries_def sample_da_env_def List.map_filter_simps batch_item_def)
  have "fst (next_calls 2 (celestia_next ?E \<lparr>blk_hash = 0, blk_number = 1\<rparr> 3) (celestia_clear (celestia_new 5)))
      = [Ok [0xed, 2], Err ''eof'']"
    using celestia_after_clear [of ?E "\<lparr>blk_hash = 0, blk_number = 1\<rparr>" ?left "[[0xed, 2]]" "celestia_new 5" 3 2]
      env(2) items by (simp add: celestia_new_def sample_da_env_def)
  then show ?thesis
    using withheld_batches_vanish [of sample_da_env "\<lparr>blk_hash = 0, blk_number = 1\<rparr>" ?txs 2 "\<lambda>k. k = 1" "''missing''" 3
      "celestia_new 5" "eigenda_new 5"] env by simp
qed

end
