(* ===== verification/Zkvm_Io.thy ===== *)
theory Zkvm_Io
  imports Core_Types
begin

text \<open>
  Guest input and output: the traits of crates/core/src/traits/zkvm_io.rs as a record of
  actions on the guest's state, and the SP1 and RISC Zero adapters of crates/guest/src over
  the SDK functions they call, which are records of actions too.  A guest call either returns
  or panics.  The locale \<open>guest_stream\<close> is the contract the guest programs use; it is
  interpreted on both adapters.
\<close>

type_synonym ('s, 'a) guest = "('s, unit, 'a) action"
type_synonym program_words = "u32 list"

definition guest_panic :: "panic \<Rightarrow> ('s, 'a) guest" where
  "guest_panic p = (\<lambda>s. (Panic p, s))"

lemma guest_panic_apply [simp]: "guest_panic p s = (Panic p, s)"
  by (simp add: guest_panic_def)

text \<open>\<open>read\<close> is generic in the code; these are the types the guest programs read.\<close>

record 's zkvm_io =
  io_read_vec :: "('s, bytes) guest"
  io_read_u32 :: "('s, u32) guest"
  io_read_words :: "('s, program_words) guest"
  io_read_slice :: "bytes \<Rightarrow> ('s, bytes) guest"
  io_commit_slice :: "bytes \<Rightarrow> ('s, unit) guest"
  io_verify_inner_proof :: "program_words \<Rightarrow> bytes \<Rightarrow> ('s, unit) guest"

section \<open>SP1\<close>

record 's sp1_zkvm =
  sp_read_bytes :: "('s, bytes) guest"
  sp_read_u32 :: "('s, u32) guest"
  sp_read_words :: "('s, program_words) guest"
  sp_read_vec :: "('s, bytes) guest"
  sp_commit_slice :: "bytes \<Rightarrow> ('s, unit) guest"
  sp_verify_sp1_proof :: "program_words \<Rightarrow> bytes \<Rightarrow> ('s, unit) guest"
  sp_sha256 :: "bytes \<Rightarrow> bytes"

text \<open>\<open>buf[..vec.len()].copy_from_slice(&vec)\<close>: too long a vector panics, a short one keeps the tail.\<close>

definition sp1_read_slice :: "'s sp1_zkvm \<Rightarrow> bytes \<Rightarrow> ('s, bytes) guest" where
  "sp1_read_slice sdk buf =
     act_bind (sp_read_vec sdk) (\<lambda>vec.
       if length vec \<le> length buf then act_return (vec @ drop (length vec) buf)
       else guest_panic SliceOutOfRange)"

definition sp1_verify_inner_proof :: "'s sp1_zkvm \<Rightarrow> program_words \<Rightarrow> bytes \<Rightarrow> ('s, unit) guest" where
  "sp1_verify_inner_proof sdk vkey public_values =
     (let pv_digest = sp_sha256 sdk public_values in sp_verify_sp1_proof sdk vkey pv_digest)"

definition sp1_io :: "'s sp1_zkvm \<Rightarrow> 's zkvm_io" where
  "sp1_io sdk =
     \<lparr>io_read_vec = sp_read_bytes sdk,
      io_read_u32 = sp_read_u32 sdk,
      io_read_words = sp_read_words sdk,
      io_read_slice = sp1_read_slice sdk,
      io_commit_slice = sp_commit_slice sdk,
      io_verify_inner_proof = sp1_verify_inner_proof sdk\<rparr>"

section \<open>RISC Zero\<close>

record 's risc0_env =
  rz_read_bytes :: "('s, bytes) guest"
  rz_read_u32 :: "('s, u32) guest"
  rz_read_words :: "('s, program_words) guest"
  rz_read_slice :: "bytes \<Rightarrow> ('s, bytes) guest"
  rz_commit_slice :: "bytes \<Rightarrow> ('s, unit) guest"
  rz_verify :: "program_words \<Rightarrow> bytes \<Rightarrow> ('s, string, unit) action"

definition risc0_verify_inner_proof :: "'s risc0_env \<Rightarrow> program_words \<Rightarrow> bytes \<Rightarrow> ('s, unit) guest" where
  "risc0_verify_inner_proof env image_id journal_bytes =
     (\<lambda>s. case rz_verify env image_id journal_bytes s of (r, s') \<Rightarrow> (expect r, s'))"

definition risc0_io :: "'s risc0_env \<Rightarrow> 's zkvm_io" where
  "risc0_io env =
     \<lparr>io_read_vec = rz_read_bytes env,
      io_read_u32 = rz_read_u32 env,
      io_read_words = rz_read_words env,
      io_read_slice = rz_read_slice env,
      io_commit_slice = rz_commit_slice env,
      io_verify_inner_proof = risc0_verify_inner_proof env\<rparr>"

section \<open>The contract\<close>

text \<open>
  The input is a sequence of typed values, consumed in order; a read that does not find its
  type panics.  Committed bytes are appended to the public values.  Verifying an inner proof
  returns when the proof is accepted and panics otherwise.
\<close>

datatype guest_value = VBytes bytes | VU32 u32 | VWords program_words

locale guest_stream =
  fixes io :: "'s zkvm_io"
    and input :: "'s \<Rightarrow> guest_value list"
    and committed :: "'s \<Rightarrow> bytes"
    and accepts :: "program_words \<Rightarrow> bytes \<Rightarrow> bool"
  assumes read_vec_Ok: "io_read_vec io s = (Ok bs, s') \<Longrightarrow>
       input s = VBytes bs # input s' \<and> committed s' = committed s"
    and read_vec_ready: "input s = VBytes bs # r \<Longrightarrow> \<exists>s'. io_read_vec io s = (Ok bs, s')"
    and read_u32_Ok: "io_read_u32 io s = (Ok n, s') \<Longrightarrow>
       input s = VU32 n # input s' \<and> committed s' = committed s"
    and read_u32_ready: "input s = VU32 n # r \<Longrightarrow> \<exists>s'. io_read_u32 io s = (Ok n, s')"
    and read_words_Ok: "io_read_words io s = (Ok ws, s') \<Longrightarrow>
       input s = VWords ws # input s' \<and> committed s' = committed s"
    and read_words_ready: "input s = VWords ws # r \<Longrightarrow> \<exists>s'. io_read_words io s = (Ok ws, s')"
    and commit_Ok: "io_commit_slice io bs s = (Ok u, s') \<Longrightarrow>
       input s' = input s \<and> committed s' = committed s @ bs"
    and commit_ready: "\<exists>s'. io_commit_slice io bs s = (Ok (), s')"
    and verify_Ok: "io_verify_inner_proof io ws bs s = (Ok u, s') \<Longrightarrow>
       accepts ws bs \<and> input s' = input s \<and> committed s' = committed s"
    and verify_ready: "accepts ws bs \<Longrightarrow> \<exists>s'. io_verify_inner_proof io ws bs s = (Ok (), s')"
begin

text \<open>Each operation succeeds exactly when its value is next.\<close>

lemma read_vec_iff: "(\<exists>s'. io_read_vec io s = (Ok bs, s')) \<longleftrightarrow> (\<exists>r. input s = VBytes bs # r)"
  using read_vec_Ok read_vec_ready by blast

lemma read_u32_iff: "(\<exists>s'. io_read_u32 io s = (Ok n, s')) \<longleftrightarrow> (\<exists>r. input s = VU32 n # r)"
  using read_u32_Ok read_u32_ready by blast

lemma read_words_iff: "(\<exists>s'. io_read_words io s = (Ok ws, s')) \<longleftrightarrow> (\<exists>r. input s = VWords ws # r)"
  using read_words_Ok read_words_ready by blast

end

text \<open>
  Reference SDKs over an explicit stream: the state is the input left and the bytes committed.
  Both adapters meet the contract on them.
\<close>

type_synonym stream_state = "guest_value list \<times> bytes"

fun stream_bytes :: "(stream_state, bytes) guest" where
  "stream_bytes (VBytes bs # r, c) = (Ok bs, (r, c))"
| "stream_bytes s = (Panic ExpectFailed, s)"

fun stream_u32 :: "(stream_state, u32) guest" where
  "stream_u32 (VU32 n # r, c) = (Ok n, (r, c))"
| "stream_u32 s = (Panic ExpectFailed, s)"

fun stream_words :: "(stream_state, program_words) guest" where
  "stream_words (VWords ws # r, c) = (Ok ws, (r, c))"
| "stream_words s = (Panic ExpectFailed, s)"

fun stream_commit :: "bytes \<Rightarrow> (stream_state, unit) guest" where
  "stream_commit bs (r, c) = (Ok (), (r, c @ bs))"

definition stream_sp1 :: "(program_words \<Rightarrow> bytes \<Rightarrow> bool) \<Rightarrow> (bytes \<Rightarrow> bytes) \<Rightarrow> stream_state sp1_zkvm" where
  "stream_sp1 proved sha =
     \<lparr>sp_read_bytes = stream_bytes, sp_read_u32 = stream_u32, sp_read_words = stream_words,
      sp_read_vec = stream_bytes, sp_commit_slice = stream_commit,
      sp_verify_sp1_proof = (\<lambda>ws digest s. if proved ws digest then (Ok (), s) else (Panic AssertionFailed, s)),
      sp_sha256 = sha\<rparr>"

definition stream_risc0 :: "(program_words \<Rightarrow> bytes \<Rightarrow> bool) \<Rightarrow> stream_state risc0_env" where
  "stream_risc0 proved =
     \<lparr>rz_read_bytes = stream_bytes, rz_read_u32 = stream_u32, rz_read_words = stream_words,
      rz_read_slice = (\<lambda>buf. act_bind stream_bytes (\<lambda>bs.
         if length bs = length buf then act_return bs else guest_panic SliceOutOfRange)),
      rz_commit_slice = stream_commit,
      rz_verify = (\<lambda>ws bs s. if proved ws bs then (Ok (), s) else (Err ''no proof'', s))\<rparr>"

lemma stream_bytes_eq: "stream_bytes s = (Ok bs, s') \<longleftrightarrow> fst s = VBytes bs # fst s' \<and> snd s' = snd s"
  by (cases s rule: stream_bytes.cases; cases s') auto

lemma stream_u32_eq: "stream_u32 s = (Ok n, s') \<longleftrightarrow> fst s = VU32 n # fst s' \<and> snd s' = snd s"
  by (cases s rule: stream_u32.cases; cases s') auto

lemma stream_words_eq: "stream_words s = (Ok ws, s') \<longleftrightarrow> fst s = VWords ws # fst s' \<and> snd s' = snd s"
  by (cases s rule: stream_words.cases; cases s') auto

lemmas stream_reads = stream_bytes_eq stream_u32_eq stream_words_eq

lemma stream_commit_eq: "stream_commit bs s = (Ok (), (fst s, snd s @ bs))"
  by (cases s) simp

interpretation sp1_stream: guest_stream "sp1_io (stream_sp1 proved sha)" fst snd
  "\<lambda>ws bs. proved ws (sha bs)"
  by unfold_locales
    (auto simp: sp1_io_def stream_sp1_def stream_reads stream_commit_eq sp1_verify_inner_proof_def
      Let_def split: if_splits)

interpretation risc0_stream: guest_stream "risc0_io (stream_risc0 proved)" fst snd proved
  by unfold_locales
    (auto simp: risc0_io_def stream_risc0_def stream_reads stream_commit_eq risc0_verify_inner_proof_def
      split: if_splits)

end
