(* ===== verification/Aggregation.thy ===== *)
theory Aggregation
  imports Zkvm_Io
begin

text \<open>
  guests/aggregation/src/main.rs: the guest that verifies range proofs, checks that their
  journals form a chain and commits one journal for the whole range.  Its reads, checks and
  commit are actions over the guest interface of \<open>Zkvm_Io\<close>; the journal codec is a parameter.
\<close>

section \<open>The program\<close>

type_synonym journal = state_transition_journal

fun read_journals ::
  "(bytes \<Rightarrow> ('e, state_transition_output) outcome) \<Rightarrow> 's zkvm_io \<Rightarrow> program_words
     \<Rightarrow> nat \<Rightarrow> journal list \<Rightarrow> ('s, journal list) guest" where
  "read_journals dec io vkey 0 journals = act_return journals"
| "read_journals dec io vkey (Suc n) journals =
     act_bind (io_read_vec io) (\<lambda>journal_bytes.
     act_bind (io_verify_inner_proof io vkey journal_bytes) (\<lambda>_.
     act_bind (act_lift (expect (journal_from_abi_bytes dec journal_bytes))) (\<lambda>journal.
     read_journals dec io vkey n (journals @ [journal]))))"

text \<open>\<open>for w in journals.windows(2)\<close> with its two assertions.\<close>

fun check_windows :: "journal list \<Rightarrow> (unit, unit) outcome" where
  "check_windows (a # b # rest) =
     (if j_l2_post_root a \<noteq> j_l2_pre_root b then Panic AssertionFailed
      else if j_rollup_config_hash a \<noteq> j_rollup_config_hash b then Panic AssertionFailed
      else check_windows (b # rest))"
| "check_windows _ = Ok ()"

definition aggregate_journals :: "journal list \<Rightarrow> (unit, journal) outcome" where
  "aggregate_journals journals =
     (if journals = [] then Panic AssertionFailed
      else and_then (check_windows journals) (\<lambda>_.
        let first = hd journals; last' = last journals
        in Ok \<lparr>j_l1_head = j_l1_head first,
               j_l2_pre_root = j_l2_pre_root first,
               j_l2_post_root = j_l2_post_root last',
               j_l2_block_number = j_l2_block_number last',
               j_rollup_config_hash = j_rollup_config_hash first,
               j_program_id = j_program_id first\<rparr>))"

definition aggregation_main ::
  "(state_transition_output \<Rightarrow> bytes) \<Rightarrow> (bytes \<Rightarrow> ('e, state_transition_output) outcome)
     \<Rightarrow> 's zkvm_io \<Rightarrow> ('s, unit) guest" where
  "aggregation_main enc dec io =
     act_bind (io_read_u32 io) (\<lambda>num_proofs.
     act_bind (io_read_words io) (\<lambda>range_program_vkey.
     act_bind (read_journals dec io range_program_vkey (unat num_proofs) []) (\<lambda>journals.
     act_bind (act_lift (aggregate_journals journals)) (\<lambda>aggregated.
     let agg_bytes = journal_to_abi_bytes enc aggregated
     in io_commit_slice io agg_bytes))))"

section \<open>Chains of journals\<close>

definition linked :: "journal \<Rightarrow> journal \<Rightarrow> bool" where
  "linked a b \<longleftrightarrow> j_l2_post_root a = j_l2_pre_root b \<and> j_rollup_config_hash a = j_rollup_config_hash b"

definition chained :: "journal list \<Rightarrow> bool" where
  "chained js \<longleftrightarrow> (\<forall>i. Suc i < length js \<longrightarrow> linked (js ! i) (js ! Suc i))"

lemma chained_Nil [simp]: "chained []" and chained_single [simp]: "chained [a]"
  by (simp_all add: chained_def)

lemma chained_Cons [simp]: "chained (a # b # js) \<longleftrightarrow> linked a b \<and> chained (b # js)"
proof
  assume c: "chained (a # b # js)"
  have "linked ((a # b # js) ! 0) ((a # b # js) ! Suc 0)"
    using c [unfolded chained_def, rule_format, of 0] by simp
  moreover have "linked ((b # js) ! i) ((b # js) ! Suc i)" if "Suc i < length (b # js)" for i
    using c [unfolded chained_def, rule_format, of "Suc i"] that by simp
  ultimately show "linked a b \<and> chained (b # js)" by (simp add: chained_def)
next
  assume c: "linked a b \<and> chained (b # js)"
  show "chained (a # b # js)"
    unfolding chained_def
  proof (intro allI impI)
    fix i
    assume "Suc i < length (a # b # js)"
    with c show "linked ((a # b # js) ! i) ((a # b # js) ! Suc i)"
      by (cases i) (auto simp: chained_def)
  qed
qed

lemma chained_append:
  "chained (xs @ ys) \<longleftrightarrow> chained xs \<and> chained ys \<and> (xs \<noteq> [] \<longrightarrow> ys \<noteq> [] \<longrightarrow> linked (last xs) (hd ys))"
proof (induction xs rule: induct_list012)
  case (2 x)
  then show ?case by (cases ys) auto
qed auto

lemma check_windows_iff: "check_windows js = (if chained js then Ok () else Panic AssertionFailed)"
  by (induction js rule: check_windows.induct) (auto simp: linked_def)

definition span :: "journal list \<Rightarrow> journal" where
  "span js =
     (hd js)\<lparr>j_l2_post_root := j_l2_post_root (last js), j_l2_block_number := j_l2_block_number (last js)\<rparr>"

lemma aggregate_journals_eq:
  "aggregate_journals js = (if js \<noteq> [] \<and> chained js then Ok (span js) else Panic AssertionFailed)"
  by (simp add: aggregate_journals_def check_windows_iff span_def Let_def)

lemma chained_config:
  "chained js \<Longrightarrow> j \<in> set js \<Longrightarrow> j_rollup_config_hash j = j_rollup_config_hash (hd js)"
proof -
  assume c: "chained js" and "j \<in> set js"
  then obtain i where i: "i < length js" "j = js ! i" by (auto simp: in_set_conv_nth)
  have "j_rollup_config_hash (js ! i) = j_rollup_config_hash (js ! 0)"
    using i(1)
  proof (induction i)
    case (Suc i)
    with c have "linked (js ! i) (js ! Suc i)" by (simp add: chained_def)
    with Suc show ?case by (simp add: linked_def)
  qed simp
  with i show ?thesis by (cases js) simp_all
qed

text \<open>
  C23: aggregating in groups. Whenever two non-empty groups of journals aggregate on their own,
  aggregating all of them at once gives exactly the result (success or failure) of aggregating
  the two group results, so a tree of aggregations proves the same statement as a flat one.
\<close>

theorem aggregate_in_groups:
  assumes "aggregate_journals xs = Ok a" and "aggregate_journals ys = Ok b"
  shows "aggregate_journals (xs @ ys) = aggregate_journals [a, b]"
proof -
  from assms have xs: "xs \<noteq> []" "chained xs" "a = span xs" and ys: "ys \<noteq> []" "chained ys" "b = span ys"
    by (auto simp: aggregate_journals_eq split: if_splits)
  have "j_rollup_config_hash (last xs) = j_rollup_config_hash (hd xs)"
    using chained_config [OF xs(2), of "last xs"] xs(1) by simp
  then have "linked (last xs) (hd ys) \<longleftrightarrow> linked a b"
    by (simp add: linked_def xs(3) ys(3) span_def)
  with xs ys show ?thesis
    by (auto simp: aggregate_journals_eq chained_append span_def)
qed

section \<open>The whole program\<close>

context guest_stream
begin

lemma read_journals_Ok:
  assumes "read_journals dec io vkey n js s = (Ok out, s')"
  shows "\<exists>bss. length bss = n \<and> input s = map VBytes bss @ input s' \<and> committed s' = committed s
     \<and> (\<forall>bs \<in> set bss. accepts vkey bs)
     \<and> map (journal_from_abi_bytes dec) bss = map Ok (drop (length js) out) \<and> take (length js) out = js"
  using assms
proof (induction n arbitrary: js s)
  case 0
  then show ?case by auto
next
  case (Suc n)
  from Suc.prems obtain bs s1 s2 j where
    step: "io_read_vec io s = (Ok bs, s1)" "io_verify_inner_proof io vkey bs s1 = (Ok (), s2)"
      "journal_from_abi_bytes dec bs = Ok j" "read_journals dec io vkey n (js @ [j]) s2 = (Ok out, s')"
    by (auto simp: act_bind_Ok_iff)
  from Suc.IH [OF step(4)] obtain bss where
    bss: "length bss = n" "input s2 = map VBytes bss @ input s'" "committed s' = committed s2"
      "\<forall>bs \<in> set bss. accepts vkey bs"
      "map (journal_from_abi_bytes dec) bss = map Ok (drop (length (js @ [j])) out)"
      "take (length (js @ [j])) out = js @ [j]"
    by blast
  have "length js < length out"
    using bss(6) by (metis length_append_singleton length_take lessI min_less_iff_conj)
  moreover have "out ! length js = j"
    using bss(6) by (metis append_is_Nil_conv length_append_singleton lessI nth_append_length nth_take)
  ultimately have "drop (length js) out = j # drop (length (js @ [j])) out"
    by (simp add: Cons_nth_drop_Suc [symmetric])
  moreover have "take (length js) out = js"
    using bss(6) by (metis append_eq_conv_conj append_take_drop_id length_append_singleton take_all_iff
        butlast_snoc butlast_take diff_Suc_1 \<open>length js < length out\<close> Suc_leI)
  ultimately show ?case
    using bss step(3) read_vec_Ok [OF step(1)] verify_Ok [OF step(2)]
    by (intro exI [of _ "bs # bss"]) simp
qed

lemma read_journals_ready:
  assumes "input s = map VBytes bss @ r" and "\<forall>bs \<in> set bss. accepts vkey bs"
    and "map (journal_from_abi_bytes dec) bss = map Ok out"
  shows "\<exists>s'. read_journals dec io vkey (length bss) js s = (Ok (js @ out), s')
     \<and> input s' = r \<and> committed s' = committed s"
  using assms
proof (induction bss arbitrary: js s out)
  case Nil
  then show ?case by simp
next
  case (Cons bs bss)
  from Cons.prems(3) obtain j out' where out: "out = j # out'"
      "journal_from_abi_bytes dec bs = Ok j" "map (journal_from_abi_bytes dec) bss = map Ok out'"
    by (cases out) auto
  from Cons.prems(1) obtain s1 where s1: "io_read_vec io s = (Ok bs, s1)"
    using read_vec_ready by fastforce
  from Cons.prems(2) obtain s2 where s2: "io_verify_inner_proof io vkey bs s1 = (Ok (), s2)"
    using verify_ready by fastforce
  have rest: "input s2 = map VBytes bss @ r" "committed s2 = committed s"
    using read_vec_Ok [OF s1] verify_Ok [OF s2] Cons.prems(1) by auto
  from Cons.IH [OF rest(1) _ out(3), of "js @ [j]"] Cons.prems(2) rest(2) show ?case
    by (auto simp: out act_bind_cases(1) s1 s2)
qed

lemma aggregation_main_iff:
  assumes inp: "input s = VU32 n # VWords vkey # map VBytes bss @ r" and n: "unat n = length bss"
  shows "(\<exists>s'. aggregation_main enc dec io s = (Ok (), s') \<and> committed s' = c) \<longleftrightarrow>
     (\<forall>bs \<in> set bss. accepts vkey bs)
     \<and> (\<exists>js. map (journal_from_abi_bytes dec) bss = map Ok js \<and> js \<noteq> [] \<and> chained js
          \<and> c = committed s @ journal_to_abi_bytes enc (span js))"
    (is "?runs \<longleftrightarrow> ?good")
proof -
  obtain s1 where s1: "io_read_u32 io s = (Ok n, s1)" using read_u32_ready [OF inp] by blast
  have i1: "input s1 = VWords vkey # map VBytes bss @ r" "committed s1 = committed s"
    using read_u32_Ok [OF s1] inp by auto
  obtain s2 where s2: "io_read_words io s1 = (Ok vkey, s2)" using read_words_ready [OF i1(1)] by blast
  have i2: "input s2 = map VBytes bss @ r" "committed s2 = committed s"
    using read_words_Ok [OF s2] i1 by auto
  have main: "aggregation_main enc dec io s =
      act_bind (read_journals dec io vkey (length bss) []) (\<lambda>journals.
      act_bind (act_lift (aggregate_journals journals)) (\<lambda>aggregated.
        io_commit_slice io (journal_to_abi_bytes enc aggregated))) s2"
    by (simp add: aggregation_main_def act_bind_cases(1) [where m = "io_read_u32 io", OF s1]
        act_bind_cases(1) [where m = "io_read_words io", OF s2] n Let_def)
  show ?thesis
  proof
    assume ?runs
    then obtain s' js s3 where run: "read_journals dec io vkey (length bss) [] s2 = (Ok js, s3)"
        "js \<noteq> []" "chained js" "io_commit_slice io (journal_to_abi_bytes enc (span js)) s3 = (Ok (), s')"
        "committed s' = c"
      unfolding main by (auto simp: act_bind_Ok_iff aggregate_journals_eq split: if_splits)
    from read_journals_Ok [OF run(1)] obtain bss' where
      bss': "length bss' = length bss" "input s2 = map VBytes bss' @ input s3" "committed s3 = committed s2"
        "\<forall>bs \<in> set bss'. accepts vkey bs" "map (journal_from_abi_bytes dec) bss' = map Ok js"
      by auto
    from bss'(1,2) i2(1) have "map VBytes bss' = map VBytes bss"
      by (simp add: append_eq_append_conv)
    then have "bss' = bss" by (rule map_injective) (simp add: inj_def)
    with bss' run commit_Ok [OF run(4)] i2(2) show ?good by auto
  next
    assume ?good
    then obtain js where good: "\<forall>bs \<in> set bss. accepts vkey bs"
        "map (journal_from_abi_bytes dec) bss = map Ok js" "js \<noteq> []" "chained js"
        "c = committed s @ journal_to_abi_bytes enc (span js)"
      by blast
    from read_journals_ready [OF i2(1) good(1,2), of "[]"] obtain s3 where
      s3: "read_journals dec io vkey (length bss) [] s2 = (Ok js, s3)" "committed s3 = committed s2"
      by auto
    obtain s4 where s4: "io_commit_slice io (journal_to_abi_bytes enc (span js)) s3 = (Ok (), s4)"
      using commit_ready by blast
    from good(3-5) s3 s4 commit_Ok [OF s4] i2(2) show ?runs
      unfolding main by (simp add: act_bind_cases(1) aggregate_journals_eq)
  qed
qed

text \<open>The input of any finished run has this shape, whatever was read.\<close>

lemma aggregation_main_finished:
  assumes "aggregation_main enc dec io s = (Ok (), s')"
  shows "\<exists>n vkey bss js. input s = VU32 n # VWords vkey # map VBytes bss @ input s' \<and> unat n = length bss
     \<and> (\<forall>bs \<in> set bss. accepts vkey bs) \<and> map (journal_from_abi_bytes dec) bss = map Ok js
     \<and> js \<noteq> [] \<and> chained js \<and> committed s' = committed s @ journal_to_abi_bytes enc (span js)"
proof -
  from assms obtain n s1 vkey s2 js s3 where run: "io_read_u32 io s = (Ok n, s1)" "io_read_words io s1 = (Ok vkey, s2)"
      "read_journals dec io vkey (unat n) [] s2 = (Ok js, s3)" "js \<noteq> []" "chained js"
      "io_commit_slice io (journal_to_abi_bytes enc (span js)) s3 = (Ok (), s')"
    unfolding aggregation_main_def
    by (auto simp: act_bind_Ok_iff aggregate_journals_eq Let_def split: if_splits)
  from read_journals_Ok [OF run(3)] obtain bss where
    "length bss = unat n" "input s2 = map VBytes bss @ input s3" "committed s3 = committed s2"
      "\<forall>bs \<in> set bss. accepts vkey bs" "map (journal_from_abi_bytes dec) bss = map Ok js"
    by auto
  with run read_u32_Ok [OF run(1)] read_words_Ok [OF run(2)] commit_Ok [OF run(6)] show ?thesis
    by (intro exI [of _ n] exI [of _ vkey] exI [of _ bss] exI [of _ js]) simp
qed

end

text \<open>
  C4: what the aggregation guest commits. On an input of a proof count, a program key and that
  many journals, under either zkVM (any implementation of the guest interface), the program
  runs to its end with given public values exactly when every inner proof is accepted for the
  key, every journal decodes, there is at least one, each one's post root and rollup config
  hash agree with the next one's pre root and config hash, and the public values gain the
  encoding of the journal that spans from the first to the last.
\<close>

theorem aggregation_commits:
  assumes "guest_stream io input committed accepts"
    and "input s = VU32 n # VWords vkey # map VBytes bss @ r" and "unat n = length bss"
  shows "(\<exists>s'. aggregation_main enc dec io s = (Ok (), s') \<and> committed s' = c) \<longleftrightarrow>
     (\<forall>bs \<in> set bss. accepts vkey bs)
     \<and> (\<exists>js. map (journal_from_abi_bytes dec) bss = map Ok js \<and> js \<noteq> [] \<and> chained js
          \<and> c = committed s @ journal_to_abi_bytes enc (span js))"
  by (rule guest_stream.aggregation_main_iff [OF assms])

definition sample_journal :: "b256 \<Rightarrow> b256 \<Rightarrow> u64 \<Rightarrow> journal" where
  "sample_journal a b n =
     \<lparr>j_l1_head = 9, j_l2_pre_root = a, j_l2_post_root = b, j_l2_block_number = n,
      j_rollup_config_hash = 0, j_program_id = 0\<rparr>"

theorem aggregation_commits_witness:
  "\<exists>s'. aggregation_main output_encode output_decode (risc0_io (stream_risc0 (\<lambda>_ _. True)))
       (VU32 2 # VWords [] # map VBytes
          [journal_to_abi_bytes output_encode (sample_journal 1 2 10),
           journal_to_abi_bytes output_encode (sample_journal 2 3 20)], []) = (Ok (), s')
     \<and> snd s' = journal_to_abi_bytes output_encode (sample_journal 1 3 20)"
proof -
  let ?bss = "[journal_to_abi_bytes output_encode (sample_journal 1 2 10),
               journal_to_abi_bytes output_encode (sample_journal 2 3 20)]"
  let ?js = "[sample_journal 1 2 10, sample_journal 2 3 20]"
  have "map (journal_from_abi_bytes output_decode) ?bss = map Ok ?js"
    by (simp add: out_abi.from_to_abi_bytes)
  moreover have "chained ?js" "span ?js = sample_journal 1 3 20"
    by (simp_all add: linked_def span_def sample_journal_def)
  ultimately show ?thesis
    by (subst aggregation_commits [OF risc0_stream.guest_stream_axioms, where bss = ?bss and r = "[]"])
      (auto intro!: exI [of _ ?js])
qed

theorem aggregate_in_groups_witness:
  "aggregate_journals ([sample_journal 1 2 10] @ [sample_journal 2 3 20, sample_journal 3 4 30])
     = aggregate_journals [sample_journal 1 2 10, sample_journal 2 4 30]"
  by (rule aggregate_in_groups) (simp_all add: aggregate_journals_eq linked_def span_def sample_journal_def)

text \<open>
  What the aggregation does not look at. Whether journals aggregate does not depend on their
  L1 heads, block numbers or program ids: replacing them arbitrarily in every journal changes
  neither success nor failure, and never the roots or the config hash of the result. In
  particular the block numbers of an accepted sequence may decrease.
\<close>

theorem aggregate_ignores:
  "map_option (\<lambda>j. (j_l2_pre_root j, j_l2_post_root j, j_rollup_config_hash j))
     (result_ok (aggregate_journals
        (map (\<lambda>j. j\<lparr>j_l1_head := l1 j, j_l2_block_number := num j, j_program_id := pid j\<rparr>) js)))
   = map_option (\<lambda>j. (j_l2_pre_root j, j_l2_post_root j, j_rollup_config_hash j))
       (result_ok (aggregate_journals js))"
proof -
  let ?f = "\<lambda>j. j\<lparr>j_l1_head := l1 j, j_l2_block_number := num j, j_program_id := pid j\<rparr>"
  have "chained (map ?f js) \<longleftrightarrow> chained js"
    by (simp add: chained_def linked_def)
  then show ?thesis
    by (cases "js = []") (simp_all add: aggregate_journals_eq span_def hd_map last_map)
qed

end
