(* ===== verification/Pipeline.thy ===== *)
theory Pipeline
  imports Witness Da_Source Zkvm_Io
begin

text \<open>
  The range guest: crates/guest/src/pipeline.rs and the entry points of guests/range-celestia,
  guests/range-eigenda and guests/range-ethereum.  kona's oracle, providers, derivation
  pipeline, executor and driver are the fields of a record; a failing \<open>expect\<close> or assertion is
  a panic, after which the guest commits nothing.
\<close>

section \<open>kona\<close>

record ('cfg, 'l1c) kona_boot =
  kb_l1_head :: b256
  kb_agreed_l2_output_root :: b256
  kb_claimed_l2_output_root :: b256
  kb_claimed_l2_block_number :: u64
  kb_rollup_config :: 'cfg
  kb_l1_config :: 'l1c

record ('orc, 'cfg, 'l1c, 'hdr, 'l1p, 'l2p, 'cur, 'da, 'pipe, 'exec) kona_ops =
  ko_caching_oracle :: "nat \<Rightarrow> preimage_store \<Rightarrow> preimage_store \<Rightarrow> 'orc"
  ko_load_boot :: "'orc \<Rightarrow> (string, ('cfg, 'l1c) kona_boot) outcome"
  ko_send_starting_l2_output :: "'orc \<Rightarrow> b256 \<Rightarrow> (string, unit) outcome"
  ko_get_exact :: "'orc \<Rightarrow> b256 \<Rightarrow> bytes \<Rightarrow> (preimage_oracle_error, unit) outcome \<times> bytes"
  ko_l1_provider :: "b256 \<Rightarrow> 'orc \<Rightarrow> 'l1p"
  ko_l2_provider :: "b256 \<Rightarrow> 'cfg \<Rightarrow> 'orc \<Rightarrow> 'l2p"
  ko_header_by_hash :: "'l2p \<Rightarrow> b256 \<Rightarrow> (string, 'hdr) outcome"
  ko_header_number :: "'hdr \<Rightarrow> u64"
  ko_new_pipeline_cursor :: "'cfg \<Rightarrow> 'hdr \<times> b256 \<Rightarrow> 'l1p \<Rightarrow> 'l2p \<Rightarrow> (string, 'cur) outcome \<times> 'l1p \<times> 'l2p"
  ko_set_cursor :: "'l2p \<Rightarrow> 'cur \<Rightarrow> 'l2p"
  ko_new_pipeline :: "'cfg \<Rightarrow> 'l1c \<Rightarrow> 'cur \<Rightarrow> 'orc \<Rightarrow> 'da \<Rightarrow> 'l1p \<Rightarrow> 'l2p \<Rightarrow> (string, 'pipe) outcome"
  ko_new_executor :: "'cfg \<Rightarrow> 'l2p \<Rightarrow> 'l2p \<Rightarrow> 'exec"
  ko_advance_to_target :: "'cur \<Rightarrow> 'exec \<Rightarrow> 'pipe \<Rightarrow> 'cfg \<Rightarrow> u64 option \<Rightarrow> (string, 'hdr \<times> b256) outcome"

text \<open>A DA factory makes the source from the L1 provider, the oracle and the rollup config.\<close>

type_synonym ('l1p, 'orc, 'cfg, 'da) da_source_factory = "'l1p \<Rightarrow> 'orc \<Rightarrow> 'cfg \<Rightarrow> 'da"

section \<open>The safe head\<close>

datatype oracle_provider_error =
    SendHint string
  | PreimageError preimage_oracle_error
  | SliceConversion

text \<open>\<open>try_into\<close> makes a 32-byte array of a slice of that length.\<close>

definition b256_of_slice :: "bytes \<Rightarrow> b256 option" where
  "b256_of_slice bs = (if length bs = 32 then Some (be_word bs) else None)"

definition fetch_safe_head_hash ::
  "('orc, 'cfg, 'l1c, 'hdr, 'l1p, 'l2p, 'cur, 'da, 'pipe, 'exec) kona_ops \<Rightarrow> 'orc \<Rightarrow> b256
     \<Rightarrow> (oracle_provider_error, b256) outcome" where
  "fetch_safe_head_hash K oracle agreed_l2_output_root =
     (let output_preimage = replicate 128 0
      in and_then (map_err SendHint (ko_send_starting_l2_output K oracle agreed_l2_output_root)) (\<lambda>_.
         case ko_get_exact K oracle agreed_l2_output_root output_preimage of
           (r, output_preimage) \<Rightarrow>
             and_then (map_err PreimageError r) (\<lambda>_.
             and_then (subslice output_preimage 96 128) (\<lambda>bs.
             ok_or SliceConversion (b256_of_slice bs)))))"

section \<open>The pipeline\<close>

definition ORACLE_LRU_SIZE :: nat where
  "ORACLE_LRU_SIZE = 1024"

definition guest_assert :: "bool \<Rightarrow> (unit, unit) outcome" where
  "guest_assert b = (if b then Ok () else Panic AssertionFailed)"

text \<open>Derivation and execution up to the driver's result; every failure is an \<open>expect\<close>.\<close>

definition derive_output_root ::
  "('orc, 'cfg, 'l1c, 'hdr, 'l1p, 'l2p, 'cur, 'da, 'pipe, 'exec) kona_ops
     \<Rightarrow> ('l1p, 'orc, 'cfg, 'da) da_source_factory \<Rightarrow> 'orc \<Rightarrow> ('cfg, 'l1c) kona_boot
     \<Rightarrow> 'hdr \<times> b256 \<Rightarrow> 'l1p \<Rightarrow> 'l2p \<Rightarrow> (unit, b256) outcome" where
  "derive_output_root K create_da_source caching_oracle boot safe_head l1_provider l2_provider =
     (let rollup_config = kb_rollup_config boot
      in case ko_new_pipeline_cursor K rollup_config safe_head l1_provider l2_provider of
           (cursor_result, l1_provider, l2_provider) \<Rightarrow>
             and_then (expect cursor_result) (\<lambda>cursor.
             let l2_provider = ko_set_cursor K l2_provider cursor;
                 da_provider = create_da_source l1_provider caching_oracle rollup_config
             in and_then (expect (ko_new_pipeline K rollup_config (kb_l1_config boot) cursor caching_oracle
                            da_provider l1_provider l2_provider)) (\<lambda>pipeline.
             let executor = ko_new_executor K rollup_config l2_provider l2_provider
             in and_then (expect (ko_advance_to_target K cursor executor pipeline rollup_config
                            (Some (kb_claimed_l2_block_number boot)))) (\<lambda>(_, output_root).
             Ok output_root))))"

definition run_pipeline ::
  "('orc, 'cfg, 'l1c, 'hdr, 'l1p, 'l2p, 'cur, 'da, 'pipe, 'exec) kona_ops
     \<Rightarrow> ('l1p, 'orc, 'cfg, 'da) da_source_factory \<Rightarrow> preimage_store
     \<Rightarrow> (unit, b256 \<times> b256 \<times> b256 \<times> u64 \<times> b256) outcome" where
  "run_pipeline K factory store =
     (let caching_oracle = ko_caching_oracle K ORACLE_LRU_SIZE store store
      in and_then (expect (ko_load_boot K caching_oracle)) (\<lambda>boot.
         let rollup_config = kb_rollup_config boot
         in and_then (expect (fetch_safe_head_hash K caching_oracle (kb_agreed_l2_output_root boot))) (\<lambda>safe_head_hash.
         let l1_provider = ko_l1_provider K (kb_l1_head boot) caching_oracle;
             l2_provider = ko_l2_provider K safe_head_hash rollup_config caching_oracle
         in and_then (expect (ko_header_by_hash K l2_provider safe_head_hash)) (\<lambda>header.
         let safe_head = (header, safe_head_hash)
         in and_then (guest_assert (kb_claimed_l2_block_number boot \<ge> ko_header_number K header)) (\<lambda>_.
         if kb_agreed_l2_output_root boot = kb_claimed_l2_output_root boot
         then let config_hash = 0
              in Ok (kb_l1_head boot, kb_agreed_l2_output_root boot, kb_claimed_l2_output_root boot,
                     kb_claimed_l2_block_number boot, config_hash)
         else and_then (derive_output_root K factory caching_oracle boot safe_head l1_provider l2_provider) (\<lambda>output_root.
              and_then (guest_assert (output_root = kb_claimed_l2_output_root boot)) (\<lambda>_.
              let config_hash = 0
              in Ok (kb_l1_head boot, kb_agreed_l2_output_root boot, output_root,
                     kb_claimed_l2_block_number boot, config_hash))))))))"

definition pipeline_run ::
  "(state_transition_output \<Rightarrow> bytes)
     \<Rightarrow> ('orc, 'cfg, 'l1c, 'hdr, 'l1p, 'l2p, 'cur, 'da, 'pipe, 'exec) kona_ops
     \<Rightarrow> ('l1p, 'orc, 'cfg, 'da) da_source_factory \<Rightarrow> preimage_store \<Rightarrow> 's zkvm_io \<Rightarrow> ('s, unit) guest" where
  "pipeline_run enc K factory store io =
     act_bind (act_lift (run_pipeline K factory store))
       (\<lambda>(l1_head, l2_pre_root, l2_post_root, l2_block_number, config_hash).
        let journal = \<lparr>j_l1_head = l1_head, j_l2_pre_root = l2_pre_root, j_l2_post_root = l2_post_root,
                       j_l2_block_number = l2_block_number, j_rollup_config_hash = config_hash,
                       j_program_id = 0\<rparr>
        in io_commit_slice io (journal_to_abi_bytes enc journal))"

section \<open>The entry points\<close>

text \<open>
  The three guests differ in the factory: Ethereum's is kona's own source over a blob provider,
  the other two the sources of \<open>Da_Source\<close> at the batch inbox of the rollup config, with the
  provider and the oracle they hold.
\<close>

definition celestia_factory :: "('cfg \<Rightarrow> address) \<Rightarrow> ('l1p, 'orc, 'cfg, 'l1p \<times> 'orc \<times> celestia_data_source) da_source_factory" where
  "celestia_factory batch_inbox_address = (\<lambda>l1_provider oracle rollup_config.
     (l1_provider, oracle, celestia_new (batch_inbox_address rollup_config)))"

definition eigenda_factory :: "('cfg \<Rightarrow> address) \<Rightarrow> ('l1p, 'orc, 'cfg, 'l1p \<times> 'orc \<times> eigenda_data_source) da_source_factory" where
  "eigenda_factory batch_inbox_address = (\<lambda>l1_provider oracle rollup_config.
     (l1_provider, oracle, eigenda_new (batch_inbox_address rollup_config)))"

definition ethereum_factory ::
  "('orc \<Rightarrow> 'bp) \<Rightarrow> ('l1p \<Rightarrow> 'bp \<Rightarrow> 'cfg \<Rightarrow> 'da) \<Rightarrow> ('l1p, 'orc, 'cfg, 'da) da_source_factory" where
  "ethereum_factory blob_provider new_from_parts = (\<lambda>l1_provider oracle rollup_config.
     let beacon = blob_provider oracle in new_from_parts l1_provider beacon rollup_config)"

definition range_main ::
  "(state_transition_output \<Rightarrow> bytes) \<Rightarrow> (bool \<Rightarrow> bytes \<Rightarrow> preimages option)
     \<Rightarrow> ('orc, 'cfg, 'l1c, 'hdr, 'l1p, 'l2p, 'cur, 'da, 'pipe, 'exec) kona_ops
     \<Rightarrow> ('l1p, 'orc, 'cfg, 'da) da_source_factory \<Rightarrow> 's zkvm_io \<Rightarrow> ('s, unit) guest" where
  "range_main enc check_root K factory io =
     act_bind (io_read_vec io) (\<lambda>oracle_bytes.
     act_bind (act_lift (expect (ok_or () (from_rkyv_bytes check_root oracle_bytes)))) (\<lambda>store.
     pipeline_run enc K factory store io))"

definition celestia_main ::
  "(state_transition_output \<Rightarrow> bytes) \<Rightarrow> (bool \<Rightarrow> bytes \<Rightarrow> preimages option) \<Rightarrow> ('cfg \<Rightarrow> address)
     \<Rightarrow> ('orc, 'cfg, 'l1c, 'hdr, 'l1p, 'l2p, 'cur, 'l1p \<times> 'orc \<times> celestia_data_source, 'pipe, 'exec) kona_ops
     \<Rightarrow> 's zkvm_io \<Rightarrow> ('s, unit) guest" where
  "celestia_main enc check_root inbox K io = range_main enc check_root K (celestia_factory inbox) io"

definition eigenda_main ::
  "(state_transition_output \<Rightarrow> bytes) \<Rightarrow> (bool \<Rightarrow> bytes \<Rightarrow> preimages option) \<Rightarrow> ('cfg \<Rightarrow> address)
     \<Rightarrow> ('orc, 'cfg, 'l1c, 'hdr, 'l1p, 'l2p, 'cur, 'l1p \<times> 'orc \<times> eigenda_data_source, 'pipe, 'exec) kona_ops
     \<Rightarrow> 's zkvm_io \<Rightarrow> ('s, unit) guest" where
  "eigenda_main enc check_root inbox K io = range_main enc check_root K (eigenda_factory inbox) io"

definition ethereum_main ::
  "(state_transition_output \<Rightarrow> bytes) \<Rightarrow> (bool \<Rightarrow> bytes \<Rightarrow> preimages option) \<Rightarrow> ('orc \<Rightarrow> 'bp)
     \<Rightarrow> ('l1p \<Rightarrow> 'bp \<Rightarrow> 'cfg \<Rightarrow> 'da)
     \<Rightarrow> ('orc, 'cfg, 'l1c, 'hdr, 'l1p, 'l2p, 'cur, 'da, 'pipe, 'exec) kona_ops
     \<Rightarrow> 's zkvm_io \<Rightarrow> ('s, unit) guest" where
  "ethereum_main enc check_root blob_provider new_from_parts K io =
     range_main enc check_root K (ethereum_factory blob_provider new_from_parts) io"

section \<open>Behaviour of the pipeline\<close>

lemma and_then_expect [simp]: "and_then (expect r) f = Ok b \<longleftrightarrow> (\<exists>a. r = Ok a \<and> f a = Ok b)"
  by (cases r) auto

lemma and_then_assert [simp]: "and_then (guest_assert c) f = Ok b \<longleftrightarrow> c \<and> f () = Ok b"
  by (simp add: guest_assert_def)

lemma guest_assert_Ok [simp]: "guest_assert c = Ok u \<longleftrightarrow> c"
  by (simp add: guest_assert_def)

lemma run_pipeline_Ok_iff:
  "run_pipeline K factory store = Ok res \<longleftrightarrow>
     (let oracle = ko_caching_oracle K 1024 store store
      in \<exists>boot h hdr. ko_load_boot K oracle = Ok boot
        \<and> fetch_safe_head_hash K oracle (kb_agreed_l2_output_root boot) = Ok h
        \<and> ko_header_by_hash K (ko_l2_provider K h (kb_rollup_config boot) oracle) h = Ok hdr
        \<and> ko_header_number K hdr \<le> kb_claimed_l2_block_number boot
        \<and> (kb_agreed_l2_output_root boot = kb_claimed_l2_output_root boot
           \<or> derive_output_root K factory oracle boot (hdr, h) (ko_l1_provider K (kb_l1_head boot) oracle)
               (ko_l2_provider K h (kb_rollup_config boot) oracle) = Ok (kb_claimed_l2_output_root boot))
        \<and> res = (kb_l1_head boot, kb_agreed_l2_output_root boot, kb_claimed_l2_output_root boot,
                 kb_claimed_l2_block_number boot, 0))"
  by (auto simp: run_pipeline_def ORACLE_LRU_SIZE_def Let_def and_then_eq_Ok_iff split: if_splits)

text \<open>What a finished run of the pipeline knows about its boot information.\<close>

definition pipeline_accepts ::
  "('orc, 'cfg, 'l1c, 'hdr, 'l1p, 'l2p, 'cur, 'da, 'pipe, 'exec) kona_ops
     \<Rightarrow> ('l1p, 'orc, 'cfg, 'da) da_source_factory \<Rightarrow> preimage_store \<Rightarrow> ('cfg, 'l1c) kona_boot \<Rightarrow> bool" where
  "pipeline_accepts K factory store boot \<longleftrightarrow>
     (let oracle = ko_caching_oracle K 1024 store store
      in ko_load_boot K oracle = Ok boot
       \<and> (\<exists>h hdr. fetch_safe_head_hash K oracle (kb_agreed_l2_output_root boot) = Ok h
            \<and> ko_header_by_hash K (ko_l2_provider K h (kb_rollup_config boot) oracle) h = Ok hdr
            \<and> ko_header_number K hdr \<le> kb_claimed_l2_block_number boot
            \<and> (kb_agreed_l2_output_root boot = kb_claimed_l2_output_root boot
               \<or> derive_output_root K factory oracle boot (hdr, h) (ko_l1_provider K (kb_l1_head boot) oracle)
                   (ko_l2_provider K h (kb_rollup_config boot) oracle) = Ok (kb_claimed_l2_output_root boot))))"

definition boot_journal :: "('cfg, 'l1c) kona_boot \<Rightarrow> state_transition_journal" where
  "boot_journal boot =
     \<lparr>j_l1_head = kb_l1_head boot, j_l2_pre_root = kb_agreed_l2_output_root boot,
      j_l2_post_root = kb_claimed_l2_output_root boot, j_l2_block_number = kb_claimed_l2_block_number boot,
      j_rollup_config_hash = 0, j_program_id = 0\<rparr>"

lemma run_pipeline_accepts:
  "run_pipeline K factory store = Ok res \<longleftrightarrow>
     (\<exists>boot. pipeline_accepts K factory store boot
        \<and> res = (kb_l1_head boot, kb_agreed_l2_output_root boot, kb_claimed_l2_output_root boot,
                 kb_claimed_l2_block_number boot, 0))"
  unfolding run_pipeline_Ok_iff pipeline_accepts_def Let_def by blast

lemma pipeline_run_Ok_iff:
  "pipeline_run enc K factory store io s = (Ok u, s') \<longleftrightarrow>
     (\<exists>boot. pipeline_accepts K factory store boot
        \<and> io_commit_slice io (journal_to_abi_bytes enc (boot_journal boot)) s = (Ok u, s'))"
  by (simp add: pipeline_run_def act_bind_Ok_iff run_pipeline_accepts boot_journal_def Let_def) blast

lemma range_main_commits:
  assumes "guest_stream io input committed accepts"
  shows "(\<exists>s'. range_main enc check_root K factory io s = (Ok (), s') \<and> committed s' = c) \<longleftrightarrow>
     (\<exists>bs r store boot. input s = VBytes bs # r \<and> from_rkyv_bytes check_root bs = Some store
        \<and> pipeline_accepts K factory store boot
        \<and> c = committed s @ journal_to_abi_bytes enc (boot_journal boot))"
    (is "?runs \<longleftrightarrow> ?good")
proof
  assume ?runs
  then obtain s1 bs store boot s' where run: "io_read_vec io s = (Ok bs, s1)"
      "from_rkyv_bytes check_root bs = Some store" "pipeline_accepts K factory store boot"
      "io_commit_slice io (journal_to_abi_bytes enc (boot_journal boot)) s1 = (Ok (), s')" "committed s' = c"
    by (auto simp: range_main_def act_bind_Ok_iff pipeline_run_Ok_iff)
  with guest_stream.read_vec_Ok [OF assms run(1)] guest_stream.commit_Ok [OF assms run(4)] show ?good
    by auto
next
  assume ?good
  then obtain bs r store boot where good: "input s = VBytes bs # r"
      "from_rkyv_bytes check_root bs = Some store" "pipeline_accepts K factory store boot"
      "c = committed s @ journal_to_abi_bytes enc (boot_journal boot)"
    by blast
  obtain s1 where s1: "io_read_vec io s = (Ok bs, s1)"
    using guest_stream.read_vec_ready [OF assms good(1)] by blast
  obtain s2 where s2: "io_commit_slice io (journal_to_abi_bytes enc (boot_journal boot)) s1 = (Ok (), s2)"
    using guest_stream.commit_ready [OF assms] by blast
  have "range_main enc check_root K factory io s = (Ok (), s2)"
    using good(2,3) s1 s2 by (auto simp: range_main_def act_bind_Ok_iff pipeline_run_Ok_iff)
  moreover have "committed s2 = c"
    using guest_stream.read_vec_Ok [OF assms s1] guest_stream.commit_Ok [OF assms s2] good(4) by simp
  ultimately show ?runs by blast
qed

text \<open>
  C5: what a range guest commits. Under either zkVM and for every DA source, the guest runs to
  its end with given public values exactly when its input is an archive of preimages from
  which kona loads boot information, the safe head of the agreed root is found and is not
  beyond the claimed block, and either the claimed root is the agreed one or deriving and
  executing up to the claimed block gives the claimed root; the public values then gain the
  encoding of the journal of that boot information, with zero config hash and program id.
\<close>

theorem range_guest_commits:
  assumes "guest_stream io input committed accepts"
  shows "(\<exists>s'. range_main enc check_root K factory io s = (Ok (), s') \<and> committed s' = c) \<longleftrightarrow>
     (\<exists>bs r store boot. input s = VBytes bs # r \<and> from_rkyv_bytes check_root bs = Some store
        \<and> pipeline_accepts K factory store boot
        \<and> c = committed s @ journal_to_abi_bytes enc (boot_journal boot))"
  using range_main_commits [OF assms] .

text \<open>
  Trace extension. When the claimed root is the agreed one, the pipeline succeeds with the
  claimed block number, whatever it is at or above the safe head, and with whatever the
  derivation, the executor and the DA source would do: nothing is derived.
\<close>

theorem trace_extension:
  fixes K :: "('orc, 'cfg, 'l1c, 'hdr, 'l1p, 'l2p, 'cur, 'da, 'pipe, 'exec) kona_ops"
  assumes "ko_load_boot K (ko_caching_oracle K 1024 store store) = Ok boot"
    and "fetch_safe_head_hash K (ko_caching_oracle K 1024 store store) (kb_agreed_l2_output_root boot) = Ok h"
    and "ko_header_by_hash K (ko_l2_provider K h (kb_rollup_config boot) (ko_caching_oracle K 1024 store store)) h
           = Ok hdr"
    and "kb_claimed_l2_output_root boot = kb_agreed_l2_output_root boot"
    and "ko_header_number K hdr \<le> kb_claimed_l2_block_number boot"
  shows "run_pipeline (K\<lparr>ko_new_pipeline_cursor := no_cursor, ko_new_pipeline := no_pipeline,
            ko_advance_to_target := no_driver\<rparr>) factory store =
     Ok (kb_l1_head boot, kb_agreed_l2_output_root boot, kb_agreed_l2_output_root boot,
         kb_claimed_l2_block_number boot, 0)"
proof -
  let ?K = "K\<lparr>ko_new_pipeline_cursor := no_cursor, ko_new_pipeline := no_pipeline,
            ko_advance_to_target := no_driver\<rparr>"
  have "fetch_safe_head_hash ?K = fetch_safe_head_hash K"
    by (simp add: fun_eq_iff fetch_safe_head_hash_def)
  with assms show ?thesis
    by (simp add: run_pipeline_Ok_iff)
qed

text \<open>
  The safe head. Over an oracle that serves the guest's store, the safe head hash is the
  last 32 of the 128 bytes stored for the agreed output root; a missing value is KeyNotFound
  and one of another length is reported with both lengths.
\<close>

lemma safe_head_hash:
  assumes "\<And>root buf. ko_get_exact K oracle root buf = preimage_get_exact into store root buf"
    and "ko_send_starting_l2_output K oracle root = Ok ()"
  shows "fetch_safe_head_hash K oracle root =
     (case ps_data store (into root) of
        None \<Rightarrow> Err (PreimageError KeyNotFound)
      | Some v \<Rightarrow> if length v = 128 then Ok (be_word (drop 96 v))
                  else Err (PreimageError (BufferLengthMismatch (length v) 128)))"
  by (auto simp: fetch_safe_head_hash_def assms preimage_get_exact_def preimage_get_def subslice_def
      b256_of_slice_def split: option.splits)

text \<open>A small kona: the state root is a number, deriving a block adds one.\<close>

definition sample_boot :: "b256 \<Rightarrow> u64 \<Rightarrow> (unit, unit) kona_boot" where
  "sample_boot claimed n =
     \<lparr>kb_l1_head = 4, kb_agreed_l2_output_root = 100, kb_claimed_l2_output_root = claimed,
      kb_claimed_l2_block_number = n, kb_rollup_config = (), kb_l1_config = ()\<rparr>"

definition sample_kona ::
  "(unit, unit) kona_boot
     \<Rightarrow> (preimage_store, unit, unit, u64, unit, unit, unit, unit, unit, unit) kona_ops" where
  "sample_kona boot =
     \<lparr>ko_caching_oracle = (\<lambda>_ st _. st),
      ko_load_boot = (\<lambda>_. Ok boot),
      ko_send_starting_l2_output = (\<lambda>_ _. Ok ()),
      ko_get_exact = preimage_get_exact id,
      ko_l1_provider = (\<lambda>_ _. ()),
      ko_l2_provider = (\<lambda>_ _ _. ()),
      ko_header_by_hash = (\<lambda>_ _. Ok 10),
      ko_header_number = id,
      ko_new_pipeline_cursor = (\<lambda>_ _ _ _. (Ok (), (), ())),
      ko_set_cursor = (\<lambda>_ _. ()),
      ko_new_pipeline = (\<lambda>_ _ _ _ _ _ _. Ok ()),
      ko_new_executor = (\<lambda>_ _ _. ()),
      ko_advance_to_target = (\<lambda>_ _ _ _ n. Ok (the n, 100 + ucast (the n - 10)))\<rparr>"

definition sample_preimages :: preimage_store where
  "sample_preimages = \<lparr>ps_data = [100 \<mapsto> replicate 127 0 @ [77]]\<rparr>"

lemma le_word_zeros [simp]: "le_word (replicate n 0) = 0"
  by (induction n) simp_all

lemma sample_head: "fetch_safe_head_hash (sample_kona boot) sample_preimages 100 = Ok 77"
  by (simp add: fetch_safe_head_hash_def sample_kona_def sample_preimages_def preimage_get_exact_def
      preimage_get_def subslice_def b256_of_slice_def be_word_def Let_def)

lemma sample_accepts:
  assumes "10 \<le> n" and "claimed = 100 \<or> claimed = 100 + ucast (n - 10)"
  shows "pipeline_accepts (sample_kona (sample_boot claimed n)) factory sample_preimages (sample_boot claimed n)"
proof -
  have "derive_output_root (sample_kona b) factory orc (sample_boot claimed n) hd' p q = Ok (100 + ucast (n - 10))"
    for b factory orc hd' p q
    by (simp add: derive_output_root_def sample_kona_def sample_boot_def Let_def)
  moreover have "ko_caching_oracle (sample_kona b) k st st = st"
    "ko_load_boot (sample_kona b) st = Ok b" "ko_header_by_hash (sample_kona b) p h = Ok 10"
    "ko_header_number (sample_kona b) x = x" for b k st p h x
    by (simp_all add: sample_kona_def)
  ultimately show ?thesis
    using assms sample_head
    by (auto simp: pipeline_accepts_def sample_boot_def Let_def)
qed

theorem range_guest_commits_witness:
  "\<exists>bs s'. archive_write (ps_data sample_preimages) = Ok bs
     \<and> range_main output_encode archive_read (sample_kona (sample_boot 103 13)) (\<lambda>_ _ _. ())
         (sp1_io (stream_sp1 (\<lambda>_ _. True) id)) ([VBytes bs], []) = (Ok (), s')
     \<and> snd s' = journal_to_abi_bytes output_encode (boot_journal (sample_boot 103 13))"
proof -
  obtain bs where bs: "archive_write (ps_data sample_preimages) = Ok bs"
    using archive_writes [of "ps_data sample_preimages"] by (auto simp: sample_preimages_def)
  have "from_rkyv_bytes archive_read bs = Some sample_preimages"
    using arch.guest_reads [of "ps_data sample_preimages" bs] bs
    by (simp add: serialize_preimages_def preimage_store_new_def)
  moreover have "pipeline_accepts (sample_kona (sample_boot 103 13)) (\<lambda>_ _ _. ()) sample_preimages (sample_boot 103 13)"
    by (rule sample_accepts) simp_all
  ultimately have "\<exists>s'. range_main output_encode archive_read (sample_kona (sample_boot 103 13)) (\<lambda>_ _ _. ())
         (sp1_io (stream_sp1 (\<lambda>_ _. True) id)) ([VBytes bs], []) = (Ok (), s')
     \<and> snd s' = [] @ journal_to_abi_bytes output_encode (boot_journal (sample_boot 103 13))"
    by (subst range_guest_commits [OF sp1_stream.guest_stream_axioms]) auto
  with bs show ?thesis by auto
qed

theorem trace_extension_witness:
  "run_pipeline (sample_kona (sample_boot 100 5000)\<lparr>ko_new_pipeline_cursor := (\<lambda>_ _ _ _. (Err ''no data'', (), ())),
       ko_new_pipeline := (\<lambda>_ _ _ _ _ _ _. Err ''no data''), ko_advance_to_target := (\<lambda>_ _ _ _ _. Err ''no data'')\<rparr>)
     (\<lambda>_ _ _. ()) sample_preimages = Ok (4, 100, 100, 5000, 0)"
  using trace_extension [where K = "sample_kona (sample_boot 100 5000)" and store = sample_preimages
      and boot = "sample_boot 100 5000" and h = 77 and hdr = 10 and factory = "\<lambda>_ _ _. ()"
      and no_cursor = "\<lambda>_ _ _ _. (Err ''no data'', (), ())" and no_pipeline = "\<lambda>_ _ _ _ _ _ _. Err ''no data''"
      and no_driver = "\<lambda>_ _ _ _ _. Err ''no data''"] sample_head [of "sample_boot 100 5000"]
  by (simp add: sample_boot_def sample_kona_def)

lemma safe_head_hash_witness:
  "fetch_safe_head_hash (sample_kona (sample_boot 100 20)) sample_preimages 100 = Ok 77"
  using safe_head_hash [of "sample_kona (sample_boot 100 20)" sample_preimages id sample_preimages 100]
  by (simp add: sample_kona_def sample_preimages_def be_word_def)

end
