(* ===== verification/Prover.thy ===== *)
theory Prover
  imports Witness
begin

text \<open>
  The prover backends of crates/host/src/prover: the \<open>ProverBackend\<close> trait as a record of
  actions, and its mock, SP1 and RISC Zero implementations over the SDK calls they make, with
  the witness conversions of witness/adapter.rs.  The contract \<open>prover_contract\<close> (what was
  proved verifies) is interpreted on the mock backend and follows for the other two from the
  laws of their SDKs.
\<close>

record ('w, 'p, 'i, 'e) prover_backend =
  pb_name :: string
  pb_prove :: "'p \<Rightarrow> 'i \<Rightarrow> proving_mode \<Rightarrow> ('w, 'e, proof_artifact) action"
  pb_verify :: "'p \<Rightarrow> proof_artifact \<Rightarrow> ('w, 'e, bool) action"
  pb_count_cycles :: "'p \<Rightarrow> 'i \<Rightarrow> ('w, 'e, cycle_estimate) action"

locale prover_contract =
  fixes B :: "('w, 'p, 'i, 'e) prover_backend"
    and tag :: zkvm_backend
    and wf_program :: "'p \<Rightarrow> bool"
  assumes prove_tags: "pb_prove B p i m w = (Ok a, w') \<Longrightarrow> pa_mode a = m \<and> pa_backend a = tag"
    and prove_verifies: "wf_program p \<Longrightarrow> pb_prove B p i m w = (Ok a, w') \<Longrightarrow> \<exists>w''. pb_verify B p a w' = (Ok True, w'')"
    and cycles_tag: "pb_count_cycles B p i w = (Ok c, w') \<Longrightarrow> ce_backend c = tag"
begin

text \<open>Proving then verifying, as one action, only fails where proving does.\<close>

lemma prove_then_verify:
  assumes "wf_program p" and "pb_prove B p i m w = (Ok a, w')"
  shows "fst (act_bind (pb_prove B p i m) (pb_verify B p) w) = Ok True"
  using prove_verifies [OF assms] assms(2) by (auto simp: act_bind_cases(1))

lemma rejected_not_proved:
  assumes "wf_program p" and "\<And>w''. pb_verify B p a w' \<noteq> (Ok True, w'')"
  shows "pb_prove B p i m w \<noteq> (Ok a, w')"
  using prove_verifies assms by blast

end

section \<open>Mock\<close>

record mock_witness =
  mw_data :: bytes

record mock_program =
  mp_id :: bytes
  mp_program_name :: string

definition mock_program_new :: "string \<Rightarrow> mock_program" where
  "mock_program_new name = \<lparr>mp_id = into_bytes name, mp_program_name = name\<rparr>"

datatype mock_prover_error = MockProverError string

definition mock_prove ::
  "mock_program \<Rightarrow> mock_witness \<Rightarrow> proving_mode \<Rightarrow> ('w, mock_prover_error, proof_artifact) action" where
  "mock_prove program witness mode =
     act_return \<lparr>pa_backend = Mock, pa_mode = mode, pa_proof_bytes = [0xDE, 0xAD], pa_public_values = [],
                 pa_program_id = 0, pa_cycle_count = Some 0\<rparr>"

definition mock_verify :: "mock_program \<Rightarrow> proof_artifact \<Rightarrow> ('w, mock_prover_error, bool) action" where
  "mock_verify program proof = act_return (pa_backend proof = Mock)"

definition mock_count_cycles ::
  "mock_program \<Rightarrow> mock_witness \<Rightarrow> ('w, mock_prover_error, cycle_estimate) action" where
  "mock_count_cycles program witness = act_return \<lparr>ce_cycles = 0, ce_backend = Mock\<rparr>"

definition mock_prover_backend :: "('w, mock_program, mock_witness, mock_prover_error) prover_backend" where
  "mock_prover_backend =
     \<lparr>pb_name = ''mock'', pb_prove = mock_prove, pb_verify = mock_verify, pb_count_cycles = mock_count_cycles\<rparr>"

interpretation mock_pb: prover_contract mock_prover_backend Mock "\<lambda>_. True"
  by unfold_locales (auto simp: mock_prover_backend_def mock_prove_def mock_verify_def mock_count_cycles_def)

section \<open>SP1\<close>

record ('w, 'stdin, 'pk, 'vk, 'proof) sp1_sdk =
  sdk_stdin_write :: "bytes \<Rightarrow> 'stdin"
  sdk_execute :: "bytes \<Rightarrow> 'stdin \<Rightarrow> ('w, string, bytes \<times> u64) action"
  sdk_setup :: "bytes \<Rightarrow> ('w, string, 'pk) action"
  sdk_prove_compressed :: "'pk \<Rightarrow> 'stdin \<Rightarrow> ('w, string, 'proof) action"
  sdk_prove_groth16 :: "'pk \<Rightarrow> 'stdin \<Rightarrow> ('w, string, 'proof) action"
  sdk_public_values :: "'proof \<Rightarrow> bytes"
  sdk_serialize :: "'proof \<Rightarrow> (string, bytes) outcome"
  sdk_deserialize :: "bytes \<Rightarrow> (string, 'proof) outcome"
  sdk_verifying_key :: "'pk \<Rightarrow> 'vk"
  sdk_vk_bytes32 :: "'vk \<Rightarrow> b256"
  sdk_verify :: "'proof \<Rightarrow> 'vk \<Rightarrow> (string, unit) outcome"

record 'stdin sp1_witness =
  sw_stdin :: 'stdin

record sp1_program =
  spg_elf :: bytes
  spg_program_name :: string

definition sp1_program_new :: "string \<Rightarrow> bytes \<Rightarrow> sp1_program" where
  "sp1_program_new name elf = \<lparr>spg_elf = elf, spg_program_name = name\<rparr>"

definition raw_witness_to_sp1_witness ::
  "('w, 'stdin, 'pk, 'vk, 'proof) sp1_sdk \<Rightarrow> raw_witness \<Rightarrow> (string, 'stdin sp1_witness) outcome" where
  "raw_witness_to_sp1_witness S witness =
     (let stdin = sdk_stdin_write S (rw_oracle_data witness) in Ok \<lparr>sw_stdin = stdin\<rparr>)"

datatype sp1_prover_error = Sp1ProvingFailed string | Sp1VerificationFailed string

fun sp1_prover_error_to_string :: "sp1_prover_error \<Rightarrow> string" where
  "sp1_prover_error_to_string (Sp1ProvingFailed s) = ''sp1 proving failed: '' @ s"
| "sp1_prover_error_to_string (Sp1VerificationFailed s) = ''sp1 verification failed: '' @ s"

definition sp1_prove ::
  "('w, 'stdin, 'pk, 'vk, 'proof) sp1_sdk \<Rightarrow> sp1_program \<Rightarrow> 'stdin sp1_witness \<Rightarrow> proving_mode
     \<Rightarrow> ('w, sp1_prover_error, proof_artifact) action" where
  "sp1_prove S program witness mode =
     (let elf = spg_elf program
      in if mode = Execute
         then act_bind (act_map_err Sp1ProvingFailed (sdk_execute S elf (sw_stdin witness)))
                (\<lambda>(public_values, total_instruction_count).
              act_return \<lparr>pa_backend = Sp1, pa_mode = mode, pa_proof_bytes = [],
                          pa_public_values = public_values, pa_program_id = 0,
                          pa_cycle_count = Some total_instruction_count\<rparr>)
         else act_bind (act_map_err (\<lambda>e. Sp1ProvingFailed (''setup: '' @ e)) (sdk_setup S elf)) (\<lambda>pk.
              act_bind (act_map_err Sp1ProvingFailed
                 (if mode = Compressed then sdk_prove_compressed S pk (sw_stdin witness)
                  else sdk_prove_groth16 S pk (sw_stdin witness))) (\<lambda>proof.
              let public_values = sdk_public_values S proof
              in act_bind (act_lift (map_err Sp1ProvingFailed (sdk_serialize S proof))) (\<lambda>proof_bytes.
                 let vk_bytes = sdk_vk_bytes32 S (sdk_verifying_key S pk)
                 in act_return \<lparr>pa_backend = Sp1, pa_mode = mode, pa_proof_bytes = proof_bytes,
                                pa_public_values = public_values, pa_program_id = vk_bytes,
                                pa_cycle_count = None\<rparr>))))"

definition sp1_verify ::
  "('w, 'stdin, 'pk, 'vk, 'proof) sp1_sdk \<Rightarrow> sp1_program \<Rightarrow> proof_artifact
     \<Rightarrow> ('w, sp1_prover_error, bool) action" where
  "sp1_verify S program proof =
     (if pa_mode proof = Execute then act_return True
      else act_bind (act_lift (map_err Sp1VerificationFailed (sdk_deserialize S (pa_proof_bytes proof)))) (\<lambda>sp1_proof.
           let elf = spg_elf program
           in act_bind (act_map_err (\<lambda>e. Sp1VerificationFailed (''setup: '' @ e)) (sdk_setup S elf)) (\<lambda>pk.
              act_bind (act_lift (map_err Sp1VerificationFailed
                 (sdk_verify S sp1_proof (sdk_verifying_key S pk)))) (\<lambda>_.
              act_return True))))"

definition sp1_count_cycles ::
  "('w, 'stdin, 'pk, 'vk, 'proof) sp1_sdk \<Rightarrow> sp1_program \<Rightarrow> 'stdin sp1_witness
     \<Rightarrow> ('w, sp1_prover_error, cycle_estimate) action" where
  "sp1_count_cycles S program witness =
     (let elf = spg_elf program
      in act_bind (act_map_err Sp1ProvingFailed (sdk_execute S elf (sw_stdin witness)))
           (\<lambda>(_, total_instruction_count).
         act_return \<lparr>ce_cycles = total_instruction_count, ce_backend = Sp1\<rparr>))"

definition sp1_prover_backend ::
  "('w, 'stdin, 'pk, 'vk, 'proof) sp1_sdk
     \<Rightarrow> ('w, sp1_program, 'stdin sp1_witness, sp1_prover_error) prover_backend" where
  "sp1_prover_backend S =
     \<lparr>pb_name = ''sp1'', pb_prove = sp1_prove S, pb_verify = sp1_verify S,
      pb_count_cycles = sp1_count_cycles S\<rparr>"

text \<open>
  What the SDK documents: setting an ELF up again succeeds with the same verifying key, a
  serialized proof reads back, and a proof made with a proving key verifies for its key.
\<close>

locale sp1_sdk_laws =
  fixes S :: "('w, 'stdin, 'pk, 'vk, 'proof) sp1_sdk"
  assumes setup_stable: "sdk_setup S elf w = (Ok pk, w') \<Longrightarrow>
       \<exists>pk' v'. sdk_setup S elf v = (Ok pk', v') \<and> sdk_verifying_key S pk' = sdk_verifying_key S pk"
    and serialize_round: "sdk_serialize S proof = Ok bs \<Longrightarrow> sdk_deserialize S bs = Ok proof"
    and compressed_sound: "sdk_prove_compressed S pk i w = (Ok proof, w') \<Longrightarrow>
       sdk_verify S proof (sdk_verifying_key S pk) = Ok ()"
    and groth16_sound: "sdk_prove_groth16 S pk i w = (Ok proof, w') \<Longrightarrow>
       sdk_verify S proof (sdk_verifying_key S pk) = Ok ()"
begin

lemma sp1_proved_verifies:
  assumes "sp1_prove S p i m w = (Ok a, w')"
  shows "\<exists>w''. sp1_verify S p a w' = (Ok True, w'')"
proof (cases "m = Execute")
  case True
  with assms show ?thesis
    by (auto simp: sp1_prove_def sp1_verify_def act_bind_Ok_iff)
next
  case False
  from assms False obtain pk w1 pf where raw: "sdk_setup S (spg_elf p) w = (Ok pk, w1)"
      "(if m = Compressed then sdk_prove_compressed S pk (sw_stdin i) else sdk_prove_groth16 S pk (sw_stdin i)) w1
         = (Ok pf, w')"
      "sdk_serialize S pf = Ok (pa_proof_bytes a)" "pa_mode a = m"
    by (auto simp: sp1_prove_def act_bind_Ok_iff Let_def simp del: if_split)
  from raw(2) have "sdk_verify S pf (sdk_verifying_key S pk) = Ok ()"
    by (cases "m = Compressed") (auto dest: compressed_sound groth16_sound)
  note steps = raw(1) this serialize_round [OF raw(3)] raw(4)
  obtain pk' v' where "sdk_setup S (spg_elf p) w' = (Ok pk', v')"
      "sdk_verifying_key S pk' = sdk_verifying_key S pk"
    using setup_stable [OF steps(1)] by blast
  with steps False have "sp1_verify S p a w' = (Ok True, v')"
    by (simp add: sp1_verify_def act_bind_def act_map_err_def)
  then show ?thesis ..
qed

end

sublocale sp1_sdk_laws \<subseteq> sp1_pb: prover_contract "sp1_prover_backend S" Sp1 "\<lambda>_. True"
proof
  show "\<exists>w''. pb_verify (sp1_prover_backend S) p a w' = (Ok True, w'')"
    if "pb_prove (sp1_prover_backend S) p i m w = (Ok a, w')" for p i m w a w'
    using sp1_proved_verifies that by (simp add: sp1_prover_backend_def)
qed (auto simp: sp1_prover_backend_def sp1_prove_def sp1_count_cycles_def act_bind_Ok_iff Let_def
    split: if_splits)

section \<open>RISC Zero\<close>

text \<open>The loop that fills the array four bytes at a time.\<close>

fun image_id_loop :: "bytes \<Rightarrow> nat \<Rightarrow> u32 list \<Rightarrow> bytes" where
  "image_id_loop bytes i [] = bytes"
| "image_id_loop bytes i (word # words) =
     image_id_loop (take (i * 4) bytes @ le_bytes 4 word @ drop ((i + 1) * 4) bytes) (i + 1) words"

definition image_id_to_bytes :: "u32 list \<Rightarrow> bytes" where
  "image_id_to_bytes image_id = image_id_loop (replicate 32 0) 0 image_id"

lemma image_id_loop_concat:
  assumes "length bs = 4 * i" and "4 * length ws \<le> length pad"
  shows "image_id_loop (bs @ pad) i ws = bs @ concat (map (le_bytes 4) ws) @ drop (4 * length ws) pad"
  using assms
proof (induction ws arbitrary: bs i pad)
  case (Cons w ws)
  have "image_id_loop ((bs @ le_bytes 4 w) @ drop 4 pad) (i + 1) ws
      = (bs @ le_bytes 4 w) @ concat (map (le_bytes 4) ws) @ drop (4 * length ws) (drop 4 pad)"
    by (rule Cons.IH) (use Cons.prems in simp_all)
  with Cons.prems(1) show ?case by (simp add: mult.commute add.commute)
qed simp

lemma image_id_to_bytes_concat:
  "length ws = 8 \<Longrightarrow> image_id_to_bytes ws = concat (map (le_bytes 4) ws)"
  using image_id_loop_concat [of "[]" 0 ws "replicate 32 0"] by (simp add: image_id_to_bytes_def)

lemma concat_le_bytes_inject:
  "length vs = length ws \<Longrightarrow>
     concat (map (le_bytes 4) vs) = concat (map (le_bytes 4) (ws :: u32 list)) \<longleftrightarrow> vs = ws"
proof (induction vs ws rule: list_induct2)
  case (Cons v vs w ws)
  have "le_bytes 4 v = le_bytes 4 w \<longleftrightarrow> v = w"
    using be_bytes_inject [of 4 v w] by (simp add: be_bytes_def)
  with Cons.IH show ?case by simp
qed simp

datatype prover_opts = DefaultOpts | SuccinctOpts | Groth16Opts

record ('w, 'b, 'env, 'receipt) risc0_sdk =
  r0_env_write :: "bytes \<Rightarrow> (string, 'b) outcome"
  r0_env_build :: "'b \<Rightarrow> (string, 'env) outcome"
  r0_prove_with_opts :: "'env \<Rightarrow> bytes \<Rightarrow> prover_opts \<Rightarrow> ('w, string, 'receipt \<times> u64) action"
  r0_prove :: "'env \<Rightarrow> bytes \<Rightarrow> ('w, string, 'receipt \<times> u64) action"
  r0_journal :: "'receipt \<Rightarrow> bytes"
  r0_serialize :: "'receipt \<Rightarrow> (string, bytes) outcome"
  r0_deserialize :: "bytes \<Rightarrow> (string, 'receipt) outcome"
  r0_verify :: "'receipt \<Rightarrow> u32 list \<Rightarrow> (string, unit) outcome"

record risc_zero_witness =
  zw_oracle_data :: bytes

record risc_zero_program =
  zp_image_id :: "u32 list"
  zp_image_id_bytes :: bytes
  zp_elf :: bytes
  zp_program_name :: string

datatype risc_zero_prover_error = RiscZeroProvingFailed string | RiscZeroVerificationFailed string

fun risc_zero_prover_error_to_string :: "risc_zero_prover_error \<Rightarrow> string" where
  "risc_zero_prover_error_to_string (RiscZeroProvingFailed s) = ''risc0 proving failed: '' @ s"
| "risc_zero_prover_error_to_string (RiscZeroVerificationFailed s) = ''risc0 verification failed: '' @ s"

definition raw_witness_to_risc0_witness :: "raw_witness \<Rightarrow> (string, risc_zero_witness) outcome" where
  "raw_witness_to_risc0_witness witness = Ok \<lparr>zw_oracle_data = rw_oracle_data witness\<rparr>"

definition build_env ::
  "('w, 'b, 'env, 'receipt) risc0_sdk \<Rightarrow> risc_zero_witness \<Rightarrow> (risc_zero_prover_error, 'env) outcome" where
  "build_env R self =
     and_then (map_err (\<lambda>e. RiscZeroProvingFailed (''write oracle_data: '' @ e))
                 (r0_env_write R (zw_oracle_data self)))
       (\<lambda>b. map_err RiscZeroProvingFailed (r0_env_build R b))"

definition risc_zero_program_new :: "string \<Rightarrow> u32 list \<Rightarrow> bytes \<Rightarrow> risc_zero_program" where
  "risc_zero_program_new name image_id elf =
     (let image_id_bytes = image_id_to_bytes image_id
      in \<lparr>zp_image_id = image_id, zp_image_id_bytes = image_id_bytes, zp_elf = elf,
          zp_program_name = name\<rparr>)"

definition risc0_prove ::
  "('w, 'b, 'env, 'receipt) risc0_sdk \<Rightarrow> risc_zero_program \<Rightarrow> risc_zero_witness \<Rightarrow> proving_mode
     \<Rightarrow> ('w, risc_zero_prover_error, proof_artifact) action" where
  "risc0_prove R program witness mode =
     act_bind (act_lift (build_env R witness)) (\<lambda>env.
     let program_id = be_word (zp_image_id_bytes program) :: b256;
         opts = (case mode of Execute \<Rightarrow> DefaultOpts | Compressed \<Rightarrow> SuccinctOpts | Groth16 \<Rightarrow> Groth16Opts)
     in act_bind (act_map_err RiscZeroProvingFailed (r0_prove_with_opts R env (zp_elf program) opts))
          (\<lambda>(receipt, total_cycles).
        let journal_bytes = r0_journal R receipt;
            cycle_count = Some total_cycles
        in if mode = Execute
           then act_return \<lparr>pa_backend = RiscZero, pa_mode = mode, pa_proof_bytes = [],
                            pa_public_values = journal_bytes, pa_program_id = program_id,
                            pa_cycle_count = cycle_count\<rparr>
           else act_bind (act_lift (map_err RiscZeroProvingFailed (r0_serialize R receipt))) (\<lambda>receipt_bytes.
                act_return \<lparr>pa_backend = RiscZero, pa_mode = mode, pa_proof_bytes = receipt_bytes,
                            pa_public_values = journal_bytes, pa_program_id = program_id,
                            pa_cycle_count = cycle_count\<rparr>)))"

definition risc0_verify ::
  "('w, 'b, 'env, 'receipt) risc0_sdk \<Rightarrow> risc_zero_program \<Rightarrow> proof_artifact
     \<Rightarrow> ('w, risc_zero_prover_error, bool) action" where
  "risc0_verify R program proof =
     (if pa_mode proof = Execute then act_return True
      else act_bind (act_lift (map_err RiscZeroVerificationFailed (r0_deserialize R (pa_proof_bytes proof)))) (\<lambda>receipt.
           act_bind (act_lift (map_err RiscZeroVerificationFailed (r0_verify R receipt (zp_image_id program)))) (\<lambda>_.
           act_return True)))"

definition risc0_count_cycles ::
  "('w, 'b, 'env, 'receipt) risc0_sdk \<Rightarrow> risc_zero_program \<Rightarrow> risc_zero_witness
     \<Rightarrow> ('w, risc_zero_prover_error, cycle_estimate) action" where
  "risc0_count_cycles R program witness =
     act_bind (act_lift (build_env R witness)) (\<lambda>env.
     act_bind (act_map_err RiscZeroProvingFailed (r0_prove R env (zp_elf program))) (\<lambda>(_, total_cycles).
     act_return \<lparr>ce_cycles = total_cycles, ce_backend = RiscZero\<rparr>))"

definition risc0_prover_backend ::
  "('w, 'b, 'env, 'receipt) risc0_sdk
     \<Rightarrow> ('w, risc_zero_program, risc_zero_witness, risc_zero_prover_error) prover_backend" where
  "risc0_prover_backend R =
     \<lparr>pb_name = ''risc0'', pb_prove = risc0_prove R, pb_verify = risc0_verify R,
      pb_count_cycles = risc0_count_cycles R\<rparr>"

text \<open>
  What the SDK documents: a receipt reads back, and a receipt of an ELF verifies for the ELF's
  image id.
\<close>

locale risc0_sdk_laws =
  fixes R :: "('w, 'b, 'env, 'receipt) risc0_sdk"
    and image_id_of :: "bytes \<Rightarrow> u32 list"
  assumes receipt_round: "r0_serialize R receipt = Ok bs \<Longrightarrow> r0_deserialize R bs = Ok receipt"
    and receipt_sound: "r0_prove_with_opts R env elf opts w = (Ok (receipt, n), w') \<Longrightarrow>
       r0_verify R receipt (image_id_of elf) = Ok ()"
begin

lemma risc0_proved_verifies:
  assumes "zp_image_id p = image_id_of (zp_elf p)" and "risc0_prove R p i m w = (Ok a, w')"
  shows "risc0_verify R p a w' = (Ok True, w')"
proof (cases "m = Execute")
  case True
  with assms(2) show ?thesis
    by (auto simp: risc0_prove_def risc0_verify_def act_bind_Ok_iff Let_def)
next
  case False
  with assms(2) obtain env opts receipt n w1 where raw: "r0_prove_with_opts R env (zp_elf p) opts w1 = (Ok (receipt, n), w')"
      "r0_serialize R receipt = Ok (pa_proof_bytes a)" "pa_mode a = m"
    by (auto simp: risc0_prove_def act_bind_Ok_iff Let_def)
  from receipt_sound [OF raw(1)] receipt_round [OF raw(2)] False raw(3) assms(1) show ?thesis
    by (simp add: risc0_verify_def act_bind_def)
qed

end

sublocale risc0_sdk_laws \<subseteq> risc0_pb: prover_contract "risc0_prover_backend R" RiscZero
  "\<lambda>p. zp_image_id p = image_id_of (zp_elf p)"
proof
  show "\<exists>w''. pb_verify (risc0_prover_backend R) p a w' = (Ok True, w'')"
    if "zp_image_id p = image_id_of (zp_elf p)" and "pb_prove (risc0_prover_backend R) p i m w = (Ok a, w')"
    for p i m w a w'
    using risc0_proved_verifies that by (simp add: risc0_prover_backend_def)
qed (auto simp: risc0_prover_backend_def risc0_prove_def risc0_count_cycles_def act_bind_Ok_iff Let_def
    split: if_splits)

section \<open>Reference SDKs\<close>

text \<open>
  A proof is the ELF with the input it ran on, a receipt the ELF with its journal; both are
  serialized as two length-prefixed chunks.
\<close>

definition pair_write :: "bytes \<times> bytes \<Rightarrow> (string, bytes) outcome" where
  "pair_write x =
     (if length (fst x) < 2 ^ 32 \<and> length (snd x) < 2 ^ 32 then Ok (chunk (fst x) @ chunk (snd x))
      else Err ''too long'')"

definition pair_read :: "bytes \<Rightarrow> (string, bytes \<times> bytes) outcome" where
  "pair_read bs =
     (case read_chunk bs 0 of None \<Rightarrow> Err ''truncated''
      | Some (a, o1) \<Rightarrow> (case read_chunk bs o1 of None \<Rightarrow> Err ''truncated'' | Some (b, _) \<Rightarrow> Ok (a, b)))"

lemma pair_read_write: "pair_write x = Ok bs \<Longrightarrow> pair_read bs = Ok x"
  using read_chunk_iff [of "[]" 0 bs "fst x" "length (chunk (fst x))"]
    read_chunk_iff [of "chunk (fst x)" "length (chunk (fst x))" "chunk (snd x)" "snd x" "length bs"]
  by (auto simp: pair_write_def pair_read_def split: if_splits)

definition reference_sp1 :: "(nat, bytes, bytes, bytes, bytes \<times> bytes) sp1_sdk" where
  "reference_sp1 =
     \<lparr>sdk_stdin_write = id,
      sdk_execute = (\<lambda>elf i w. (Ok (i, of_nat (length i)), Suc w)),
      sdk_setup = (\<lambda>elf w. (Ok elf, Suc w)),
      sdk_prove_compressed = (\<lambda>pk i w. (Ok (pk, i), Suc w)),
      sdk_prove_groth16 = (\<lambda>pk i w. if i = [] then (Err ''no input'', w) else (Ok (pk, i), Suc w)),
      sdk_public_values = snd, sdk_serialize = pair_write, sdk_deserialize = pair_read,
      sdk_verifying_key = id, sdk_vk_bytes32 = be_word,
      sdk_verify = (\<lambda>pr vk. if fst pr = vk then Ok () else Err ''wrong key'')\<rparr>"

interpretation ref_sp1: sp1_sdk_laws reference_sp1
  by unfold_locales (auto simp: reference_sp1_def pair_read_write split: if_splits)

definition reference_image_id :: "bytes \<Rightarrow> u32 list" where
  "reference_image_id elf = map ucast (take 8 (elf @ replicate 8 0))"

definition reference_risc0 :: "(nat, bytes, bytes, bytes \<times> bytes) risc0_sdk" where
  "reference_risc0 =
     \<lparr>r0_env_write = Ok, r0_env_build = Ok,
      r0_prove_with_opts = (\<lambda>env elf opts w. (Ok ((elf, env), of_nat (length env)), Suc w)),
      r0_prove = (\<lambda>env elf w. (Ok ((elf, env), of_nat (length env)), Suc w)),
      r0_journal = snd, r0_serialize = pair_write, r0_deserialize = pair_read,
      r0_verify = (\<lambda>rc ids. if reference_image_id (fst rc) = ids then Ok () else Err ''wrong image'')\<rparr>"

interpretation ref_risc0: risc0_sdk_laws reference_risc0 reference_image_id
  by unfold_locales (auto simp: reference_risc0_def pair_read_write)

section \<open>Properties\<close>

text \<open>
  C24: what was proved verifies. Whatever artifact the mock backend, or with SDKs that keep their
  documented promises the SP1 or the RISC Zero backend, returns, in any proving mode, is tagged
  with the backend and the mode and is accepted by the same backend for the same program; for
  RISC Zero when the program's image id is the one of its ELF, and then the artifact carries
  that id. The mock backend accepts no artifact of the other two.
\<close>

theorem proved_verifies:
  assumes "mock_prove n k m0 u = (Ok c, u')"
    and "sp1_sdk_laws S" and "sp1_prove S p i m w = (Ok a, w')"
    and "risc0_sdk_laws R image_id_of" and "risc0_prove R q j m' v = (Ok b, v')"
    and "zp_image_id q = image_id_of (zp_elf q)"
  shows "mock_verify n c u' = (Ok True, u') \<and> pa_backend c = Mock \<and> pa_mode c = m0
     \<and> mock_verify n a w' = (Ok False, w') \<and> mock_verify n b v' = (Ok False, v')
     \<and> (\<exists>w''. sp1_verify S p a w' = (Ok True, w'')) \<and> pa_backend a = Sp1 \<and> pa_mode a = m
     \<and> risc0_verify R q b v' = (Ok True, v') \<and> pa_backend b = RiscZero \<and> pa_mode b = m'
     \<and> pa_program_id b = be_word (zp_image_id_bytes q)"
proof -
  have mock: "mock_verify n c u' = (Ok True, u')" "pa_backend c = Mock" "pa_mode c = m0"
    using assms(1) by (auto simp: mock_prove_def mock_verify_def)
  have "pa_program_id b = be_word (zp_image_id_bytes q)"
    using assms(5) by (auto simp: risc0_prove_def act_bind_Ok_iff Let_def split: if_splits)
  moreover have tags: "pa_mode a = m \<and> pa_backend a = Sp1" "pa_mode b = m' \<and> pa_backend b = RiscZero"
    using assms(3,5) by (auto simp: sp1_prove_def risc0_prove_def act_bind_Ok_iff Let_def split: if_splits)
  moreover from tags have "mock_verify n a w' = (Ok False, w')" "mock_verify n b v' = (Ok False, v')"
    by (simp_all add: mock_verify_def)
  ultimately show ?thesis
    using mock sp1_sdk_laws.sp1_proved_verifies [OF assms(2,3)]
      risc0_sdk_laws.risc0_proved_verifies [OF assms(4,6,5)] by blast
qed

theorem proved_verifies_witness:
  "\<exists>a b c w. mock_prove (mock_program_new ''range'') \<lparr>mw_data = []\<rparr> Compressed (0 :: nat) = (Ok c, 0)
     \<and> mock_verify (mock_program_new ''range'') c (0 :: nat) = (Ok True, 0)
     \<and> sp1_prove reference_sp1 (sp1_program_new ''range'' [1, 2]) \<lparr>sw_stdin = [5]\<rparr> Groth16 0 = (Ok a, 2)
     \<and> sp1_verify reference_sp1 (sp1_program_new ''range'' [1, 2]) a 2 = (Ok True, w)
     \<and> risc0_verify reference_risc0 (risc_zero_program_new ''range'' (reference_image_id [1]) [1]) b 1 = (Ok True, 1)"
proof -
  let ?q = "risc_zero_program_new ''range'' (reference_image_id [1]) [1]"
  obtain a where a: "sp1_prove reference_sp1 (sp1_program_new ''range'' [1, 2]) \<lparr>sw_stdin = [5]\<rparr> Groth16 0 = (Ok a, 2)"
    by (simp add: sp1_prove_def reference_sp1_def sp1_program_new_def act_bind_def act_map_err_def
        pair_write_def Let_def)
  obtain b where b: "risc0_prove reference_risc0 ?q \<lparr>zw_oracle_data = [5]\<rparr> Compressed 0 = (Ok b, 1)"
    by (simp add: risc0_prove_def reference_risc0_def risc_zero_program_new_def build_env_def act_bind_def
        act_map_err_def pair_write_def Let_def)
  obtain c where c: "mock_prove (mock_program_new ''range'') \<lparr>mw_data = []\<rparr> Compressed (0 :: nat) = (Ok c, 0)"
    by (simp add: mock_prove_def)
  have "zp_image_id ?q = reference_image_id (zp_elf ?q)"
    by (simp add: risc_zero_program_new_def Let_def)
  from proved_verifies [OF c ref_sp1.sp1_sdk_laws_axioms a ref_risc0.risc0_sdk_laws_axioms b this] a c
  show ?thesis by blast
qed

text \<open>
  RISC Zero image ids. The 32-byte program id is the eight words in order, each
  little-endian: every word reads back from its four bytes, and two images have the same
  program id bytes only if they have the same words.
\<close>

lemma image_id_bytes:
  assumes "length vs = 8" and "length ws = 8"
  shows "length (image_id_to_bytes ws) = 32
     \<and> (\<forall>k < 8. le_word (take 4 (drop (4 * k) (image_id_to_bytes ws))) = ws ! k)
     \<and> (image_id_to_bytes vs = image_id_to_bytes ws \<longleftrightarrow> vs = ws)"
proof -
  have len: "length (concat (map (le_bytes 4) us)) = 4 * length us" for us :: "u32 list"
    by (induction us) simp_all
  have chunk: "take 4 (drop (4 * k) (concat (map (le_bytes 4) us))) = le_bytes 4 (us ! k)"
    if "k < length us" for k and us :: "u32 list"
    using that
  proof (induction us arbitrary: k)
    case (Cons u us)
    then show ?case by (cases k) auto
  qed simp
  show ?thesis
    using assms by (auto simp: image_id_to_bytes_concat len chunk le_word_le_bytes
        take_bit_word_eq_self concat_le_bytes_inject)
qed

lemma image_id_bytes_witness:
  "length (image_id_to_bytes [1, 2, 3, 4, 5, 6, 7, 0x01020304]) = 32
   \<and> le_word (take 4 (drop 28 (image_id_to_bytes [1, 2, 3, 4, 5, 6, 7, 0x01020304]))) = (0x01020304 :: u32)"
proof -
  let ?ws = "[1, 2, 3, 4, 5, 6, 7, 0x01020304] :: u32 list"
  have t: "length (image_id_to_bytes ?ws) = 32
      \<and> (\<forall>k < 8. le_word (take 4 (drop (4 * k) (image_id_to_bytes ?ws))) = ?ws ! k)"
    using image_id_bytes [of "replicate 8 0" ?ws] by simp
  then have "le_word (take 4 (drop (4 * 7) (image_id_to_bytes ?ws))) = ?ws ! 7"
    by (elim conjE allE [of _ 7]) simp
  with t show ?thesis by simp
qed

section \<open>Guest programs\<close>

text \<open>The trait by which a program names itself, and its three implementations.\<close>

record 'p guest_program =
  gp_program_id :: "'p \<Rightarrow> bytes"
  gp_name :: "'p \<Rightarrow> string"

definition mock_guest_program :: "mock_program guest_program" where
  "mock_guest_program = \<lparr>gp_program_id = mp_id, gp_name = mp_program_name\<rparr>"

definition sp1_guest_program :: "sp1_program guest_program" where
  "sp1_guest_program = \<lparr>gp_program_id = spg_elf, gp_name = spg_program_name\<rparr>"

definition risc0_guest_program :: "risc_zero_program guest_program" where
  "risc0_guest_program = \<lparr>gp_program_id = zp_image_id_bytes, gp_name = zp_program_name\<rparr>"

text \<open>
  A RISC Zero artifact carries the id by which its program names itself, so artifacts of programs
  with different image ids carry different ids.
\<close>

lemma risc0_artifact_identity:
  assumes "length ws = 8" and "risc0_prove R (risc_zero_program_new name ws elf) i m w = (Ok a, w')"
  shows "be_bytes 32 (pa_program_id a) = gp_program_id risc0_guest_program (risc_zero_program_new name ws elf)"
proof -
  have "pa_program_id a = be_word (image_id_to_bytes ws)"
    using assms(2) by (auto simp: risc0_prove_def risc_zero_program_new_def act_bind_Ok_iff Let_def split: if_splits)
  moreover have "length (image_id_to_bytes ws) = 32" using image_id_bytes [OF assms(1,1)] by blast
  ultimately show ?thesis
    by (simp add: risc0_guest_program_def risc_zero_program_new_def be_bytes_be_word Let_def)
qed

lemma risc0_artifacts_distinct:
  assumes "length vs = 8" "length ws = 8"
    and "risc0_prove R (risc_zero_program_new name vs elf) i m w = (Ok a, w')"
    and "risc0_prove R' (risc_zero_program_new name' ws elf') i' m' v = (Ok b, v')"
  shows "pa_program_id a = pa_program_id b \<longleftrightarrow> vs = ws"
proof -
  have "pa_program_id a = pa_program_id b \<longleftrightarrow> be_bytes 32 (pa_program_id a) = be_bytes 32 (pa_program_id b)"
    by (simp add: be_bytes_inject)
  then show ?thesis
    using image_id_bytes [OF assms(1,2)]
    by (simp add: risc0_artifact_identity [OF assms(1,3)] risc0_artifact_identity [OF assms(2,4)]
        risc0_guest_program_def risc_zero_program_new_def Let_def)
qed

end
