(* ===== verification/Json.thy ===== *)
theory Json
  imports Prelude
begin

text \<open>
  JSON values as the sources use them (\<open>serde_json::Value\<close>): lookup in and insertion into
  objects, the numeric views, and the decimal and hexadecimal texts that the standard library
  parses.  Parsing of JSON text itself is a parameter wherever it occurs.  An object keeps its
  members in an association list with distinct keys; a number token that is not an integer is
  kept as text.
\<close>

section \<open>Values\<close>

datatype json =
    JNull
  | JBool bool
  | JInt int
  | JFloat string
  | JStr string
  | JArr "json list"
  | JObj "(string \<times> json) list"

fun json_get :: "string \<Rightarrow> json \<Rightarrow> json option" where
  "json_get k (JObj ms) = map_of ms k"
| "json_get k _ = None"

fun json_as_u64 :: "json \<Rightarrow> u64 option" where
  "json_as_u64 (JInt i) = (if 0 \<le> i \<and> i < 2 ^ 64 then Some (of_int i) else None)"
| "json_as_u64 _ = None"

fun json_as_str :: "json \<Rightarrow> string option" where
  "json_as_str (JStr s) = Some s"
| "json_as_str _ = None"

fun json_is_object :: "json \<Rightarrow> bool" where
  "json_is_object (JObj _) = True"
| "json_is_object _ = False"

text \<open>Inserting replaces the member in place, or adds it.\<close>

fun members_insert :: "string \<Rightarrow> 'v \<Rightarrow> (string \<times> 'v) list \<Rightarrow> (string \<times> 'v) list" where
  "members_insert k v [] = [(k, v)]"
| "members_insert k v ((k', v') # ms) = (if k' = k then (k, v) # ms else (k', v') # members_insert k v ms)"

lemma map_of_members_insert [simp]: "map_of (members_insert k v ms) = (map_of ms)(k \<mapsto> v)"
  by (induction k v ms rule: members_insert.induct) auto

lemma dom_members_insert: "fst ` set (members_insert k v ms) = insert k (fst ` set ms)"
  by (induction k v ms rule: members_insert.induct) auto

lemma distinct_members_insert:
  "distinct (map fst ms) \<Longrightarrow> distinct (map fst (members_insert k v ms))"
proof (induction k v ms rule: members_insert.induct)
  case (2 k v k' v' ms)
  then show ?case using dom_members_insert [of k v ms] by (auto simp: image_iff)
qed simp

section \<open>Decimal texts\<close>

text \<open>\<open>str::parse\<close> of an unsigned type of \<open>w\<close> bits: an optional plus sign, then digits only.\<close>

definition parse_digits :: "nat \<Rightarrow> string \<Rightarrow> nat option" where
  "parse_digits w s =
     (if s \<noteq> [] \<and> list_all digit s \<and> read_nat s < 2 ^ w then Some (read_nat s) else None)"

definition parse_unsigned :: "nat \<Rightarrow> string \<Rightarrow> nat option" where
  "parse_unsigned w s = parse_digits w (if s \<noteq> [] \<and> hd s = CHR ''+'' then tl s else s)"

definition parse_u128 :: "string \<Rightarrow> u128 option" where
  "parse_u128 s = map_option of_nat (parse_unsigned 128 s)"

definition parse_u64 :: "string \<Rightarrow> u64 option" where
  "parse_u64 s = map_option of_nat (parse_unsigned 64 s)"

lemma show_nat_not_plus: "hd (show_nat n) \<noteq> CHR ''+''"
proof
  assume "hd (show_nat n) = CHR ''+''"
  with hd_in_set [OF show_nat_nonempty [of n]] have "CHR ''+'' \<in> set (show_nat n)" by simp
  with show_nat_digits [of n] show False by (auto simp: digit_def)
qed

lemma parse_unsigned_show: "n < 2 ^ w \<Longrightarrow> parse_unsigned w (show_nat n) = Some n"
  using show_nat_digits [of n] show_nat_not_plus [of n]
  by (simp add: parse_unsigned_def parse_digits_def read_show_nat list_all_iff del: read_nat.simps)

lemma parse_u128_show: "parse_u128 (show_nat (unat n)) = Some n"
  using unsigned_less [of n, where ?'a = nat] by (simp add: parse_u128_def parse_unsigned_show)

lemma parse_u64_show: "parse_u64 (show_u64 n) = Some n"
  using unsigned_less [of n, where ?'a = nat] by (simp add: parse_u64_def show_u64_def parse_unsigned_show)

section \<open>Texts\<close>

definition ascii_lower :: "char \<Rightarrow> char" where
  "ascii_lower c =
     (if 65 \<le> (of_char c :: nat) \<and> (of_char c :: nat) \<le> 90 then char_of (of_char c + (32 :: nat)) else c)"

definition to_lowercase :: "string \<Rightarrow> string" where
  "to_lowercase s = map ascii_lower s"

text \<open>\<open>chars().take(n)\<close>: a character is its leading byte with the continuation bytes after it.\<close>

definition continuation_byte :: "char \<Rightarrow> bool" where
  "continuation_byte c \<longleftrightarrow> 0x80 \<le> (of_char c :: nat) \<and> (of_char c :: nat) < 0xC0"

fun take_chars :: "nat \<Rightarrow> string \<Rightarrow> string" where
  "take_chars n [] = []"
| "take_chars n (c # cs) =
     (if continuation_byte c then c # take_chars n cs
      else case n of 0 \<Rightarrow> [] | Suc k \<Rightarrow> c # take_chars k cs)"

definition trim_end_matches :: "char \<Rightarrow> string \<Rightarrow> string" where
  "trim_end_matches c s = rev (dropWhile (\<lambda>x. x = c) (rev s))"

lemma trim_end_matches_idem: "trim_end_matches c (trim_end_matches c s) = trim_end_matches c s"
  by (simp add: trim_end_matches_def)

lemma trim_end_matches_last: "trim_end_matches c s = [] \<or> last (trim_end_matches c s) \<noteq> c"
  using hd_dropWhile [of "\<lambda>x. x = c" "rev s"]
  by (cases "dropWhile (\<lambda>x. x = c) (rev s) = []") (auto simp: trim_end_matches_def last_rev)

end
