(* ===== verification/Pricing.thy ===== *)
theory Pricing
  imports Core_Types Json Complex_Main
begin

text \<open>
  Pricing of cycle counts, crates/host/src/pricing: fixed rates, the Boundless indexer, the
  Succinct network's median, and token prices.  The operations of \<open>f64\<close> that the code uses are
  the fields of a record; their order laws are the locale \<open>f64_order\<close>, interpreted on the
  rationals.  HTTP, gRPC and the parsing of JSON text are parameters.
\<close>

section \<open>Floating point\<close>

datatype ordering = Less | Equal | Greater

text \<open>\<open>f_lit m e\<close> is the literal for \<open>m\<close> times ten to the \<open>e\<close>; \<open>f_of_nat\<close> the \<open>as f64\<close> conversion.\<close>

record 'f f64_ops =
  f_lit :: "int \<Rightarrow> int \<Rightarrow> 'f"
  f_of_nat :: "nat \<Rightarrow> 'f"
  f_add :: "'f \<Rightarrow> 'f \<Rightarrow> 'f"
  f_mul :: "'f \<Rightarrow> 'f \<Rightarrow> 'f"
  f_div :: "'f \<Rightarrow> 'f \<Rightarrow> 'f"
  f_partial_cmp :: "'f \<Rightarrow> 'f \<Rightarrow> ordering option"

text \<open>The standard library's stable \<open>sort_by\<close>.\<close>

fun insert_by :: "('a \<Rightarrow> 'a \<Rightarrow> ordering) \<Rightarrow> 'a \<Rightarrow> 'a list \<Rightarrow> 'a list" where
  "insert_by cmp x [] = [x]"
| "insert_by cmp x (y # ys) = (if cmp x y = Greater then y # insert_by cmp x ys else x # y # ys)"

definition sort_by :: "('a \<Rightarrow> 'a \<Rightarrow> ordering) \<Rightarrow> 'a list \<Rightarrow> 'a list" where
  "sort_by cmp xs = foldr (insert_by cmp) xs []"

lemma length_insert_by [simp]: "length (insert_by cmp x ys) = Suc (length ys)"
  by (induction ys) auto

lemma set_insert_by [simp]: "set (insert_by cmp x ys) = insert x (set ys)"
  by (induction ys) auto

lemma filter_insert_by: "length (filter P (insert_by cmp x ys)) = length (filter P (x # ys))"
  by (induction ys) auto

lemma length_sort_by [simp]: "length (sort_by cmp xs) = length xs"
  by (induction xs) (simp_all add: sort_by_def)

lemma set_sort_by [simp]: "set (sort_by cmp xs) = set xs"
  by (induction xs) (simp_all add: sort_by_def)

lemma filter_sort_by: "length (filter P (sort_by cmp xs)) = length (filter P xs)"
  by (induction xs) (simp_all add: sort_by_def filter_insert_by)

definition f_cmp :: "'f f64_ops \<Rightarrow> 'f \<Rightarrow> 'f \<Rightarrow> ordering" where
  "f_cmp F a b = (case f_partial_cmp F a b of Some ord \<Rightarrow> ord | None \<Rightarrow> Equal)"

definition f_le :: "'f f64_ops \<Rightarrow> 'f \<Rightarrow> 'f \<Rightarrow> bool" where
  "f_le F a b \<longleftrightarrow> f_cmp F a b \<noteq> Greater"

text \<open>
  The laws of IEEE 754 for the values that occur: not-a-number and overflow excluded, the
  comparison is a total order, prices are such values, and the midpoint lies between.
\<close>

locale f64_order =
  fixes F :: "'f f64_ops" and valid :: "'f \<Rightarrow> bool"
  assumes cmp_swap: "valid a \<Longrightarrow> valid b \<Longrightarrow> f_cmp F a b = Greater \<longleftrightarrow> f_cmp F b a = Less"
    and le_total: "valid a \<Longrightarrow> valid b \<Longrightarrow> f_le F a b \<or> f_le F b a"
    and le_trans: "valid a \<Longrightarrow> valid b \<Longrightarrow> valid c \<Longrightarrow> f_le F a b \<Longrightarrow> f_le F b c \<Longrightarrow> f_le F a c"
    and midpoint: "valid a \<Longrightarrow> valid b \<Longrightarrow> f_le F a b \<Longrightarrow>
       f_le F a (f_div F (f_add F a b) (f_lit F 2 0)) \<and> f_le F (f_div F (f_add F a b) (f_lit F 2 0)) b
       \<and> valid (f_div F (f_add F a b) (f_lit F 2 0))"
    and price_valid: "w < 2 ^ 128 \<Longrightarrow> 0 < n \<Longrightarrow> n < 2 ^ 64 \<Longrightarrow>
       valid (f_div F (f_div F (f_of_nat F w) (f_lit F 1 18)) (f_of_nat F n))"
begin

lemma insert_by_sorted:
  "valid x \<Longrightarrow> \<forall>y \<in> set ys. valid y \<Longrightarrow> sorted_wrt (f_le F) ys \<Longrightarrow> sorted_wrt (f_le F) (insert_by (f_cmp F) x ys)"
proof (induction ys)
  case (Cons y ys)
  show ?case
  proof (cases "f_cmp F x y = Greater")
    case True
    then have "f_le F y x" using Cons.prems le_total [of x y] by (auto simp: f_le_def)
    with Cons True show ?thesis by auto
  next
    case False
    then have "f_le F x y" by (simp add: f_le_def)
    with Cons.prems False show ?thesis by (auto intro: le_trans)
  qed
qed simp

lemma sort_by_sorted: "\<forall>x \<in> set xs. valid x \<Longrightarrow> sorted_wrt (f_le F) (sort_by (f_cmp F) xs)"
proof (induction xs)
  case (Cons x xs)
  then show ?case
    using insert_by_sorted [of x "sort_by (f_cmp F) xs"] by (simp add: sort_by_def) (simp flip: sort_by_def)
qed (simp add: sort_by_def)

end

section \<open>Providers\<close>

record ('w, 'f, 'e) pricing_provider =
  pr_name :: string
  pr_supports_backend :: "zkvm_backend \<Rightarrow> bool"
  pr_price :: "cycle_estimate \<Rightarrow> ('w, 'e, 'f pricing_info) action"

subsection \<open>Fixed rates\<close>

record 'f fixed_pricing =
  fp_sp1_cost_per_10m :: 'f
  fp_sp1_cycles_per_sec :: u64
  fp_risc0_cost_per_10m :: 'f
  fp_risc0_cycles_per_sec :: u64

definition fixed_pricing_default :: "'f f64_ops \<Rightarrow> 'f fixed_pricing" where
  "fixed_pricing_default F =
     \<lparr>fp_sp1_cost_per_10m = f_lit F 1 (- 2), fp_sp1_cycles_per_sec = 1000000,
      fp_risc0_cost_per_10m = f_lit F 8 (- 3), fp_risc0_cycles_per_sec = 500000\<rparr>"

datatype fixed_pricing_error = FixedPricingError string

definition fixed_price ::
  "'f f64_ops \<Rightarrow> 'f fixed_pricing \<Rightarrow> cycle_estimate \<Rightarrow> (fixed_pricing_error, 'f pricing_info) outcome" where
  "fixed_price F self estimate =
     and_then
       (case ce_backend estimate of
          Sp1 \<Rightarrow> and_then (div_u64 (ce_cycles estimate) (fp_sp1_cycles_per_sec self)) (\<lambda>d.
            Ok (f_mul F (f_div F (f_of_nat F (unat (ce_cycles estimate))) (f_lit F 1 7))
                  (fp_sp1_cost_per_10m self), d))
        | RiscZero \<Rightarrow> and_then (div_u64 (ce_cycles estimate) (fp_risc0_cycles_per_sec self)) (\<lambda>d.
            Ok (f_mul F (f_div F (f_of_nat F (unat (ce_cycles estimate))) (f_lit F 1 7))
                  (fp_risc0_cost_per_10m self), d))
        | Mock \<Rightarrow> Ok (f_lit F 0 0, 0)
        | Auto \<Rightarrow> Ok (f_lit F 0 0, 0))
       (\<lambda>(cost_usd, duration_secs).
          Ok \<lparr>pi_cost_usd = cost_usd, pi_duration_secs = duration_secs, pi_source = ''fixed'',
              pi_native_cost = None, pi_native_symbol = None, pi_token_usd_rate = None\<rparr>)"

definition fixed_provider ::
  "'f f64_ops \<Rightarrow> 'f fixed_pricing \<Rightarrow> ('w, 'f, fixed_pricing_error) pricing_provider" where
  "fixed_provider F self =
     \<lparr>pr_name = ''fixed'', pr_supports_backend = (\<lambda>_. True),
      pr_price = (\<lambda>estimate. act_lift (fixed_price F self estimate))\<rparr>"

subsection \<open>Boundless\<close>

definition DEFAULT_INDEXER_URL :: string where
  "DEFAULT_INDEXER_URL = ''https://d2mdvlnmyov1e1.cloudfront.net''"

definition RISC_ZERO_CYCLES_PER_SEC :: u64 where
  "RISC_ZERO_CYCLES_PER_SEC = 500000"

datatype percentile = P5 | P10 | P25 | P50 | P75 | P90 | P95 | P99

definition percentile_parse :: "string \<Rightarrow> percentile option" where
  "percentile_parse s =
     (let s = to_lowercase s
      in if s = ''p5'' then Some P5 else if s = ''p10'' then Some P10
         else if s = ''p25'' then Some P25 else if s = ''p50'' then Some P50
         else if s = ''p75'' then Some P75 else if s = ''p90'' then Some P90
         else if s = ''p95'' then Some P95 else if s = ''p99'' then Some P99 else None)"

fun percentile_field_name :: "percentile \<Rightarrow> string" where
  "percentile_field_name P5 = ''p5''"
| "percentile_field_name P10 = ''p10''"
| "percentile_field_name P25 = ''p25''"
| "percentile_field_name P50 = ''p50''"
| "percentile_field_name P75 = ''p75''"
| "percentile_field_name P90 = ''p90''"
| "percentile_field_name P95 = ''p95''"
| "percentile_field_name P99 = ''p99''"

lemma percentile_round_trip: "percentile_parse (percentile_field_name p) = Some p"
  by (cases p) (simp_all add: percentile_parse_def to_lowercase_def ascii_lower_def)

record 'f boundless_pricing =
  bp_indexer_url :: string
  bp_percentile :: percentile
  bp_eth_usd :: 'f

definition boundless_with_options :: "string \<Rightarrow> percentile \<Rightarrow> 'f \<Rightarrow> 'f boundless_pricing" where
  "boundless_with_options indexer_url percentile eth_usd =
     \<lparr>bp_indexer_url = trim_end_matches (CHR ''/'') indexer_url, bp_percentile = percentile,
      bp_eth_usd = eth_usd\<rparr>"

definition boundless_new :: "'f \<Rightarrow> 'f boundless_pricing" where
  "boundless_new eth_usd = boundless_with_options DEFAULT_INDEXER_URL P50 eth_usd"

datatype boundless_pricing_error =
    BoundlessHttp string
  | BoundlessNoData
  | BoundlessParseWei string string
  | BoundlessUnsupportedBackend zkvm_backend

record aggregate_entry =
  p5_lock_price_per_cycle :: string
  p10_lock_price_per_cycle :: string
  p25_lock_price_per_cycle :: string
  p50_lock_price_per_cycle :: string
  p75_lock_price_per_cycle :: string
  p90_lock_price_per_cycle :: string
  p95_lock_price_per_cycle :: string
  p99_lock_price_per_cycle :: string

text \<open>\<open>int_error\<close> is the text of the standard library's parse error for a string.\<close>

definition price_for_percentile ::
  "(string \<Rightarrow> string) \<Rightarrow> aggregate_entry \<Rightarrow> percentile \<Rightarrow> (boundless_pricing_error, u128) outcome" where
  "price_for_percentile int_error self p =
     (let s = (case p of
          P5 \<Rightarrow> p5_lock_price_per_cycle self
        | P10 \<Rightarrow> p10_lock_price_per_cycle self
        | P25 \<Rightarrow> p25_lock_price_per_cycle self
        | P50 \<Rightarrow> p50_lock_price_per_cycle self
        | P75 \<Rightarrow> p75_lock_price_per_cycle self
        | P90 \<Rightarrow> p90_lock_price_per_cycle self
        | P95 \<Rightarrow> p95_lock_price_per_cycle self
        | P99 \<Rightarrow> p99_lock_price_per_cycle self)
      in ok_or (BoundlessParseWei s (int_error s)) (parse_u128 s))"

text \<open>The indexer: the text at a URL, and the entries in the \<open>data\<close> of a response text.\<close>

record ('w) indexer_ops =
  ix_get_text :: "string \<Rightarrow> ('w, string, string) action"
  ix_parse_response :: "string \<Rightarrow> (string, aggregate_entry list) outcome"
  ix_int_error :: "string \<Rightarrow> string"

definition fetch_price_per_cycle ::
  "'w indexer_ops \<Rightarrow> 'f boundless_pricing \<Rightarrow> ('w, boundless_pricing_error, u128) action" where
  "fetch_price_per_cycle I self =
     (let url = bp_indexer_url self @ ''/v1/market/aggregates?aggregation=hourly&limit=1&sort=desc''
      in act_bind (act_map_err BoundlessHttp (ix_get_text I url)) (\<lambda>text.
         act_bind (act_lift (map_err (BoundlessParseWei (take_chars 200 text)) (ix_parse_response I text))) (\<lambda>resp.
         act_bind (act_lift (ok_or BoundlessNoData (case resp of [] \<Rightarrow> None | e # _ \<Rightarrow> Some e))) (\<lambda>entry.
         act_lift (price_for_percentile (ix_int_error I) entry (bp_percentile self))))))"

definition boundless_supports_backend :: "zkvm_backend \<Rightarrow> bool" where
  "boundless_supports_backend backend \<longleftrightarrow> backend = RiscZero"

definition boundless_price ::
  "'f f64_ops \<Rightarrow> 'w indexer_ops \<Rightarrow> 'f boundless_pricing \<Rightarrow> cycle_estimate
     \<Rightarrow> ('w, boundless_pricing_error, 'f pricing_info) action" where
  "boundless_price F I self estimate =
     (if \<not> boundless_supports_backend (ce_backend estimate)
      then act_fail (BoundlessUnsupportedBackend (ce_backend estimate))
      else act_bind (fetch_price_per_cycle I self) (\<lambda>wei_per_cycle.
        let total_wei = f_mul F (f_of_nat F (unat wei_per_cycle)) (f_of_nat F (unat (ce_cycles estimate)));
            total_eth = f_div F total_wei (f_lit F 1 18);
            cost_usd = f_mul F total_eth (bp_eth_usd self)
        in act_bind (act_lift (div_u64 (ce_cycles estimate) RISC_ZERO_CYCLES_PER_SEC)) (\<lambda>duration_secs.
           act_return \<lparr>pi_cost_usd = cost_usd, pi_duration_secs = duration_secs,
                       pi_source = ''boundless-market-'' @ percentile_field_name (bp_percentile self),
                       pi_native_cost = Some total_eth, pi_native_symbol = Some ''ETH'',
                       pi_token_usd_rate = Some (bp_eth_usd self)\<rparr>)))"

definition boundless_provider ::
  "'f f64_ops \<Rightarrow> 'w indexer_ops \<Rightarrow> 'f boundless_pricing \<Rightarrow> ('w, 'f, boundless_pricing_error) pricing_provider" where
  "boundless_provider F I self =
     \<lparr>pr_name = ''boundless'', pr_supports_backend = boundless_supports_backend,
      pr_price = boundless_price F I self\<rparr>"

subsection \<open>Succinct\<close>

definition SP1_CYCLES_PER_SEC :: u64 where
  "SP1_CYCLES_PER_SEC = 1000000"

definition DEFAULT_SAMPLE_SIZE :: u32 where
  "DEFAULT_SAMPLE_SIZE = 50"

text \<open>The fields of the network's two request types that the code reads are the same.\<close>

record network_request =
  nr_cycles :: "u64 option"
  nr_gas_used :: "u64 option"
  nr_gas_price :: "u64 option"
  nr_deduction_amount :: "string option"

datatype filtered_response = Auction "network_request list" | Base "network_request list"

record ('client, 'f) succinct_pricing =
  su_client :: 'client
  su_sample_size :: u32
  su_prove_usd :: 'f

datatype succinct_pricing_error =
    SuccinctGrpc string
  | SuccinctNoData
  | SuccinctConfig string
  | SuccinctUnsupportedBackend zkvm_backend

text \<open>\<open>env\<close> reads an environment variable.\<close>

definition succinct_from_env ::
  "(string \<Rightarrow> string option) \<Rightarrow> (string \<Rightarrow> (string, 'signer) outcome) \<Rightarrow> ('signer \<Rightarrow> string \<Rightarrow> 'client)
     \<Rightarrow> 'f \<Rightarrow> (succinct_pricing_error, ('client, 'f) succinct_pricing) outcome" where
  "succinct_from_env env local_signer new_client prove_usd =
     and_then
       (ok_or (SuccinctConfig ''NETWORK_PRIVATE_KEY or SP1_PRIVATE_KEY env var required for Succinct pricing'')
          (case env ''NETWORK_PRIVATE_KEY'' of None \<Rightarrow> env ''SP1_PRIVATE_KEY'' | Some k \<Rightarrow> Some k)) (\<lambda>private_key.
     and_then (map_err (\<lambda>e. SuccinctConfig (''invalid private key: '' @ e)) (local_signer private_key)) (\<lambda>signer.
     let client = new_client signer ''https://rpc.mainnet.succinct.xyz''
     in Ok \<lparr>su_client = client, su_sample_size = DEFAULT_SAMPLE_SIZE, su_prove_usd = prove_usd\<rparr>))"

definition cost_pair_auction :: "'f f64_ops \<Rightarrow> network_request \<Rightarrow> ('f \<times> u64) option" where
  "cost_pair_auction F req =
     (case nr_cycles req of None \<Rightarrow> None
      | Some cycles \<Rightarrow>
          (case (case (nr_gas_used req, nr_gas_price req) of
                   (Some gas_used, Some gas_price) \<Rightarrow> Some (ucast gas_used * ucast gas_price :: u128)
                 | _ \<Rightarrow> (case nr_deduction_amount req of
                          Some deduction \<Rightarrow> parse_u128 deduction
                        | None \<Rightarrow> None)) of
             None \<Rightarrow> None
           | Some cost_wei \<Rightarrow> Some (f_div F (f_of_nat F (unat cost_wei)) (f_lit F 1 18), cycles)))"

definition extract_cost_pairs_auction :: "'f f64_ops \<Rightarrow> network_request list \<Rightarrow> ('f \<times> u64) list" where
  "extract_cost_pairs_auction F requests = List.map_filter (cost_pair_auction F) requests"

definition cost_pair_base :: "'f f64_ops \<Rightarrow> network_request \<Rightarrow> ('f \<times> u64) option" where
  "cost_pair_base F req =
     (case nr_cycles req of None \<Rightarrow> None
      | Some cycles \<Rightarrow>
          (case (case (nr_gas_used req, nr_gas_price req) of
                   (Some gas_used, Some gas_price) \<Rightarrow> Some (ucast gas_used * ucast gas_price :: u128)
                 | _ \<Rightarrow> (case nr_deduction_amount req of
                          Some deduction \<Rightarrow> parse_u128 deduction
                        | None \<Rightarrow> None)) of
             None \<Rightarrow> None
           | Some cost_wei \<Rightarrow> Some (f_div F (f_of_nat F (unat cost_wei)) (f_lit F 1 18), cycles)))"

definition extract_cost_pairs_base :: "'f f64_ops \<Rightarrow> network_request list \<Rightarrow> ('f \<times> u64) list" where
  "extract_cost_pairs_base F requests = List.map_filter (cost_pair_base F) requests"

definition median_of :: "'f f64_ops \<Rightarrow> 'f list \<Rightarrow> 'f" where
  "median_of F prices =
     (if length prices mod 2 = 0
      then let mid = length prices div 2
           in f_div F (f_add F (prices ! (mid - 1)) (prices ! mid)) (f_lit F 2 0)
      else prices ! (length prices div 2))"

definition fetch_market_price ::
  "'f f64_ops \<Rightarrow> ('client \<Rightarrow> u32 \<Rightarrow> ('w, string, filtered_response) action)
     \<Rightarrow> ('client, 'f) succinct_pricing \<Rightarrow> ('w, succinct_pricing_error, 'f \<times> nat) action" where
  "fetch_market_price F get_filtered_proof_requests self =
     act_bind (act_map_err SuccinctGrpc (get_filtered_proof_requests (su_client self) (su_sample_size self))) (\<lambda>response.
     let pairs = (case response of
                    Auction r \<Rightarrow> extract_cost_pairs_auction F r
                  | Base r \<Rightarrow> extract_cost_pairs_base F r);
         prices_per_cycle = map (\<lambda>(cost_prove, cycles). f_div F cost_prove (f_of_nat F (unat cycles)))
                              (filter (\<lambda>(_, cycles). cycles > 0) pairs)
     in if prices_per_cycle = [] then act_fail SuccinctNoData
        else let prices_per_cycle = sort_by (f_cmp F) prices_per_cycle;
                 median = median_of F prices_per_cycle
             in act_return (median, length prices_per_cycle))"

definition succinct_supports_backend :: "zkvm_backend \<Rightarrow> bool" where
  "succinct_supports_backend backend \<longleftrightarrow> backend = Sp1"

definition succinct_price ::
  "'f f64_ops \<Rightarrow> ('client \<Rightarrow> u32 \<Rightarrow> ('w, string, filtered_response) action)
     \<Rightarrow> ('client, 'f) succinct_pricing \<Rightarrow> cycle_estimate \<Rightarrow> ('w, succinct_pricing_error, 'f pricing_info) action" where
  "succinct_price F get_filtered_proof_requests self estimate =
     (if \<not> succinct_supports_backend (ce_backend estimate)
      then act_fail (SuccinctUnsupportedBackend (ce_backend estimate))
      else act_bind (fetch_market_price F get_filtered_proof_requests self) (\<lambda>(price_per_cycle_prove, sample_count).
        let total_prove = f_mul F price_per_cycle_prove (f_of_nat F (unat (ce_cycles estimate)));
            cost_usd = f_mul F total_prove (su_prove_usd self)
        in act_bind (act_lift (div_u64 (ce_cycles estimate) SP1_CYCLES_PER_SEC)) (\<lambda>duration_secs.
           act_return \<lparr>pi_cost_usd = cost_usd, pi_duration_secs = duration_secs,
                       pi_source = ''succinct-market-p50-'' @ show_nat sample_count,
                       pi_native_cost = Some total_prove, pi_native_symbol = Some ''PROVE'',
                       pi_token_usd_rate = Some (su_prove_usd self)\<rparr>)))"

definition succinct_provider ::
  "'f f64_ops \<Rightarrow> ('client \<Rightarrow> u32 \<Rightarrow> ('w, string, filtered_response) action)
     \<Rightarrow> ('client, 'f) succinct_pricing \<Rightarrow> ('w, 'f, succinct_pricing_error) pricing_provider" where
  "succinct_provider F get_filtered_proof_requests self =
     \<lparr>pr_name = ''succinct'', pr_supports_backend = succinct_supports_backend,
      pr_price = succinct_price F get_filtered_proof_requests self\<rparr>"

subsection \<open>Token prices\<close>

definition COINGECKO_ETH_URL :: string where
  "COINGECKO_ETH_URL = ''https://api.coingecko.com/api/v3/simple/price?ids=ethereum&vs_currencies=usd''"

definition COINGECKO_PROVE_URL :: string where
  "COINGECKO_PROVE_URL = ''https://api.coingecko.com/api/v3/simple/price?ids=succinct&vs_currencies=usd''"

text \<open>\<open>as_f64\<close> is the numeric view of a JSON value as a double.\<close>

definition fetch_token_price ::
  "(string \<Rightarrow> ('w, string, json) action) \<Rightarrow> (json \<Rightarrow> 'f option) \<Rightarrow> string \<Rightarrow> string \<Rightarrow> ('w, string, 'f) action" where
  "fetch_token_price get_json as_f64 url token_key =
     act_bind (get_json url) (\<lambda>resp.
     act_bind (act_lift (ok_or (''missing '' @ [CHR 0x27] @ token_key @ [CHR 0x27] @ '' in CoinGecko response'')
                 (json_get token_key resp))) (\<lambda>token.
     act_lift (ok_or (''missing '' @ [CHR 0x27] @ token_key @ ''.usd'' @ [CHR 0x27] @ '' in CoinGecko response'')
                 (Option.bind (json_get ''usd'' token) as_f64))))"

definition fetch_eth_usd ::
  "'f f64_ops \<Rightarrow> (string \<Rightarrow> ('w, string, json) action) \<Rightarrow> (json \<Rightarrow> 'f option) \<Rightarrow> 'f option \<Rightarrow> ('w, 'e, 'f) action" where
  "fetch_eth_usd F get_json as_f64 override_price =
     (case override_price of
        Some price \<Rightarrow> act_return price
      | None \<Rightarrow> act_bind (act_try (fetch_token_price get_json as_f64 COINGECKO_ETH_URL ''ethereum'')) (\<lambda>r.
          case r of Ok price \<Rightarrow> act_return price | _ \<Rightarrow> act_return (f_lit F 2000 0)))"

definition fetch_prove_usd ::
  "'f f64_ops \<Rightarrow> (string \<Rightarrow> ('w, string, json) action) \<Rightarrow> (json \<Rightarrow> 'f option) \<Rightarrow> 'f option \<Rightarrow> ('w, 'e, 'f) action" where
  "fetch_prove_usd F get_json as_f64 override_price =
     (case override_price of
        Some price \<Rightarrow> act_return price
      | None \<Rightarrow> act_bind (act_try (fetch_token_price get_json as_f64 COINGECKO_PROVE_URL ''succinct'')) (\<lambda>r.
          case r of Ok price \<Rightarrow> act_return price | _ \<Rightarrow> act_return (f_lit F 1 (- 1))))"

section \<open>The market price\<close>

text \<open>The prices per cycle that a response contains, computed without overflow.\<close>

fun response_requests :: "filtered_response \<Rightarrow> network_request list" where
  "response_requests (Auction r) = r"
| "response_requests (Base r) = r"

definition request_cost :: "network_request \<Rightarrow> nat option" where
  "request_cost req =
     (case (nr_gas_used req, nr_gas_price req) of
        (Some gas_used, Some gas_price) \<Rightarrow> Some (unat gas_used * unat gas_price)
      | _ \<Rightarrow> Option.bind (nr_deduction_amount req) (map_option unat \<circ> parse_u128))"

definition price_per_cycle :: "'f f64_ops \<Rightarrow> network_request \<Rightarrow> 'f option" where
  "price_per_cycle F req =
     (case (nr_cycles req, request_cost req) of
        (Some cycles, Some cost) \<Rightarrow>
          if 0 < cycles
          then Some (f_div F (f_div F (f_of_nat F cost) (f_lit F 1 18)) (f_of_nat F (unat cycles)))
          else None
      | _ \<Rightarrow> None)"

definition market_prices :: "'f f64_ops \<Rightarrow> filtered_response \<Rightarrow> 'f list" where
  "market_prices F resp = List.map_filter (price_per_cycle F) (response_requests resp)"

lemma unat_mult_u128: "unat (ucast (a :: u64) * ucast (b :: u64) :: u128) = unat a * unat b"
proof -
  have "unat a * unat b < 2 ^ 64 * 2 ^ 64"
    using unat_u64_less [of a] unat_u64_less [of b] by (intro mult_strict_mono') simp_all
  moreover have "unat (ucast c :: u128) = unat c" for c :: u64
    using unat_u64_less [of c] by (simp add: unsigned_ucast_eq take_bit_nat_eq_self)
  ultimately show ?thesis by (simp add: unat_word_ariths)
qed

lemma cost_pair_spec:
  "cost_pair_auction F req = (case (nr_cycles req, request_cost req) of
       (Some cycles, Some cost) \<Rightarrow> Some (f_div F (f_of_nat F cost) (f_lit F 1 18), cycles) | _ \<Rightarrow> None)"
  "cost_pair_base F req = cost_pair_auction F req"
  by (auto simp: cost_pair_auction_def cost_pair_base_def request_cost_def unat_mult_u128 split: option.splits)

lemma pairs_market_prices:
  "map (\<lambda>(cost, cycles). f_div F cost (f_of_nat F (unat cycles)))
       (filter (\<lambda>(_, cycles). cycles > 0) (List.map_filter (cost_pair_auction F) reqs))
     = List.map_filter (price_per_cycle F) reqs"
  by (induction reqs)
    (auto simp: List.map_filter_simps cost_pair_spec price_per_cycle_def split: option.splits)

lemma fetch_market_price_eq:
  assumes "get (su_client self) (su_sample_size self) w = (Ok resp, w')"
  shows "fetch_market_price F get self w =
     (if market_prices F resp = [] then (Err SuccinctNoData, w')
      else (Ok (median_of F (sort_by (f_cmp F) (market_prices F resp)), length (market_prices F resp)), w'))"
proof -
  have "map (\<lambda>(cost, cycles). f_div F cost (f_of_nat F (unat cycles)))
       (filter (\<lambda>(_, cycles). cycles > 0)
          (case resp of Auction r \<Rightarrow> extract_cost_pairs_auction F r | Base r \<Rightarrow> extract_cost_pairs_base F r))
     = market_prices F resp"
    by (cases resp) (simp_all add: extract_cost_pairs_auction_def extract_cost_pairs_base_def
        cost_pair_spec(2) [abs_def] pairs_market_prices market_prices_def)
  then show ?thesis
    using assms by (simp add: fetch_market_price_def act_bind_def act_map_err_def Let_def del: map_is_Nil_conv list.map_disc_iff)
qed

text \<open>At least half of a sorted list is on either side of its middle.\<close>

lemma filter_take_le: "length (filter P (take k xs)) \<le> length (filter P xs)"
  using append_take_drop_id [of k xs] filter_append [of P "take k xs" "drop k xs"]
  by (metis le_add1 length_append)

lemma filter_drop_le: "length (filter P (drop k xs)) \<le> length (filter P xs)"
  using append_take_drop_id [of k xs] filter_append [of P "take k xs" "drop k xs"]
  by (metis le_add2 length_append)

context f64_order
begin

lemma le_refl: "valid a \<Longrightarrow> f_le F a a"
  using le_total by blast

lemma sorted_nth_le:
  "sorted_wrt (f_le F) xs \<Longrightarrow> \<forall>x \<in> set xs. valid x \<Longrightarrow> i \<le> j \<Longrightarrow> j < length xs \<Longrightarrow> f_le F (xs ! i) (xs ! j)"
  by (cases "i = j") (auto simp: le_refl sorted_wrt_iff_nth_less)

lemma below_count:
  assumes "sorted_wrt (f_le F) xs" and "\<forall>x \<in> set xs. valid x" and "k < length xs"
    and "f_le F (xs ! k) m" and "valid m"
  shows "k + 1 \<le> length (filter (\<lambda>p. f_le F p m) xs)"
proof -
  have "\<forall>p \<in> set (take (k + 1) xs). f_le F p m"
  proof
    fix p
    assume "p \<in> set (take (k + 1) xs)"
    then obtain i where i: "i \<le> k" "p = xs ! i"
      using assms(3) by (auto simp: in_set_conv_nth less_Suc_eq_le)
    have "f_le F (xs ! i) (xs ! k)" by (rule sorted_nth_le [OF assms(1,2) i(1) assms(3)])
    with assms i show "f_le F p m" by (auto intro: le_trans [of _ "xs ! k"])
  qed
  then have "filter (\<lambda>p. f_le F p m) (take (k + 1) xs) = take (k + 1) xs" by simp
  with filter_take_le [of "\<lambda>p. f_le F p m" "k + 1" xs] assms(3) show ?thesis by simp
qed

lemma above_count:
  assumes "sorted_wrt (f_le F) xs" and "\<forall>x \<in> set xs. valid x" and "k < length xs"
    and "f_le F m (xs ! k)" and "valid m"
  shows "length xs - k \<le> length (filter (\<lambda>p. f_le F m p) xs)"
proof -
  have "\<forall>p \<in> set (drop k xs). f_le F m p"
  proof
    fix p
    assume "p \<in> set (drop k xs)"
    then obtain i where i: "k \<le> i" "i < length xs" "p = xs ! i"
      by (auto simp: in_set_conv_nth) (metis add.commute le_add1 less_diff_conv)
    have "f_le F (xs ! k) (xs ! i)" by (rule sorted_nth_le [OF assms(1,2) i(1,2)])
    with assms i show "f_le F m p" by (auto intro: le_trans [of _ "xs ! k"])
  qed
  then have "filter (\<lambda>p. f_le F m p) (drop k xs) = drop k xs" by simp
  with filter_drop_le [of "\<lambda>p. f_le F m p" k xs] assms(3) show ?thesis by simp
qed

lemma median_halves:
  assumes "sorted_wrt (f_le F) xs" and "\<forall>x \<in> set xs. valid x" and "xs \<noteq> []"
  shows "length xs \<le> 2 * length (filter (\<lambda>p. f_le F p (median_of F xs)) xs)
     \<and> length xs \<le> 2 * length (filter (\<lambda>p. f_le F (median_of F xs) p) xs)"
proof (cases "length xs mod 2 = 0")
  case True
  let ?k = "length xs div 2"
  from True assms(3) have k: "0 < ?k" "?k < length xs" "2 * ?k = length xs" by (cases xs; auto)+
  define m where "m = f_div F (f_add F (xs ! (?k - 1)) (xs ! ?k)) (f_lit F 2 0)"
  have le: "f_le F (xs ! (?k - 1)) (xs ! ?k)"
    by (rule sorted_nth_le [OF assms(1,2)]) (use k in simp_all)
  have mid: "f_le F (xs ! (?k - 1)) m" "f_le F m (xs ! ?k)" "valid m"
    unfolding m_def using midpoint [OF _ _ le] assms(2) k by simp_all
  have median: "median_of F xs = m"
    using True by (simp add: median_of_def m_def Let_def)
  have "?k - 1 < length xs" using k by simp
  from below_count [OF assms(1,2) this mid(1,3)] above_count [OF assms(1,2) k(2) mid(2,3)] k
  show ?thesis unfolding median by linarith
next
  case False
  let ?k = "length xs div 2"
  have k: "?k < length xs" "length xs = 2 * ?k + 1" using False assms(3) by (cases xs; auto; arith)+
  have v: "valid (xs ! ?k)" using assms(2) k by simp
  have median: "median_of F xs = xs ! ?k" using False by (simp add: median_of_def)
  from below_count [OF assms(1,2) k(1) le_refl [OF v] v] above_count [OF assms(1,2) k(1) le_refl [OF v] v] k
  show ?thesis unfolding median by linarith
qed

lemma market_prices_valid: "\<forall>p \<in> set (market_prices F resp). valid p"
proof
  fix p
  assume "p \<in> set (market_prices F resp)"
  then obtain req cycles cost where "nr_cycles req = Some cycles" "request_cost req = Some cost" "0 < cycles"
      "p = f_div F (f_div F (f_of_nat F cost) (f_lit F 1 18)) (f_of_nat F (unat cycles))"
    by (auto simp: market_prices_def List.map_filter_def price_per_cycle_def split: option.splits if_splits)
  moreover have "cost < 2 ^ 128"
  proof -
    have "unat (c :: u128) < 2 ^ 128" for c using unsigned_less [of c, where ?'a = nat] by simp
    with \<open>request_cost req = Some cost\<close> show ?thesis
      by (auto simp: request_cost_def bind_eq_Some_conv simp flip: unat_mult_u128 split: option.splits)
  qed
  ultimately show "valid p"
    by (simp add: price_valid word_less_nat_alt unat_u64_less [simplified])
qed

end

text \<open>The laws hold for exact arithmetic; the comparison of rationals never fails.\<close>

definition exact_ops :: "rat f64_ops" where
  "exact_ops =
     \<lparr>f_lit = (\<lambda>m e. if 0 \<le> e then of_int (m * 10 ^ nat e) else of_int m / of_int (10 ^ nat (- e))),
      f_of_nat = of_nat, f_add = (+), f_mul = (*), f_div = (/),
      f_partial_cmp = (\<lambda>a b. Some (if a < b then Less else if a = b then Equal else Greater))\<rparr>"

lemma exact_le: "f_le exact_ops a b \<longleftrightarrow> a \<le> b"
  by (auto simp: f_le_def f_cmp_def exact_ops_def)

interpretation exact: f64_order exact_ops "\<lambda>_. True"
  by unfold_locales (auto simp: exact_le, auto simp: exact_ops_def f_cmp_def split: if_splits)

text \<open>
  C36: the market price. Whatever the network returns, in either response format, the price is
  the no-data error when no request has both a positive cycle count and a cost (gas used times
  gas price, exact in 128 bits, or else the parsed deduction), and otherwise a value that at
  least half of those requests' prices per cycle do not exceed and at least half are not below,
  with their number.
\<close>

theorem market_price_is_median:
  assumes "f64_order F valid" and "get (su_client self) (su_sample_size self) w = (Ok resp, w')"
  shows "case fetch_market_price F get self w of
       (Ok (m, n), w'') \<Rightarrow> w'' = w' \<and> n = length (market_prices F resp) \<and> 0 < n
         \<and> n \<le> 2 * length (filter (\<lambda>p. f_le F p m) (market_prices F resp))
         \<and> n \<le> 2 * length (filter (\<lambda>p. f_le F m p) (market_prices F resp))
     | (Err e, w'') \<Rightarrow> w'' = w' \<and> e = SuccinctNoData \<and> market_prices F resp = []
     | (Panic p, w'') \<Rightarrow> False"
proof (cases "market_prices F resp = []")
  case True
  then show ?thesis by (simp add: fetch_market_price_eq [where F = F and get = get, OF assms(2)])
next
  case False
  let ?xs = "sort_by (f_cmp F) (market_prices F resp)"
  have "\<forall>p \<in> set (market_prices F resp). valid p" by (rule f64_order.market_prices_valid [OF assms(1)])
  then have "sorted_wrt (f_le F) ?xs" "\<forall>p \<in> set ?xs. valid p"
    by (simp_all add: f64_order.sort_by_sorted [OF assms(1)])
  moreover have "?xs \<noteq> []" using False length_sort_by by (metis length_0_conv)
  moreover note False
  ultimately show ?thesis
    using f64_order.median_halves [OF assms(1), of ?xs]
    by (simp add: fetch_market_price_eq [where F = F and get = get, OF assms(2)] filter_sort_by)
qed

definition sample_response :: filtered_response where
  "sample_response = Auction
     [\<lparr>nr_cycles = Some 2, nr_gas_used = Some 10, nr_gas_price = Some 3, nr_deduction_amount = None\<rparr>,
      \<lparr>nr_cycles = Some 0, nr_gas_used = Some 10, nr_gas_price = Some 3, nr_deduction_amount = None\<rparr>,
      \<lparr>nr_cycles = Some 5, nr_gas_used = None, nr_gas_price = Some 3, nr_deduction_amount = Some ''50''\<rparr>,
      \<lparr>nr_cycles = Some 5, nr_gas_used = None, nr_gas_price = None, nr_deduction_amount = Some ''x''\<rparr>]"

theorem market_price_is_median_witness:
  "\<exists>m. fetch_market_price exact_ops (\<lambda>_ _ w. (Ok sample_response, Suc w))
       \<lparr>su_client = (), su_sample_size = 50, su_prove_usd = 1\<rparr> 0 = (Ok (m, 2), 1)"
proof -
  have "market_prices exact_ops sample_response \<noteq> [] \<and> length (market_prices exact_ops sample_response) = 2"
    by (simp add: market_prices_def sample_response_def List.map_filter_simps price_per_cycle_def
        request_cost_def parse_u128_def parse_unsigned_def parse_digits_def digit_def)
  with market_price_is_median [OF exact.f64_order_axioms,
      of "\<lambda>_ _ w. (Ok sample_response, Suc w)" "\<lparr>su_client = (), su_sample_size = 50, su_prove_usd = 1\<rparr>" 0
         sample_response 1]
  show ?thesis by (auto split: prod.splits outcome.splits)
qed

end
