(* ===== verification/Rpc_Witness.thy ===== *)
theory Rpc_Witness
  imports Pipeline Json
begin

text \<open>
  The RPC witness provider, crates/host/src/witness/rpc.rs.  The nodes, the file system, the
  JSON text format and kona's native host are the fields of a record; the provider's own logic
  is the resolution of the two configuration files, the merge of fork times, the order in which
  output roots are looked up, the collection of preimages through the shared store of \<open>Witness\<close>
  and the assembly of the witness.  Log output is not modelled.
\<close>

section \<open>The provider and its environment\<close>

record rpc_witness_provider =
  rp_l1_rpc_url :: string
  rp_l2_rpc_url :: string
  rp_l1_beacon_url :: string
  rp_op_node_url :: "string option"
  rp_rollup_config_path :: "string option"
  rp_l2_chain_id :: "u64 option"

datatype rpc_witness_error =
    Connection string
  | Fetch string
  | Serialization string
  | KonaHost string
  | KonaClient string

fun rpc_witness_error_to_string :: "rpc_witness_error \<Rightarrow> string" where
  "rpc_witness_error_to_string (Connection s) = ''RPC connection failed: '' @ s"
| "rpc_witness_error_to_string (Fetch s) = ''data fetching failed: '' @ s"
| "rpc_witness_error_to_string (Serialization s) = ''witness serialization failed: '' @ s"
| "rpc_witness_error_to_string (KonaHost s) = ''kona host error: '' @ s"
| "rpc_witness_error_to_string (KonaClient s) = ''kona client error: '' @ s"

definition rpc_witness_new :: "string \<Rightarrow> string \<Rightarrow> string \<Rightarrow> rpc_witness_provider" where
  "rpc_witness_new l1_rpc_url l2_rpc_url l1_beacon_url =
     \<lparr>rp_l1_rpc_url = l1_rpc_url, rp_l2_rpc_url = l2_rpc_url, rp_l1_beacon_url = l1_beacon_url,
      rp_op_node_url = None, rp_rollup_config_path = None, rp_l2_chain_id = None\<rparr>"

definition with_op_node_url :: "rpc_witness_provider \<Rightarrow> string \<Rightarrow> rpc_witness_provider" where
  "with_op_node_url self url = self\<lparr>rp_op_node_url := Some url\<rparr>"

definition with_rollup_config :: "rpc_witness_provider \<Rightarrow> string \<Rightarrow> rpc_witness_provider" where
  "with_rollup_config self path = self\<lparr>rp_rollup_config_path := Some path\<rparr>"

definition with_chain_id :: "rpc_witness_provider \<Rightarrow> u64 \<Rightarrow> rpc_witness_provider" where
  "with_chain_id self chain_id = self\<lparr>rp_l2_chain_id := Some chain_id\<rparr>"

text \<open>kona's host configuration; the fields the provider sets.\<close>

record single_chain_host =
  sh_l1_head :: b256
  sh_agreed_l2_head_hash :: b256
  sh_agreed_l2_output_root :: b256
  sh_claimed_l2_output_root :: b256
  sh_claimed_l2_block_number :: u64
  sh_l1_node_address :: "string option"
  sh_l2_node_address :: "string option"
  sh_l1_beacon_address :: "string option"
  sh_native :: bool
  sh_server :: bool
  sh_l2_chain_id :: "u64 option"
  sh_rollup_config_path :: "string option"
  sh_l1_config_path :: "string option"
  sh_data_dir :: "string option"

record l2_header =
  lh_hash :: b256
  lh_state_root :: b256
  lh_withdrawals_root :: "b256 option"

text \<open>How the spawned client task ends.\<close>

datatype client_end = ClientDone | ClientError string | ClientPanicked string

record 'w rpc_env =
  re_parse_url :: "string \<Rightarrow> (string, unit) outcome"
  re_raw_request :: "string \<Rightarrow> string \<Rightarrow> string list \<Rightarrow> ('w, string, json) action"
  re_block_by_number :: "string \<Rightarrow> u64 \<Rightarrow> ('w, string, l2_header option) action"
  re_canonicalize :: "string \<Rightarrow> ('w, string, string) action"
  re_read :: "string \<Rightarrow> ('w, string, bytes) action"
  re_read_to_string :: "string \<Rightarrow> ('w, string, string) action"
  re_write :: "string \<Rightarrow> string \<Rightarrow> ('w, string, unit) action"
  re_temp_file :: "string \<Rightarrow> string"
  re_process_id :: u32
  re_from_str :: "string \<Rightarrow> (string, json) outcome"
  re_from_slice :: "bytes \<Rightarrow> (string, json) outcome"
  re_to_string_pretty :: "json \<Rightarrow> (string, string) outcome"
  re_to_vec :: "json \<Rightarrow> (string, bytes) outcome"
  re_keccak256 :: "bytes \<Rightarrow> b256"
  re_parse_b256 :: "string \<Rightarrow> b256 option"
  re_host_read_rollup_config :: "single_chain_host \<Rightarrow> ('w, string, unit) action"
  re_host_read_l1_config :: "single_chain_host \<Rightarrow> ('w, string, unit) action"
  re_create_providers :: "single_chain_host \<Rightarrow> ('w, string, unit) action"
  re_channel :: "('w, string, unit) action"
  re_run_client :: "single_chain_host \<Rightarrow> 'w \<Rightarrow> (client_end \<times> (b256 \<times> bytes) list) \<times> 'w"
  re_local_key :: "u64 \<Rightarrow> b256"
  re_local_get :: "single_chain_host \<Rightarrow> b256 \<Rightarrow> 'w \<Rightarrow> bytes option \<times> 'w"

text \<open>
  \<open>re_run_client\<close> runs kona's client against the preimage server; it yields how the client
  ended and the writes of the server to the shared store, in order.
\<close>

definition url_checked :: "'w rpc_env \<Rightarrow> string \<Rightarrow> string \<Rightarrow> ('w, rpc_witness_error, unit) action" where
  "url_checked E what url =
     act_lift (map_err (\<lambda>e. Connection (''invalid '' @ what @ '' URL: '' @ e)) (re_parse_url E url))"

text \<open>\<open>if let Ok(x) = m\<close>: an error is only tested.\<close>

definition act_ok :: "('w, 'e, 'a) action \<Rightarrow> ('w, 'f, 'a option) action" where
  "act_ok m = act_bind (act_try m) (\<lambda>r. act_return (result_ok r))"

lemma act_ok_simps [simp]:
  "m w = (Ok a, w') \<Longrightarrow> act_ok m w = (Ok (Some a), w')"
  "m w = (Err e, w') \<Longrightarrow> act_ok m w = (Ok None, w')"
  by (simp_all add: act_ok_def act_try_def act_bind_def)

section \<open>The rollup configuration\<close>

definition fork_mappings :: "(string \<times> string) list" where
  "fork_mappings =
     [(''regolithTime'', ''regolith_time''),
      (''canyonTime'', ''canyon_time''),
      (''deltaTime'', ''delta_time''),
      (''ecotoneTime'', ''ecotone_time''),
      (''fjordTime'', ''fjord_time''),
      (''graniteTime'', ''granite_time''),
      (''holoceneTime'', ''holocene_time''),
      (''isthmusTime'', ''isthmus_time'')]"

text \<open>Assignment to an index of a JSON value: null becomes an object, any other non-object panics.\<close>

fun json_set :: "string \<Rightarrow> json \<Rightarrow> json \<Rightarrow> ('e, json) outcome" where
  "json_set k v (JObj ms) = Ok (JObj (members_insert k v ms))"
| "json_set k v JNull = Ok (JObj [(k, v)])"
| "json_set k v _ = Panic ExpectFailed"

fun merge_fork :: "json \<Rightarrow> string \<times> string \<Rightarrow> json \<Rightarrow> ('e, json) outcome" where
  "merge_fork chain_config (camel, snake) rollup_config =
     (if json_get snake rollup_config = None
      then case json_get camel chain_config of
             None \<Rightarrow> Ok rollup_config
           | Some value \<Rightarrow> if value = JNull then Ok rollup_config else json_set snake value rollup_config
      else Ok rollup_config)"

primrec merge_forks :: "json \<Rightarrow> (string \<times> string) list \<Rightarrow> json \<Rightarrow> ('e, json) outcome" where
  "merge_forks chain_config [] rollup_config = Ok rollup_config"
| "merge_forks chain_config (m # ms) rollup_config =
     and_then (merge_fork chain_config m rollup_config) (merge_forks chain_config ms)"

text \<open>The path from the provider, if it resolves to a readable file of valid JSON.\<close>

definition existing_rollup_config ::
  "'w rpc_env \<Rightarrow> string option \<Rightarrow> ('w, rpc_witness_error, string option) action" where
  "existing_rollup_config E path =
     (case path of
        None \<Rightarrow> act_return None
      | Some p \<Rightarrow>
          act_bind (act_ok (re_canonicalize E p)) (\<lambda>r.
          case r of None \<Rightarrow> act_return None
          | Some abs_path \<Rightarrow>
              act_bind (act_ok (re_read_to_string E abs_path)) (\<lambda>r.
              case r of None \<Rightarrow> act_return None
              | Some contents \<Rightarrow>
                  act_return (if result_ok (re_from_str E contents) \<noteq> None then Some abs_path else None))))"

definition write_config ::
  "'w rpc_env \<Rightarrow> string \<Rightarrow> string \<Rightarrow> string \<Rightarrow> json \<Rightarrow> ('w, rpc_witness_error, string) action" where
  "write_config E name what long_name config =
     (let tmp_path = re_temp_file E (''open-zk-'' @ name @ ''-'' @ show_nat (unat (re_process_id E)) @ ''.json'')
      in act_bind (act_lift (map_err (\<lambda>e. Serialization (what @ '' config serialization: '' @ e))
                               (re_to_string_pretty E config))) (\<lambda>config_str.
         act_bind (act_map_err (\<lambda>e. Fetch (''failed to write '' @ long_name @ '' config to '' @ tmp_path @ '': '' @ e))
                     (re_write E tmp_path config_str)) (\<lambda>_.
         act_return tmp_path)))"

definition fetch_rollup_config ::
  "'w rpc_env \<Rightarrow> rpc_witness_provider \<Rightarrow> ('w, rpc_witness_error, json) action" where
  "fetch_rollup_config E self =
     act_bind (act_lift (ok_or (Fetch (''no rollup config path or OP Node URL provided; ''
                 @ ''set one via with_rollup_config() or with_op_node_url()'')) (rp_op_node_url self))) (\<lambda>op_node_url.
     act_bind (url_checked E ''OP Node'' op_node_url) (\<lambda>_.
     act_bind (act_map_err (\<lambda>e. Fetch (''optimism_rollupConfig RPC failed: '' @ e))
                 (re_raw_request E op_node_url ''optimism_rollupConfig'' [])) (\<lambda>rollup_config.
     act_bind (url_checked E ''L2'' (rp_l2_rpc_url self)) (\<lambda>_.
     act_bind (act_ok (re_raw_request E (rp_l2_rpc_url self) ''debug_chainConfig'' [])) (\<lambda>r.
     case r of
       Some chain_config \<Rightarrow> act_lift (merge_forks chain_config fork_mappings rollup_config)
     | None \<Rightarrow> act_return rollup_config)))))"

definition ensure_rollup_config ::
  "'w rpc_env \<Rightarrow> rpc_witness_provider \<Rightarrow> ('w, rpc_witness_error, string) action" where
  "ensure_rollup_config E self =
     act_bind (existing_rollup_config E (rp_rollup_config_path self)) (\<lambda>existing.
     case existing of
       Some abs_path \<Rightarrow> act_return abs_path
     | None \<Rightarrow>
         act_bind (fetch_rollup_config E self) (\<lambda>rollup_config.
         write_config E ''rollup-config'' ''rollup'' ''rollup'' rollup_config))"

text \<open>The hash of the configuration in the boot information: of its normalized JSON text.\<close>

definition compute_rollup_config_hash ::
  "'w rpc_env \<Rightarrow> string \<Rightarrow> ('w, rpc_witness_error, b256) action" where
  "compute_rollup_config_hash E rollup_config_path =
     act_bind (act_map_err (\<lambda>e. Fetch (''failed to read rollup config at '' @ rollup_config_path @ '': '' @ e))
                 (re_read E rollup_config_path)) (\<lambda>contents.
     act_bind (act_lift (map_err (\<lambda>e. Fetch (''invalid rollup config JSON: '' @ e)) (re_from_slice E contents))) (\<lambda>value.
     act_bind (act_lift (map_err (\<lambda>e. Serialization (''rollup config serialization: '' @ e)) (re_to_vec E value))) (\<lambda>canonical.
     act_return (re_keccak256 E canonical))))"

section \<open>The L1 configuration\<close>

definition default_l1_config :: "u64 \<Rightarrow> json" where
  "default_l1_config l1_chain_id =
     JObj [(''chainId'', JInt (uint l1_chain_id)),
           (''homesteadBlock'', JInt 0),
           (''eip150Block'', JInt 0),
           (''eip155Block'', JInt 0),
           (''eip158Block'', JInt 0),
           (''byzantiumBlock'', JInt 0),
           (''constantinopleBlock'', JInt 0),
           (''petersburgBlock'', JInt 0),
           (''istanbulBlock'', JInt 0),
           (''berlinBlock'', JInt 0),
           (''londonBlock'', JInt 0),
           (''shanghaiTime'', JInt 0),
           (''cancunTime'', JInt 0),
           (''terminalTotalDifficulty'', JStr ''0''),
           (''terminalTotalDifficultyPassed'', JBool True)]"

definition ensure_l1_config ::
  "'w rpc_env \<Rightarrow> rpc_witness_provider \<Rightarrow> u64 \<Rightarrow> ('w, rpc_witness_error, string) action" where
  "ensure_l1_config E self l1_chain_id =
     act_bind (url_checked E ''L1'' (rp_l1_rpc_url self)) (\<lambda>_.
     act_bind (act_ok (re_raw_request E (rp_l1_rpc_url self) ''debug_chainConfig'' [])) (\<lambda>r.
     let l1_config = (case r of Some config \<Rightarrow> config | None \<Rightarrow> default_l1_config l1_chain_id)
     in write_config E ''l1-config'' ''l1'' ''L1'' l1_config))"

section \<open>Output roots\<close>

text \<open>\<open>{:x}\<close>: lower-case hexadecimal digits without leading zeros.\<close>

definition hex_digit :: "nat \<Rightarrow> char" where
  "hex_digit d = (if d < 10 then char_of (48 + d) else char_of (87 + d))"

fun show_hex :: "nat \<Rightarrow> string" where
  "show_hex n = (if n < 16 then [hex_digit n] else show_hex (n div 16) @ [hex_digit (n mod 16)])"

declare show_hex.simps [simp del]

definition request_output_root ::
  "'w rpc_env \<Rightarrow> string \<Rightarrow> u64 \<Rightarrow> ('w, rpc_witness_error, b256 option) action" where
  "request_output_root E url block_number =
     act_bind (act_ok (re_raw_request E url ''optimism_outputAtBlock''
                 [''0x'' @ show_hex (unat block_number)])) (\<lambda>rpc_result.
     act_return
       (case rpc_result of
          None \<Rightarrow> None
        | Some resp \<Rightarrow>
            (case Option.bind (json_get ''outputRoot'' resp) json_as_str of
               None \<Rightarrow> None
             | Some root_str \<Rightarrow> re_parse_b256 E root_str)))"

definition output_root_payload :: "l2_header \<Rightarrow> bytes" where
  "output_root_payload header =
     (let payload = replicate 128 0;
          payload = take 32 payload @ be_bytes 32 (lh_state_root header) @ drop 64 payload;
          withdrawals_root = (case lh_withdrawals_root header of Some r \<Rightarrow> r | None \<Rightarrow> 0);
          payload = take 64 payload @ be_bytes 32 withdrawals_root @ drop 96 payload;
          payload = take 96 payload @ be_bytes 32 (lh_hash header) @ drop 128 payload
      in payload)"

text \<open>The fallback: derived from the block's header.\<close>

definition header_output_root ::
  "'w rpc_env \<Rightarrow> string \<Rightarrow> u64 \<Rightarrow> ('w, rpc_witness_error, b256) action" where
  "header_output_root E l2_provider block_number =
     act_bind (act_map_err (\<lambda>e. Fetch (''L2 block '' @ show_u64 block_number @ '': '' @ e))
                 (re_block_by_number E l2_provider block_number)) (\<lambda>found.
     act_bind (act_lift (ok_or (Fetch (''L2 block '' @ show_u64 block_number @ '' not found'')) found)) (\<lambda>header.
     act_return (re_keccak256 E (output_root_payload header))))"

definition fetch_output_root ::
  "'w rpc_env \<Rightarrow> rpc_witness_provider \<Rightarrow> string \<Rightarrow> u64 \<Rightarrow> ('w, rpc_witness_error, b256) action" where
  "fetch_output_root E self l2_provider block_number =
     act_bind
       (case rp_op_node_url self of
          None \<Rightarrow> act_return None
        | Some op_url \<Rightarrow>
            act_bind (url_checked E ''OP Node'' op_url) (\<lambda>_. request_output_root E op_url block_number))
       (\<lambda>from_op. case from_op of
          Some root \<Rightarrow> act_return root
        | None \<Rightarrow>
            act_bind (request_output_root E l2_provider block_number) (\<lambda>from_l2.
            case from_l2 of
              Some root \<Rightarrow> act_return root
            | None \<Rightarrow> header_output_root E l2_provider block_number))"

section \<open>Collecting the preimages\<close>

definition build_host_config ::
  "rpc_witness_provider \<Rightarrow> proof_request \<Rightarrow> b256 \<Rightarrow> b256 \<Rightarrow> string \<Rightarrow> string \<Rightarrow> single_chain_host" where
  "build_host_config self request agreed_l2_head_hash claimed_l2_output_root rollup_config_path l1_config_path =
     \<lparr>sh_l1_head = req_l1_head request,
      sh_agreed_l2_head_hash = agreed_l2_head_hash,
      sh_agreed_l2_output_root = req_l2_start_output_root request,
      sh_claimed_l2_output_root = claimed_l2_output_root,
      sh_claimed_l2_block_number = req_l2_end_block request,
      sh_l1_node_address = Some (rp_l1_rpc_url self),
      sh_l2_node_address = Some (rp_l2_rpc_url self),
      sh_l1_beacon_address = Some (rp_l1_beacon_url self),
      sh_native = True,
      sh_server = False,
      sh_l2_chain_id = rp_l2_chain_id self,
      sh_rollup_config_path = Some rollup_config_path,
      sh_l1_config_path = Some l1_config_path,
      sh_data_dir = None\<rparr>"

text \<open>
  The state of a collection is the world with the heap of shared stores.  The handle given to
  kona's split store is a clone of the one kept, so what the server writes is seen afterwards.
\<close>

definition in_world :: "('w, 'e, 'a) action \<Rightarrow> ('w \<times> kv_heap, 'e, 'a) action" where
  "in_world m = (\<lambda>(w, h). case m w of (r, w') \<Rightarrow> (r, w', h))"

definition new_store :: "('w \<times> kv_heap, 'e, kv_handle) action" where
  "new_store = (\<lambda>(w, h). case kv_new h of (p, h') \<Rightarrow> (Ok p, w, h'))"

definition run_client_and_server ::
  "'w rpc_env \<Rightarrow> single_chain_host \<Rightarrow> kv_handle \<Rightarrow> ('w \<times> kv_heap, 'e, client_end) action" where
  "run_client_and_server E host kv = (\<lambda>(w, h).
     case re_run_client E host w of ((r, writes), w') \<Rightarrow> (Ok r, w', kv_set_all h kv writes))"

definition collect_witness ::
  "'w rpc_env \<Rightarrow> single_chain_host \<Rightarrow> ('w \<times> kv_heap, rpc_witness_error, kv_handle) action" where
  "collect_witness E host =
     act_bind (act_map_err (\<lambda>e. KonaHost (''rollup config not readable (SingleChainLocalInputs will fail): '' @ e))
                 (in_world (re_host_read_rollup_config E host))) (\<lambda>_.
     act_bind (act_map_err (\<lambda>e. KonaHost (''L1 config not readable (SingleChainLocalInputs will fail): '' @ e))
                 (in_world (re_host_read_l1_config E host))) (\<lambda>_.
     act_bind new_store (\<lambda>our_store.
     act_bind (act_map_err Connection (in_world (re_create_providers E host))) (\<lambda>_.
     act_bind (act_map_err Connection (in_world (re_channel E))) (\<lambda>_.
     act_bind (act_map_err Connection (in_world (re_channel E))) (\<lambda>_.
     act_bind (run_client_and_server E host (kv_clone our_store)) (\<lambda>client_result.
     case client_result of
       ClientDone \<Rightarrow> act_return our_store
     | ClientError e \<Rightarrow> act_fail (KonaClient e)
     | ClientPanicked e \<Rightarrow> act_fail (KonaClient (''client task panicked: '' @ e)))))))))"

section \<open>The witness\<close>

text \<open>The loop over the local keys 1 to 7.\<close>

primrec inject_local ::
  "'w rpc_env \<Rightarrow> single_chain_host \<Rightarrow> u64 list \<Rightarrow> preimages \<Rightarrow> ('w, 'e, preimages) action" where
  "inject_local E host [] preimages = act_return preimages"
| "inject_local E host (i # is) preimages = (\<lambda>w.
     case re_local_get E host (re_local_key E i) w of
       (None, w') \<Rightarrow> inject_local E host is preimages w'
     | (Some value, w') \<Rightarrow> inject_local E host is (preimages(re_local_key E i \<mapsto> value)) w')"

definition local_key_indices :: "u64 list" where
  "local_key_indices = [1, 2, 3, 4, 5, 6, 7]"

definition rpc_generate_witness ::
  "(boot_info_output \<Rightarrow> bytes) \<Rightarrow> (preimages \<Rightarrow> (string, bytes) outcome) \<Rightarrow> 'w rpc_env
     \<Rightarrow> rpc_witness_provider \<Rightarrow> proof_request \<Rightarrow> ('w \<times> kv_heap, rpc_witness_error, raw_witness) action" where
  "rpc_generate_witness enc to_bytes E self request =
     act_bind (in_world (ensure_rollup_config E self)) (\<lambda>rollup_config_path.
     act_bind (in_world (compute_rollup_config_hash E rollup_config_path)) (\<lambda>rollup_config_hash.
     act_bind (in_world (url_checked E ''L2'' (rp_l2_rpc_url self))) (\<lambda>_.
     act_bind (act_map_err (\<lambda>e. Fetch (''L2 start block: '' @ e))
                 (in_world (re_block_by_number E (rp_l2_rpc_url self) (req_l2_start_block request)))) (\<lambda>found.
     act_bind (act_lift (ok_or (Fetch (''L2 block '' @ show_u64 (req_l2_start_block request) @ '' not found'')) found)) (\<lambda>start_block.
     act_bind (in_world (fetch_output_root E self (rp_l2_rpc_url self) (req_l2_end_block request))) (\<lambda>claimed_l2_output_root.
     act_bind (act_map_err (\<lambda>e. Fetch (''re-read rollup config: '' @ e))
                 (in_world (re_read_to_string E rollup_config_path))) (\<lambda>text.
     act_bind (act_lift (map_err (\<lambda>e. Fetch (''re-parse rollup config: '' @ e)) (re_from_str E text))) (\<lambda>rollup_json.
     let l1_chain_id = (case Option.bind (json_get ''l1_chain_id'' rollup_json) json_as_u64 of Some n \<Rightarrow> n | None \<Rightarrow> 1)
     in act_bind (in_world (ensure_l1_config E self l1_chain_id)) (\<lambda>l1_config_path.
     let host = build_host_config self request (lh_hash start_block) claimed_l2_output_root
                  rollup_config_path l1_config_path
     in act_bind (collect_witness E host) (\<lambda>store.
     act_bind (\<lambda>(w, h). (Ok (kv_snapshot h store), w, h)) (\<lambda>preimages.
     act_bind (in_world (inject_local E host local_key_indices preimages)) (\<lambda>preimages.
     act_bind (act_lift (serialize_preimages to_bytes preimages)) (\<lambda>oracle_data.
     let boot_info = \<lparr>bi_l1_head = req_l1_head request,
                      bi_l2_pre_root = req_l2_start_output_root request,
                      bi_l2_claim = claimed_l2_output_root,
                      bi_l2_block_number = req_l2_end_block request,
                      bi_rollup_config_hash = rollup_config_hash\<rparr>
     in act_return \<lparr>rw_boot_info = boot_to_abi_bytes enc boot_info,
                    rw_oracle_data = oracle_data,
                    rw_blob_data = []\<rparr>)))))))))))))"

section \<open>Behaviour\<close>

lemma act_ok_Ok_iff:
  "act_ok m w = (Ok r, w') \<longleftrightarrow>
     (case r of Some a \<Rightarrow> m w = (Ok a, w') | None \<Rightarrow> \<exists>e. m w = (Err e, w'))"
  by (auto simp: act_ok_def act_try_def act_bind_def split: prod.splits outcome.splits option.splits)

lemma in_world_Ok_iff:
  "in_world m (w, h) = (Ok a, w', h') \<longleftrightarrow> m w = (Ok a, w') \<and> h' = h"
  by (auto simp: in_world_def split: prod.splits)

lemma url_checked_Ok_iff [simp]: "url_checked E what url w = (Ok u, w') \<longleftrightarrow> w' = w \<and> re_parse_url E url = Ok ()"
  by (auto simp: url_checked_def)

lemma json_set_get:
  "json_set k v c = Ok c' \<Longrightarrow> json_get x c' = (if x = k then Some v else json_get x c)"
  by (cases c) auto

lemma json_set_cases:
  fixes r :: "('e, json) outcome"
  assumes "r = json_set k v c"
  shows "(\<exists>c'. r = Ok c') \<or> r = Panic ExpectFailed \<and> \<not> json_is_object c \<and> c \<noteq> JNull"
  unfolding assms
  by (cases c) auto

text \<open>
  The value a list of mappings takes from a chain configuration for a name in the rollup
  configuration; for the program's mappings, the time of that fork.
\<close>

definition merge_value :: "json \<Rightarrow> (string \<times> string) list \<Rightarrow> string \<Rightarrow> json option" where
  "merge_value chain_config ms snake =
     (case map_of (map (\<lambda>(c, s). (s, c)) ms) snake of
        None \<Rightarrow> None
      | Some camel \<Rightarrow>
          (case json_get camel chain_config of
             None \<Rightarrow> None
           | Some v \<Rightarrow> if v = JNull then None else Some v))"

definition fork_time :: "json \<Rightarrow> string \<Rightarrow> json option" where
  "fork_time chain_config = merge_value chain_config fork_mappings"

lemma distinct_forks: "distinct (map snd fork_mappings)"
  by (simp add: fork_mappings_def)

lemma merge_forks_spec:
  assumes "distinct (map snd ms)"
  shows "case (merge_forks cc ms rc :: ('e, json) outcome) of
       Ok rc' \<Rightarrow> (\<forall>k. json_get k rc' = (case json_get k rc of Some v \<Rightarrow> Some v | None \<Rightarrow> merge_value cc ms k))
     | Err e \<Rightarrow> False
     | Panic p \<Rightarrow> \<not> json_is_object rc \<and> rc \<noteq> JNull \<and> (\<exists>k. merge_value cc ms k \<noteq> None)"
  using assms
proof (induction ms arbitrary: rc)
  case Nil
  show ?case by (simp add: merge_value_def split: option.splits)
next
  case (Cons m ms)
  obtain camel snake where m: "m = (camel, snake)" by (cases m)
  from Cons.prems m have fresh: "snake \<notin> snd ` set ms" and dist: "distinct (map snd ms)" by auto
  from fresh have none: "map_of (map (\<lambda>(c, s). (s, c)) ms) snake = None"
    by (force simp: map_of_eq_None_iff)
  have here: "merge_value cc (m # ms) snake =
      (case json_get camel cc of None \<Rightarrow> None | Some v \<Rightarrow> if v = JNull then None else Some v)"
    by (simp add: merge_value_def m)
  have there: "merge_value cc (m # ms) k = merge_value cc ms k" if "k \<noteq> snake" for k
    using that by (simp add: merge_value_def m)
  have ms_snake: "merge_value cc ms snake = None"
    by (simp add: merge_value_def none)
  show ?case
  proof (cases "json_get snake rc = None \<and> merge_value cc (m # ms) snake \<noteq> None")
    case True
    then obtain v where v: "json_get camel cc = Some v" "v \<noteq> JNull" "merge_value cc (m # ms) snake = Some v"
      by (auto simp: here split: option.splits if_splits)
    from True have missing: "json_get snake rc = None" by simp
    with v have step: "merge_fork cc m rc = json_set snake v rc" by (simp add: m)
    show ?thesis
    proof (cases "\<exists>c. (json_set snake v rc :: ('e, json) outcome) = Ok c")
      case True
      then obtain c where c: "(json_set snake v rc :: ('e, json) outcome) = Ok c" by blast
      have obj: "json_is_object c" using c by (cases rc) auto
      have get: "json_get k c = (if k = snake then Some v else json_get k rc)" for k
        using c by (rule json_set_get)
      from Cons.IH [OF dist, of c] show ?thesis
        using obj v(3) there missing by (auto simp: step c get split: outcome.splits option.splits)
    next
      case False
      with json_set_cases [where 'e = 'e, OF refl, of snake v rc] show ?thesis
        using v(3) by (auto simp: step)
    qed
  next
    case False
    then have step: "merge_fork cc m rc = Ok rc"
      by (auto simp: m here [unfolded m] split: option.splits)
    have same: "(case json_get k rc of Some v \<Rightarrow> Some v | None \<Rightarrow> merge_value cc (m # ms) k)
        = (case json_get k rc of Some v \<Rightarrow> Some v | None \<Rightarrow> merge_value cc ms k)" for k
      using False there [of k] ms_snake by (cases "k = snake") (auto split: option.splits)
    have ex: "\<exists>k. merge_value cc (m # ms) k \<noteq> None" if "merge_value cc ms k \<noteq> None" for k
      using that there [of k] ms_snake by (intro exI [of _ k], cases "k = snake") auto
    from Cons.IH [OF dist, of rc] show ?thesis
      using ex by (simp add: step same split: outcome.splits) blast
  qed
qed

text \<open>
  Fork times. Merging the L2 node's chain configuration into the rollup configuration never
  changes a member that is there, and adds under the rollup configuration's name exactly the
  fork times that it lacks and that the chain configuration gives with a value other than null;
  it never returns an error, and panics only on a configuration that is neither an object nor
  null while there is a time to add.
\<close>

theorem fork_times_merged:
  "case (merge_forks cc fork_mappings rc :: ('e, json) outcome) of
     Ok rc' \<Rightarrow> (\<forall>k. json_get k rc' = (case json_get k rc of Some v \<Rightarrow> Some v | None \<Rightarrow> fork_time cc k))
   | Err e \<Rightarrow> False
   | Panic p \<Rightarrow> \<not> json_is_object rc \<and> rc \<noteq> JNull \<and> (\<exists>k. fork_time cc k \<noteq> None)"
  unfolding fork_time_def by (rule merge_forks_spec [OF distinct_forks])

lemma fetch_rollup_config_Ok:
  assumes "fetch_rollup_config E self w = (Ok rc', w')"
  obtains url rc w1 r where "rp_op_node_url self = Some url"
    "re_raw_request E url ''optimism_rollupConfig'' [] w = (Ok rc, w1)"
    "re_raw_request E (rp_l2_rpc_url self) ''debug_chainConfig'' [] w1 = (r, w')"
    "\<And>k. json_get k rc' = (case json_get k rc of Some v \<Rightarrow> Some v
       | None \<Rightarrow> (case r of Ok cc \<Rightarrow> fork_time cc k | _ \<Rightarrow> None))"
proof -
  from assms obtain url rc w1 x w2 where
    req: "rp_op_node_url self = Some url" "re_raw_request E url ''optimism_rollupConfig'' [] w = (Ok rc, w1)"
      "act_ok (re_raw_request E (rp_l2_rpc_url self) ''debug_chainConfig'' []) w1
         = (Ok x :: (rpc_witness_error, json option) outcome, w2)"
    and rest: "(case x of Some cc \<Rightarrow> act_lift (merge_forks cc fork_mappings rc) | None \<Rightarrow> act_return rc) w2
         = (Ok rc' :: (rpc_witness_error, json) outcome, w')"
    by (auto simp: fetch_rollup_config_def act_bind_Ok_iff)
  show thesis
  proof (cases x)
    case None
    with req(3) obtain e where "re_raw_request E (rp_l2_rpc_url self) ''debug_chainConfig'' [] w1 = (Err e, w2)"
      by (auto simp: act_ok_Ok_iff)
    with None rest that [OF req(1,2)] show thesis by (auto split: option.splits)
  next
    case (Some cc)
    with req(3) have "re_raw_request E (rp_l2_rpc_url self) ''debug_chainConfig'' [] w1 = (Ok cc, w2)"
      by (simp add: act_ok_Ok_iff)
    moreover from Some rest have "merge_forks cc fork_mappings rc = (Ok rc' :: (rpc_witness_error, json) outcome)" "w' = w2"
      by auto
    ultimately have req': "re_raw_request E (rp_l2_rpc_url self) ''debug_chainConfig'' [] w1 = (Ok cc, w')"
      and rc': "\<And>k. json_get k rc' = (case json_get k rc of Some v \<Rightarrow> Some v | None \<Rightarrow> merge_value cc fork_mappings k)"
      using merge_forks_spec [where 'e = rpc_witness_error, OF distinct_forks, of cc rc] by simp_all
    have "json_get k rc' = (case json_get k rc of Some v \<Rightarrow> Some v
       | None \<Rightarrow> (case Ok cc :: (string, json) outcome of Ok cc \<Rightarrow> fork_time cc k | _ \<Rightarrow> None))" for k
      unfolding rc' by (cases "json_get k rc") (simp_all add: fork_time_def)
    with req' show thesis by (rule that [OF req(1,2)])
  qed
qed

lemma write_config_Ok:
  assumes "write_config E name what long config w = (Ok p, w')"
  obtains s where "re_to_string_pretty E config = Ok s" "re_write E p s w = (Ok (), w')"
  using assms by (auto simp: write_config_def Let_def act_bind_Ok_iff)

text \<open>The path depends on the process only.\<close>

lemma write_config_path:
  "write_config E name what long_name config w = (Ok p, w') \<Longrightarrow>
     p = re_temp_file E (''open-zk-'' @ name @ ''-'' @ show_nat (unat (re_process_id E)) @ ''.json'')"
  by (auto simp: write_config_def Let_def act_bind_Ok_iff)

lemma ensure_fetched:
  assumes "existing_rollup_config E (rp_rollup_config_path self) w = (Ok None, w0)"
    and "ensure_rollup_config E self w = (Ok p, w1)"
  obtains rc w' where "fetch_rollup_config E self w0 = (Ok rc, w')"
    "write_config E ''rollup-config'' ''rollup'' ''rollup'' rc w' = (Ok p, w1)"
  using assms by (auto simp: ensure_rollup_config_def act_bind_Ok_iff)

lemma written_hash:
  assumes files: "\<forall>p s w w'. re_write E p s w = (Ok (), w') \<longrightarrow> re_read E p w' = (Ok (into_bytes s), w')"
    and json: "\<forall>j s. re_to_string_pretty E j = Ok s \<longrightarrow> re_from_slice E (into_bytes s) = Ok j"
    and "write_config E name what long_name rc w = (Ok p, w1)" and "compute_rollup_config_hash E p w1 = (Ok h, w2)"
  obtains canonical where "re_to_vec E rc = Ok canonical" "h = re_keccak256 E canonical"
proof -
  from assms(3) obtain s where "re_to_string_pretty E rc = Ok s" "re_write E p s w = (Ok (), w1)"
    by (rule write_config_Ok)
  with files json have "re_read E p w1 = (Ok (into_bytes s), w1)" "re_from_slice E (into_bytes s) = Ok rc" by auto
  with assms(4) that show thesis by (auto simp: compute_rollup_config_hash_def act_bind_Ok_iff)
qed

text \<open>
  C27: the committed configuration. When the provider has no usable configuration file, the
  configuration hash it puts into the boot information is the keccak256 of the canonical text
  of the OP node's configuration with the missing fork times of the L2 node's (or with none,
  when that request fails): what is hashed is what was merged and written.
\<close>

theorem rollup_config_committed:
  assumes files: "\<forall>p s w w'. re_write E p s w = (Ok (), w') \<longrightarrow> re_read E p w' = (Ok (into_bytes s), w')"
    and json: "\<forall>j s. re_to_string_pretty E j = Ok s \<longrightarrow> re_from_slice E (into_bytes s) = Ok j"
    and unusable: "existing_rollup_config E (rp_rollup_config_path self) w = (Ok None, w0)"
    and ensure: "ensure_rollup_config E self w = (Ok p, w1)"
    and hash: "compute_rollup_config_hash E p w1 = (Ok h, w2)"
  shows "\<exists>url rc w' r w'' rc' canonical. rp_op_node_url self = Some url
     \<and> re_raw_request E url ''optimism_rollupConfig'' [] w0 = (Ok rc, w')
     \<and> re_raw_request E (rp_l2_rpc_url self) ''debug_chainConfig'' [] w' = (r, w'')
     \<and> (\<forall>k. json_get k rc' = (case json_get k rc of Some v \<Rightarrow> Some v
          | None \<Rightarrow> (case r of Ok cc \<Rightarrow> fork_time cc k | _ \<Rightarrow> None)))
     \<and> re_to_vec E rc' = Ok canonical \<and> h = re_keccak256 E canonical"
proof -
  from unusable ensure obtain rc' w' where rc': "fetch_rollup_config E self w0 = (Ok rc', w')"
    and wr: "write_config E ''rollup-config'' ''rollup'' ''rollup'' rc' w' = (Ok p, w1)"
    by (rule ensure_fetched)
  obtain canonical where "re_to_vec E rc' = Ok canonical" "h = re_keccak256 E canonical"
    using written_hash [OF files json wr hash] by blast
  with fetch_rollup_config_Ok [OF rc'] show ?thesis by metis
qed

text \<open>
  C39: providers of one process share a file. The temporary configuration file is named after the
  process alone. If a second provider fetches its chain's configuration after a first one has,
  and before the first one hashes it, both work with one path, and the hash that the first
  provider commits is the hash of the second provider's configuration.
\<close>

theorem providers_share_config:
  assumes files: "\<forall>p s w w'. re_write E p s w = (Ok (), w') \<longrightarrow> re_read E p w' = (Ok (into_bytes s), w')"
    and json: "\<forall>j s. re_to_string_pretty E j = Ok s \<longrightarrow> re_from_slice E (into_bytes s) = Ok j"
    and first: "existing_rollup_config E (rp_rollup_config_path A) w = (Ok None, w0)" "ensure_rollup_config E A w = (Ok p, w1)"
    and second: "existing_rollup_config E (rp_rollup_config_path B) v = (Ok None, v0)" "ensure_rollup_config E B v = (Ok q, v1)"
    and hash: "compute_rollup_config_hash E p v1 = (Ok h, v2)"
  shows "q = p \<and> (\<exists>rc v' canonical. fetch_rollup_config E B v0 = (Ok rc, v')
     \<and> re_to_vec E rc = Ok canonical \<and> h = re_keccak256 E canonical)"
proof -
  from first obtain rc' w' where "write_config E ''rollup-config'' ''rollup'' ''rollup'' rc' w' = (Ok p, w1)"
    by (rule ensure_fetched)
  then have p: "p = re_temp_file E (''open-zk-'' @ ''rollup-config'' @ ''-'' @ show_nat (unat (re_process_id E)) @ ''.json'')"
    by (rule write_config_path)
  from second obtain rc v' where rc: "fetch_rollup_config E B v0 = (Ok rc, v')"
    and wr: "write_config E ''rollup-config'' ''rollup'' ''rollup'' rc v' = (Ok q, v1)"
    by (rule ensure_fetched)
  from write_config_path [OF wr] p have q: "q = p" by simp
  obtain canonical where "re_to_vec E rc = Ok canonical" "h = re_keccak256 E canonical"
    using written_hash [OF files json wr hash [folded q]] by blast
  with rc q show ?thesis by blast
qed

lemma output_root_payload_words:
  "output_root_payload hdr = abi_words
     [0, lh_state_root hdr, (case lh_withdrawals_root hdr of Some r \<Rightarrow> r | None \<Rightarrow> 0), lh_hash hdr]"
  by (simp add: output_root_payload_def Let_def be_bytes_def le_bytes_zero)

text \<open>The root in a node's answer to \<open>optimism_outputAtBlock\<close>.\<close>

definition answered_root :: "'w rpc_env \<Rightarrow> json \<Rightarrow> b256 option" where
  "answered_root E resp = Option.bind (Option.bind (json_get ''outputRoot'' resp) json_as_str) (re_parse_b256 E)"

lemma request_output_root_Ok_iff:
  "request_output_root E url n w = (Ok x, w') \<longleftrightarrow>
     (\<exists>r. re_raw_request E url ''optimism_outputAtBlock'' [''0x'' @ show_hex (unat n)] w = (r, w')
        \<and> (\<forall>p. r \<noteq> Panic p) \<and> x = Option.bind (result_ok r) (answered_root E))"
proof (cases "re_raw_request E url ''optimism_outputAtBlock'' [''0x'' @ show_hex (unat n)] w")
  case (Pair r w1)
  then show ?thesis
    by (cases r) (auto simp: request_output_root_def act_bind_def act_ok_def act_try_def answered_root_def
      simp del: Option.bind_assoc split: option.splits bind_splits)
qed

lemma request_output_root_Some:
  assumes "request_output_root E url n w = (Ok (Some r), w')"
  obtains resp where "re_raw_request E url ''optimism_outputAtBlock'' [''0x'' @ show_hex (unat n)] w = (Ok resp, w')"
    "answered_root E resp = Some r"
proof -
  from assms obtain x where x: "re_raw_request E url ''optimism_outputAtBlock'' [''0x'' @ show_hex (unat n)] w = (x, w')"
    "Option.bind (result_ok x) (answered_root E) = Some r" by (auto simp: request_output_root_Ok_iff)
  then show thesis by (cases x) (auto intro: that)
qed

lemma fetch_output_root_Ok:
  assumes "fetch_output_root E self l2 n w = (Ok root, w')"
  obtains (answered) url v v' resp where
      "re_raw_request E url ''optimism_outputAtBlock'' [''0x'' @ show_hex (unat n)] v = (Ok resp, v')"
      "answered_root E resp = Some root" "rp_op_node_url self = Some url \<or> url = l2"
    | (derived) v hdr where "re_block_by_number E l2 n v = (Ok (Some hdr), w')"
      "root = re_keccak256 E (output_root_payload hdr)"
proof -
  from assms obtain x v1 where op: "(case rp_op_node_url self of None \<Rightarrow> act_return None
        | Some op_url \<Rightarrow> act_bind (url_checked E ''OP Node'' op_url) (\<lambda>_. request_output_root E op_url n)) w
          = (Ok x :: (rpc_witness_error, b256 option) outcome, v1)"
    and k: "(case x of Some root \<Rightarrow> act_return root
        | None \<Rightarrow> act_bind (request_output_root E l2 n) (\<lambda>from_l2. case from_l2 of
              Some root \<Rightarrow> act_return root
            | None \<Rightarrow> header_output_root E l2 n)) v1 = (Ok root, w')"
    unfolding fetch_output_root_def act_bind_Ok_iff by blast
  show thesis
  proof (cases x)
    case (Some r)
    with op obtain url where "rp_op_node_url self = Some url" "request_output_root E url n w = (Ok (Some r), v1)"
      by (auto simp: act_bind_Ok_iff split: option.splits)
    with Some k answered show thesis
      by (auto elim!: request_output_root_Some)
  next
    case None
    with k obtain y v2 where l2: "request_output_root E l2 n v1 = (Ok y, v2)"
      and kk: "(case y of Some root \<Rightarrow> act_return root | None \<Rightarrow> header_output_root E l2 n) v2 = (Ok root, w')"
      by (auto simp: act_bind_Ok_iff)
    show thesis
    proof (cases y)
      case (Some r)
      with l2 kk answered show thesis
        by (auto elim!: request_output_root_Some)
    next
      case None
      with kk derived show thesis by (auto simp: header_output_root_def act_bind_Ok_iff)
    qed
  qed
qed

text \<open>
  C26: where a claimed output root comes from. A root the provider settles on was either
  answered by the OP node or the L2 node for that block, or it is the keccak256 of 128 bytes
  built from the L2 node's header; those bytes open in the guest: over an oracle that serves
  them for the root, the guest's safe-head lookup returns that header's hash.
\<close>

theorem output_root_sources:
  assumes "fetch_output_root E self l2 n w = (Ok root, w')"
  shows "(\<exists>url v v' resp. (rp_op_node_url self = Some url \<or> url = l2)
       \<and> re_raw_request E url ''optimism_outputAtBlock'' [''0x'' @ show_hex (unat n)] v = (Ok resp, v')
       \<and> answered_root E resp = Some root)
   \<or> (\<exists>v hdr. re_block_by_number E l2 n v = (Ok (Some hdr), w')
       \<and> root = re_keccak256 E (output_root_payload hdr)
       \<and> (\<forall>K orc.
            (\<forall>buf. ko_get_exact (K :: ('orc, 'cfg, 'l1c, 'hdr, 'l1p, 'l2p, 'cur, 'da, 'pipe, 'exec) kona_ops) orc root buf
                = preimage_get_exact id (preimage_store_new [root \<mapsto> output_root_payload hdr]) root buf)
            \<longrightarrow> ko_send_starting_l2_output K orc root = Ok ()
            \<longrightarrow> fetch_safe_head_hash K orc root = Ok (lh_hash hdr)))"
  using assms
proof (cases rule: fetch_output_root_Ok)
  case answered
  then show ?thesis by blast
next
  case (derived v hdr)
  have "length (output_root_payload hdr) = 128" "take 32 (drop 96 (output_root_payload hdr)) = be_bytes 32 (lh_hash hdr)"
    by (simp_all add: output_root_payload_words)
  then have "fetch_safe_head_hash K orc root = Ok (lh_hash hdr)"
    if "\<And>buf. ko_get_exact K orc root buf
          = preimage_get_exact id (preimage_store_new [root \<mapsto> output_root_payload hdr]) root buf"
      and "ko_send_starting_l2_output K orc root = Ok ()"
    for K :: "('orc, 'cfg, 'l1c, 'hdr, 'l1p, 'l2p, 'cur, 'da, 'pipe, 'exec) kona_ops" and orc
    using that by (simp add: fetch_safe_head_hash_def preimage_get_exact_def preimage_get_def
      preimage_store_new_def subslice_def b256_of_slice_def be_word_be_bytes)
  with derived show ?thesis by blast
qed

text \<open>
  What local injection adds: the answers of the local inputs to reads of the listed keys, in
  order, the world threaded through them; an index without an answer adds nothing.
\<close>

lemma inject_local_answers:
  assumes "inject_local E host is m w = (Ok m' :: ('e, preimages) outcome, w')"
  shows "\<exists>ws answers. length answers = length is \<and> ws ! 0 = w \<and> ws ! length is = w'
     \<and> (\<forall>i < length is. re_local_get E host (re_local_key E (is ! i)) (ws ! i) = (answers ! i, ws ! Suc i))
     \<and> m' = m ++ map_of (rev (List.map_filter (\<lambda>(i, a). map_option (Pair (re_local_key E i)) a) (zip is answers)))"
  using assms
proof (induction "is" arbitrary: m w)
  case Nil
  then show ?case by (intro exI [of _ "[w]"] exI [of _ "[]"]) (simp add: List.map_filter_def)
next
  case (Cons i "is")
  obtain x w1 where get: "re_local_get E host (re_local_key E i) w = (x, w1)" by fastforce
  let ?m = "case x of None \<Rightarrow> m | Some v \<Rightarrow> m(re_local_key E i \<mapsto> v)"
  have "inject_local E host is ?m w1 = (Ok m' :: ('e, preimages) outcome, w')"
    using get Cons.prems by (simp split: option.splits)
  from Cons.IH [OF this] obtain ws answers where IH: "length answers = length is" "ws ! 0 = w1" "ws ! length is = w'"
    "\<forall>i < length is. re_local_get E host (re_local_key E (is ! i)) (ws ! i) = (answers ! i, ws ! Suc i)"
    "m' = ?m ++ map_of (rev (List.map_filter (\<lambda>(i, a). map_option (Pair (re_local_key E i)) a) (zip is answers)))"
    by (elim exE conjE)
  have "m' = m ++ map_of (rev (List.map_filter (\<lambda>(i, a). map_option (Pair (re_local_key E i)) a)
      (zip (i # is) (x # answers))))"
    unfolding IH(5) by (cases x) (simp_all add: map_filter_simps map_add_def fun_eq_iff split: option.splits)
  with IH(1-4) get show ?case
    by (intro exI [of _ "w # ws"] exI [of _ "x # answers"]) (auto simp: All_less_Suc2)
qed

lemma collect_witness_Ok:
  assumes "collect_witness E host (w, h) = (Ok p, w', h')"
  obtains v writes where "re_run_client E host v = ((ClientDone, writes), w')" "kv_snapshot h' p = map_of (rev writes)"
proof -
  from assms [unfolded collect_witness_def] obtain s1 s2 s3 s4 s5 s6 s7 q r u1 u2 u3 u4 u5 where
    "act_map_err (\<lambda>e. KonaHost (''rollup config not readable (SingleChainLocalInputs will fail): '' @ e))
            (in_world (re_host_read_rollup_config E host)) (w, h) = (Ok u1, s1)"
      "act_map_err (\<lambda>e. KonaHost (''L1 config not readable (SingleChainLocalInputs will fail): '' @ e))
            (in_world (re_host_read_l1_config E host)) s1 = (Ok u2, s2)"
    and new: "new_store s2 = (Ok q :: (rpc_witness_error, kv_handle) outcome, s3)"
    and post: "act_map_err Connection (in_world (re_create_providers E host)) s3 = (Ok u3, s4)"
      "act_map_err Connection (in_world (re_channel E)) s4 = (Ok u4, s5)"
      "act_map_err Connection (in_world (re_channel E)) s5 = (Ok u5, s6)"
    and run: "run_client_and_server E host (kv_clone q) s6 = (Ok r :: (rpc_witness_error, client_end) outcome, s7)"
      "(case r of
          ClientDone \<Rightarrow> act_return q
        | ClientError e \<Rightarrow> act_fail (KonaClient e)
        | ClientPanicked e \<Rightarrow> act_fail (KonaClient (''client task panicked: '' @ e))) s7 = (Ok p, w', h')"
    by (elim act_bindE)
  from post have same: "snd s6 = snd s3"
    by (cases s3; cases s4; cases s5; cases s6) (simp add: in_world_Ok_iff)
  from new have "kh_store (snd s3) q = Map.empty"
    by (cases s2) (auto simp: new_store_def kv_new_def split: prod.splits)
  moreover obtain w6 h6 r' writes w7 where c: "s6 = (w6, h6)" "re_run_client E host w6 = ((r', writes), w7)"
    by (metis surj_pair)
  with run(1) have "r' = r" "s7 = (w7, kv_set_all h6 (kv_clone q) writes)"
    by (simp_all add: run_client_and_server_def)
  with run(2) c have "re_run_client E host w6 = ((ClientDone, writes), w')" "h' = kv_set_all (snd s6) (kv_clone q) writes" "p = q"
    by (auto split: client_end.splits)
  ultimately show thesis
    using that same by (simp add: kv_snapshot_def kv_clone_def kv_set_all_store)
qed

text \<open>A local key whose answer depends on the host configuration only is injected with it.\<close>

lemma inject_local_serves:
  assumes "inject_local E host is m w = (Ok m' :: ('e, preimages) outcome, w')"
    and "\<And>w. fst (re_local_get E host k w) = Some v"
    and "k \<in> re_local_key E ` set is \<or> m k = Some v"
  shows "m' k = Some v"
  using assms(1,3)
proof (induction "is" arbitrary: m w)
  case (Cons i "is")
  obtain x w1 where get: "re_local_get E host (re_local_key E i) w = (x, w1)" by fastforce
  show ?case
  proof (cases x)
    case None
    with get assms(2) [of w] Cons.prems have "k \<noteq> re_local_key E i" by auto
    with get None Cons.prems Cons.IH [of m w1] show ?thesis by auto
  next
    case (Some y)
    from get Some assms(2) [of w] have y: "k = re_local_key E i \<Longrightarrow> y = v" by auto
    show ?thesis
    proof (rule Cons.IH)
      show "inject_local E host is (m(re_local_key E i \<mapsto> y)) w1 = (Ok m' :: ('e, preimages) outcome, w')"
        using get Some Cons.prems(1) by simp
      show "k \<in> re_local_key E ` set is \<or> (m(re_local_key E i \<mapsto> y)) k = Some v"
        using y Cons.prems(2) by (cases "k = re_local_key E i") auto
    qed
  qed
qed simp

text \<open>The parts of a successful generation.\<close>

lemma generate_witness_parts:
  assumes run: "rpc_generate_witness enc to_bytes E self request (w, h) = (Ok rw, w', h')"
  obtains claim config_hash v v1 head start path l1_path u u' writes m' u'' bs w1 w2 where
    "ensure_rollup_config E self w = (Ok path, w1)"
    "compute_rollup_config_hash E path w1 = (Ok config_hash, w2)"
    "re_block_by_number E (rp_l2_rpc_url self) (req_l2_start_block request) w2 = (Ok (Some start), v)"
    "head = lh_hash start"
    "fetch_output_root E self (rp_l2_rpc_url self) (req_l2_end_block request) v = (Ok claim, v1)"
    "re_run_client E (build_host_config self request head claim path l1_path) u = ((ClientDone, writes), u')"
    "inject_local E (build_host_config self request head claim path l1_path) local_key_indices (map_of (rev writes)) u'
       = (Ok m' :: (rpc_witness_error, preimages) outcome, u'')"
    "serialize_preimages to_bytes m' = (Ok bs :: (rpc_witness_error, bytes) outcome)"
    "rw = \<lparr>rw_boot_info = boot_to_abi_bytes enc \<lparr>bi_l1_head = req_l1_head request,
             bi_l2_pre_root = req_l2_start_output_root request, bi_l2_claim = claim,
             bi_l2_block_number = req_l2_end_block request, bi_rollup_config_hash = config_hash\<rparr>,
           rw_oracle_data = bs, rw_blob_data = []\<rparr>"
proof -
  from run [unfolded rpc_generate_witness_def Let_def] obtain
      s1 s2 s3 s4 s5 s6 s7 s8 s9 s10 s11 s12 s13 path config_hash claim l1_path p m m' bs u0 found and start :: l2_header where
    ensure: "in_world (ensure_rollup_config E self) (w, h) = (Ok path, s1)"
    and hash: "in_world (compute_rollup_config_hash E path) s1 = (Ok config_hash, s2)"
    and url: "in_world (url_checked E ''L2'' (rp_l2_rpc_url self)) s2 = (Ok u0 :: (rpc_witness_error, unit) outcome, s3)"
    and block: "act_map_err (\<lambda>e. Fetch (''L2 start block: '' @ e))
         (in_world (re_block_by_number E (rp_l2_rpc_url self) (req_l2_start_block request))) s3 = (Ok found, s4)"
    and found: "act_lift (ok_or (Fetch (''L2 block '' @ show_u64 (req_l2_start_block request) @ '' not found'')) found) s4 = (Ok start, s5)"
    and root: "in_world (fetch_output_root E self (rp_l2_rpc_url self) (req_l2_end_block request)) s5 = (Ok claim, s6)"
    and collect: "collect_witness E (build_host_config self request (lh_hash start) claim path l1_path) s9 = (Ok p, s10)"
    and snap: "(case s10 of (w, h) \<Rightarrow> (Ok (kv_snapshot h p), w, h)) = (Ok m :: (rpc_witness_error, preimages) outcome, s11)"
    and inject: "in_world (inject_local E (build_host_config self request (lh_hash start) claim path l1_path)
          local_key_indices m) s11 = (Ok m' :: (rpc_witness_error, preimages) outcome, s12)"
    and bs: "act_lift (serialize_preimages to_bytes m') s12 = (Ok bs :: (rpc_witness_error, bytes) outcome, s13)"
    and rw: "act_return \<lparr>rw_boot_info = boot_to_abi_bytes enc \<lparr>bi_l1_head = req_l1_head request,
                      bi_l2_pre_root = req_l2_start_output_root request,
                      bi_l2_claim = claim,
                      bi_l2_block_number = req_l2_end_block request,
                      bi_rollup_config_hash = config_hash\<rparr>,
                    rw_oracle_data = bs, rw_blob_data = []\<rparr> s13 = (Ok rw :: (rpc_witness_error, raw_witness) outcome, w', h')"
    by (elim act_bindE)
  obtain w1 h1 w2 h2 w3 h3 w5 h5 w6 h6 w9 h9 w10 h10 w12 h12 where
    s: "s1 = (w1, h1)" "s2 = (w2, h2)" "s3 = (w3, h3)" "s5 = (w5, h5)" "s6 = (w6, h6)" "s9 = (w9, h9)" "s10 = (w10, h10)" "s12 = (w12, h12)"
    by (metis surj_pair)
  from collect [unfolded s] obtain u writes where
    client: "re_run_client E (build_host_config self request (lh_hash start) claim path l1_path) u = ((ClientDone, writes), w10)"
    and stored: "kv_snapshot h10 p = map_of (rev writes)"
    by (rule collect_witness_Ok)
  from snap s stored have m: "m = map_of (rev writes)" "s11 = (w10, h10)" by auto
  from found have "found = Some start" "s4 = s5" by simp_all
  with url block have start: "re_block_by_number E (rp_l2_rpc_url self) (req_l2_start_block request) w2 = (Ok (Some start), w5)"
    by (simp add: s in_world_Ok_iff)
  show thesis
  proof (rule that)
    show "ensure_rollup_config E self w = (Ok path, w1)" "compute_rollup_config_hash E path w1 = (Ok config_hash, w2)"
      "fetch_output_root E self (rp_l2_rpc_url self) (req_l2_end_block request) w5 = (Ok claim, w6)"
      using ensure hash root by (simp_all add: s in_world_Ok_iff)
    show "re_block_by_number E (rp_l2_rpc_url self) (req_l2_start_block request) w2 = (Ok (Some start), w5)"
      by (rule start)
    show "lh_hash start = lh_hash start" by (rule HOL.refl)
    show "re_run_client E (build_host_config self request (lh_hash start) claim path l1_path) u = ((ClientDone, writes), w10)"
      by (rule client)
    show "inject_local E (build_host_config self request (lh_hash start) claim path l1_path) local_key_indices
        (map_of (rev writes)) w10 = (Ok m' :: (rpc_witness_error, preimages) outcome, w12)"
      using inject by (simp add: m s in_world_Ok_iff)
    show "serialize_preimages to_bytes m' = (Ok bs :: (rpc_witness_error, bytes) outcome)"
      using bs by simp
    show "rw = \<lparr>rw_boot_info = boot_to_abi_bytes enc \<lparr>bi_l1_head = req_l1_head request,
             bi_l2_pre_root = req_l2_start_output_root request, bi_l2_claim = claim,
             bi_l2_block_number = req_l2_end_block request, bi_rollup_config_hash = config_hash\<rparr>,
           rw_oracle_data = bs, rw_blob_data = []\<rparr>"
      using rw by simp
  qed
qed

lemma generate_witness_boot:
  assumes abi: "boot_abi enc dec" and run: "rpc_generate_witness enc to_bytes E self request (w, h) = (Ok rw, w', h')"
  shows "\<exists>claim config_hash. boot_from_abi_bytes dec (rw_boot_info rw) =
     Ok \<lparr>bi_l1_head = req_l1_head request, bi_l2_pre_root = req_l2_start_output_root request,
         bi_l2_claim = claim, bi_l2_block_number = req_l2_end_block request,
         bi_rollup_config_hash = config_hash\<rparr>"
  using generate_witness_parts [OF run] boot_abi.from_to_abi_bytes [OF abi] by (metis raw_witness.select_convs(1))

text \<open>
  C10: the generated witness. Whenever generation succeeds, the rollup configuration was found
  and hashed, the start block's header was fetched and the claim determined, one after the
  other, and the client ran to its end on the host configuration made of the request, the hash
  of that header and the claim. The boot information decodes to the request's head, starting
  root (unchanged) and end block, the claim and the configuration's hash. After the client the
  local inputs were read for the seven local keys 1 to 7 in order, and the guest's store over
  the oracle data serves, for every key, what they answered last for it, or else the last value
  the preimage server wrote, or else nothing.
\<close>

theorem rpc_witness_generated:
  assumes abi: "boot_abi enc dec" and archive: "preimage_archive to_bytes check_root"
    and run: "rpc_generate_witness enc to_bytes E self request (w, h) = (Ok rw, w', h')"
  shows "\<exists>claim config_hash v v1 start rollup_path l1_path writes u w1 w2 ws answers store.
       ensure_rollup_config E self w = (Ok rollup_path, w1)
     \<and> compute_rollup_config_hash E rollup_path w1 = (Ok config_hash, w2)
     \<and> re_block_by_number E (rp_l2_rpc_url self) (req_l2_start_block request) w2 = (Ok (Some start), v)
     \<and> fetch_output_root E self (rp_l2_rpc_url self) (req_l2_end_block request) v = (Ok claim, v1)
     \<and> boot_from_abi_bytes dec (rw_boot_info rw) =
         Ok \<lparr>bi_l1_head = req_l1_head request, bi_l2_pre_root = req_l2_start_output_root request,
             bi_l2_claim = claim, bi_l2_block_number = req_l2_end_block request,
             bi_rollup_config_hash = config_hash\<rparr>
     \<and> rw_blob_data rw = []
     \<and> re_run_client E (build_host_config self request (lh_hash start) claim rollup_path l1_path) u
         = ((ClientDone, writes), ws ! 0)
     \<and> length answers = 7
     \<and> (\<forall>i < 7. re_local_get E (build_host_config self request (lh_hash start) claim rollup_path l1_path)
            (re_local_key E ([1, 2, 3, 4, 5, 6, 7] ! i)) (ws ! i) = (answers ! i, ws ! Suc i))
     \<and> from_rkyv_bytes check_root (rw_oracle_data rw) = Some store
     \<and> (\<forall>k. preimage_get id store k =
          (case map_of (rev (List.map_filter (\<lambda>(i, a). map_option (Pair (re_local_key E i)) a)
                              (zip [1, 2, 3, 4, 5, 6, 7] answers))) k of
             Some x \<Rightarrow> Ok x
           | None \<Rightarrow> (case map_of (rev writes) k of Some x \<Rightarrow> Ok x | None \<Rightarrow> Err KeyNotFound)))"
proof -
  from run obtain claim config_hash v v1 head start path l1_path u u' writes m' u'' bs w1 w2 where
    steps: "ensure_rollup_config E self w = (Ok path, w1)" "compute_rollup_config_hash E path w1 = (Ok config_hash, w2)"
      "re_block_by_number E (rp_l2_rpc_url self) (req_l2_start_block request) w2 = (Ok (Some start), v)"
    and head: "head = lh_hash start"
    and claim: "fetch_output_root E self (rp_l2_rpc_url self) (req_l2_end_block request) v = (Ok claim, v1)"
    and client: "re_run_client E (build_host_config self request head claim path l1_path) u = ((ClientDone, writes), u')"
    and inject: "inject_local E (build_host_config self request head claim path l1_path) local_key_indices
        (map_of (rev writes)) u' = (Ok m' :: (rpc_witness_error, preimages) outcome, u'')"
    and bs: "serialize_preimages to_bytes m' = (Ok bs :: (rpc_witness_error, bytes) outcome)"
    and rw: "rw = \<lparr>rw_boot_info = boot_to_abi_bytes enc \<lparr>bi_l1_head = req_l1_head request,
             bi_l2_pre_root = req_l2_start_output_root request, bi_l2_claim = claim,
             bi_l2_block_number = req_l2_end_block request, bi_rollup_config_hash = config_hash\<rparr>,
           rw_oracle_data = bs, rw_blob_data = []\<rparr>"
    by (rule generate_witness_parts)
  let ?host = "build_host_config self request (lh_hash start) claim path l1_path"
  let ?locals = "\<lambda>answers. map_of (rev (List.map_filter (\<lambda>(i, a). map_option (Pair (re_local_key E i)) a)
      (zip [1, 2, 3, 4, 5, 6, 7] answers)))"
  have seven: "length [1, 2, 3, 4, 5, 6, 7 :: u64] = 7" by simp
  from inject_local_answers [OF inject] obtain ws answers where
    loc: "length answers = 7" "ws ! 0 = u'"
      "\<forall>i < 7. re_local_get E ?host (re_local_key E ([1, 2, 3, 4, 5, 6, 7] ! i)) (ws ! i) = (answers ! i, ws ! Suc i)"
      "m' = map_of (rev writes) ++ ?locals answers"
    unfolding head local_key_indices_def seven by (elim exE conjE) (rule that)
  have store: "from_rkyv_bytes check_root bs = Some (preimage_store_new m')"
    by (rule preimage_archive.guest_reads [OF archive bs])
  have served: "preimage_get id (preimage_store_new m') k =
      (case ?locals answers k of Some x \<Rightarrow> Ok x
       | None \<Rightarrow> (case map_of (rev writes) k of Some x \<Rightarrow> Ok x | None \<Rightarrow> Err KeyNotFound))" for k
    by (simp add: preimage_get_def preimage_store_new_def loc(4) map_add_def split: option.splits)
  have boot: "boot_from_abi_bytes dec (rw_boot_info rw) =
      Ok \<lparr>bi_l1_head = req_l1_head request, bi_l2_pre_root = req_l2_start_output_root request,
          bi_l2_claim = claim, bi_l2_block_number = req_l2_end_block request, bi_rollup_config_hash = config_hash\<rparr>"
    and parts: "rw_blob_data rw = []" "rw_oracle_data rw = bs"
    using rw boot_abi.from_to_abi_bytes [OF abi] by auto
  show ?thesis
    using steps claim boot parts(1) client [unfolded head, folded loc(2)] loc(1,3) store [folded parts(2)] served
    by (intro exI conjI allI impI; (assumption | rule served | blast))
qed

section \<open>A small environment\<close>

text \<open>The world is the file system; two configurations can be printed and read back.\<close>

definition sample_chain_config :: json where
  "sample_chain_config = JObj [(''canyonTime'', JInt 9), (''deltaTime'', JNull)]"

definition sample_merged_config :: json where
  "sample_merged_config = JObj [(''l1_chain_id'', JInt 5), (''canyon_time'', JInt 9)]"

definition sample_from_str :: "string \<Rightarrow> (string, json) outcome" where
  "sample_from_str s =
     (if s = ''cfg'' then Ok sample_merged_config else if s = ''l1'' then Ok sample_chain_config else Err ''syntax'')"

definition sample_rpc_env :: "(string \<rightharpoonup> string) rpc_env" where
  "sample_rpc_env =
     \<lparr>re_parse_url = (\<lambda>_. Ok ()),
      re_raw_request = (\<lambda>url m _ w.
        (if m = ''optimism_rollupConfig'' then Ok (JObj [(''l1_chain_id'', JInt 5)])
         else if m = ''debug_chainConfig'' then Ok sample_chain_config else Err ''unsupported'', w)),
      re_block_by_number = (\<lambda>_ n w.
        (Ok (Some \<lparr>lh_hash = ucast n, lh_state_root = 8, lh_withdrawals_root = None\<rparr>), w)),
      re_canonicalize = (\<lambda>p w. (if w p = None then Err ''missing'' else Ok p, w)),
      re_read = (\<lambda>p w. (ok_or ''missing'' (map_option into_bytes (w p)), w)),
      re_read_to_string = (\<lambda>p w. (ok_or ''missing'' (w p), w)),
      re_write = (\<lambda>p s w. (Ok (), w(p \<mapsto> s))),
      re_temp_file = id,
      re_process_id = 1,
      re_from_str = sample_from_str,
      re_from_slice = (\<lambda>bs. sample_from_str (map (\<lambda>b. char_of (unat b)) bs)),
      re_to_string_pretty = (\<lambda>j.
        if j = sample_merged_config then Ok ''cfg'' else if j = sample_chain_config then Ok ''l1'' else Err ''no''),
      re_to_vec = (\<lambda>j. if j = sample_merged_config then Ok [1, 2] else Err ''no''),
      re_keccak256 = (\<lambda>bs. of_nat (length bs)),
      re_parse_b256 = (\<lambda>_. None),
      re_host_read_rollup_config = (\<lambda>_ w. (Ok (), w)),
      re_host_read_l1_config = (\<lambda>_ w. (Ok (), w)),
      re_create_providers = (\<lambda>_ w. (Ok (), w)),
      re_channel = (\<lambda>w. (Ok (), w)),
      re_run_client = (\<lambda>_ w. ((ClientDone, [(100, [1])]), w)),
      re_local_key = (\<lambda>i. ucast i),
      re_local_get = (\<lambda>_ k w. (if k = 1 then Some [5] else None, w))\<rparr>"

definition sample_rpc_provider :: rpc_witness_provider where
  "sample_rpc_provider = with_op_node_url (rpc_witness_new ''l1'' ''l2'' ''beacon'') ''op''"

definition sample_request :: proof_request where
  "sample_request = \<lparr>req_l1_head = 1, req_l2_start_block = 2, req_l2_end_block = 3,
     req_l2_start_output_root = 4, req_mode = Groth16\<rparr>"

lemma unat_of_char: "unat (of_char c :: u8) = of_char c"
proof -
  have "(of_char c :: nat) < 2 ^ 8" by simp
  then have "unat (of_nat (of_char c) :: u8) = of_char c" by (subst unat_of_nat) simp
  then show ?thesis by (simp only: of_nat_of_char)
qed

lemma into_bytes_chars: "map (\<lambda>b. char_of (unat b)) (into_bytes s) = s"
  by (induction s) (simp_all add: into_bytes_def unat_of_char)

lemma sample_env_sel [simp]:
  "re_parse_url sample_rpc_env u = Ok ()"
  "re_raw_request sample_rpc_env u m ps w =
     (if m = ''optimism_rollupConfig'' then Ok (JObj [(''l1_chain_id'', JInt 5)])
      else if m = ''debug_chainConfig'' then Ok sample_chain_config else Err ''unsupported'', w)"
  "re_block_by_number sample_rpc_env u n w =
     (Ok (Some \<lparr>lh_hash = ucast n, lh_state_root = 8, lh_withdrawals_root = None\<rparr>), w)"
  "re_read sample_rpc_env p w = (ok_or ''missing'' (map_option into_bytes (w p)), w)"
  "re_read_to_string sample_rpc_env p w = (ok_or ''missing'' (w p), w)"
  "re_write sample_rpc_env p s w = (Ok (), w(p \<mapsto> s))"
  "re_temp_file sample_rpc_env s = s"
  "re_process_id sample_rpc_env = 1"
  "re_from_str sample_rpc_env s = sample_from_str s"
  "re_from_slice sample_rpc_env (into_bytes s) = sample_from_str s"
  "re_to_string_pretty sample_rpc_env j =
     (if j = sample_merged_config then Ok ''cfg'' else if j = sample_chain_config then Ok ''l1'' else Err ''no'')"
  "re_to_vec sample_rpc_env j = (if j = sample_merged_config then Ok [1, 2] else Err ''no'')"
  "re_keccak256 sample_rpc_env bs = of_nat (length bs)"
  "re_host_read_rollup_config sample_rpc_env c w = (Ok (), w)"
  "re_host_read_l1_config sample_rpc_env c w = (Ok (), w)"
  "re_create_providers sample_rpc_env c w = (Ok (), w)"
  "re_channel sample_rpc_env w = (Ok (), w)"
  "re_run_client sample_rpc_env c w = ((ClientDone, [(100, [1])]), w)"
  "re_local_key sample_rpc_env i = ucast i"
  "re_local_get sample_rpc_env c k w = (if k = 1 then Some [5] else None, w)"
  by (simp_all add: sample_rpc_env_def into_bytes_chars)

lemma sample_provider_sel [simp]:
  "rp_l1_rpc_url sample_rpc_provider = ''l1''" "rp_l2_rpc_url sample_rpc_provider = ''l2''"
  "rp_op_node_url sample_rpc_provider = Some ''op''" "rp_rollup_config_path sample_rpc_provider = None"
  by (simp_all add: sample_rpc_provider_def with_op_node_url_def rpc_witness_new_def)

lemma sample_merge:
  "merge_forks sample_chain_config fork_mappings (JObj [(''l1_chain_id'', JInt 5)]) = Ok sample_merged_config"
  by (simp add: sample_chain_config_def fork_mappings_def sample_merged_config_def)

lemma sample_fetch: "fetch_rollup_config sample_rpc_env sample_rpc_provider w = (Ok sample_merged_config, w)"
  by (simp add: fetch_rollup_config_def act_bind_def act_ok_def act_try_def act_map_err_def url_checked_def sample_merge)

lemma char_one: "char_of (49 :: nat) = CHR ''1''"
  by (simp add: char_of_eq_iff take_bit_eq_mod)

lemma sample_ensure:
  "ensure_rollup_config sample_rpc_env sample_rpc_provider w =
     (Ok ''open-zk-rollup-config-1.json'', w(''open-zk-rollup-config-1.json'' \<mapsto> ''cfg''))"
  by (simp add: ensure_rollup_config_def existing_rollup_config_def write_config_def
    act_bind_def sample_fetch act_map_err_def Let_def show_nat.simps char_one)

lemma sample_hash:
  assumes "w p = Some ''cfg''"
  shows "compute_rollup_config_hash sample_rpc_env p w = (Ok 2, w)"
  using assms by (simp add: compute_rollup_config_hash_def act_bind_def act_map_err_def sample_from_str_def)

theorem rollup_config_committed_witness:
  "\<exists>rc' canonical. json_get ''canyon_time'' rc' = Some (JInt 9)
     \<and> re_to_vec sample_rpc_env rc' = Ok canonical \<and> (2 :: b256) = re_keccak256 sample_rpc_env canonical"
proof -
  let ?w1 = "[''open-zk-rollup-config-1.json'' \<mapsto> ''cfg'']"
  have "\<forall>p s w w'. re_write sample_rpc_env p s w = (Ok (), w') \<longrightarrow> re_read sample_rpc_env p w' = (Ok (into_bytes s), w')"
    by simp
  moreover have "\<forall>j s. re_to_string_pretty sample_rpc_env j = Ok s \<longrightarrow> re_from_slice sample_rpc_env (into_bytes s) = Ok j"
    by (simp add: sample_from_str_def)
  moreover have "existing_rollup_config sample_rpc_env (rp_rollup_config_path sample_rpc_provider) Map.empty = (Ok None, Map.empty)"
    by (simp add: existing_rollup_config_def)
  moreover have "compute_rollup_config_hash sample_rpc_env ''open-zk-rollup-config-1.json'' ?w1 = (Ok 2, ?w1)"
    by (rule sample_hash) simp
  ultimately obtain url rc w' r w'' rc' canonical where
    t: "rp_op_node_url sample_rpc_provider = Some url"
     "re_raw_request sample_rpc_env url ''optimism_rollupConfig'' [] Map.empty = (Ok rc, w')"
     "re_raw_request sample_rpc_env (rp_l2_rpc_url sample_rpc_provider) ''debug_chainConfig'' [] w' = (r, w'')"
     "\<forall>k. json_get k rc' = (case json_get k rc of Some v \<Rightarrow> Some v
          | None \<Rightarrow> (case r of Ok cc \<Rightarrow> fork_time cc k | _ \<Rightarrow> None))"
     "re_to_vec sample_rpc_env rc' = Ok canonical" "(2 :: b256) = re_keccak256 sample_rpc_env canonical"
    using rollup_config_committed [of sample_rpc_env sample_rpc_provider Map.empty Map.empty
      "''open-zk-rollup-config-1.json''" ?w1 2 ?w1] sample_ensure [of Map.empty] by blast
  from t(2,3) have "rc = JObj [(''l1_chain_id'', JInt 5)]" "r = Ok sample_chain_config"
    by auto
  with t(4) have "json_get ''canyon_time'' rc' = Some (JInt 9)"
    by (simp add: fork_time_def merge_value_def fork_mappings_def sample_chain_config_def)
  with t(5,6) show ?thesis by blast
qed

text \<open>Two chains behind one process: another OP node answers another configuration.\<close>

definition other_config :: json where
  "other_config = JObj [(''l1_chain_id'', JInt 7), (''canyon_time'', JInt 9)]"

definition two_chain_env :: "(string \<rightharpoonup> string) rpc_env" where
  "two_chain_env = sample_rpc_env
     \<lparr>re_raw_request := (\<lambda>url m ps w.
        if url = ''other'' \<and> m = ''optimism_rollupConfig'' then (Ok (JObj [(''l1_chain_id'', JInt 7)]), w)
        else re_raw_request sample_rpc_env url m ps w),
      re_from_slice := (\<lambda>bs. if bs = into_bytes ''other'' then Ok other_config else re_from_slice sample_rpc_env bs),
      re_to_string_pretty := (\<lambda>j. if j = other_config then Ok ''other'' else re_to_string_pretty sample_rpc_env j),
      re_to_vec := (\<lambda>j. if j = other_config then Ok [1, 2, 3] else re_to_vec sample_rpc_env j)\<rparr>"

definition other_provider :: rpc_witness_provider where
  "other_provider = sample_rpc_provider\<lparr>rp_op_node_url := Some ''other''\<rparr>"

lemma other_merge:
  "merge_forks sample_chain_config fork_mappings (JObj [(''l1_chain_id'', JInt 7)]) = Ok other_config"
  by (simp add: sample_chain_config_def fork_mappings_def other_config_def)

lemma two_chain_ensure:
  "ensure_rollup_config two_chain_env sample_rpc_provider w =
     (Ok ''open-zk-rollup-config-1.json'', w(''open-zk-rollup-config-1.json'' \<mapsto> ''cfg''))"
  "ensure_rollup_config two_chain_env other_provider w =
     (Ok ''open-zk-rollup-config-1.json'', w(''open-zk-rollup-config-1.json'' \<mapsto> ''other''))"
  "fetch_rollup_config two_chain_env other_provider w = (Ok other_config, w)"
proof -
  have mine: "fetch_rollup_config two_chain_env sample_rpc_provider w = (Ok sample_merged_config, w)" for w
    by (simp add: fetch_rollup_config_def act_bind_def act_ok_def act_try_def act_map_err_def url_checked_def sample_merge
        two_chain_env_def)
  have others: "fetch_rollup_config two_chain_env other_provider w = (Ok other_config, w)" for w
    by (simp add: fetch_rollup_config_def act_bind_def act_ok_def act_try_def act_map_err_def url_checked_def other_merge
        two_chain_env_def other_provider_def)
  show "fetch_rollup_config two_chain_env other_provider w = (Ok other_config, w)" by (rule others)
  have sel: "rp_rollup_config_path other_provider = None" "re_temp_file two_chain_env x = x" "re_process_id two_chain_env = 1"
    "re_write two_chain_env q x w = (Ok (), w(q \<mapsto> x))"
    "re_to_string_pretty two_chain_env j = (if j = other_config then Ok ''other'' else re_to_string_pretty sample_rpc_env j)"
    for x q w j
    by (simp_all add: other_provider_def two_chain_env_def)
  have "other_config \<noteq> sample_merged_config" by (simp add: other_config_def sample_merged_config_def)
  then show "ensure_rollup_config two_chain_env sample_rpc_provider w =
     (Ok ''open-zk-rollup-config-1.json'', w(''open-zk-rollup-config-1.json'' \<mapsto> ''cfg''))"
    "ensure_rollup_config two_chain_env other_provider w =
     (Ok ''open-zk-rollup-config-1.json'', w(''open-zk-rollup-config-1.json'' \<mapsto> ''other''))"
    by (simp_all add: ensure_rollup_config_def existing_rollup_config_def write_config_def act_bind_def mine others
        act_map_err_def Let_def show_nat.simps char_one sel)
qed

theorem providers_share_config_witness:
  "\<exists>p w1 v1 h. ensure_rollup_config two_chain_env sample_rpc_provider Map.empty = (Ok p, w1)
     \<and> compute_rollup_config_hash two_chain_env p w1 = (Ok 2, w1)
     \<and> ensure_rollup_config two_chain_env other_provider w1 = (Ok p, v1)
     \<and> compute_rollup_config_hash two_chain_env p v1 = (Ok h, v1) \<and> h = 3"
proof -
  let ?p = "''open-zk-rollup-config-1.json''"
  let ?w1 = "[?p \<mapsto> ''cfg'']" and ?v1 = "[?p \<mapsto> ''other'']"
  have sel: "re_write two_chain_env q s w = (Ok (), w(q \<mapsto> s))"
    "re_read two_chain_env q w = (ok_or ''missing'' (map_option into_bytes (w q)), w)"
    "re_keccak256 two_chain_env bs = of_nat (length bs)" for q s w bs
    by (simp_all add: two_chain_env_def)
  have differ: "into_bytes ''cfg'' \<noteq> into_bytes ''other''" "into_bytes ''l1'' \<noteq> into_bytes ''other''"
    "other_config \<noteq> sample_merged_config" "other_config \<noteq> sample_chain_config"
    by (simp_all add: other_config_def sample_merged_config_def sample_chain_config_def)
  then have read: "re_from_slice two_chain_env (into_bytes ''cfg'') = Ok sample_merged_config"
    "re_from_slice two_chain_env (into_bytes ''other'') = Ok other_config"
    "re_to_vec two_chain_env sample_merged_config = Ok [1, 2]" "re_to_vec two_chain_env other_config = Ok [1, 2, 3]"
    by (auto simp: two_chain_env_def sample_from_str_def simp del: into_bytes_inject)
  have mine: "compute_rollup_config_hash two_chain_env ?p ?w1 = (Ok 2, ?w1)"
    and others: "compute_rollup_config_hash two_chain_env ?p ?v1 = (Ok 3, ?v1)"
    by (simp_all add: compute_rollup_config_hash_def act_bind_def act_map_err_def sel read)
  have files: "\<forall>p s w w'. re_write two_chain_env p s w = (Ok (), w') \<longrightarrow> re_read two_chain_env p w' = (Ok (into_bytes s), w')"
    by (simp add: sel)
  have json: "\<forall>j s. re_to_string_pretty two_chain_env j = Ok s \<longrightarrow> re_from_slice two_chain_env (into_bytes s) = Ok j"
    using differ by (auto simp: two_chain_env_def sample_from_str_def)
  have existing: "existing_rollup_config two_chain_env (rp_rollup_config_path sample_rpc_provider) w = (Ok None, w)"
    "existing_rollup_config two_chain_env (rp_rollup_config_path other_provider) w = (Ok None, w)" for w
    by (simp_all add: existing_rollup_config_def other_provider_def)
  have second: "ensure_rollup_config two_chain_env other_provider ?w1 = (Ok ?p, ?v1)"
    using two_chain_ensure(2) [of ?w1] by simp
  have "\<exists>rc v' canonical. fetch_rollup_config two_chain_env other_provider ?w1 = (Ok rc, v')
     \<and> re_to_vec two_chain_env rc = Ok canonical \<and> 3 = re_keccak256 two_chain_env canonical"
    using providers_share_config [OF files json existing(1) two_chain_ensure(1) [of Map.empty] existing(2) second others]
    by blast
  with mine second others two_chain_ensure(1) [of Map.empty] show ?thesis by blast
qed

lemma sample_root:
  "fetch_output_root sample_rpc_env sample_rpc_provider ''l2'' n w = (Ok 128, w)"
  by (simp add: fetch_output_root_def request_output_root_def header_output_root_def act_bind_def act_ok_def
    act_try_def act_map_err_def url_checked_def output_root_payload_words)

theorem output_root_sources_witness:
  "\<exists>hdr. (128 :: b256) = re_keccak256 sample_rpc_env (output_root_payload hdr)
     \<and> fetch_safe_head_hash (sample_kona (sample_boot 1 2)) (preimage_store_new [128 \<mapsto> output_root_payload hdr]) 128
         = Ok (lh_hash hdr)"
proof -
  have none: "answered_root sample_rpc_env resp \<noteq> Some root" for resp root
    by (simp add: answered_root_def sample_rpc_env_def bind_eq_Some_conv)
  from output_root_sources [where 'orc = preimage_store and 'cfg = unit and 'l1c = unit and 'hdr = u64
      and 'l1p = unit and 'l2p = unit and 'cur = unit and 'da = unit and 'pipe = unit and 'exec = unit,
      OF sample_root [of 3 Map.empty]] none
  obtain hdr where root: "128 = re_keccak256 sample_rpc_env (output_root_payload hdr)"
    and opens: "\<forall>K orc. (\<forall>buf. ko_get_exact (K :: (preimage_store, unit, unit, u64, unit, unit, unit, unit, unit, unit) kona_ops) orc 128 buf
        = preimage_get_exact id (preimage_store_new [128 \<mapsto> output_root_payload hdr]) 128 buf) \<longrightarrow>
      ko_send_starting_l2_output K orc 128 = Ok () \<longrightarrow> fetch_safe_head_hash K orc 128 = Ok (lh_hash hdr)"
    by metis
  have "fetch_safe_head_hash (sample_kona (sample_boot 1 2)) (preimage_store_new [128 \<mapsto> output_root_payload hdr]) 128
      = Ok (lh_hash hdr)"
    by (rule opens [rule_format]) (simp_all add: sample_kona_def)
  with root show ?thesis by blast
qed

lemma sample_parsed: "sample_from_str ''cfg'' = Ok sample_merged_config"
  by (simp add: sample_from_str_def)

lemma sample_l1: "ensure_l1_config sample_rpc_env sample_rpc_provider n w =
    (Ok ''open-zk-l1-config-1.json'', w(''open-zk-l1-config-1.json'' \<mapsto> ''l1''))"
  by (simp add: ensure_l1_config_def write_config_def url_checked_def act_bind_def act_ok_def act_try_def
    act_map_err_def Let_def show_nat.simps char_one sample_merged_config_def sample_chain_config_def)

lemma sample_collect:
  "collect_witness sample_rpc_env host (w, \<lparr>kh_next = 0, kh_store = (\<lambda>_. Map.empty)\<rparr>) =
     (Ok 0, w, \<lparr>kh_next = 1, kh_store = (\<lambda>_. Map.empty)(0 := [100 \<mapsto> [1]])\<rparr>)"
  by (simp add: collect_witness_def new_store_def kv_defs run_client_and_server_def in_world_def act_bind_def
    act_map_err_def)

lemma sample_inject:
  "inject_local sample_rpc_env host local_key_indices m w = (Ok (m(1 \<mapsto> [5])), w)"
  by (simp add: local_key_indices_def)

theorem rpc_witness_generated_witness:
  "\<exists>rw s store. rpc_generate_witness boot_encode archive_write sample_rpc_env sample_rpc_provider sample_request
        (Map.empty, \<lparr>kh_next = 0, kh_store = (\<lambda>_. Map.empty)\<rparr>) = (Ok rw, s)
     \<and> from_rkyv_bytes archive_read (rw_oracle_data rw) = Some store
     \<and> preimage_get id store 1 = Ok [5] \<and> preimage_get id store 2 = Err KeyNotFound
     \<and> preimage_get id store 100 = Ok [1] \<and> preimage_get id store 9 = Err KeyNotFound"
proof -
  let ?h = "\<lparr>kh_next = 0, kh_store = (\<lambda>_. Map.empty)\<rparr>"
  let ?m = "[100 \<mapsto> [1]](1 \<mapsto> [5]) :: preimages"
  obtain bs where bs: "archive_write ?m = Ok bs"
    using archive_writes [of ?m] by auto
  obtain rw w' h' where run: "rpc_generate_witness boot_encode archive_write sample_rpc_env sample_rpc_provider
      sample_request (Map.empty, ?h) = (Ok rw, w', h')"
    by (simp add: rpc_generate_witness_def act_bind_def in_world_def sample_ensure sample_hash url_checked_def
      act_map_err_def sample_root sample_parsed sample_l1 sample_collect kv_snapshot_def sample_inject
      serialize_preimages_def bs Let_def)
  from rpc_witness_generated [OF bt_abi.boot_abi_axioms arch.preimage_archive_axioms run]
  obtain claim v v1 rollup_path l1_path writes u w1 w2 and ws :: "(string \<rightharpoonup> string) list"
      and answers store and start :: l2_header where
    client: "re_run_client sample_rpc_env
        (build_host_config sample_rpc_provider sample_request (lh_hash start) claim rollup_path l1_path) u
       = ((ClientDone, writes), ws ! 0)"
    and len: "length answers = 7"
    and reads: "\<forall>i < 7. re_local_get sample_rpc_env
          (build_host_config sample_rpc_provider sample_request (lh_hash start) claim rollup_path l1_path)
          (re_local_key sample_rpc_env ([1, 2, 3, 4, 5, 6, 7] ! i)) (ws ! i) = (answers ! i, ws ! Suc i)"
    and store: "from_rkyv_bytes archive_read (rw_oracle_data rw) = Some store"
    and get: "\<forall>k. preimage_get id store k =
          (case map_of (rev (List.map_filter (\<lambda>(i, a). map_option (Pair (re_local_key sample_rpc_env i)) a)
                              (zip [1, 2, 3, 4, 5, 6, 7] answers))) k of
             Some x \<Rightarrow> Ok x
           | None \<Rightarrow> (case map_of (rev writes) k of Some x \<Rightarrow> Ok x | None \<Rightarrow> Err KeyNotFound))"
    by (elim exE conjE) (rule that)
  have "answers = [Some [5], None, None, None, None, None, None]"
  proof (rule nth_equalityI)
    fix i assume "i < length answers"
    with len have "i < 7" by simp
    then have "i = 0 \<or> i = 1 \<or> i = 2 \<or> i = 3 \<or> i = 4 \<or> i = 5 \<or> i = 6" by arith
    with reads [rule_format, OF \<open>i < 7\<close>] show "answers ! i = [Some [5], None, None, None, None, None, None] ! i"
      by (elim disjE) simp_all
  qed (simp add: len)
  moreover from client have "writes = [(100, [1])]" by simp
  ultimately have "preimage_get id store 1 = Ok [5]" "preimage_get id store 2 = Err KeyNotFound"
    "preimage_get id store 100 = Ok [1]" "preimage_get id store 9 = Err KeyNotFound"
    using get by (simp_all add: map_filter_simps)
  with run store show ?thesis by blast
qed

end
