(* ===== verification/Contracts.thy ===== *)
theory Contracts
  imports Core_Types
begin

text \<open>
  Submission of proofs to the contracts, crates/contracts/src: the contract interfaces (abi.rs)
  as a datatype of calls, the \<open>ProofSubmitter\<close> trait and its mock (client.rs), and the
  submitter that signs and sends transactions (rpc_submitter.rs).  URL and key parsing, sending
  and receipts are the fields of a record.  The locale \<open>submitter\<close> states what a submitter owes
  its caller; it is interpreted on both implementations.
\<close>

section \<open>Calls of the contracts\<close>

datatype contract_call =
    SubmitSp1Proof bytes bytes
  | SubmitRisc0Proof bytes bytes
  | LatestOutputRoot
  | LatestBlockNumber
  | IsBlockProven u64
  | SetSp1ProgramVKey b256
  | SetRisc0ImageId b256
  | Challenge u64
  | Resolve u64 bytes bytes u8
  | IsDisputed u64

text \<open>The public values, proof bytes and zkVM that a call hands to a verifier.\<close>

fun proof_of_call :: "contract_call \<Rightarrow> (zkvm_backend \<times> bytes \<times> bytes) option" where
  "proof_of_call (SubmitSp1Proof pv pr) = Some (Sp1, pv, pr)"
| "proof_of_call (SubmitRisc0Proof pv pr) = Some (RiscZero, pv, pr)"
| "proof_of_call (Resolve _ pv pr b) =
     (if b = 0 then Some (Sp1, pv, pr) else if b = 1 then Some (RiscZero, pv, pr) else None)"
| "proof_of_call _ = None"

section \<open>Submitters\<close>

record ('w, 'e) proof_submitter =
  ps_submit_proof :: "state_transition_journal \<Rightarrow> proof_artifact \<Rightarrow> ('w, 'e, b256) action"
  ps_resolve_dispute :: "state_transition_journal \<Rightarrow> proof_artifact \<Rightarrow> ('w, 'e, b256) action"

datatype mock_submitter_error = MockSubmitterError string

definition mock_proof_submitter :: "('w, mock_submitter_error) proof_submitter" where
  "mock_proof_submitter =
     \<lparr>ps_submit_proof = (\<lambda>_ _. act_return 0), ps_resolve_dispute = (\<lambda>_ _. act_return 0)\<rparr>"

record rpc_proof_submitter =
  rs_rpc_url :: string
  rs_oracle_address :: address
  rs_dispute_address :: "address option"
  rs_private_key :: string

datatype rpc_submitter_error =
    ContractCall string
  | UnsupportedBackend zkvm_backend
  | DisputeAddressNotConfigured

definition rpc_submitter_new :: "string \<Rightarrow> address \<Rightarrow> string \<Rightarrow> rpc_proof_submitter" where
  "rpc_submitter_new rpc_url oracle_address private_key =
     \<lparr>rs_rpc_url = rpc_url, rs_oracle_address = oracle_address, rs_dispute_address = None,
      rs_private_key = private_key\<rparr>"

definition with_dispute_address :: "rpc_proof_submitter \<Rightarrow> address \<Rightarrow> rpc_proof_submitter" where
  "with_dispute_address self address = self\<lparr>rs_dispute_address := Some address\<rparr>"

text \<open>\<open>tx_send\<close> signs with the key and sends a call to an address through the node.\<close>

record ('w, 'key, 'pending) tx_env =
  tx_parse_url :: "string \<Rightarrow> (string, unit) outcome"
  tx_parse_key :: "string \<Rightarrow> (string, 'key) outcome"
  tx_send :: "string \<times> 'key \<Rightarrow> address \<Rightarrow> contract_call \<Rightarrow> ('w, string, 'pending) action"
  tx_get_receipt :: "'pending \<Rightarrow> ('w, string, b256) action"

definition build_provider ::
  "('w, 'key, 'pending) tx_env \<Rightarrow> rpc_proof_submitter \<Rightarrow> (rpc_submitter_error, string \<times> 'key) outcome" where
  "build_provider T self =
     and_then (map_err (\<lambda>e. ContractCall (''invalid url: '' @ e)) (tx_parse_url T (rs_rpc_url self))) (\<lambda>_.
     and_then (map_err (\<lambda>e. ContractCall (''invalid key: '' @ e)) (tx_parse_key T (rs_private_key self))) (\<lambda>pk.
     Ok (rs_rpc_url self, pk)))"

definition rpc_submit_proof ::
  "(state_transition_output \<Rightarrow> bytes) \<Rightarrow> ('w, 'key, 'pending) tx_env \<Rightarrow> rpc_proof_submitter
     \<Rightarrow> state_transition_journal \<Rightarrow> proof_artifact \<Rightarrow> ('w, rpc_submitter_error, b256) action" where
  "rpc_submit_proof enc T self journal proof =
     act_bind (act_lift (build_provider T self)) (\<lambda>provider.
     let oracle = rs_oracle_address self;
         public_values = journal_to_abi_bytes enc journal
     in case pa_backend proof of
          Sp1 \<Rightarrow>
            act_bind (act_map_err ContractCall
              (tx_send T provider oracle (SubmitSp1Proof public_values (pa_proof_bytes proof)))) (\<lambda>pending.
            act_map_err ContractCall (tx_get_receipt T pending))
        | RiscZero \<Rightarrow>
            act_bind (act_map_err ContractCall
              (tx_send T provider oracle (SubmitRisc0Proof public_values (pa_proof_bytes proof)))) (\<lambda>pending.
            act_map_err ContractCall (tx_get_receipt T pending))
        | other \<Rightarrow> act_fail (UnsupportedBackend other))"

definition rpc_resolve_dispute ::
  "(state_transition_output \<Rightarrow> bytes) \<Rightarrow> ('w, 'key, 'pending) tx_env \<Rightarrow> rpc_proof_submitter
     \<Rightarrow> state_transition_journal \<Rightarrow> proof_artifact \<Rightarrow> ('w, rpc_submitter_error, b256) action" where
  "rpc_resolve_dispute enc T self journal proof =
     act_bind (act_lift (ok_or DisputeAddressNotConfigured (rs_dispute_address self))) (\<lambda>dispute.
     act_bind (act_lift (build_provider T self)) (\<lambda>provider.
     let public_values = journal_to_abi_bytes enc journal
     in act_bind (act_lift (case pa_backend proof of
                     Sp1 \<Rightarrow> Ok 0
                   | RiscZero \<Rightarrow> Ok 1
                   | other \<Rightarrow> Err (UnsupportedBackend other))) (\<lambda>backend.
        act_bind (act_map_err ContractCall
          (tx_send T provider dispute
             (Resolve (j_l2_block_number journal) public_values (pa_proof_bytes proof) backend))) (\<lambda>pending.
        act_map_err ContractCall (tx_get_receipt T pending)))))"

definition rpc_submitter ::
  "(state_transition_output \<Rightarrow> bytes) \<Rightarrow> ('w, 'key, 'pending) tx_env \<Rightarrow> rpc_proof_submitter
     \<Rightarrow> ('w, rpc_submitter_error) proof_submitter" where
  "rpc_submitter enc T self =
     \<lparr>ps_submit_proof = rpc_submit_proof enc T self, ps_resolve_dispute = rpc_resolve_dispute enc T self\<rparr>"

section \<open>What is sent\<close>

text \<open>The two ways a proof reaches a contract are one: a call that carries it, and its receipt.\<close>

definition sent ::
  "('w, 'key, 'pending) tx_env \<Rightarrow> rpc_proof_submitter \<Rightarrow> address \<Rightarrow> contract_call \<Rightarrow> 'w \<Rightarrow> b256 \<Rightarrow> 'w \<Rightarrow> bool" where
  "sent T self to call w tx w' \<longleftrightarrow>
     (\<exists>pk pending w1. build_provider T self = Ok (rs_rpc_url self, pk)
        \<and> tx_send T (rs_rpc_url self, pk) to call w = (Ok pending, w1)
        \<and> tx_get_receipt T pending w1 = (Ok tx, w'))"

lemma build_provider_Ok_iff [simp]:
  "build_provider T self = Ok p \<longleftrightarrow>
     fst p = rs_rpc_url self \<and> tx_parse_url T (rs_rpc_url self) = Ok ()
     \<and> tx_parse_key T (rs_private_key self) = Ok (snd p)"
  by (cases p) (auto simp: build_provider_def and_then_eq_Ok_iff)

lemma rpc_submit_proof_Ok_iff:
  "rpc_submit_proof enc T self j a w = (Ok tx, w') \<longleftrightarrow>
     (\<exists>call. (pa_backend a = Sp1 \<and> call = SubmitSp1Proof (journal_to_abi_bytes enc j) (pa_proof_bytes a)
           \<or> pa_backend a = RiscZero \<and> call = SubmitRisc0Proof (journal_to_abi_bytes enc j) (pa_proof_bytes a))
        \<and> sent T self (rs_oracle_address self) call w tx w')"
  by (cases "pa_backend a")
    (auto simp: rpc_submit_proof_def act_bind_Ok_iff sent_def Let_def)

lemma rpc_resolve_dispute_Ok_iff:
  "rpc_resolve_dispute enc T self j a w = (Ok tx, w') \<longleftrightarrow>
     (\<exists>to b. rs_dispute_address self = Some to \<and> (pa_backend a = Sp1 \<and> b = 0 \<or> pa_backend a = RiscZero \<and> b = 1)
        \<and> sent T self to (Resolve (j_l2_block_number j) (journal_to_abi_bytes enc j) (pa_proof_bytes a) b) w tx w')"
  by (cases "pa_backend a")
    (auto simp: rpc_resolve_dispute_def act_bind_Ok_iff sent_def Let_def)

text \<open>The contract of a submitter for the zkVMs it supports.\<close>

locale submitter =
  fixes S :: "('w, 'e) proof_submitter"
    and supports :: "zkvm_backend \<Rightarrow> bool"
  assumes submits_supported: "ps_submit_proof S j a w = (Ok tx, w') \<Longrightarrow> supports (pa_backend a)"
    and resolves_supported: "ps_resolve_dispute S j a w = (Ok tx, w') \<Longrightarrow> supports (pa_backend a)"
    and unsupported_submit: "\<not> supports (pa_backend a) \<Longrightarrow> snd (ps_submit_proof S j a w) = w"
    and unsupported_resolve: "\<not> supports (pa_backend a) \<Longrightarrow> snd (ps_resolve_dispute S j a w) = w"
begin

text \<open>A sequence of submissions stops at the first unsupported proof, with nothing sent for it.\<close>

primrec submit_all :: "(state_transition_journal \<times> proof_artifact) list \<Rightarrow> ('w, 'e, b256 list) action" where
  "submit_all [] = act_return []"
| "submit_all (x # xs) = act_bind (ps_submit_proof S (fst x) (snd x)) (\<lambda>tx.
     act_bind (submit_all xs) (\<lambda>txs. act_return (tx # txs)))"

lemma submit_all_supported:
  "submit_all xs w = (Ok txs, w') \<Longrightarrow> \<forall>x \<in> set xs. supports (pa_backend (snd x))"
  by (induction xs arbitrary: w txs) (auto simp: act_bind_Ok_iff dest: submits_supported)

lemma unsupported_unsent:
  assumes "\<not> supports (pa_backend a)"
  shows "ps_submit_proof S j a w \<noteq> (Ok tx, w')" "ps_resolve_dispute S j a w \<noteq> (Ok tx, w')"
    "snd (ps_submit_proof S j a w) = w" "snd (ps_resolve_dispute S j a w) = w"
  using assms submits_supported resolves_supported unsupported_submit unsupported_resolve by blast+

end

definition on_chain_backend :: "zkvm_backend \<Rightarrow> bool" where
  "on_chain_backend b \<longleftrightarrow> b = Sp1 \<or> b = RiscZero"

interpretation mock_submission: submitter mock_proof_submitter "\<lambda>_. True"
  by unfold_locales simp_all

lemma lift_world: "(\<And>a. snd (f a w) = w) \<Longrightarrow> snd (act_bind (act_lift r) f w) = w"
  by (cases r) (simp_all add: act_bind_def)

lemma lift_err [simp]: "act_bind (act_lift (Err e)) f w = (Err e, w)"
  by (simp add: act_bind_def)

lemma unsupported_world:
  assumes "\<not> on_chain_backend (pa_backend a)"
  shows "snd (rpc_submit_proof enc T self j a w) = w" "snd (rpc_resolve_dispute enc T self j a w) = w"
proof -
  obtain b where b: "pa_backend a = b" "b = Auto \<or> b = Mock"
    using assms by (cases "pa_backend a") (auto simp: on_chain_backend_def)
  show "snd (rpc_submit_proof enc T self j a w) = w"
    using b by (auto simp: rpc_submit_proof_def intro!: lift_world)
  show "snd (rpc_resolve_dispute enc T self j a w) = w"
    unfolding rpc_resolve_dispute_def Let_def
    by (rule lift_world, rule lift_world) (use b in auto)
qed

interpretation rpc_submission: submitter "rpc_submitter enc T self" on_chain_backend
  by unfold_locales
    (auto simp: rpc_submitter_def rpc_submit_proof_Ok_iff rpc_resolve_dispute_Ok_iff unsupported_world
      on_chain_backend_def)

section \<open>Properties\<close>

text \<open>
  C28: a submission carries its proof. Whenever submitting or resolving returns a transaction
  hash, exactly one transaction was sent and its receipt has that hash: to the oracle, or to
  the configured dispute game with the journal's block number; its call hands the verifier of
  the proof's own zkVM the proof bytes and public values that decode to the journal.
\<close>

theorem submission_carries_proof:
  assumes "journal_abi enc dec"
  shows "journal_from_abi_bytes dec (journal_to_abi_bytes enc j) = Ok j
   \<and> (rpc_submit_proof enc T self j a w = (Ok tx, w') \<longleftrightarrow>
       (\<exists>call. proof_of_call call = Some (pa_backend a, journal_to_abi_bytes enc j, pa_proof_bytes a)
          \<and> (\<forall>n b. call \<noteq> Resolve n (journal_to_abi_bytes enc j) (pa_proof_bytes a) b)
          \<and> sent T self (rs_oracle_address self) call w tx w'))
   \<and> (rpc_resolve_dispute enc T self j a w = (Ok tx, w') \<longleftrightarrow>
       (\<exists>b to. proof_of_call (Resolve (j_l2_block_number j) (journal_to_abi_bytes enc j) (pa_proof_bytes a) b)
                = Some (pa_backend a, journal_to_abi_bytes enc j, pa_proof_bytes a)
          \<and> rs_dispute_address self = Some to
          \<and> sent T self to (Resolve (j_l2_block_number j) (journal_to_abi_bytes enc j) (pa_proof_bytes a) b) w tx w'))"
proof -
  have submits: "(proof_of_call call = Some (b, pv, pr) \<and> (\<forall>n c. call \<noteq> Resolve n pv pr c) \<and> Q) \<longleftrightarrow>
      (b = Sp1 \<and> call = SubmitSp1Proof pv pr \<or> b = RiscZero \<and> call = SubmitRisc0Proof pv pr) \<and> Q"
    for call b pv pr Q by (cases call) (auto split: if_splits)
  have resolves: "proof_of_call (Resolve n pv pr c) = Some (b, pv, pr) \<longleftrightarrow> b = Sp1 \<and> c = 0 \<or> b = RiscZero \<and> c = 1"
    for n pv pr b c by auto
  show ?thesis
    unfolding rpc_submit_proof_Ok_iff rpc_resolve_dispute_Ok_iff submits resolves
    using journal_abi.from_to_abi_bytes [OF assms] by blast
qed

text \<open>
  What is not submitted. A proof of a backend without an on-chain verifier (mock, or a
  backend still to be chosen) is refused by both operations with an error, and nothing is sent;
  so is any dispute when no dispute game is configured.
\<close>

theorem submission_refused:
  assumes "\<not> on_chain_backend (pa_backend a)" and "tx_parse_url T (rs_rpc_url self) = Ok ()"
    and "tx_parse_key T (rs_private_key self) = Ok pk"
  shows "rpc_submit_proof enc T self j a w = (Err (UnsupportedBackend (pa_backend a)), w)
     \<and> rpc_resolve_dispute enc T self j a w =
         (Err (case rs_dispute_address self of
                 None \<Rightarrow> DisputeAddressNotConfigured
               | Some _ \<Rightarrow> UnsupportedBackend (pa_backend a)), w)"
  using assms
  by (cases "pa_backend a")
    (auto simp: on_chain_backend_def rpc_submit_proof_def rpc_resolve_dispute_def build_provider_def act_bind_def
      split: option.splits)

section \<open>A small chain\<close>

text \<open>The world is the list of transactions sent; a receipt's hash is its number.\<close>

definition sample_tx_env :: "((address \<times> contract_call) list, string, b256) tx_env" where
  "sample_tx_env =
     \<lparr>tx_parse_url = (\<lambda>_. Ok ()),
      tx_parse_key = Ok,
      tx_send = (\<lambda>_ to call w. (Ok (of_nat (length w)), w @ [(to, call)])),
      tx_get_receipt = (\<lambda>n w. (Ok n, w))\<rparr>"

definition sample_artifact :: "zkvm_backend \<Rightarrow> proof_artifact" where
  "sample_artifact b =
     \<lparr>pa_backend = b, pa_mode = Groth16, pa_proof_bytes = [7], pa_public_values = [], pa_program_id = 0,
      pa_cycle_count = None\<rparr>"

definition sample_state_journal :: state_transition_journal where
  "sample_state_journal =
     \<lparr>j_l1_head = 9, j_l2_pre_root = 1, j_l2_post_root = 2, j_l2_block_number = 10,
      j_rollup_config_hash = 0, j_program_id = 0\<rparr>"

theorem submission_carries_proof_witness:
  "\<exists>call. proof_of_call call = Some (RiscZero, journal_to_abi_bytes output_encode sample_state_journal, [7])
     \<and> sent sample_tx_env (rpc_submitter_new ''u'' 3 ''k'') 3 call [] 0 [(3, call)]"
proof -
  have run: "rpc_submit_proof output_encode sample_tx_env (rpc_submitter_new ''u'' 3 ''k'') sample_state_journal
      (sample_artifact RiscZero) [] =
        (Ok 0, [(3, SubmitRisc0Proof (journal_to_abi_bytes output_encode sample_state_journal) [7])])"
    by (simp add: rpc_submit_proof_def build_provider_def sample_tx_env_def rpc_submitter_new_def
      sample_artifact_def act_bind_def act_map_err_def Let_def)
  with submission_carries_proof [OF out_abi.journal_abi_axioms, of sample_state_journal sample_tx_env
      "rpc_submitter_new ''u'' 3 ''k''" "sample_artifact RiscZero" "[]" 0]
  obtain call where call: "proof_of_call call = Some (RiscZero, journal_to_abi_bytes output_encode sample_state_journal, [7])"
    "sent sample_tx_env (rpc_submitter_new ''u'' 3 ''k'') 3 call []  0
       [(3, SubmitRisc0Proof (journal_to_abi_bytes output_encode sample_state_journal) [7])]"
    by (auto simp: sample_artifact_def rpc_submitter_new_def)
  then have "call = SubmitRisc0Proof (journal_to_abi_bytes output_encode sample_state_journal) [7]"
    by (auto simp: sent_def sample_tx_env_def)
  with call show ?thesis by blast
qed

theorem submission_refused_witness:
  "rpc_submit_proof output_encode sample_tx_env (rpc_submitter_new ''u'' 3 ''k'') sample_state_journal
     (sample_artifact Mock) [] = (Err (UnsupportedBackend Mock), [])"
proof -
  have "\<not> on_chain_backend (pa_backend (sample_artifact Mock))"
    "tx_parse_url sample_tx_env (rs_rpc_url (rpc_submitter_new ''u'' 3 ''k'')) = Ok ()"
    "tx_parse_key sample_tx_env (rs_private_key (rpc_submitter_new ''u'' 3 ''k'')) = Ok ''k''"
    by (simp_all add: on_chain_backend_def sample_artifact_def sample_tx_env_def rpc_submitter_new_def)
  from submission_refused [OF this] show ?thesis by (simp add: sample_artifact_def)
qed

end
