(* ===== verification/Onchain.thy ===== *)
theory Onchain
  imports Contracts Monitor
begin

text \<open>
  The contracts src/contracts/src/OpenZkL2OutputOracle.sol and OpenZkDisputeGame.sol, which the
  submitter of \<open>Contracts\<close> calls and the monitor of \<open>Monitor\<close> reads: their state, one definition
  per function, the step relation of a chain that holds both, its invariants, and the two
  clients run against it.  The verifier contracts are a parameter: a call that does not
  revert.  Storage mappings are total functions whose default is zero.
\<close>

section \<open>State\<close>

datatype backend_tag = SP1 | RISC_ZERO

record output_proposal =
  op_outputRoot :: b256
  op_l2BlockNumber :: u64
  op_l1Head :: b256
  op_timestamp :: u128

record oracle_state =
  os_sp1Verifier :: address
  os_risc0Verifier :: address
  os_sp1ProgramVKey :: b256
  os_risc0ImageId :: b256
  os_owner :: address
  os_latestBlockNumber :: u64
  os_latestOutputRoot :: b256
  os_proposals :: "u64 \<Rightarrow> output_proposal"

record dispute =
  dp_challenger :: address
  dp_blockNumber :: u64
  dp_disputedOutputRoot :: b256
  dp_createdAt :: u128
  dp_resolved :: bool
  dp_valid :: bool

record game_state =
  gs_oracle :: address
  gs_sp1Verifier :: address
  gs_risc0Verifier :: address
  gs_sp1ProgramVKey :: b256
  gs_risc0ImageId :: b256
  gs_owner :: address
  gs_challengeTimeout :: b256
  gs_disputes :: "u64 \<Rightarrow> dispute"

definition no_proposal :: output_proposal where
  "no_proposal = \<lparr>op_outputRoot = 0, op_l2BlockNumber = 0, op_l1Head = 0, op_timestamp = 0\<rparr>"

definition no_dispute :: dispute where
  "no_dispute = \<lparr>dp_challenger = 0, dp_blockNumber = 0, dp_disputedOutputRoot = 0, dp_createdAt = 0,
     dp_resolved = False, dp_valid = False\<rparr>"

datatype revert =
    Unauthorized
  | BlockAlreadyProven
  | InvalidJournalLength
  | VerifierReverted
  | BlockNotProven
  | AlreadyDisputed
  | DisputeNotFound
  | AlreadyResolved
  | InvalidBackend
  | UnknownSelector

datatype contract_event =
    OutputRootSubmitted b256 u64 b256 backend_tag
  | ProgramIdUpdated backend_tag b256
  | DisputeCreated u64 address b256
  | DisputeResolvedOnChain u64 bool backend_tag

text \<open>The sender and the block's timestamp; whether a verifier accepts a proof.\<close>

record msg =
  mg_sender :: address
  mg_timestamp :: b256

record verifiers =
  vf_sp1 :: "address \<Rightarrow> b256 \<Rightarrow> bytes \<Rightarrow> bytes \<Rightarrow> bool"
  vf_risc0 :: "address \<Rightarrow> bytes \<Rightarrow> b256 \<Rightarrow> b256 \<Rightarrow> bool"
  vf_sha256 :: "bytes \<Rightarrow> b256"

fun require :: "bool \<Rightarrow> revert \<Rightarrow> (revert, unit) outcome" where
  "require True _ = Ok ()"
| "require False e = Err e"

lemma require_Ok_iff [simp]: "require b e = Ok u \<longleftrightarrow> b"
  by (cases b) auto

section \<open>The output oracle\<close>

definition oracle_new :: "msg \<Rightarrow> address \<Rightarrow> address \<Rightarrow> b256 \<Rightarrow> b256 \<Rightarrow> oracle_state" where
  "oracle_new msg sp1Verifier risc0Verifier sp1ProgramVKey risc0ImageId =
     \<lparr>os_sp1Verifier = sp1Verifier, os_risc0Verifier = risc0Verifier, os_sp1ProgramVKey = sp1ProgramVKey,
      os_risc0ImageId = risc0ImageId, os_owner = mg_sender msg, os_latestBlockNumber = 0,
      os_latestOutputRoot = 0, os_proposals = (\<lambda>_. no_proposal)\<rparr>"

definition isBlockProven :: "oracle_state \<Rightarrow> u64 \<Rightarrow> bool" where
  "isBlockProven s blockNumber \<longleftrightarrow> op_outputRoot (os_proposals s blockNumber) \<noteq> 0"

definition processJournal ::
  "msg \<Rightarrow> bytes \<Rightarrow> backend_tag \<Rightarrow> oracle_state \<Rightarrow> (revert, oracle_state \<times> contract_event list) outcome" where
  "processJournal msg journal backend s =
     (let l1Head = slot_at 0 journal;
          l2PostRoot = slot_at 2 journal;
          l2BlockNumber = ucast (slot_at 3 journal)
      in and_then (require (op_outputRoot (os_proposals s l2BlockNumber) = 0) BlockAlreadyProven) (\<lambda>_.
         let s = s\<lparr>os_proposals := (os_proposals s)(l2BlockNumber :=
                     \<lparr>op_outputRoot = l2PostRoot, op_l2BlockNumber = l2BlockNumber, op_l1Head = l1Head,
                      op_timestamp = ucast (mg_timestamp msg)\<rparr>)\<rparr>;
             s = (if l2BlockNumber > os_latestBlockNumber s
                  then s\<lparr>os_latestBlockNumber := l2BlockNumber, os_latestOutputRoot := l2PostRoot\<rparr>
                  else s)
         in Ok (s, [OutputRootSubmitted l2PostRoot l2BlockNumber l1Head backend])))"

definition submitSp1Proof ::
  "verifiers \<Rightarrow> msg \<Rightarrow> bytes \<Rightarrow> bytes \<Rightarrow> oracle_state \<Rightarrow> (revert, oracle_state \<times> contract_event list) outcome" where
  "submitSp1Proof V msg publicValues proofBytes s =
     and_then (require (length publicValues = 192) InvalidJournalLength) (\<lambda>_.
     and_then (require (vf_sp1 V (os_sp1Verifier s) (os_sp1ProgramVKey s) publicValues proofBytes) VerifierReverted) (\<lambda>_.
     processJournal msg publicValues SP1 s))"

definition submitRisc0Proof ::
  "verifiers \<Rightarrow> msg \<Rightarrow> bytes \<Rightarrow> bytes \<Rightarrow> oracle_state \<Rightarrow> (revert, oracle_state \<times> contract_event list) outcome" where
  "submitRisc0Proof V msg journalBytes seal s =
     and_then (require (length journalBytes = 192) InvalidJournalLength) (\<lambda>_.
     and_then (require (vf_risc0 V (os_risc0Verifier s) seal (os_risc0ImageId s) (vf_sha256 V journalBytes))
                 VerifierReverted) (\<lambda>_.
     processJournal msg journalBytes RISC_ZERO s))"

definition oracle_setSp1ProgramVKey ::
  "msg \<Rightarrow> b256 \<Rightarrow> oracle_state \<Rightarrow> (revert, oracle_state \<times> contract_event list) outcome" where
  "oracle_setSp1ProgramVKey msg vkey s =
     and_then (require (mg_sender msg = os_owner s) Unauthorized) (\<lambda>_.
     Ok (s\<lparr>os_sp1ProgramVKey := vkey\<rparr>, [ProgramIdUpdated SP1 vkey]))"

definition oracle_setRisc0ImageId ::
  "msg \<Rightarrow> b256 \<Rightarrow> oracle_state \<Rightarrow> (revert, oracle_state \<times> contract_event list) outcome" where
  "oracle_setRisc0ImageId msg imageId s =
     and_then (require (mg_sender msg = os_owner s) Unauthorized) (\<lambda>_.
     Ok (s\<lparr>os_risc0ImageId := imageId\<rparr>, [ProgramIdUpdated RISC_ZERO imageId]))"

text \<open>A transaction to the oracle; its view functions change nothing.\<close>

fun oracle_exec ::
  "verifiers \<Rightarrow> msg \<Rightarrow> contract_call \<Rightarrow> oracle_state \<Rightarrow> (revert, oracle_state \<times> contract_event list) outcome" where
  "oracle_exec V msg (SubmitSp1Proof pv pr) s = submitSp1Proof V msg pv pr s"
| "oracle_exec V msg (SubmitRisc0Proof pv pr) s = submitRisc0Proof V msg pv pr s"
| "oracle_exec V msg (SetSp1ProgramVKey k) s = oracle_setSp1ProgramVKey msg k s"
| "oracle_exec V msg (SetRisc0ImageId k) s = oracle_setRisc0ImageId msg k s"
| "oracle_exec V msg LatestOutputRoot s = Ok (s, [])"
| "oracle_exec V msg LatestBlockNumber s = Ok (s, [])"
| "oracle_exec V msg (IsBlockProven _) s = Ok (s, [])"
| "oracle_exec V msg (Challenge _) s = Err UnknownSelector"
| "oracle_exec V msg (Resolve _ _ _ _) s = Err UnknownSelector"
| "oracle_exec V msg (IsDisputed _) s = Err UnknownSelector"

section \<open>The dispute game\<close>

definition game_new ::
  "msg \<Rightarrow> address \<Rightarrow> address \<Rightarrow> address \<Rightarrow> b256 \<Rightarrow> b256 \<Rightarrow> b256 \<Rightarrow> game_state" where
  "game_new msg oracle sp1Verifier risc0Verifier sp1ProgramVKey risc0ImageId challengeTimeout =
     \<lparr>gs_oracle = oracle, gs_sp1Verifier = sp1Verifier, gs_risc0Verifier = risc0Verifier,
      gs_sp1ProgramVKey = sp1ProgramVKey, gs_risc0ImageId = risc0ImageId, gs_owner = mg_sender msg,
      gs_challengeTimeout = challengeTimeout, gs_disputes = (\<lambda>_. no_dispute)\<rparr>"

definition game_challenge ::
  "msg \<Rightarrow> oracle_state \<Rightarrow> u64 \<Rightarrow> game_state \<Rightarrow> (revert, game_state \<times> contract_event list) outcome" where
  "game_challenge msg oracle blockNumber g =
     and_then (require (isBlockProven oracle blockNumber) BlockNotProven) (\<lambda>_.
     and_then (require (dp_createdAt (gs_disputes g blockNumber) = 0) AlreadyDisputed) (\<lambda>_.
     let outputRoot = op_outputRoot (os_proposals oracle blockNumber)
     in Ok (g\<lparr>gs_disputes := (gs_disputes g)(blockNumber :=
                \<lparr>dp_challenger = mg_sender msg, dp_blockNumber = blockNumber,
                 dp_disputedOutputRoot = outputRoot, dp_createdAt = ucast (mg_timestamp msg),
                 dp_resolved = False, dp_valid = False\<rparr>)\<rparr>,
            [DisputeCreated blockNumber (mg_sender msg) outputRoot])))"

definition game_resolve ::
  "verifiers \<Rightarrow> u64 \<Rightarrow> bytes \<Rightarrow> bytes \<Rightarrow> u8 \<Rightarrow> game_state \<Rightarrow> (revert, game_state \<times> contract_event list) outcome" where
  "game_resolve V blockNumber publicValues proofBytes backend g =
     (let dispute = gs_disputes g blockNumber
      in and_then (require (dp_createdAt dispute \<noteq> 0) DisputeNotFound) (\<lambda>_.
         and_then (require (\<not> dp_resolved dispute) AlreadyResolved) (\<lambda>_.
         and_then (require (length publicValues = 192) InvalidJournalLength) (\<lambda>_.
         and_then
           (if backend = 0
            then require (vf_sp1 V (gs_sp1Verifier g) (gs_sp1ProgramVKey g) publicValues proofBytes) VerifierReverted
            else if backend = 1
            then require (vf_risc0 V (gs_risc0Verifier g) proofBytes (gs_risc0ImageId g) (vf_sha256 V publicValues))
                   VerifierReverted
            else Err InvalidBackend) (\<lambda>_.
         let provenOutputRoot = slot_at 2 publicValues;
             dispute = dispute\<lparr>dp_resolved := True,
                               dp_valid := (provenOutputRoot = dp_disputedOutputRoot dispute)\<rparr>
         in Ok (g\<lparr>gs_disputes := (gs_disputes g)(blockNumber := dispute)\<rparr>,
                [DisputeResolvedOnChain blockNumber (dp_valid dispute) (if backend = 0 then SP1 else RISC_ZERO)]))))))"

definition isDisputed :: "game_state \<Rightarrow> u64 \<Rightarrow> bool" where
  "isDisputed g blockNumber \<longleftrightarrow>
     dp_createdAt (gs_disputes g blockNumber) \<noteq> 0 \<and> \<not> dp_resolved (gs_disputes g blockNumber)"

definition game_setSp1ProgramVKey ::
  "msg \<Rightarrow> b256 \<Rightarrow> game_state \<Rightarrow> (revert, game_state \<times> contract_event list) outcome" where
  "game_setSp1ProgramVKey msg vkey g =
     and_then (require (mg_sender msg = gs_owner g) Unauthorized) (\<lambda>_.
     Ok (g\<lparr>gs_sp1ProgramVKey := vkey\<rparr>, [ProgramIdUpdated SP1 vkey]))"

definition game_setRisc0ImageId ::
  "msg \<Rightarrow> b256 \<Rightarrow> game_state \<Rightarrow> (revert, game_state \<times> contract_event list) outcome" where
  "game_setRisc0ImageId msg imageId g =
     and_then (require (mg_sender msg = gs_owner g) Unauthorized) (\<lambda>_.
     Ok (g\<lparr>gs_risc0ImageId := imageId\<rparr>, [ProgramIdUpdated RISC_ZERO imageId]))"

fun game_exec ::
  "verifiers \<Rightarrow> msg \<Rightarrow> oracle_state \<Rightarrow> contract_call \<Rightarrow> game_state
     \<Rightarrow> (revert, game_state \<times> contract_event list) outcome" where
  "game_exec V msg oracle (Challenge n) g = game_challenge msg oracle n g"
| "game_exec V msg oracle (Resolve n pv pr b) g = game_resolve V n pv pr b g"
| "game_exec V msg oracle (IsDisputed _) g = Ok (g, [])"
| "game_exec V msg oracle (SetSp1ProgramVKey k) g = game_setSp1ProgramVKey msg k g"
| "game_exec V msg oracle (SetRisc0ImageId k) g = game_setRisc0ImageId msg k g"
| "game_exec V msg oracle (SubmitSp1Proof _ _) g = Err UnknownSelector"
| "game_exec V msg oracle (SubmitRisc0Proof _ _) g = Err UnknownSelector"
| "game_exec V msg oracle LatestOutputRoot g = Err UnknownSelector"
| "game_exec V msg oracle LatestBlockNumber g = Err UnknownSelector"
| "game_exec V msg oracle (IsBlockProven _) g = Err UnknownSelector"

section \<open>The chain\<close>

text \<open>
  A state of the two contracts; one step is an accepted transaction of any sender to either of
  them.  A reverted transaction leaves the state alone and is no step.
\<close>

record chain =
  ch_oracle :: oracle_state
  ch_game :: game_state

inductive chain_step :: "verifiers \<Rightarrow> chain \<Rightarrow> chain \<Rightarrow> bool" for V where
  oracle_tx: "oracle_exec V msg call (ch_oracle c) = Ok (s', evs) \<Longrightarrow> chain_step V c (c\<lparr>ch_oracle := s'\<rparr>)"
| game_tx: "game_exec V msg (ch_oracle c) call (ch_game c) = Ok (g', evs) \<Longrightarrow> chain_step V c (c\<lparr>ch_game := g'\<rparr>)"

inductive_cases chain_stepE: "chain_step V c c'"

inductive chain_steps :: "verifiers \<Rightarrow> chain \<Rightarrow> chain \<Rightarrow> bool" for V where
  refl: "chain_steps V c c"
| step: "chain_steps V c c' \<Longrightarrow> chain_step V c' c'' \<Longrightarrow> chain_steps V c c''"

text \<open>
  A history is the list of all transactions sent to the contracts since their deployment, the
  reverted ones included; it determines every state the contracts have been in.
\<close>

datatype transaction = OracleTx msg contract_call | GameTx msg contract_call

fun apply_tx :: "verifiers \<Rightarrow> transaction \<Rightarrow> chain \<Rightarrow> chain" where
  "apply_tx V (OracleTx msg call) c =
     (case oracle_exec V msg call (ch_oracle c) of Ok (s', _) \<Rightarrow> c\<lparr>ch_oracle := s'\<rparr> | _ \<Rightarrow> c)"
| "apply_tx V (GameTx msg call) c =
     (case game_exec V msg (ch_oracle c) call (ch_game c) of Ok (g', _) \<Rightarrow> c\<lparr>ch_game := g'\<rparr> | _ \<Rightarrow> c)"

definition history :: "verifiers \<Rightarrow> chain \<Rightarrow> transaction list \<Rightarrow> chain" where
  "history V c txs = fold (apply_tx V) txs c"

lemma history_simps [simp]:
  "history V c [] = c"
  "history V c (txs @ [t]) = apply_tx V t (history V c txs)"
  by (simp_all add: history_def)

lemma apply_tx_cases: "apply_tx V t c = c \<or> chain_step V c (apply_tx V t c)"
  by (cases t) (auto intro: chain_step.intros split: outcome.splits)

lemma history_steps: "chain_steps V c (history V c txs)"
proof (induction txs rule: rev_induct)
  case Nil
  show ?case by (simp add: chain_steps.refl)
next
  case (snoc t txs)
  then show ?case using apply_tx_cases [of V t "history V c txs"] by (auto intro: chain_steps.step)
qed

lemma steps_history: "chain_steps V c c' \<Longrightarrow> \<exists>txs. c' = history V c txs"
proof (induction rule: chain_steps.induct)
  case (refl c)
  show ?case by (intro exI [of _ "[]"]) simp
next
  case (step c c' c'')
  then obtain txs where c': "c' = history V c txs" by blast
  from step.hyps(2) obtain t where "c'' = apply_tx V t c'"
  proof (cases rule: chain_step.cases)
    case (oracle_tx msg call s' evs)
    then show thesis by (intro that [of "OracleTx msg call"]) simp
  next
    case (game_tx msg call g' evs)
    then show thesis by (intro that [of "GameTx msg call"]) simp
  qed
  with c' show ?case by (intro exI [of _ "txs @ [t]"]) simp
qed

definition deployed :: "chain \<Rightarrow> bool" where
  "deployed c \<longleftrightarrow> (\<exists>msg a b k i a' msg' v w k' i' t.
     c = \<lparr>ch_oracle = oracle_new msg a b k i, ch_game = game_new msg' a' v w k' i' t\<rparr>)"

section \<open>Invariants\<close>

text \<open>
  A submission whose proof the oracle's own verifier accepts, in the oracle's state, for the
  program key configured in that state.
\<close>

fun verified_call :: "verifiers \<Rightarrow> oracle_state \<Rightarrow> contract_call \<Rightarrow> b256 \<Rightarrow> bytes \<Rightarrow> bool" where
  "verified_call V s (SubmitSp1Proof publicValues pr) key pv \<longleftrightarrow>
     pv = publicValues \<and> key = os_sp1ProgramVKey s \<and> vf_sp1 V (os_sp1Verifier s) key pv pr"
| "verified_call V s (SubmitRisc0Proof journalBytes seal) key pv \<longleftrightarrow>
     pv = journalBytes \<and> key = os_risc0ImageId s \<and> vf_risc0 V (os_risc0Verifier s) seal key (vf_sha256 V pv)"
| "verified_call V s _ key pv \<longleftrightarrow> False"

definition same_outputs :: "oracle_state \<Rightarrow> oracle_state \<Rightarrow> bool" where
  "same_outputs s s' \<longleftrightarrow> os_proposals s' = os_proposals s
     \<and> os_latestBlockNumber s' = os_latestBlockNumber s \<and> os_latestOutputRoot s' = os_latestOutputRoot s"

text \<open>Every transaction leaves the outputs alone or processes one accepted journal.\<close>

lemma oracle_exec_cases:
  assumes "oracle_exec V msg call s = Ok (s', evs)"
  obtains (unchanged) "same_outputs s s'"
    | (journal) pv b key where "verified_call V s call key pv" "processJournal msg pv b s = Ok (s', evs)"
        "length pv = 192"
  using assms
  by (cases call)
    (auto simp: submitSp1Proof_def submitRisc0Proof_def oracle_setSp1ProgramVKey_def oracle_setRisc0ImageId_def
      and_then_eq_Ok_iff same_outputs_def)

lemma processJournal_Ok:
  assumes "processJournal msg pv b s = Ok (s', evs)"
  defines "n \<equiv> ucast (slot_at 3 pv) :: u64"
  shows "op_outputRoot (os_proposals s n) = 0"
    "os_proposals s' = (os_proposals s)(n := \<lparr>op_outputRoot = slot_at 2 pv, op_l2BlockNumber = n,
        op_l1Head = slot_at 0 pv, op_timestamp = ucast (mg_timestamp msg)\<rparr>)"
    "os_latestBlockNumber s' = max (os_latestBlockNumber s) n"
    "os_latestOutputRoot s' = (if os_latestBlockNumber s < n then slot_at 2 pv else os_latestOutputRoot s)"
  using assms
  by (auto simp: processJournal_def Let_def and_then_eq_Ok_iff max_def split: if_splits)

definition oracle_inv :: "oracle_state \<Rightarrow> bool" where
  "oracle_inv s \<longleftrightarrow>
     (\<forall>n. isBlockProven s n \<longrightarrow> op_l2BlockNumber (os_proposals s n) = n \<and> n \<le> os_latestBlockNumber s)
   \<and> (os_latestOutputRoot s \<noteq> 0 \<longrightarrow>
        op_outputRoot (os_proposals s (os_latestBlockNumber s)) = os_latestOutputRoot s)"

lemma oracle_inv_new: "oracle_inv (oracle_new msg a b k i)"
  by (simp add: oracle_inv_def oracle_new_def isBlockProven_def no_proposal_def)

lemma oracle_exec_inv:
  assumes "oracle_exec V msg call s = Ok (s', evs)" and "oracle_inv s"
  shows "oracle_inv s'"
  using assms(1)
proof (cases rule: oracle_exec_cases)
  case unchanged
  with assms(2) show ?thesis by (simp add: oracle_inv_def same_outputs_def isBlockProven_def)
next
  case (journal pv b)
  note new = processJournal_Ok [OF journal(2)]
  from assms(2) show ?thesis
    unfolding oracle_inv_def isBlockProven_def new(2-4)
    using new(1) by (auto simp: max_def not_less split: if_splits)
qed

lemma oracle_exec_final:
  assumes "oracle_exec V msg call s = Ok (s', evs)" and "isBlockProven s n"
  shows "os_proposals s' n = os_proposals s n" "os_latestBlockNumber s \<le> os_latestBlockNumber s'"
proof -
  show "os_proposals s' n = os_proposals s n"
    using assms(1)
  proof (cases rule: oracle_exec_cases)
    case (journal pv b)
    then show ?thesis
      using processJournal_Ok(1,2) [OF journal(2)] assms(2) by (auto simp: isBlockProven_def)
  qed (simp add: same_outputs_def)
  show "os_latestBlockNumber s \<le> os_latestBlockNumber s'"
    using assms(1) by (cases rule: oracle_exec_cases) (auto simp: same_outputs_def dest: processJournal_Ok(3))
qed

lemma game_challenge_Ok:
  assumes "game_challenge msg o' n g = Ok (g', evs)"
  shows "isBlockProven o' n" "dp_createdAt (gs_disputes g n) = 0"
    "gs_disputes g' = (gs_disputes g)(n := \<lparr>dp_challenger = mg_sender msg, dp_blockNumber = n,
       dp_disputedOutputRoot = op_outputRoot (os_proposals o' n), dp_createdAt = ucast (mg_timestamp msg),
       dp_resolved = False, dp_valid = False\<rparr>)"
  using assms by (auto simp: game_challenge_def and_then_eq_Ok_iff Let_def)

lemma game_resolve_Ok:
  assumes "game_resolve V n pv pr b g = Ok (g', evs)"
  shows "isDisputed g n" "length pv = 192"
    "gs_disputes g' = (gs_disputes g)(n := (gs_disputes g n)\<lparr>dp_resolved := True,
       dp_valid := (slot_at 2 pv = dp_disputedOutputRoot (gs_disputes g n))\<rparr>)"
  using assms by (auto simp: game_resolve_def and_then_eq_Ok_iff isDisputed_def Let_def)

text \<open>A transaction to the game challenges, resolves or leaves the disputes alone.\<close>

lemma game_exec_cases:
  assumes "game_exec V msg o' call g = Ok (g', evs)"
  obtains (unchanged) "gs_disputes g' = gs_disputes g"
    | (challenge) n where "call = Challenge n" "isBlockProven o' n" "dp_createdAt (gs_disputes g n) = 0"
        "gs_disputes g' = (gs_disputes g)(n := \<lparr>dp_challenger = mg_sender msg, dp_blockNumber = n,
           dp_disputedOutputRoot = op_outputRoot (os_proposals o' n), dp_createdAt = ucast (mg_timestamp msg),
           dp_resolved = False, dp_valid = False\<rparr>)"
    | (resolve) n pv where "isDisputed g n" "length pv = 192"
        "gs_disputes g' = (gs_disputes g)(n := (gs_disputes g n)\<lparr>dp_resolved := True,
           dp_valid := (slot_at 2 pv = dp_disputedOutputRoot (gs_disputes g n))\<rparr>)"
proof (cases call)
  case (Challenge n)
  with assms have "game_challenge msg o' n g = Ok (g', evs)" by simp
  from challenge [OF Challenge game_challenge_Ok [OF this]] show thesis .
next
  case (Resolve n pv pr b)
  with assms have "game_resolve V n pv pr b g = Ok (g', evs)" by simp
  from resolve [OF game_resolve_Ok [OF this]] show thesis .
qed (use assms unchanged in \<open>auto simp: game_setSp1ProgramVKey_def game_setRisc0ImageId_def and_then_eq_Ok_iff\<close>)

definition game_inv :: "oracle_state \<Rightarrow> game_state \<Rightarrow> bool" where
  "game_inv s g \<longleftrightarrow> (\<forall>n.
     (dp_createdAt (gs_disputes g n) \<noteq> 0 \<longrightarrow>
        dp_blockNumber (gs_disputes g n) = n \<and> isBlockProven s n
        \<and> dp_disputedOutputRoot (gs_disputes g n) = op_outputRoot (os_proposals s n))
   \<and> (dp_valid (gs_disputes g n) \<longrightarrow> dp_resolved (gs_disputes g n))
   \<and> (dp_resolved (gs_disputes g n) \<longrightarrow> dp_createdAt (gs_disputes g n) \<noteq> 0))"

lemma game_exec_inv:
  assumes "game_exec V msg s call g = Ok (g', evs)" and "game_inv s g"
  shows "game_inv s g'"
  using assms(1)
proof (cases rule: game_exec_cases)
  case unchanged
  with assms(2) show ?thesis by (simp add: game_inv_def)
next
  case (challenge n)
  with assms(2) show ?thesis by (simp add: game_inv_def)
next
  case (resolve n pv)
  with assms(2) show ?thesis by (simp add: game_inv_def isDisputed_def)
qed

lemma game_inv_oracle:
  assumes "oracle_exec V msg call s = Ok (s', evs)" and "game_inv s g"
  shows "game_inv s' g"
  unfolding game_inv_def
proof (intro allI conjI impI)
  fix n
  assume "dp_createdAt (gs_disputes g n) \<noteq> 0"
  with assms(2) have old: "dp_blockNumber (gs_disputes g n) = n" "isBlockProven s n"
      "dp_disputedOutputRoot (gs_disputes g n) = op_outputRoot (os_proposals s n)"
    by (auto simp: game_inv_def)
  from oracle_exec_final(1) [OF assms(1) old(2)] old
  show "dp_blockNumber (gs_disputes g n) = n" "isBlockProven s' n"
    "dp_disputedOutputRoot (gs_disputes g n) = op_outputRoot (os_proposals s' n)"
    by (simp_all add: isBlockProven_def)
qed (use assms(2) in \<open>auto simp: game_inv_def\<close>)

lemma chain_step_inv:
  assumes "chain_step V c c'" and "oracle_inv (ch_oracle c)" and "game_inv (ch_oracle c) (ch_game c)"
  shows "oracle_inv (ch_oracle c')" "game_inv (ch_oracle c') (ch_game c')"
  using assms by (auto elim!: chain_stepE intro: oracle_exec_inv game_inv_oracle game_exec_inv)

lemma reachable_inv:
  assumes "chain_steps V c c'" and "deployed c"
  shows "oracle_inv (ch_oracle c') \<and> game_inv (ch_oracle c') (ch_game c')"
  using assms
proof (induction rule: chain_steps.induct)
  case (refl c)
  then show ?case
    by (auto simp: deployed_def oracle_inv_new game_inv_def game_new_def no_dispute_def)
next
  case (step c c' c'')
  then show ?case using chain_step_inv by blast
qed

lemma chain_steps_trans: "chain_steps V a b \<Longrightarrow> chain_steps V b c \<Longrightarrow> chain_steps V a c"
  by (rotate_tac, induction rule: chain_steps.induct) (auto intro: chain_steps.step)

text \<open>What later transactions preserve: proven outputs, open disputes and verdicts.\<close>

definition settled_in :: "chain \<Rightarrow> chain \<Rightarrow> bool" where
  "settled_in c c' \<longleftrightarrow>
     (\<forall>n. isBlockProven (ch_oracle c) n \<longrightarrow> os_proposals (ch_oracle c') n = os_proposals (ch_oracle c) n)
   \<and> os_latestBlockNumber (ch_oracle c) \<le> os_latestBlockNumber (ch_oracle c')
   \<and> (\<forall>n. dp_createdAt (gs_disputes (ch_game c) n) \<noteq> 0 \<longrightarrow>
        dp_challenger (gs_disputes (ch_game c') n) = dp_challenger (gs_disputes (ch_game c) n)
        \<and> dp_createdAt (gs_disputes (ch_game c') n) = dp_createdAt (gs_disputes (ch_game c) n))
   \<and> (\<forall>n. dp_createdAt (gs_disputes (ch_game c) n) \<noteq> 0 \<and> dp_resolved (gs_disputes (ch_game c) n) \<longrightarrow>
        gs_disputes (ch_game c') n = gs_disputes (ch_game c) n)"

lemma settled_refl: "settled_in c c"
  by (simp add: settled_in_def)

lemma settled_trans: "settled_in a b \<Longrightarrow> settled_in b c \<Longrightarrow> settled_in a c"
  by (auto simp: settled_in_def isBlockProven_def)

lemma latest_mono:
  assumes "oracle_exec V msg call s = Ok (s', evs)"
  shows "os_latestBlockNumber s \<le> os_latestBlockNumber s'"
  using assms by (cases rule: oracle_exec_cases) (auto simp: same_outputs_def dest: processJournal_Ok(3))

lemma chain_step_settled:
  assumes "chain_step V c c'"
  shows "settled_in c c'"
  using assms
proof (cases rule: chain_step.cases)
  case (oracle_tx msg call s' evs)
  then show ?thesis
    using oracle_exec_final(1) latest_mono by (simp add: settled_in_def)
next
  case (game_tx msg call g' evs)
  from game_tx(2) show ?thesis
    by (cases rule: game_exec_cases) (auto simp: settled_in_def game_tx(1) isDisputed_def)
qed

lemma chain_steps_settled: "chain_steps V c c' \<Longrightarrow> settled_in c c'"
  by (induction rule: chain_steps.induct) (auto intro: settled_refl settled_trans chain_step_settled)

section \<open>Properties of the contracts\<close>

text \<open>
  C9: what holds in every reachable state of the two contracts. A proven output is stored under
  its own block number, which is at most the latest one; a latest root that is not zero is the
  output of the latest block; every dispute is about a proven block and holds its output root;
  only created disputes are resolved and only resolved ones have a verdict.
\<close>

theorem reachable_contracts:
  assumes "deployed c0" and "chain_steps V c0 c"
  shows "(\<forall>n. isBlockProven (ch_oracle c) n \<longrightarrow>
        op_l2BlockNumber (os_proposals (ch_oracle c) n) = n \<and> n \<le> os_latestBlockNumber (ch_oracle c))
   \<and> (os_latestOutputRoot (ch_oracle c) \<noteq> 0 \<longrightarrow>
        op_outputRoot (os_proposals (ch_oracle c) (os_latestBlockNumber (ch_oracle c))) = os_latestOutputRoot (ch_oracle c))
   \<and> (\<forall>n. dp_createdAt (gs_disputes (ch_game c) n) \<noteq> 0 \<longrightarrow>
        dp_blockNumber (gs_disputes (ch_game c) n) = n \<and> isBlockProven (ch_oracle c) n
        \<and> dp_disputedOutputRoot (gs_disputes (ch_game c) n) = op_outputRoot (os_proposals (ch_oracle c) n))
   \<and> (\<forall>n. dp_valid (gs_disputes (ch_game c) n) \<longrightarrow> dp_resolved (gs_disputes (ch_game c) n))
   \<and> (\<forall>n. dp_resolved (gs_disputes (ch_game c) n) \<longrightarrow> dp_createdAt (gs_disputes (ch_game c) n) \<noteq> 0)"
  using reachable_inv [OF assms(2,1)] by (simp add: oracle_inv_def game_inv_def)

text \<open>
  C14: what no later transaction undoes. A proven output stays exactly as it is, the latest
  block number never decreases, an open dispute keeps its challenger and time, and a resolved
  dispute keeps its verdict.
\<close>

theorem outputs_settled:
  assumes "chain_steps V c c'"
  shows "(\<forall>n. isBlockProven (ch_oracle c) n \<longrightarrow> os_proposals (ch_oracle c') n = os_proposals (ch_oracle c) n)
   \<and> os_latestBlockNumber (ch_oracle c) \<le> os_latestBlockNumber (ch_oracle c')
   \<and> (\<forall>n. dp_createdAt (gs_disputes (ch_game c) n) \<noteq> 0 \<longrightarrow>
        dp_challenger (gs_disputes (ch_game c') n) = dp_challenger (gs_disputes (ch_game c) n)
        \<and> dp_createdAt (gs_disputes (ch_game c') n) = dp_createdAt (gs_disputes (ch_game c) n))
   \<and> (\<forall>n. dp_createdAt (gs_disputes (ch_game c) n) \<noteq> 0 \<and> dp_resolved (gs_disputes (ch_game c) n) \<longrightarrow>
        gs_disputes (ch_game c') n = gs_disputes (ch_game c) n)"
  using chain_steps_settled [OF assms] by (simp add: settled_in_def)

text \<open>Where a proven output comes from, by induction on the transactions.\<close>

lemma output_written:
  assumes "deployed c0" and "isBlockProven (ch_oracle (history V c0 txs)) n"
  shows "\<exists>pre msg call post key pv. txs = pre @ OracleTx msg call # post
     \<and> \<not> isBlockProven (ch_oracle (history V c0 pre)) n
     \<and> verified_call V (ch_oracle (history V c0 pre)) call key pv \<and> length pv = 192
     \<and> ucast (slot_at 3 pv) = n
     \<and> os_proposals (ch_oracle (history V c0 txs)) n =
         \<lparr>op_outputRoot = slot_at 2 pv, op_l2BlockNumber = n, op_l1Head = slot_at 0 pv,
          op_timestamp = ucast (mg_timestamp msg)\<rparr>"
  using assms(2)
proof (induction txs rule: rev_induct)
  case Nil
  with assms(1) show ?case by (auto simp: deployed_def isBlockProven_def oracle_new_def no_proposal_def)
next
  case (snoc t txs)
  let ?c = "history V c0 txs"
  show ?case
  proof (cases "isBlockProven (ch_oracle ?c) n")
    case True
    then have "os_proposals (ch_oracle (history V c0 (txs @ [t]))) n = os_proposals (ch_oracle ?c) n"
      using apply_tx_cases [of V t ?c] chain_step_settled [of V ?c "apply_tx V t ?c"]
      by (auto simp: settled_in_def)
    with snoc.IH [OF True] show ?thesis
      by (elim exE conjE) (intro exI conjI; (assumption | simp))
  next
    case False
    with snoc.prems obtain msg call s' evs where t: "t = OracleTx msg call"
      and ex: "oracle_exec V msg call (ch_oracle ?c) = Ok (s', evs)"
      by (cases t) (auto split: outcome.splits)
    from ex show ?thesis
    proof (cases rule: oracle_exec_cases)
      case unchanged
      with False snoc.prems t ex show ?thesis by (simp add: same_outputs_def isBlockProven_def)
    next
      case (journal pv b key)
      note new = processJournal_Ok [OF journal(2)]
      have n: "n = ucast (slot_at 3 pv)"
        using False snoc.prems t ex new(2) by (auto simp: isBlockProven_def split: if_splits)
      show ?thesis
        using False journal(1,3) n new(2)
        by (intro exI [of _ txs] exI [of _ msg] exI [of _ call] exI [of _ "[]"] exI [of _ key] exI [of _ pv])
          (simp add: t ex)
    qed
  qed
qed

text \<open>
  C8: only verified outputs are proven. In whatever history, an output that is proven was
  written by a transaction of that history, in whose state the block was not proven yet, and
  which submitted public values with a proof that one of the oracle's two verifiers accepts
  there for the program key configured there. What is stored is those values' root and L1 head,
  under their block number modulo 2^64, with the time of that transaction.
\<close>

theorem proven_was_verified:
  assumes "deployed c0" and "isBlockProven (ch_oracle (history V c0 txs)) n"
  shows "\<exists>pre msg call post key pv. txs = pre @ OracleTx msg call # post
     \<and> \<not> isBlockProven (ch_oracle (history V c0 pre)) n
     \<and> verified_call V (ch_oracle (history V c0 pre)) call key pv \<and> length pv = 192
     \<and> ucast (slot_at 3 pv) = n
     \<and> os_proposals (ch_oracle (history V c0 txs)) n =
         \<lparr>op_outputRoot = slot_at 2 pv, op_l2BlockNumber = n, op_l1Head = slot_at 0 pv,
          op_timestamp = ucast (mg_timestamp msg)\<rparr>"
  using output_written [OF assms] .

text \<open>
  C29: a verdict needs no proof about the disputed block. For an open dispute, any proof of any
  journal that the game's SP1 verifier (backend 0) or its RISC Zero verifier (backend 1) accepts
  for the configured program resolves it, whatever block number, head and pre-root the journal
  has; the verdict is only whether the journal's post-root is the disputed root, the event names
  that verdict and the backend, and the block can never be challenged again.
\<close>

theorem verdict_by_any_journal:
  assumes "journal_abi enc dec" and "isDisputed g n"
    and "backend = 0 \<and> vf_sp1 V (gs_sp1Verifier g) (gs_sp1ProgramVKey g) (journal_to_abi_bytes enc j) pr
       \<or> backend = 1 \<and> vf_risc0 V (gs_risc0Verifier g) pr (gs_risc0ImageId g) (vf_sha256 V (journal_to_abi_bytes enc j))"
  shows "\<exists>g'. game_resolve V n (journal_to_abi_bytes enc j) pr backend g =
         Ok (g', [DisputeResolvedOnChain n (j_l2_post_root j = dp_disputedOutputRoot (gs_disputes g n))
                    (if backend = 0 then SP1 else RISC_ZERO)])
     \<and> dp_resolved (gs_disputes g' n)
     \<and> (dp_valid (gs_disputes g' n) \<longleftrightarrow> j_l2_post_root j = dp_disputedOutputRoot (gs_disputes g n))
     \<and> \<not> isDisputed g' n
     \<and> game_challenge msg s n g' = Err (if isBlockProven s n then AlreadyDisputed else BlockNotProven)"
proof -
  have "length (journal_to_abi_bytes enc j) = 192" "slot_at 2 (journal_to_abi_bytes enc j) = j_l2_post_root j"
    using journal_abi.length_to_abi_bytes [OF assms(1)] journal_abi.to_abi_bytes_slot_at(3) [OF assms(1)] by auto
  with assms(2,3) show ?thesis
    by (auto simp: game_resolve_def isDisputed_def game_challenge_def Let_def)
qed

section \<open>The clients on the chain\<close>

text \<open>
  The submitter's transactions and the monitor's calls, served by the two contracts at their
  addresses.  \<open>decode\<close> recognises the ABI encodings of the calls; the blocks are a parameter.
\<close>

fun oracle_view :: "contract_call \<Rightarrow> oracle_state \<Rightarrow> bytes option" where
  "oracle_view LatestOutputRoot s = Some (abi_words [os_latestOutputRoot s])"
| "oracle_view LatestBlockNumber s = Some (abi_words [ucast (os_latestBlockNumber s)])"
| "oracle_view (IsBlockProven n) s = Some (abi_words [if isBlockProven s n then 1 else 0])"
| "oracle_view _ s = None"

fun game_view :: "contract_call \<Rightarrow> game_state \<Rightarrow> bytes option" where
  "game_view (IsDisputed n) g = Some (abi_words [if isDisputed g n then 1 else 0])"
| "game_view _ g = None"

definition chain_tx_env :: "verifiers \<Rightarrow> msg \<Rightarrow> address \<Rightarrow> address \<Rightarrow> (chain, string, b256) tx_env" where
  "chain_tx_env V msg oracle game =
     \<lparr>tx_parse_url = (\<lambda>_. Ok ()),
      tx_parse_key = Ok,
      tx_send = (\<lambda>_ to call c.
        if to = oracle
        then (case oracle_exec V msg call (ch_oracle c) of
                Ok (s', _) \<Rightarrow> (Ok 1, c\<lparr>ch_oracle := s'\<rparr>) | _ \<Rightarrow> (Err ''execution reverted'', c))
        else if to = game
        then (case game_exec V msg (ch_oracle c) call (ch_game c) of
                Ok (g', _) \<Rightarrow> (Ok 1, c\<lparr>ch_game := g'\<rparr>) | _ \<Rightarrow> (Err ''execution reverted'', c))
        else (Err ''no code at address'', c)),
      tx_get_receipt = (\<lambda>h c. (Ok h, c))\<rparr>"

definition chain_node ::
  "(bytes \<Rightarrow> contract_call option) \<Rightarrow> ('url \<Rightarrow> block_tag \<Rightarrow> block_header) \<Rightarrow> address \<Rightarrow> address
     \<Rightarrow> (chain, 'url) node_ops" where
  "chain_node decode blocks oracle game =
     \<lparr>no_get_block_by_number = (\<lambda>url tag. act_return (Some (blocks url tag))),
      no_call = (\<lambda>_ to data c.
        (ok_or ''execution reverted''
           (case decode data of
              None \<Rightarrow> None
            | Some call \<Rightarrow> if to = oracle then oracle_view call (ch_oracle c)
                           else if to = game then game_view call (ch_game c) else None), c)),
      no_now = (\<lambda>_. (0, 0))\<rparr>"

lemma chain_send_oracle:
  assumes "sent (chain_tx_env V msg oa ga) self oa call c tx c'"
  obtains s' evs where "oracle_exec V msg call (ch_oracle c) = Ok (s', evs)" "c' = c\<lparr>ch_oracle := s'\<rparr>"
  using assms by (auto simp: sent_def chain_tx_env_def split: outcome.splits prod.splits)

text \<open>What a successful submission writes.\<close>

lemma submission_stored:
  assumes abi: "journal_abi enc dec"
    and submit: "rpc_submit_proof enc (chain_tx_env V msg oa ga) self j a c = (Ok tx, c')"
    and address: "rs_oracle_address self = oa"
  obtains s' where "c' = c\<lparr>ch_oracle := s'\<rparr>"
    "op_outputRoot (os_proposals s' (j_l2_block_number j)) = j_l2_post_root j"
    "op_l1Head (os_proposals s' (j_l2_block_number j)) = j_l1_head j"
    "os_latestBlockNumber s' = max (os_latestBlockNumber (ch_oracle c)) (j_l2_block_number j)"
proof -
  let ?pv = "journal_to_abi_bytes enc j"
  have slots: "length ?pv = 192" "slot_at 0 ?pv = j_l1_head j" "slot_at 2 ?pv = j_l2_post_root j"
      "slot_at 3 ?pv = ucast (j_l2_block_number j)"
    using journal_abi.length_to_abi_bytes [OF abi] journal_abi.to_abi_bytes_slot_at [OF abi] by auto
  from submit address obtain call where
    call: "call = SubmitSp1Proof ?pv (pa_proof_bytes a) \<or> call = SubmitRisc0Proof ?pv (pa_proof_bytes a)"
      "sent (chain_tx_env V msg oa ga) self oa call c tx c'"
    unfolding rpc_submit_proof_Ok_iff by blast
  from call(2) obtain s' evs where ex: "oracle_exec V msg call (ch_oracle c) = Ok (s', evs)"
      and c': "c' = c\<lparr>ch_oracle := s'\<rparr>" by (rule chain_send_oracle)
  from ex call(1) obtain b where "processJournal msg ?pv b (ch_oracle c) = Ok (s', evs)"
    by (auto simp: submitSp1Proof_def submitRisc0Proof_def and_then_eq_Ok_iff)
  note new = processJournal_Ok [OF this, unfolded slots ucast_ucast_u64]
  show thesis by (rule that [OF c']) (simp_all add: new)
qed


lemma low_bytes_encoded: "be_word (take 8 (drop 24 (abi_words [ucast n]))) = (n :: u64)"
  using decode_proven_block_encoded [of n] by (simp add: decode_proven_block_def subslice_def)

lemma bool_word_last: "abi_words [if b then 1 else 0] ! 31 = (if b then 1 else 0)"
proof -
  have "le_bytes 32 w ! 0 = ucast w" for w :: b256
    using le_bytes.simps(2) [of 31 w] by (simp del: le_bytes.simps)
  then have "be_bytes 32 w ! 31 = ucast w" for w :: b256
    by (simp add: be_bytes_def rev_nth del: le_bytes.simps)
  then show ?thesis by simp
qed

text \<open>
  C30: which disputes the monitor sees. On a chain with a dispute game the RPC monitor reports a
  dispute exactly when the latest proven block is disputed; an open dispute of any earlier
  block is never reported.
\<close>

theorem dispute_seen_only_latest:
  assumes "decode lc = Some LatestBlockNumber" and "\<And>n. decode (dc n) = Some (IsDisputed n)"
    and "rm_oracle_address mon = oa" and "rm_dispute_address mon = Some ga" and "ga \<noteq> oa"
  shows "rpc_active_dispute (chain_node decode blocks oa ga) lc dc mon c =
     (if isDisputed (ch_game c) (os_latestBlockNumber (ch_oracle c))
      then Some \<lparr>di_start_block = os_latestBlockNumber (ch_oracle c), di_end_block = os_latestBlockNumber (ch_oracle c)\<rparr>
      else None, c)"
  using assms low_bytes_encoded [of "os_latestBlockNumber (ch_oracle c)"]
    bool_word_last [of "isDisputed (ch_game c) (os_latestBlockNumber (ch_oracle c))"]
  by (simp add: rpc_active_dispute_def chain_node_def Let_def del: abi_words_simps)

section \<open>A small run\<close>

text \<open>A deployment, a submitted proof of block 10 and a challenge of it.\<close>

definition sample_verifiers :: verifiers where
  "sample_verifiers = \<lparr>vf_sp1 = (\<lambda>_ _ _ _. True), vf_risc0 = (\<lambda>_ _ _ _. True), vf_sha256 = (\<lambda>_. 0)\<rparr>"

definition sample_msg :: msg where
  "sample_msg = \<lparr>mg_sender = 1, mg_timestamp = 5\<rparr>"

definition sample_c0 :: chain where
  "sample_c0 = \<lparr>ch_oracle = oracle_new sample_msg 6 7 8 9, ch_game = game_new sample_msg 3 6 7 8 9 3600\<rparr>"

definition sample_c1 :: chain where
  "sample_c1 = sample_c0\<lparr>ch_oracle := (ch_oracle sample_c0)\<lparr>
     os_proposals := (\<lambda>_. no_proposal)(10 :=
       \<lparr>op_outputRoot = 2, op_l2BlockNumber = 10, op_l1Head = 9, op_timestamp = 5\<rparr>),
     os_latestBlockNumber := 10, os_latestOutputRoot := 2\<rparr>\<rparr>"

definition sample_c2 :: chain where
  "sample_c2 = sample_c1\<lparr>ch_game := (ch_game sample_c1)\<lparr>
     gs_disputes := (\<lambda>_. no_dispute)(10 :=
       \<lparr>dp_challenger = 1, dp_blockNumber = 10, dp_disputedOutputRoot = 2, dp_createdAt = 5,
        dp_resolved = False, dp_valid = False\<rparr>)\<rparr>\<rparr>"

abbreviation sample_pv :: bytes where
  "sample_pv \<equiv> journal_to_abi_bytes output_encode sample_state_journal"

lemma sample_slots:
  "length sample_pv = 192" "slot_at 0 sample_pv = 9" "slot_at 2 sample_pv = 2"
  "slot_at 3 sample_pv = 10"
  using out_abi.length_to_abi_bytes out_abi.to_abi_bytes_slot_at [of sample_state_journal]
  by (simp_all add: sample_state_journal_def)

lemma sample_submit:
  "oracle_exec sample_verifiers sample_msg (SubmitSp1Proof sample_pv pr) (ch_oracle sample_c0) =
     Ok (ch_oracle sample_c1, [OutputRootSubmitted 2 10 9 SP1])"
  by (simp add: submitSp1Proof_def processJournal_def sample_slots Let_def sample_verifiers_def sample_msg_def
    sample_c0_def sample_c1_def oracle_new_def no_proposal_def)

lemma sample_challenge:
  "game_exec sample_verifiers sample_msg (ch_oracle sample_c1) (Challenge 10) (ch_game sample_c1) =
     Ok (ch_game sample_c2, [DisputeCreated 10 1 2])"
  by (simp add: game_challenge_def isBlockProven_def Let_def sample_msg_def sample_c0_def sample_c1_def
    sample_c2_def oracle_new_def game_new_def no_dispute_def)

lemma sample_steps:
  "chain_steps sample_verifiers sample_c0 sample_c1" "chain_steps sample_verifiers sample_c1 sample_c2"
  using chain_steps.step [OF chain_steps.refl chain_step.oracle_tx [OF sample_submit]]
    chain_steps.step [OF chain_steps.refl chain_step.game_tx [OF sample_challenge]]
  by (simp_all add: sample_c1_def sample_c2_def sample_c0_def)

lemma sample_deployed: "deployed sample_c0"
  unfolding deployed_def sample_c0_def by blast

theorem reachable_contracts_witness:
  "op_l2BlockNumber (os_proposals (ch_oracle sample_c2) 10) = 10
   \<and> dp_disputedOutputRoot (gs_disputes (ch_game sample_c2) 10) = 2"
proof -
  have "isBlockProven (ch_oracle sample_c2) 10" "dp_createdAt (gs_disputes (ch_game sample_c2) 10) \<noteq> 0"
    "op_outputRoot (os_proposals (ch_oracle sample_c2) 10) = 2"
    by (simp_all add: isBlockProven_def sample_c2_def sample_c1_def)
  with reachable_contracts [OF sample_deployed chain_steps_trans [OF sample_steps]] show ?thesis by metis
qed

theorem outputs_settled_witness:
  "os_proposals (ch_oracle sample_c2) 10 = os_proposals (ch_oracle sample_c1) 10"
proof -
  have "isBlockProven (ch_oracle sample_c1) 10" by (simp add: isBlockProven_def sample_c1_def)
  with outputs_settled [OF sample_steps(2)] show ?thesis by blast
qed

text \<open>A history with a reverted transaction, the submission, and a challenge.\<close>

definition sample_txs :: "transaction list" where
  "sample_txs = [OracleTx sample_msg (SubmitSp1Proof [] []), OracleTx sample_msg (SubmitSp1Proof sample_pv []),
     GameTx sample_msg (Challenge 10)]"

lemma sample_history: "history sample_verifiers sample_c0 sample_txs = sample_c2"
proof -
  have "apply_tx sample_verifiers (OracleTx sample_msg (SubmitSp1Proof [] [])) sample_c0 = sample_c0"
    by (simp add: submitSp1Proof_def)
  moreover have "apply_tx sample_verifiers (OracleTx sample_msg (SubmitSp1Proof sample_pv [])) sample_c0 = sample_c1"
    using sample_submit [of "[]"] by (simp add: sample_c1_def del: oracle_exec.simps)
  moreover have "apply_tx sample_verifiers (GameTx sample_msg (Challenge 10)) sample_c1 = sample_c2"
    using sample_challenge by (simp add: sample_c2_def del: game_exec.simps)
  ultimately show ?thesis by (simp add: sample_txs_def history_def)
qed

theorem proven_was_verified_witness:
  "\<exists>pre msg call post key pv. sample_txs = pre @ OracleTx msg call # post
     \<and> verified_call sample_verifiers (ch_oracle (history sample_verifiers sample_c0 pre)) call key pv
     \<and> slot_at 2 pv = 2 \<and> mg_timestamp msg = 5"
proof -
  have proven: "isBlockProven (ch_oracle (history sample_verifiers sample_c0 sample_txs)) 10"
    and written: "op_outputRoot (os_proposals (ch_oracle sample_c2) 10) = 2"
    by (simp_all add: sample_history isBlockProven_def sample_c2_def sample_c1_def)
  from proven_was_verified [OF sample_deployed proven] obtain pre msg call post key pv where
    split: "sample_txs = pre @ OracleTx msg call # post"
    and acc: "verified_call sample_verifiers (ch_oracle (history sample_verifiers sample_c0 pre)) call key pv"
    and stored: "os_proposals (ch_oracle (history sample_verifiers sample_c0 sample_txs)) 10 =
         \<lparr>op_outputRoot = slot_at 2 pv, op_l2BlockNumber = 10, op_l1Head = slot_at 0 pv,
          op_timestamp = ucast (mg_timestamp msg)\<rparr>"
    by (elim exE conjE)
  have "OracleTx msg call \<in> set sample_txs" unfolding split by simp
  then have "mg_timestamp msg = 5" by (auto simp: sample_txs_def sample_msg_def)
  moreover from stored written have "slot_at 2 pv = 2" by (simp add: sample_history)
  ultimately show ?thesis using split acc by blast
qed

theorem verdict_by_any_journal_witness:
  "\<exists>g'. game_resolve sample_verifiers 10
       (journal_to_abi_bytes output_encode (sample_state_journal\<lparr>j_l2_block_number := 77, j_l2_post_root := 5\<rparr>)) [] 1
       (ch_game sample_c2) = Ok (g', [DisputeResolvedOnChain 10 False RISC_ZERO])
     \<and> \<not> dp_valid (gs_disputes g' 10) \<and> \<not> isDisputed g' 10"
proof -
  let ?j = "sample_state_journal\<lparr>j_l2_block_number := 77, j_l2_post_root := 5\<rparr>"
  have g: "isDisputed (ch_game sample_c2) 10" "dp_disputedOutputRoot (gs_disputes (ch_game sample_c2) 10) = 2"
    by (simp_all add: isDisputed_def sample_c2_def)
  have "(1 :: u8) = 0 \<and> vf_sp1 sample_verifiers (gs_sp1Verifier (ch_game sample_c2)) (gs_sp1ProgramVKey (ch_game sample_c2))
          (journal_to_abi_bytes output_encode ?j) []
      \<or> (1 :: u8) = 1 \<and> vf_risc0 sample_verifiers (gs_risc0Verifier (ch_game sample_c2)) [] (gs_risc0ImageId (ch_game sample_c2))
          (vf_sha256 sample_verifiers (journal_to_abi_bytes output_encode ?j))"
    by (simp add: sample_verifiers_def)
  from verdict_by_any_journal [OF out_abi.journal_abi_axioms g(1) this, of sample_msg "ch_oracle sample_c2"] g(2)
  show ?thesis by auto
qed

definition sample_decode :: "bytes \<Rightarrow> contract_call option" where
  "sample_decode bs =
     (if bs = [1] then Some LatestBlockNumber
      else if length bs = 9 then Some (IsDisputed (be_word (tl bs))) else None)"

definition sample_blocks :: "unit \<Rightarrow> block_tag \<Rightarrow> block_header" where
  "sample_blocks url tag = \<lparr>bh_hash = 4, bh_number = 50, bh_state_root = 0, bh_withdrawals_root = None\<rparr>"

definition sample_monitor :: "unit rpc_chain_monitor" where
  "sample_monitor = \<lparr>rm_l1_rpc_url = (), rm_l2_rpc_url = (), rm_oracle_address = 3, rm_dispute_address = Some 4\<rparr>"


theorem dispute_seen_only_latest_witness:
  "rpc_active_dispute (chain_node sample_decode sample_blocks 3 4) [1] (\<lambda>n. 2 # be_bytes 8 n) sample_monitor sample_c2
     = (Some \<lparr>di_start_block = 10, di_end_block = 10\<rparr>, sample_c2)"
proof -
  have "sample_decode (2 # be_bytes 8 n) = Some (IsDisputed n)" for n
    by (simp add: sample_decode_def be_word_be_bytes take_bit_word_eq_self)
  moreover have "sample_decode [1] = Some LatestBlockNumber" by (simp add: sample_decode_def)
  ultimately have "rpc_active_dispute (chain_node sample_decode sample_blocks 3 4) [1] (\<lambda>n. 2 # be_bytes 8 n)
      sample_monitor sample_c2 =
     (if isDisputed (ch_game sample_c2) (os_latestBlockNumber (ch_oracle sample_c2))
      then Some \<lparr>di_start_block = os_latestBlockNumber (ch_oracle sample_c2),
                 di_end_block = os_latestBlockNumber (ch_oracle sample_c2)\<rparr>
      else None, sample_c2)"
    by (intro dispute_seen_only_latest) (simp_all add: sample_monitor_def)
  moreover have "isDisputed (ch_game sample_c2) 10" "os_latestBlockNumber (ch_oracle sample_c2) = 10"
    by (simp_all add: isDisputed_def sample_c2_def sample_c1_def)
  ultimately show ?thesis by simp
qed

end
