(* ===== verification/Composition.thy ===== *)
theory Composition
  imports Planning Aggregation
begin

text \<open>
  Planning, proving and aggregating put together: the ranges that the orchestrator plans, the
  journals that range proofs for them commit, and the aggregation guest on those journals.
\<close>

section \<open>The planned windows in order\<close>

lemma windows_fst: "i < length (windows w a b) \<Longrightarrow> fst (windows w a b ! i) = a + i * w"
proof (induction w a b arbitrary: i rule: windows.induct)
  case (1 w a b)
  show ?case
  proof (cases "0 < w \<and> a \<le> b")
    case False
    with "1.prems" show ?thesis by (simp add: windows.simps)
  next
    case True
    let ?y = "min (a + w - 1) b"
    show ?thesis
    proof (cases i)
      case (Suc j)
      have j: "j < length (windows w (?y + 1) b)"
        using "1.prems" True Suc by (simp add: windows_step)
      then have "?y + 1 \<le> b" by (cases "?y + 1 \<le> b") auto
      then have "?y + 1 = a + w" using True by auto
      with "1.IH" [OF True j] Suc True show ?thesis by (simp add: windows_step)
    qed (use True in \<open>simp add: windows_step\<close>)
  qed
qed

lemma windows_consecutive:
  assumes "Suc i < length (windows w a b)"
  shows "fst (windows w a b ! Suc i) = Suc (snd (windows w a b ! i))"
proof -
  have "0 < w" using assms by (cases w) (simp_all add: windows.simps)
  with windows_fst [OF assms] windows_full_but_last [of i w a b] assms show ?thesis by simp
qed

lemma windows_last: "0 < w \<Longrightarrow> a \<le> b \<Longrightarrow> windows w a b \<noteq> [] \<and> snd (last (windows w a b)) = b"
proof (induction w a b rule: windows.induct)
  case (1 w a b)
  then show ?case
    by (cases "min (a + w - 1) b + 1 \<le> b") (auto simp: windows_step)
qed

section \<open>The journals of the planned ranges\<close>

text \<open>
  \<open>agreed n\<close> is the output root taken as the agreed one of a range that starts at block \<open>n\<close>,
  \<open>root n\<close> the root after block \<open>n\<close>.
\<close>

definition range_journal :: "(nat \<Rightarrow> b256) \<Rightarrow> (nat \<Rightarrow> b256) \<Rightarrow> b256 \<Rightarrow> b256 \<Rightarrow> proof_request \<Rightarrow> journal" where
  "range_journal agreed root config_hash program_id r =
     \<lparr>j_l1_head = req_l1_head r,
      j_l2_pre_root = agreed (unat (req_l2_start_block r)),
      j_l2_post_root = root (unat (req_l2_end_block r)),
      j_l2_block_number = req_l2_end_block r,
      j_rollup_config_hash = config_hash,
      j_program_id = program_id\<rparr>"

lemma range_journals_chained:
  assumes "map request_range rs = windows w a b"
  shows "chained (map (range_journal agreed root cfg pid) rs) \<longleftrightarrow>
     (\<forall>i. Suc i < length rs \<longrightarrow> agreed (a + Suc i * w) = root (a + Suc i * w - 1))"
proof -
  have len: "length (windows w a b) = length rs" by (simp flip: assms)
  have nth: "request_range (rs ! i) = windows w a b ! i" if "i < length rs" for i
    using that by (simp flip: assms)
  have "linked (range_journal agreed root cfg pid (rs ! i)) (range_journal agreed root cfg pid (rs ! Suc i))
      \<longleftrightarrow> agreed (a + Suc i * w) = root (a + Suc i * w - 1)" if i: "Suc i < length rs" for i
  proof -
    have "fst (request_range (rs ! Suc i)) = a + Suc i * w"
      using windows_fst [of "Suc i" w a b] nth [of "Suc i"] i len by simp
    moreover from this have "snd (request_range (rs ! i)) = a + Suc i * w - 1"
      using windows_consecutive [of i w a b] nth [of i] nth [of "Suc i"] i len by simp
    ultimately show ?thesis
      by (auto simp: linked_def range_journal_def request_range_def)
  qed
  then show ?thesis by (auto simp: chained_def)
qed

text \<open>
  C15: whether the proofs of a planned range aggregate. If each range's agreed root is the one
  before its first block, the journals of the planned ranges aggregate into the journal of the
  whole range, from the root before the first block to the root after the last. If it is the
  root after the first block, which is what the witness helper asks the node for, they
  aggregate only if the root does not change at the start of any range but the first.
\<close>

theorem planned_ranges_aggregate:
  assumes "fits_u64 (unat e + unat (ri_aggregation_window intent))" and "0 < ri_aggregation_window intent"
    and "start \<le> e" and "plan_range m intent start e st = Some (Ok reqs)"
  shows "aggregate_journals (map (range_journal (\<lambda>n. root (n - 1)) root cfg pid) reqs) =
       Ok \<lparr>j_l1_head = cs_l1_head st, j_l2_pre_root = root (unat start - 1), j_l2_post_root = root (unat e),
           j_l2_block_number = e, j_rollup_config_hash = cfg, j_program_id = pid\<rparr>
   \<and> ((\<exists>j. aggregate_journals (map (range_journal root root cfg pid) reqs) = Ok j) \<longleftrightarrow>
       (\<forall>i. Suc i < length reqs \<longrightarrow>
          root (unat start + Suc i * unat (ri_aggregation_window intent)) =
          root (unat start + Suc i * unat (ri_aggregation_window intent) - 1)))"
proof -
  let ?w = "unat (ri_aggregation_window intent)"
  obtain reqs' where "plan_range m intent start e st = Some (Ok reqs')"
    and ranges': "map request_range reqs' = windows ?w (unat start) (unat e)"
    and l1': "\<forall>r \<in> set reqs'. req_l1_head r = cs_l1_head st \<and> req_mode r = ri_proving_mode intent
        \<and> req_l2_start_output_root r = 0"
    using plan_range_windows [OF assms(1-3)] by blast
  with assms(4) have ranges: "map request_range reqs = windows ?w (unat start) (unat e)"
    and l1: "\<forall>r \<in> set reqs. req_l1_head r = cs_l1_head st" by auto
  have w: "0 < ?w" and le: "unat start \<le> unat e"
    using assms(2,3) by (simp_all add: word_less_nat_alt word_le_nat_alt)
  have ne: "reqs \<noteq> []"
    using windows_last [OF w le] ranges by auto
  have "fst (request_range (hd reqs)) = unat start"
    using windows_fst [of 0 ?w "unat start" "unat e"] ne by (simp flip: ranges add: hd_map hd_conv_nth)
  moreover have "snd (request_range (last reqs)) = unat e"
    using windows_last [OF w le] ne by (simp flip: ranges add: last_map)
  ultimately have ends: "unat (req_l2_start_block (hd reqs)) = unat start" "req_l2_end_block (last reqs) = e"
    by (simp_all add: request_range_def word_unat_eq_iff)
  have "span (map (range_journal agreed root cfg pid) reqs) =
      \<lparr>j_l1_head = cs_l1_head st, j_l2_pre_root = agreed (unat start), j_l2_post_root = root (unat e),
       j_l2_block_number = e, j_rollup_config_hash = cfg, j_program_id = pid\<rparr>" for agreed
    using ne l1 ends by (simp add: span_def hd_map last_map range_journal_def)
  with ne show ?thesis
    by (simp add: aggregate_journals_eq range_journals_chained [OF ranges])
qed

theorem planned_ranges_aggregate_witness:
  "\<exists>reqs. plan_range Debug sample_intent 501 750 (mock_monitor_default_state (0, 0)) = Some (Ok reqs)
     \<and> aggregate_journals (map (range_journal (\<lambda>n. of_nat (n - 1)) of_nat 0 0) reqs) =
         Ok \<lparr>j_l1_head = 0, j_l2_pre_root = 500, j_l2_post_root = 750, j_l2_block_number = 750,
             j_rollup_config_hash = 0, j_program_id = 0\<rparr>
     \<and> (\<nexists>j. aggregate_journals (map (range_journal of_nat of_nat 0 0) reqs) = Ok j)"
proof -
  let ?st = "mock_monitor_default_state (0, 0)"
  have w: "ri_aggregation_window sample_intent = 100" by (simp add: sample_intent_def intent_resolve_def)
  have fits: "fits_u64 (unat (750 :: u64) + unat (ri_aggregation_window sample_intent))"
    "0 < ri_aggregation_window sample_intent" "(501 :: u64) \<le> 750"
    by (simp_all add: w fits_u64_def)
  obtain reqs where plan: "plan_range Debug sample_intent 501 750 ?st = Some (Ok reqs)"
    and ranges: "map request_range reqs = windows 100 501 750"
    using plan_range_windows [OF fits, of Debug ?st] by (auto simp: w)
  have len: "length reqs = 3"
    using length_windows [of 100 501 750] by (simp flip: ranges)
  have "(601 :: b256) \<noteq> 600" by simp
  then have "\<not> (\<forall>i. Suc i < length reqs \<longrightarrow> (of_nat (501 + Suc i * 100) :: b256) = of_nat (501 + Suc i * 100 - 1))"
    using len by (intro notI) (drule spec [of _ 0], simp)
  with planned_ranges_aggregate [OF fits plan, of of_nat 0 0] plan show ?thesis
    by (simp add: w mock_monitor_default_state_def) blast
qed

end
