(* ===== verification/Soundness.thy ===== *)
theory Soundness
  imports Onchain Composition Pipeline
begin

text \<open>
  From the guests to the chain: what an output that the oracle of \<open>Onchain\<close> stores says about
  runs of the guest programs of \<open>Pipeline\<close> and \<open>Aggregation\<close>, and what it does not say.  The
  proof system is a locale: a verifier accepts public values for a program key only if a run of
  the program with that key committed them; its completeness is an extension of it.
\<close>

section \<open>The proof system\<close>

text \<open>The journals that the range guest commits on some input.\<close>

definition range_attests ::
  "(bool \<Rightarrow> bytes \<Rightarrow> preimages option)
     \<Rightarrow> ('orc, 'cfg, 'l1c, 'hdr, 'l1p, 'l2p, 'cur, 'da, 'pipe, 'exec) kona_ops
     \<Rightarrow> ('l1p, 'orc, 'cfg, 'da) da_source_factory \<Rightarrow> journal \<Rightarrow> bool" where
  "range_attests check_root K factory j \<longleftrightarrow> (\<exists>bs store boot. from_rkyv_bytes check_root bs = Some store
     \<and> pipeline_accepts K factory store boot \<and> j = boot_journal boot)"

text \<open>
  \<open>commits key pv\<close>: some finished run of the program with that key, on an input of the prover's
  choice, committed exactly \<open>pv\<close>.  The aggregation guest knows the range program by the words
  of its key.
\<close>

locale proof_system = guest_stream io input committed accepts + journal_abi enc dec
  for io :: "'s zkvm_io" and input committed accepts enc
    and dec :: "bytes \<Rightarrow> ('e, state_transition_output) outcome" +
  fixes V :: verifiers
    and commits :: "b256 \<Rightarrow> bytes \<Rightarrow> bool"
    and check_root :: "bool \<Rightarrow> bytes \<Rightarrow> preimages option"
    and K :: "('orc, 'cfg, 'l1c, 'hdr, 'l1p, 'l2p, 'cur, 'da, 'pipe, 'exec) kona_ops"
    and factory :: "('l1p, 'orc, 'cfg, 'da) da_source_factory"
    and range_key agg_key :: b256
    and range_words :: program_words
  assumes sp1_sound: "vf_sp1 V a key pv pr \<Longrightarrow> commits key pv"
    and risc0_sound: "vf_risc0 V a seal key (vf_sha256 V pv) \<Longrightarrow> commits key pv"
    and range_program: "commits range_key pv \<longleftrightarrow>
      (\<exists>s s'. committed s = [] \<and> range_main enc check_root K factory io s = (Ok (), s') \<and> committed s' = pv)"
    and agg_program: "commits agg_key pv \<longleftrightarrow>
      (\<exists>s s'. committed s = [] \<and> aggregation_main enc dec io s = (Ok (), s') \<and> committed s' = pv)"
    and inner_sound: "accepts range_words pv \<Longrightarrow> commits range_key pv"
begin

lemma ran_range:
  assumes "commits range_key pv"
  obtains j where "range_attests check_root K factory j" "pv = journal_to_abi_bytes enc j"
proof -
  from assms obtain s s' where run: "committed s = []"
      "range_main enc check_root K factory io s = (Ok (), s')" "committed s' = pv"
    unfolding range_program by blast
  then have "\<exists>s'. range_main enc check_root K factory io s = (Ok (), s') \<and> committed s' = pv" by blast
  then obtain bs store boot where "from_rkyv_bytes check_root bs = Some store"
      "pipeline_accepts K factory store boot" "pv = journal_to_abi_bytes enc (boot_journal boot)"
    unfolding range_main_commits [OF guest_stream_axioms] run(1) by auto
  then show thesis
    by (intro that [of "boot_journal boot"]) (auto simp: range_attests_def)
qed

lemma ran_agg:
  assumes "commits agg_key pv"
  obtains vkey js where "js \<noteq> []" "chained js" "pv = journal_to_abi_bytes enc (span js)"
    "\<forall>j \<in> set js. \<exists>bs. accepts vkey bs \<and> journal_from_abi_bytes dec bs = Ok j"
    "vkey = range_words \<longrightarrow> (\<forall>j \<in> set js. range_attests check_root K factory j)"
proof -
  from assms obtain s s' where run: "committed s = []"
      "aggregation_main enc dec io s = (Ok (), s')" "committed s' = pv"
    unfolding agg_program by blast
  from aggregation_main_finished [OF run(2)] obtain vkey bss js where
    main: "\<forall>bs \<in> set bss. accepts vkey bs" "map (journal_from_abi_bytes dec) bss = map Ok js"
      "js \<noteq> []" "chained js" "pv = journal_to_abi_bytes enc (span js)"
    using run(1,3) by auto
  have inner: "\<forall>j \<in> set js. \<exists>bs. accepts vkey bs \<and> journal_from_abi_bytes dec bs = Ok j"
  proof
    fix j
    assume "j \<in> set js"
    then have "Ok j \<in> set (map (journal_from_abi_bytes dec) bss)" unfolding main(2) by simp
    then obtain bs where "bs \<in> set bss" "Ok j = journal_from_abi_bytes dec bs"
      unfolding set_map by (rule imageE) (rule that)
    with main(1) show "\<exists>bs. accepts vkey bs \<and> journal_from_abi_bytes dec bs = Ok j"
      by (intro exI [of _ bs]) simp
  qed
  show thesis
  proof (rule that [OF main(3-5) inner])
    show "vkey = range_words \<longrightarrow> (\<forall>j \<in> set js. range_attests check_root K factory j)"
    proof (intro impI ballI)
      fix j
      assume "vkey = range_words" "j \<in> set js"
      with inner \<open>vkey = range_words\<close> obtain bs where
        bs: "accepts range_words bs" "journal_from_abi_bytes dec bs = Ok j" by blast
      from ran_range [OF inner_sound [OF bs(1)]] obtain j' where
        "range_attests check_root K factory j'" "bs = journal_to_abi_bytes enc j'" .
      with bs(2) from_to_abi_bytes [of j'] show "range_attests check_root K factory j" by simp
    qed
  qed
qed

lemma verified_ran: "verified_call V s call key pv \<Longrightarrow> commits key pv"
  using sp1_sound risc0_sound by (cases call) auto

end

text \<open>With completeness: what a run committed can be proved to either verifier.\<close>

locale complete_proof_system = proof_system +
  assumes sp1_complete: "commits key pv \<Longrightarrow> \<exists>pr. vf_sp1 V a key pv pr"
    and any_input: "\<exists>s. input s = vs \<and> committed s = []"
begin

lemma range_commits:
  assumes "from_rkyv_bytes check_root bs = Some store" and "pipeline_accepts K factory store boot"
  shows "commits range_key (journal_to_abi_bytes enc (boot_journal boot))"
proof -
  obtain s where "input s = [VBytes bs]" "committed s = []"
    using any_input by blast
  with assms range_main_commits [OF guest_stream_axioms, of enc check_root K factory s
      "journal_to_abi_bytes enc (boot_journal boot)"] show ?thesis
    unfolding range_program by auto
qed

text \<open>Any journals that are accepted for any key at all can be aggregated.\<close>

lemma agg_commits:
  assumes "\<forall>j \<in> set js. accepts vkey (journal_to_abi_bytes enc j)" and "js \<noteq> []" "chained js"
    and "length js < 2 ^ 32"
  shows "commits agg_key (journal_to_abi_bytes enc (span js))"
proof -
  let ?bss = "map (journal_to_abi_bytes enc) js"
  obtain s where s: "input s = VU32 (of_nat (length js)) # VWords vkey # map VBytes ?bss @ []" "committed s = []"
    using any_input by blast
  have "unat (of_nat (length js) :: u32) = length ?bss"
    using assms(4) by (simp add: unat_of_nat)
  note main = aggregation_main_iff [OF s(1) this, of enc dec "journal_to_abi_bytes enc (span js)"]
  have "map (journal_from_abi_bytes dec) ?bss = map Ok js"
    by (simp add: from_to_abi_bytes)
  then have "\<exists>s'. aggregation_main enc dec io s = (Ok (), s') \<and> committed s' = journal_to_abi_bytes enc (span js)"
    unfolding main using assms(1-3) s(2) by (intro conjI exI [of _ js]) simp_all
  with s(2) show ?thesis unfolding agg_program by blast
qed

text \<open>The oracle takes any journal of the program it is configured with, for any unproven block.\<close>

lemma oracle_takes:
  assumes "commits (os_sp1ProgramVKey s) (journal_to_abi_bytes enc j)"
    and "\<not> isBlockProven s (j_l2_block_number j)"
  shows "\<exists>pr s' evs. oracle_exec V msg (SubmitSp1Proof (journal_to_abi_bytes enc j) pr) s = Ok (s', evs)
     \<and> op_outputRoot (os_proposals s' (j_l2_block_number j)) = j_l2_post_root j
     \<and> os_latestBlockNumber s' = max (os_latestBlockNumber s) (j_l2_block_number j)
     \<and> os_sp1ProgramVKey s' = os_sp1ProgramVKey s"
proof -
  from sp1_complete [OF assms(1), of "os_sp1Verifier s"] obtain pr where
    pr: "vf_sp1 V (os_sp1Verifier s) (os_sp1ProgramVKey s) (journal_to_abi_bytes enc j) pr" by blast
  let ?pv = "journal_to_abi_bytes enc j"
  have slots: "length ?pv = 192" "slot_at 2 ?pv = j_l2_post_root j" "slot_at 3 ?pv = ucast (j_l2_block_number j)"
    using length_to_abi_bytes to_abi_bytes_slot_at by auto
  obtain s' evs where ex: "processJournal msg ?pv SP1 s = Ok (s', evs)" "os_sp1ProgramVKey s' = os_sp1ProgramVKey s"
    using assms(2) by (simp add: processJournal_def isBlockProven_def slots Let_def)
  note new = processJournal_Ok [OF ex(1), unfolded slots ucast_ucast_u64]
  have "oracle_exec V msg (SubmitSp1Proof ?pv pr) s = Ok (s', evs)"
    using pr ex by (simp add: submitSp1Proof_def slots)
  with new ex(2) show ?thesis by (intro exI [of _ pr] exI [of _ s'] exI [of _ evs]) simp
qed

end

section \<open>What an output says\<close>

text \<open>The journal that the oracle reads from public values.\<close>

definition slots_journal :: "bytes \<Rightarrow> journal" where
  "slots_journal pv =
     \<lparr>j_l1_head = slot_at 0 pv, j_l2_pre_root = slot_at 1 pv, j_l2_post_root = slot_at 2 pv,
      j_l2_block_number = ucast (slot_at 3 pv), j_rollup_config_hash = slot_at 4 pv,
      j_program_id = slot_at 5 pv\<rparr>"

context journal_abi
begin

lemma slots_journal_abi: "slots_journal (journal_to_abi_bytes enc j) = j"
  unfolding slots_journal_def to_abi_bytes_slot_at by simp

end

text \<open>
  C6: the provenance of an output. Over a sound proof system, every proven output of a history
  was written by a transaction of that history, in whose state the block was not proven yet and
  whose proof the oracle's verifier accepts for the key configured there; the program with that
  key committed the submitted public values, whose post-root, block number and L1 head are the
  stored ones. If the key is the range program's, a range guest's pipeline accepted boot
  information with exactly this journal; if it is the aggregation program's, the journal spans a
  chain of journals accepted for some inner key, and if that key is the range program's, each of
  them is such a range journal.
\<close>

theorem outputs_have_provenance:
  assumes ps: "proof_system io input committed accepts enc dec V commits check_root K factory range_key agg_key range_words"
    and chain: "deployed c0" "isBlockProven (ch_oracle (history V c0 txs)) n"
  shows "\<exists>pre msg call post key pv. txs = pre @ OracleTx msg call # post
     \<and> \<not> isBlockProven (ch_oracle (history V c0 pre)) n
     \<and> verified_call V (ch_oracle (history V c0 pre)) call key pv
     \<and> commits key pv
     \<and> j_l2_block_number (slots_journal pv) = n
     \<and> j_l2_post_root (slots_journal pv) = op_outputRoot (os_proposals (ch_oracle (history V c0 txs)) n)
     \<and> j_l1_head (slots_journal pv) = op_l1Head (os_proposals (ch_oracle (history V c0 txs)) n)
     \<and> (key = range_key \<longrightarrow> range_attests check_root K factory (slots_journal pv))
     \<and> (key = agg_key \<longrightarrow> (\<exists>vkey js. js \<noteq> [] \<and> chained js \<and> slots_journal pv = span js
          \<and> (\<forall>i \<in> set js. \<exists>bs. accepts vkey bs \<and> journal_from_abi_bytes dec bs = Ok i)
          \<and> (vkey = range_words \<longrightarrow> (\<forall>i \<in> set js. range_attests check_root K factory i))))"
proof -
  from output_written [OF chain] obtain pre msg call post key pv where
    split: "txs = pre @ OracleTx msg call # post" "\<not> isBlockProven (ch_oracle (history V c0 pre)) n"
    and acc: "verified_call V (ch_oracle (history V c0 pre)) call key pv" and n: "ucast (slot_at 3 pv) = n"
    and stored: "os_proposals (ch_oracle (history V c0 txs)) n =
         \<lparr>op_outputRoot = slot_at 2 pv, op_l2BlockNumber = n, op_l1Head = slot_at 0 pv,
          op_timestamp = ucast (mg_timestamp msg)\<rparr>"
    by (elim exE conjE)
  note abi = journal_abi.slots_journal_abi [OF proof_system.axioms(2) [OF ps]]
  note run = proof_system.verified_ran [OF ps acc]
  let ?j = "slots_journal pv"
  have "range_attests check_root K factory ?j" if "key = range_key"
  proof -
    from run that have "commits range_key pv" by simp
    from proof_system.ran_range [OF ps this] obtain j where
      "range_attests check_root K factory j" "pv = journal_to_abi_bytes enc j" .
    with abi [of j] show ?thesis by simp
  qed
  moreover have "\<exists>vkey js. js \<noteq> [] \<and> chained js \<and> ?j = span js
      \<and> (\<forall>i \<in> set js. \<exists>bs. accepts vkey bs \<and> journal_from_abi_bytes dec bs = Ok i)
      \<and> (vkey = range_words \<longrightarrow> (\<forall>i \<in> set js. range_attests check_root K factory i))" if "key = agg_key"
  proof -
    from run that have agg: "commits agg_key pv" by simp
    obtain js vkey where
      js: "js \<noteq> []" "chained js" "pv = journal_to_abi_bytes enc (span js)"
        "\<forall>i \<in> set js. \<exists>bs. accepts vkey bs \<and> journal_from_abi_bytes dec bs = Ok i"
        "vkey = range_words \<longrightarrow> (\<forall>i \<in> set js. range_attests check_root K factory i)"
      by (rule proof_system.ran_agg [OF ps agg]) (rule that)
    from js(3) abi [of "span js"] have "?j = span js" by simp
    with js(1,2,4,5) show ?thesis by (intro exI [of _ vkey] exI [of _ js]) simp
  qed
  moreover have "j_l2_block_number ?j = n"
      "j_l2_post_root ?j = op_outputRoot (os_proposals (ch_oracle (history V c0 txs)) n)"
      "j_l1_head ?j = op_l1Head (os_proposals (ch_oracle (history V c0 txs)) n)"
    using n stored by (simp_all add: slots_journal_def)
  ultimately show ?thesis
    using split acc run
    by (intro exI [of _ pre] exI [of _ msg] exI [of _ call] exI [of _ post] exI [of _ key] exI [of _ pv]) simp
qed

section \<open>What an output does not say\<close>

lemma chain_node_state:
  assumes "decode lc = Some LatestBlockNumber" and "rm_oracle_address mon = oa"
  obtains st where "rpc_get_state (chain_node decode blocks oa ga) lc mon c = (Ok st, c)"
    "cs_l2_proven_block st = os_latestBlockNumber (ch_oracle c)"
    "cs_l2_safe_block st = bh_number (blocks (rm_l2_rpc_url mon) Safe)"
proof -
  have "\<exists>st. rpc_get_state (chain_node decode blocks oa ga) lc mon c = (Ok st, c)
      \<and> cs_l2_proven_block st = os_latestBlockNumber (ch_oracle c)
      \<and> cs_l2_safe_block st = bh_number (blocks (rm_l2_rpc_url mon) Safe)"
    using decode_proven_block_encoded [of "os_latestBlockNumber (ch_oracle c)"]
    by (simp add: rpc_get_state_def act_bind_def act_map_err_def chain_node_def assms)
  then show thesis using that by blast
qed

text \<open>
  C17: trace extension ends the service. Over a complete proof system, whoever knows a store that
  opens some output root and its safe head can claim that same root for block 2^64 - 1: the
  range guest commits it without deriving anything, the oracle accepts the proof whatever it
  has stored before, the latest block number stays at its maximum through every later
  transaction, and the monitor never again reports a pending range.
\<close>

theorem extension_freezes:
  assumes ps: "complete_proof_system io input committed accepts enc dec V commits check_root K factory range_key agg_key range_words"
    and store: "from_rkyv_bytes check_root bs = Some store"
    and boot: "ko_load_boot K (ko_caching_oracle K 1024 store store) = Ok boot"
    and head: "fetch_safe_head_hash K (ko_caching_oracle K 1024 store store) (kb_agreed_l2_output_root boot) = Ok h"
      "ko_header_by_hash K (ko_l2_provider K h (kb_rollup_config boot) (ko_caching_oracle K 1024 store store)) h = Ok hdr"
    and claim: "kb_claimed_l2_output_root boot = kb_agreed_l2_output_root boot" "kb_claimed_l2_block_number boot = -1"
    and configured: "os_sp1ProgramVKey (ch_oracle c) = range_key" "\<not> isBlockProven (ch_oracle c) (-1)"
    and monitor: "decode lc = Some LatestBlockNumber" "rm_oracle_address mon = oa"
  shows "\<exists>pr s' evs. oracle_exec V msg (SubmitSp1Proof (journal_to_abi_bytes enc (boot_journal boot)) pr) (ch_oracle c) = Ok (s', evs)
     \<and> op_outputRoot (os_proposals s' (-1)) = kb_agreed_l2_output_root boot
     \<and> (\<forall>c'. chain_steps V (c\<lparr>ch_oracle := s'\<rparr>) c' \<longrightarrow>
          os_latestBlockNumber (ch_oracle c') = -1
          \<and> cm_pending_range (rpc_monitor m (chain_node decode blocks oa ga) lc dc mon) c' = (Ok None, c'))"
proof -
  have top: "(n :: u64) \<le> -1" for n by (rule word_order.extremum)
  have "pipeline_accepts K factory store boot"
    using boot head claim top by (auto simp: pipeline_accepts_def Let_def)
  from complete_proof_system.range_commits [OF ps store this]
  have "commits (os_sp1ProgramVKey (ch_oracle c)) (journal_to_abi_bytes enc (boot_journal boot))"
    unfolding configured(1) .
  moreover have fields: "j_l2_block_number (boot_journal boot) = -1"
      "j_l2_post_root (boot_journal boot) = kb_agreed_l2_output_root boot"
    by (simp_all add: boot_journal_def claim)
  ultimately obtain pr s' evs where
    ex: "oracle_exec V msg (SubmitSp1Proof (journal_to_abi_bytes enc (boot_journal boot)) pr) (ch_oracle c) = Ok (s', evs)"
    and new: "op_outputRoot (os_proposals s' (-1)) = kb_agreed_l2_output_root boot" "os_latestBlockNumber s' = -1"
    using complete_proof_system.oracle_takes [OF ps, of "ch_oracle c" "boot_journal boot" msg] configured(2) top
    by (auto simp: max_def)
  have "os_latestBlockNumber (ch_oracle c') = -1
      \<and> cm_pending_range (rpc_monitor m (chain_node decode blocks oa ga) lc dc mon) c' = (Ok None, c')"
    if "chain_steps V (c\<lparr>ch_oracle := s'\<rparr>) c'" for c'
  proof -
    from chain_steps_settled [OF that] new(2) have latest: "os_latestBlockNumber (ch_oracle c') = -1"
      using top by (auto simp: settled_in_def intro: order.antisym)
    obtain st where st: "rpc_get_state (chain_node decode blocks oa ga) lc mon c' = (Ok st, c')"
      "cs_l2_proven_block st = os_latestBlockNumber (ch_oracle c')"
      using monitor by (rule chain_node_state)
    have "cm_get_state (rpc_monitor m (chain_node decode blocks oa ga) lc dc mon) c' = (Ok st, c')"
      using st(1) by (simp add: rpc_monitor_def)
    from rpc_range.pending_range_None_iff [OF this] latest st(2) top show ?thesis by simp
  qed
  with ex new(1) show ?thesis by blast
qed

text \<open>
  C16: the key of an aggregation is the prover's choice. The aggregation guest reads the key of
  the inner proofs from its input and commits nothing of it. If some program's proofs are
  accepted for every 192 bytes, say one that commits what it reads, then over a complete proof
  system an oracle configured with the aggregation program takes every journal for any block
  that is not proven yet.
\<close>

theorem aggregation_key_unbound:
  assumes ps: "complete_proof_system io input committed accepts enc dec V commits check_root K factory range_key agg_key range_words"
    and free: "\<And>bs. length bs = 192 \<Longrightarrow> accepts free_words bs"
    and configured: "os_sp1ProgramVKey s = agg_key" "\<not> isBlockProven s (j_l2_block_number j)"
  shows "\<exists>pr s' evs. oracle_exec V msg (SubmitSp1Proof (journal_to_abi_bytes enc j) pr) s = Ok (s', evs)
     \<and> op_outputRoot (os_proposals s' (j_l2_block_number j)) = j_l2_post_root j"
proof -
  have "journal_abi enc dec"
    using ps by (simp add: complete_proof_system_def proof_system_def)
  then have "\<forall>i \<in> set [j]. accepts free_words (journal_to_abi_bytes enc i)"
    using free journal_abi.length_to_abi_bytes by auto
  from complete_proof_system.agg_commits [OF ps this]
  have "commits (os_sp1ProgramVKey s) (journal_to_abi_bytes enc j)"
    by (simp add: span_def configured(1))
  from complete_proof_system.oracle_takes [OF ps this configured(2), of msg] show ?thesis by blast
qed

section \<open>An ideal proof system\<close>

text \<open>
  A verifier that accepts exactly what runs of the two guests commit, over a small kona like that
  of \<open>Pipeline\<close>: key 1 is the range program, known by the words [1], key 2 the aggregation; for the
  words [2], of a program that commits its input, everything is accepted.
\<close>

type_synonym small_kona = "(preimage_store, unit, unit, u64, unit, unit, unit, unit, unit, unit) kona_ops"

definition ideal_attests :: "small_kona \<Rightarrow> bytes \<Rightarrow> bool" where
  "ideal_attests K pv \<longleftrightarrow>
     (\<exists>j. range_attests archive_read K (\<lambda>_ _ _. ()) j \<and> pv = journal_to_abi_bytes output_encode j)"

definition ideal_accepts :: "small_kona \<Rightarrow> program_words \<Rightarrow> bytes \<Rightarrow> bool" where
  "ideal_accepts K ws bs \<longleftrightarrow> ws = [1] \<and> ideal_attests K bs \<or> ws = [2]"

abbreviation ideal_io :: "small_kona \<Rightarrow> stream_state zkvm_io" where
  "ideal_io K \<equiv> sp1_io (stream_sp1 (ideal_accepts K) id)"

definition ideal_commits :: "small_kona \<Rightarrow> b256 \<Rightarrow> bytes \<Rightarrow> bool" where
  "ideal_commits K key pv \<longleftrightarrow> key = 1 \<and> ideal_attests K pv
     \<or> key = 2 \<and> (\<exists>s s'. snd s = [] \<and> aggregation_main output_encode output_decode (ideal_io K) s = (Ok (), s') \<and> snd s' = pv)"

definition ideal_verifiers :: "small_kona \<Rightarrow> verifiers" where
  "ideal_verifiers K =
     \<lparr>vf_sp1 = (\<lambda>_ key pv _. ideal_commits K key pv), vf_risc0 = (\<lambda>_ _ _ _. False), vf_sha256 = (\<lambda>_. 0)\<rparr>"

interpretation ideal_stream: guest_stream "ideal_io K" fst snd "ideal_accepts K"
  using sp1_stream.guest_stream_axioms [of "ideal_accepts K" id] by simp

lemma ideal_range:
  "ideal_attests K pv \<longleftrightarrow>
     (\<exists>s s'. snd s = [] \<and> range_main output_encode archive_read K (\<lambda>_ _ _. ()) (ideal_io K) s = (Ok (), s')
        \<and> snd s' = pv)" (is "_ = ?runs")
proof
  assume "ideal_attests K pv"
  then obtain bs store boot where "from_rkyv_bytes archive_read bs = Some store"
      "pipeline_accepts K (\<lambda>_ _ _. ()) store boot"
      "pv = journal_to_abi_bytes output_encode (boot_journal boot)"
    by (auto simp: ideal_attests_def range_attests_def)
  then have "\<exists>s'. range_main output_encode archive_read K (\<lambda>_ _ _. ()) (ideal_io K) ([VBytes bs], []) = (Ok (), s')
      \<and> snd s' = pv"
    unfolding range_main_commits [OF ideal_stream.guest_stream_axioms] by auto
  then show ?runs by (elim exE) (intro exI conjI, auto)
next
  assume ?runs
  then obtain s where "snd s = []"
    "\<exists>s'. range_main output_encode archive_read K (\<lambda>_ _ _. ()) (ideal_io K) s = (Ok (), s') \<and> snd s' = pv"
    by blast
  then show "ideal_attests K pv"
    unfolding range_main_commits [OF ideal_stream.guest_stream_axioms] ideal_attests_def range_attests_def by auto
qed

interpretation ideal: complete_proof_system "ideal_io K" fst snd "ideal_accepts K" output_encode output_decode
  "ideal_verifiers K" "ideal_commits K" archive_read K "\<lambda>_ _ _. ()" 1 2 "[1]"
  by unfold_locales
    (auto simp: ideal_verifiers_def ideal_commits_def ideal_range ideal_accepts_def)

text \<open>A chain whose oracle runs the aggregation program, and one that runs the range program.\<close>

definition ideal_chain :: "b256 \<Rightarrow> chain" where
  "ideal_chain key = sample_c0\<lparr>ch_oracle := (ch_oracle sample_c0)\<lparr>os_sp1ProgramVKey := key\<rparr>\<rparr>"

lemma ideal_chain_deployed: "deployed (ideal_chain key)"
proof -
  have "ideal_chain key = \<lparr>ch_oracle = oracle_new sample_msg 6 7 key 9, ch_game = game_new sample_msg 3 6 7 8 9 3600\<rparr>"
    by (simp add: ideal_chain_def sample_c0_def oracle_new_def)
  then show ?thesis unfolding deployed_def by blast
qed

lemma ideal_chain_fresh: "\<not> isBlockProven (ch_oracle (ideal_chain key)) n" "os_sp1ProgramVKey (ch_oracle (ideal_chain key)) = key"
  by (simp_all add: ideal_chain_def sample_c0_def oracle_new_def isBlockProven_def no_proposal_def)

lemma sample_store:
  obtains bs where "from_rkyv_bytes archive_read bs = Some sample_preimages"
proof -
  obtain bs where "archive_write (ps_data sample_preimages) = Ok bs"
    using archive_writes [of "ps_data sample_preimages"] by (auto simp: sample_preimages_def)
  then have "from_rkyv_bytes archive_read bs = Some sample_preimages"
    using arch.guest_reads [of "ps_data sample_preimages" bs]
    by (simp add: serialize_preimages_def preimage_store_new_def)
  then show thesis by (rule that)
qed

theorem extension_freezes_witness:
  "\<exists>pr s' evs. oracle_exec (ideal_verifiers (sample_kona (sample_boot 100 (-1)))) sample_msg
       (SubmitSp1Proof (journal_to_abi_bytes output_encode (boot_journal (sample_boot 100 (-1)))) pr)
       (ch_oracle (ideal_chain 1)) = Ok (s', evs)
     \<and> cm_pending_range (rpc_monitor Release (chain_node sample_decode sample_blocks 3 4) [1] (\<lambda>n. []) sample_monitor)
         ((ideal_chain 1)\<lparr>ch_oracle := s'\<rparr>) = (Ok None, (ideal_chain 1)\<lparr>ch_oracle := s'\<rparr>)"
proof -
  obtain bs where store: "from_rkyv_bytes archive_read bs = Some sample_preimages" by (rule sample_store)
  let ?b = "sample_boot 100 (-1)"
  have kona: "ko_load_boot (sample_kona ?b) orc = Ok ?b" "ko_caching_oracle (sample_kona ?b) 1024 st st = st"
      "ko_header_by_hash (sample_kona ?b) p hh = Ok 10" for orc st p hh
    by (simp_all add: sample_kona_def)
  have root: "kb_agreed_l2_output_root ?b = 100" by (simp add: sample_boot_def)
  from extension_freezes [where lc = "[1]" and decode = sample_decode and oa = 3 and ga = 4
      and blocks = sample_blocks and mon = sample_monitor and dc = "\<lambda>n. []" and m = Release
      and c = "ideal_chain 1" and msg = sample_msg and h = 77 and hdr = 10,
      OF ideal.complete_proof_system_axioms store kona(1), unfolded kona root, OF sample_head]
  show ?thesis
    using ideal_chain_fresh chain_steps.refl
    by (simp add: sample_boot_def sample_decode_def sample_monitor_def) blast
qed

theorem aggregation_key_unbound_witness:
  "\<exists>pr s' evs. oracle_exec (ideal_verifiers (sample_kona (sample_boot 103 13))) sample_msg
       (SubmitSp1Proof (journal_to_abi_bytes output_encode sample_state_journal) pr) (ch_oracle (ideal_chain 2)) = Ok (s', evs)
     \<and> op_outputRoot (os_proposals s' 10) = 2"
proof -
  have "j_l2_block_number sample_state_journal = 10" "j_l2_post_root sample_state_journal = 2"
    by (simp_all add: sample_state_journal_def)
  with aggregation_key_unbound [OF ideal.complete_proof_system_axioms, of "sample_kona (sample_boot 103 13)" "[2]"
      "ch_oracle (ideal_chain 2)" sample_state_journal sample_msg] ideal_chain_fresh show ?thesis
    by (simp add: ideal_accepts_def)
qed

text \<open>A history in which the aggregation of one range journal was submitted.\<close>

definition ideal_submission :: "bytes \<Rightarrow> transaction" where
  "ideal_submission pr = OracleTx sample_msg
     (SubmitSp1Proof (journal_to_abi_bytes output_encode (boot_journal (sample_boot 103 13))) pr)"

lemma ideal_submitted:
  obtains pr c where "history (ideal_verifiers (sample_kona (sample_boot 103 13))) (ideal_chain 2) [ideal_submission pr] = c"
    "isBlockProven (ch_oracle c) 13" "op_outputRoot (os_proposals (ch_oracle c) 13) = 103"
proof -
  let ?b = "sample_boot 103 13"
  obtain bs where store: "from_rkyv_bytes archive_read bs = Some sample_preimages" by (rule sample_store)
  have "pipeline_accepts (sample_kona ?b) (\<lambda>_ _ _. ()) sample_preimages ?b"
    by (rule sample_accepts) simp_all
  with store have "ideal_attests (sample_kona ?b) (journal_to_abi_bytes output_encode (boot_journal ?b))"
    unfolding ideal_attests_def range_attests_def by blast
  then have "ideal_commits (sample_kona ?b) 2 (journal_to_abi_bytes output_encode (span [boot_journal ?b]))"
    by (intro ideal.agg_commits [of "[boot_journal ?b]" "sample_kona ?b" "[1]"]) (simp_all add: ideal_accepts_def)
  then have "ideal_commits (sample_kona ?b) (os_sp1ProgramVKey (ch_oracle (ideal_chain 2)))
      (journal_to_abi_bytes output_encode (boot_journal ?b))"
    by (simp add: ideal_chain_fresh span_def)
  from ideal.oracle_takes [OF this ideal_chain_fresh(1), of sample_msg] obtain pr s' evs where
    ex: "oracle_exec (ideal_verifiers (sample_kona ?b)) sample_msg
        (SubmitSp1Proof (journal_to_abi_bytes output_encode (boot_journal ?b)) pr) (ch_oracle (ideal_chain 2)) = Ok (s', evs)"
    and root: "op_outputRoot (os_proposals s' 13) = 103"
    by (auto simp: boot_journal_def sample_boot_def)
  show thesis
  proof (rule that)
    show "history (ideal_verifiers (sample_kona ?b)) (ideal_chain 2) [ideal_submission pr]
        = (ideal_chain 2)\<lparr>ch_oracle := s'\<rparr>"
      using ex by (simp add: history_def ideal_submission_def del: oracle_exec.simps)
  qed (simp_all add: isBlockProven_def root)
qed

theorem outputs_have_provenance_witness:
  "\<exists>pr pv. verified_call (ideal_verifiers (sample_kona (sample_boot 103 13))) (ch_oracle (ideal_chain 2))
        (SubmitSp1Proof (journal_to_abi_bytes output_encode (boot_journal (sample_boot 103 13))) pr) 2 pv
     \<and> ideal_commits (sample_kona (sample_boot 103 13)) 2 pv
     \<and> j_l2_block_number (slots_journal pv) = 13 \<and> j_l2_post_root (slots_journal pv) = 103
     \<and> (\<exists>vkey js. js \<noteq> [] \<and> chained js \<and> slots_journal pv = span js
          \<and> (vkey = [1] \<longrightarrow> (\<forall>i \<in> set js. range_attests archive_read (sample_kona (sample_boot 103 13)) (\<lambda>_ _ _. ()) i)))"
proof -
  obtain pr c where c: "history (ideal_verifiers (sample_kona (sample_boot 103 13))) (ideal_chain 2) [ideal_submission pr] = c"
    "isBlockProven (ch_oracle c) 13" "op_outputRoot (os_proposals (ch_oracle c) 13) = 103"
    by (rule ideal_submitted)
  from outputs_have_provenance [OF ideal.proof_system_axioms ideal_chain_deployed c(2) [folded c(1)]]
  obtain pre msg call post key pv where
    split: "[ideal_submission pr] = pre @ OracleTx msg call # post"
    and acc: "verified_call (ideal_verifiers (sample_kona (sample_boot 103 13)))
        (ch_oracle (history (ideal_verifiers (sample_kona (sample_boot 103 13))) (ideal_chain 2) pre)) call key pv"
    and run: "ideal_commits (sample_kona (sample_boot 103 13)) key pv"
    and fields: "j_l2_block_number (slots_journal pv) = 13" "j_l2_post_root (slots_journal pv) = 103"
    and agg: "key = 2 \<longrightarrow> (\<exists>vkey js. js \<noteq> [] \<and> chained js \<and> slots_journal pv = span js
          \<and> (\<forall>i \<in> set js. \<exists>bs. ideal_accepts (sample_kona (sample_boot 103 13)) vkey bs
                \<and> journal_from_abi_bytes output_decode bs = Ok i)
          \<and> (vkey = [1] \<longrightarrow> (\<forall>i \<in> set js. range_attests archive_read (sample_kona (sample_boot 103 13)) (\<lambda>_ _ _. ()) i)))"
    unfolding c(1) c(3) by (elim exE conjE)
  from split have here: "pre = []"
    "call = SubmitSp1Proof (journal_to_abi_bytes output_encode (boot_journal (sample_boot 103 13))) pr"
    by (auto simp: ideal_submission_def append_eq_Cons_conv Cons_eq_append_conv)
  with acc have key: "key = 2" by (simp add: ideal_chain_fresh)
  with here acc run fields agg show ?thesis
    by (intro exI [of _ pr] exI [of _ pv]) (auto simp: ideal_submission_def)
qed
end
