(* ===== verification/Cli_Prove.thy ===== *)
theory Cli_Prove
  imports Config Monitor Rpc_Witness Prover
begin

text \<open>
  The command line's \<open>prove\<close> (crates/cli/src/commands/prove.rs) with the witness helper it
  shares with \<open>estimate\<close> (witness_helper.rs), and the base of all commands: a command acts on
  the world, the shared stores and its standard output, and fails with the text of its error.
  Compile-time features are a record of flags; guest binaries and SDKs are parameters.
\<close>

section \<open>Commands\<close>

type_synonym 'w console = "('w \<times> kv_heap) \<times> string list"
type_synonym ('w, 'a) command = "('w console, string, 'a) action"

definition println :: "string \<Rightarrow> ('w, unit) command" where
  "println line = (\<lambda>(s, out). (Ok (), s, out @ [line]))"

definition printlns :: "string list \<Rightarrow> ('w, unit) command" where
  "printlns lines = (\<lambda>(s, out). (Ok (), s, out @ lines))"

lemma println_apply [simp]:
  "println line (s, out) = (Ok (), s, out @ [line])" "printlns lines (s, out) = (Ok (), s, out @ lines)"
  by (simp_all add: println_def printlns_def)

record features =
  ft_kona :: bool
  ft_sp1 :: bool
  ft_risc0 :: bool

text \<open>The derived \<open>Debug\<close> texts.\<close>

fun show_backend :: "zkvm_backend \<Rightarrow> string" where
  "show_backend Sp1 = ''Sp1''"
| "show_backend RiscZero = ''RiscZero''"
| "show_backend Auto = ''Auto''"
| "show_backend Mock = ''Mock''"

fun show_proof_mode :: "proof_mode \<Rightarrow> string" where
  "show_proof_mode Beacon = ''Beacon''"
| "show_proof_mode Sentinel = ''Sentinel''"

fun show_proving_mode :: "proving_mode \<Rightarrow> string" where
  "show_proving_mode Groth16 = ''Groth16''"
| "show_proving_mode Compressed = ''Compressed''"
| "show_proving_mode Execute = ''Execute''"

fun show_u64_option :: "u64 option \<Rightarrow> string" where
  "show_u64_option None = ''None''"
| "show_u64_option (Some n) = ''Some('' @ show_u64 n @ '')''"

text \<open>
  The parts of the environment: reading the configuration, \<open>SP1_PROVER\<close>, the nodes, the
  elapsed time of a step as printed with two decimals, and what building with the SDKs embeds.
\<close>

record ('w, 'f) cli_env =
  cl_read_config :: "string \<Rightarrow> ('w, string, 'f cli_config) action"
  cl_sp1_prover :: "string option"
  cl_elapsed :: "'w \<Rightarrow> string \<times> 'w"
  cl_show_b256 :: "b256 \<Rightarrow> string"
  cl_hex_error :: "string \<Rightarrow> string"
  cl_rpc :: "'w rpc_env"
  cl_latest_block_hash :: "string \<Rightarrow> ('w, string, b256 option) action"

record ('w, 'stdin, 'pk, 'vk, 'proof, 'b, 'env, 'receipt) zkvms =
  zk_sp1 :: "('w, 'stdin, 'pk, 'vk, 'proof) sp1_sdk"
  zk_risc0 :: "('w, 'b, 'env, 'receipt) risc0_sdk"
  zk_sp1_elf :: bytes
  zk_risc0_elf :: bytes
  zk_risc0_image_id :: "u32 list"

definition on_state :: "('w \<times> kv_heap, string, 'a) action \<Rightarrow> ('w, 'a) command" where
  "on_state m = (\<lambda>(s, out). case m s of (r, s') \<Rightarrow> (r, s', out))"

definition on_system :: "('w, string, 'a) action \<Rightarrow> ('w, 'a) command" where
  "on_system m = on_state (in_world m)"

fun config_error_text :: "config_error \<Rightarrow> string" where
  "config_error_text (MissingField f) = ''config error: missing required field: '' @ f"

definition elapsed :: "('w, 'f) cli_env \<Rightarrow> ('w, string) command" where
  "elapsed C = on_system (\<lambda>w. case cl_elapsed C w of (t, w') \<Rightarrow> (Ok t, w'))"

section \<open>The witness helper\<close>

definition helper_generate_witness ::
  "(boot_info_output \<Rightarrow> bytes) \<Rightarrow> (preimages \<Rightarrow> (string, bytes) outcome) \<Rightarrow> ('w, 'f) cli_env
     \<Rightarrow> 'f cli_config \<Rightarrow> u64 \<Rightarrow> u64 \<Rightarrow> ('w \<times> kv_heap, string, raw_witness) action" where
  "helper_generate_witness enc to_bytes C config start_block end_block =
     (let E = cl_rpc C;
          network = cc_network config
      in act_bind (act_lift (re_parse_url E (nc_l1_rpc_url network))) (\<lambda>_.
         act_bind (in_world (cl_latest_block_hash C (nc_l1_rpc_url network))) (\<lambda>l1_block.
         act_bind (act_lift (ok_or ''L1 latest block not found'' l1_block)) (\<lambda>l1_head.
         let op_node_url = unwrap_or ''http://127.0.0.1:7545'' (nc_op_node_url network)
         in act_bind (act_lift (re_parse_url E op_node_url)) (\<lambda>_.
            act_bind (in_world (re_raw_request E op_node_url ''optimism_outputAtBlock''
                        [''0x'' @ show_hex (unat start_block)])) (\<lambda>resp.
            act_bind (act_lift (ok_or ''failed to get output root''
                        (Option.bind (json_get ''outputRoot'' resp) json_as_str))) (\<lambda>root_str.
            act_bind (act_lift (ok_or (cl_hex_error C root_str) (re_parse_b256 E root_str))) (\<lambda>l2_start_output_root.
            let provider = with_chain_id (with_op_node_url
                  (rpc_witness_new (nc_l1_rpc_url network) (nc_l2_rpc_url network) (nc_l1_beacon_url network))
                  op_node_url) (unwrap_or 901 (nc_chain_id network));
                request = \<lparr>req_l1_head = l1_head, req_l2_start_block = start_block,
                           req_l2_end_block = end_block, req_l2_start_output_root = l2_start_output_root,
                           req_mode = Execute\<rparr>
            in act_map_err rpc_witness_error_to_string
                 (rpc_generate_witness enc to_bytes E provider request)))))))))"

section \<open>Proving\<close>

definition not_available :: "zkvm_backend \<Rightarrow> string" where
  "not_available b =
     ''backend '' @ show_backend b @ '' not available '' @ em_dash @ '' compile with the corresponding feature flag''"

definition run_prover ::
  "features \<Rightarrow> ('w, 'stdin, 'pk, 'vk, 'proof, 'b, 'env, 'receipt) zkvms \<Rightarrow> resolved_intent \<Rightarrow> raw_witness
     \<Rightarrow> ('w, string, proof_artifact) action" where
  "run_prover ft Z intent witness =
     (if ri_backend intent = Mock
      then act_map_err (\<lambda>e. case e of MockProverError s \<Rightarrow> ''mock prover error: '' @ s)
             (mock_prove (mock_program_new ''range-ethereum'') \<lparr>mw_data = []\<rparr> (ri_proving_mode intent))
      else if ri_backend intent = Sp1 \<and> ft_sp1 ft
      then let stdin = sdk_stdin_write (zk_sp1 Z) (rw_oracle_data witness);
               sp1_witness = \<lparr>sw_stdin = stdin\<rparr>;
               program = sp1_program_new ''range-ethereum'' (zk_sp1_elf Z)
           in act_map_err sp1_prover_error_to_string
                (sp1_prove (zk_sp1 Z) program sp1_witness (ri_proving_mode intent))
      else if ri_backend intent = RiscZero \<and> ft_risc0 ft
      then let rz_witness = \<lparr>zw_oracle_data = rw_oracle_data witness\<rparr>;
               program = risc_zero_program_new ''range-ethereum'' (zk_risc0_image_id Z) (zk_risc0_elf Z)
           in act_map_err risc_zero_prover_error_to_string
                (risc0_prove (zk_risc0 Z) program rz_witness (ri_proving_mode intent))
      else act_fail (not_available (ri_backend intent)))"

definition journal_lines :: "(b256 \<Rightarrow> string) \<Rightarrow> state_transition_journal \<Rightarrow> string list" where
  "journal_lines show_b256 journal =
     [[], ''Journal:'',
      ''  l1_head:        '' @ show_b256 (j_l1_head journal),
      ''  l2_pre_root:    '' @ show_b256 (j_l2_pre_root journal),
      ''  l2_post_root:   '' @ show_b256 (j_l2_post_root journal),
      ''  l2_block_number: '' @ show_u64 (j_l2_block_number journal)]"

definition prove_mock :: "('w, 'f) cli_env \<Rightarrow> resolved_intent \<Rightarrow> ('w, unit) command" where
  "prove_mock C intent =
     act_bind (println ''Mock mode: generating dummy proof...'') (\<lambda>_.
     act_bind (act_map_err (\<lambda>e. case e of MockProverError s \<Rightarrow> ''mock prover error: '' @ s)
        (mock_prove (mock_program_new ''range-ethereum'') \<lparr>mw_data = []\<rparr> (ri_proving_mode intent))) (\<lambda>result.
     act_bind (elapsed C) (\<lambda>t.
     printlns [[],
       ''Proof generated in '' @ t @ ''s'',
       ''  Backend:      '' @ show_backend (pa_backend result),
       ''  Mode:         '' @ show_proving_mode (pa_mode result),
       ''  Proof bytes:  '' @ show_nat (length (pa_proof_bytes result)) @ '' bytes'',
       ''  Cycle count:  '' @ show_u64_option (pa_cycle_count result),
       [],
       ''Note: mock proofs are not valid for on-chain submission.''])))"

definition prove_real ::
  "(boot_info_output \<Rightarrow> bytes) \<Rightarrow> (preimages \<Rightarrow> (string, bytes) outcome)
     \<Rightarrow> (bytes \<Rightarrow> ('d, state_transition_output) outcome) \<Rightarrow> features
     \<Rightarrow> ('w, 'stdin, 'pk, 'vk, 'proof, 'b, 'env, 'receipt) zkvms \<Rightarrow> ('w, 'f) cli_env \<Rightarrow> 'f cli_config
     \<Rightarrow> resolved_intent \<Rightarrow> u64 \<Rightarrow> u64 \<Rightarrow> ('w, unit) command" where
  "prove_real enc to_bytes dec ft Z C config intent start_block end_block =
     act_bind (printlns [[], ''Generating witness from RPC nodes...'']) (\<lambda>_.
     act_bind (on_state (helper_generate_witness enc to_bytes C config start_block end_block)) (\<lambda>witness.
     act_bind (println (''Witness generated: '' @ show_nat (length (rw_oracle_data witness)) @ '' bytes oracle data'')) (\<lambda>_.
     act_bind (on_system (run_prover ft Z intent witness)) (\<lambda>result.
     act_bind (elapsed C) (\<lambda>t.
     act_bind (printlns [[],
       ''Proof generated in '' @ t @ ''s'',
       ''  Backend:       '' @ show_backend (pa_backend result),
       ''  Mode:          '' @ show_proving_mode (pa_mode result),
       ''  Proof bytes:   '' @ show_nat (length (pa_proof_bytes result)) @ '' bytes'',
       ''  Public values: '' @ show_nat (length (pa_public_values result)) @ '' bytes'',
       ''  Cycle count:   '' @ show_u64_option (pa_cycle_count result)]) (\<lambda>_.
     if pa_public_values result \<noteq> []
     then case journal_from_abi_bytes dec (pa_public_values result) of
            Ok journal \<Rightarrow> printlns (journal_lines (cl_show_b256 C) journal)
          | Err _ \<Rightarrow> act_return ()
          | Panic p \<Rightarrow> act_lift (Panic p)
     else act_return ()))))))"

definition prove_execute ::
  "(boot_info_output \<Rightarrow> bytes) \<Rightarrow> (preimages \<Rightarrow> (string, bytes) outcome)
     \<Rightarrow> (bytes \<Rightarrow> ('d, state_transition_output) outcome) \<Rightarrow> features
     \<Rightarrow> ('w, 'stdin, 'pk, 'vk, 'proof, 'b, 'env, 'receipt) zkvms \<Rightarrow> ('w, 'f) cli_env
     \<Rightarrow> u64 \<Rightarrow> u64 \<Rightarrow> string \<Rightarrow> ('w, unit) command" where
  "prove_execute enc to_bytes dec ft Z C start_block end_block path =
     act_bind (on_system (cl_read_config C path)) (\<lambda>config.
     act_bind (act_lift (map_err config_error_text (to_sdk_config config))) (\<lambda>sdk_config.
     let intent = config_resolve sdk_config;
         mock_mode = is_mock_mode (cl_sp1_prover C) config
     in act_bind (println (''Proving blocks '' @ show_u64 start_block @ ''..'' @ show_u64 end_block @ '' with ''
            @ show_backend (ri_backend intent) @ '' backend ('' @ show_proving_mode (ri_proving_mode intent) @ '' mode)'')) (\<lambda>_.
        if mock_mode then prove_mock C intent
        else if \<not> ft_kona ft
        then act_fail (''real proving requires the `kona` feature '' @ em_dash
               @ '' compile with: cargo build --bin open-zk --features kona'')
        else prove_real enc to_bytes dec ft Z C config intent start_block end_block)))"

section \<open>Behaviour\<close>

lemma on_state_Ok_iff [simp]: "on_state m (s, out) = (Ok a, s', out') \<longleftrightarrow> m s = (Ok a, s') \<and> out' = out"
  by (auto simp: on_state_def split: prod.splits)

lemma on_system_Ok_iff [simp]:
  "on_system m ((w, h), out) = (Ok a, (w', h'), out') \<longleftrightarrow> m w = (Ok a, w') \<and> h' = h \<and> out' = out"
  by (auto simp: on_system_def in_world_Ok_iff)

text \<open>
  What a witness for a block range proves. The boot information of the witness behind
  \<open>prove\<close> and \<open>estimate\<close> starts at the output root that the OP node answers for the start
  block itself, so the agreed state is the one after that block, and claims the end block.
\<close>

theorem helper_boot_info:
  assumes "boot_abi enc dec" and "preimage_archive to_bytes check_root"
    and "helper_generate_witness enc to_bytes C config start_block end_block (w, h) = (Ok rw, w', h')"
  shows "\<exists>resp root l1_head claim config_hash v v'.
       re_raw_request (cl_rpc C) (unwrap_or ''http://127.0.0.1:7545'' (nc_op_node_url (cc_network config)))
         ''optimism_outputAtBlock'' [''0x'' @ show_hex (unat start_block)] v = (Ok resp, v')
     \<and> answered_root (cl_rpc C) resp = Some root
     \<and> boot_from_abi_bytes dec (rw_boot_info rw) =
         Ok \<lparr>bi_l1_head = l1_head, bi_l2_pre_root = root, bi_l2_claim = claim,
             bi_l2_block_number = end_block, bi_rollup_config_hash = config_hash\<rparr>"
proof -
  let ?E = "cl_rpc C" and ?url = "unwrap_or ''http://127.0.0.1:7545'' (nc_op_node_url (cc_network config))"
  from assms(3) [unfolded helper_generate_witness_def Let_def] obtain s1 s2 s3 s4 s5 l1_head resp root_str root where
    resp: "in_world (re_raw_request ?E ?url ''optimism_outputAtBlock'' [''0x'' @ show_hex (unat start_block)]) s1
        = (Ok resp, s2)"
    and str: "act_lift (ok_or ''failed to get output root'' (Option.bind (json_get ''outputRoot'' resp) json_as_str)) s2
        = (Ok root_str, s3)"
    and root: "act_lift (ok_or (cl_hex_error C root_str) (re_parse_b256 ?E root_str)) s3 = (Ok root, s4)"
    and gen: "act_map_err rpc_witness_error_to_string
        (rpc_generate_witness enc to_bytes ?E
          (with_chain_id (with_op_node_url
             (rpc_witness_new (nc_l1_rpc_url (cc_network config)) (nc_l2_rpc_url (cc_network config))
                (nc_l1_beacon_url (cc_network config))) ?url) (unwrap_or 901 (nc_chain_id (cc_network config))))
          \<lparr>req_l1_head = l1_head, req_l2_start_block = start_block, req_l2_end_block = end_block,
           req_l2_start_output_root = root, req_mode = Execute\<rparr>) s5 = (Ok rw, w', h')"
    by (elim act_bindE)
  obtain v h1 v' h2 where s: "s1 = (v, h1)" "s2 = (v', h2)" by (metis surj_pair)
  obtain v5 h5 where s5: "s5 = (v5, h5)" by (metis surj_pair)
  from resp have "re_raw_request ?E ?url ''optimism_outputAtBlock'' [''0x'' @ show_hex (unat start_block)] v
      = (Ok resp, v')"
    by (simp add: s in_world_Ok_iff)
  moreover from str root have "answered_root ?E resp = Some root"
    by (auto simp: answered_root_def)
  moreover note generate_witness_boot [OF assms(1) gen [unfolded s5 act_map_err_Ok_iff], simplified]
  then obtain claim config_hash where
    "boot_from_abi_bytes dec (rw_boot_info rw) =
         Ok \<lparr>bi_l1_head = l1_head, bi_l2_pre_root = root, bi_l2_claim = claim,
             bi_l2_block_number = end_block, bi_rollup_config_hash = config_hash\<rparr>"
    by (elim exE conjE) (rule that)
  ultimately show ?thesis by blast
qed

text \<open>The public values of an artifact are what the guest committed.\<close>

lemma prover_attests:
  assumes stream: "guest_stream io input committed accepts"
    and start: "\<And>bs. input (boot bs) = [VBytes bs] \<and> committed (boot bs) = []"
    and guest: "\<And>bs pk pr w1 w2. sdk_prove_groth16 (zk_sp1 Z) pk (sdk_stdin_write (zk_sp1 Z) bs) w1 = (Ok pr, w2) \<Longrightarrow>
        \<exists>s'. range_main enc check_root K factory io (boot bs) = (Ok (), s')
           \<and> committed s' = sdk_public_values (zk_sp1 Z) pr"
    and intent: "ri_backend intent = Sp1" "ri_proving_mode intent = Groth16"
    and run: "run_prover ft Z intent witness w = (Ok a, w')"
  shows "pa_backend a = Sp1 \<and> (\<exists>store bt. from_rkyv_bytes check_root (rw_oracle_data witness) = Some store
     \<and> pipeline_accepts K factory store bt
     \<and> pa_public_values a = journal_to_abi_bytes enc (boot_journal bt))"
proof -
  from run intent obtain pk pr w1 w2 where
    "sdk_prove_groth16 (zk_sp1 Z) pk (sdk_stdin_write (zk_sp1 Z) (rw_oracle_data witness)) w1 = (Ok pr, w2)"
    and a: "pa_public_values a = sdk_public_values (zk_sp1 Z) pr" "pa_backend a = Sp1"
    by (auto simp: run_prover_def sp1_prove_def act_bind_Ok_iff Let_def split: if_splits)
  from guest [OF this(1)] obtain s' where
    "range_main enc check_root K factory io (boot (rw_oracle_data witness)) = (Ok (), s')"
    "committed s' = pa_public_values a" unfolding a(1) by blast
  then obtain bs r store bt where
    "input (boot (rw_oracle_data witness)) = VBytes bs # r" "from_rkyv_bytes check_root bs = Some store"
    "pipeline_accepts K factory store bt"
    "pa_public_values a = committed (boot (rw_oracle_data witness)) @ journal_to_abi_bytes enc (boot_journal bt)"
    using range_main_commits [OF stream] by blast
  with start a(2) show ?thesis by auto
qed

text \<open>
  What a real SP1 proof attests. If every proof the SDK makes of the range program comes
  from a finished run of the range guest on the bytes written to its input, then whatever the
  command's prover returns for a witness has public values that decode to the journal of boot
  information under which the guest's pipeline accepts the witness's own oracle data.
\<close>

theorem proof_attests_range:
  assumes abi: "journal_abi enc dec" and stream: "guest_stream io input committed accepts"
    and start: "\<And>bs. input (boot bs) = [VBytes bs] \<and> committed (boot bs) = []"
    and guest: "\<And>bs pk pr w1 w2. sdk_prove_groth16 (zk_sp1 Z) pk (sdk_stdin_write (zk_sp1 Z) bs) w1 = (Ok pr, w2) \<Longrightarrow>
        \<exists>s'. range_main enc check_root K factory io (boot bs) = (Ok (), s')
           \<and> committed s' = sdk_public_values (zk_sp1 Z) pr"
    and intent: "ri_backend intent = Sp1" "ri_proving_mode intent = Groth16"
    and run: "run_prover ft Z intent witness w = (Ok a, w')"
  shows "pa_backend a = Sp1 \<and> (\<exists>store bt. from_rkyv_bytes check_root (rw_oracle_data witness) = Some store
     \<and> pipeline_accepts K factory store bt
     \<and> journal_from_abi_bytes dec (pa_public_values a) = Ok (boot_journal bt))"
proof -
  have "pa_backend a = Sp1 \<and> (\<exists>store bt. from_rkyv_bytes check_root (rw_oracle_data witness) = Some store
     \<and> pipeline_accepts K factory store bt
     \<and> pa_public_values a = journal_to_abi_bytes enc (boot_journal bt))"
    by (rule prover_attests [OF stream start _ intent run]) (rule guest)
  with journal_abi.from_to_abi_bytes [OF abi] show ?thesis by auto
qed

text \<open>
  The modes of \<open>prove\<close>. In mock mode the command always succeeds without touching a node,
  whatever the block range, and says that its proof is not valid; without the kona feature a
  real run always fails before any witness is generated.
\<close>

lemma prove_modes:
  assumes "cl_read_config C path w = (Ok config, w1)"
  shows "(is_mock_mode (cl_sp1_prover C) config \<longrightarrow>
       (\<exists>lines. prove_execute enc to_bytes dec ft Z C start_block end_block path ((w, h), out) =
            (Ok (), (snd (cl_elapsed C w1), h), out @ lines)
          \<and> last lines = ''Note: mock proofs are not valid for on-chain submission.''))
   \<and> (\<not> is_mock_mode (cl_sp1_prover C) config \<and> \<not> ft_kona ft \<longrightarrow>
       (\<exists>e line. prove_execute enc to_bytes dec ft Z C start_block end_block path ((w, h), out) =
            (Err e, (w1, h), out @ [line])))"
  using assms
  by (auto simp: prove_execute_def prove_mock_def act_bind_def on_system_def on_state_def in_world_def
      to_sdk_config_Ok Let_def act_map_err_def mock_prove_def elapsed_def split: prod.splits)

section \<open>A node that answers output roots\<close>

definition sample_node_env :: "(string \<rightharpoonup> string) rpc_env" where
  "sample_node_env = sample_rpc_env
     \<lparr>re_raw_request := (\<lambda>url m ps w.
        (if m = ''optimism_outputAtBlock'' then Ok (JObj [(''outputRoot'', JStr ''r'')])
         else fst (re_raw_request sample_rpc_env url m ps w), w)),
      re_parse_b256 := (\<lambda>_. Some 100)\<rparr>"

definition sample_cli_env :: "((string \<rightharpoonup> string), nat) cli_env" where
  "sample_cli_env =
     \<lparr>cl_read_config = (\<lambda>_ w. (Ok default_cli_config, w)), cl_sp1_prover = None,
      cl_elapsed = (\<lambda>w. (''0.00'', w)), cl_show_b256 = (\<lambda>_. ''0x''), cl_hex_error = id,
      cl_rpc = sample_node_env, cl_latest_block_hash = (\<lambda>_ w. (Ok (Some 4), w))\<rparr>"

definition sample_node_provider :: rpc_witness_provider where
  "sample_node_provider = with_chain_id (with_op_node_url (rpc_witness_new ''l1'' ''l2'' ''beacon'') ''op'') 901"

definition sample_node_config :: "nat cli_config" where
  "sample_node_config = default_cli_config\<lparr>cc_network :=
     \<lparr>nc_l1_rpc_url = ''l1'', nc_l2_rpc_url = ''l2'', nc_l1_beacon_url = ''beacon'',
      nc_op_node_url = Some ''op'', nc_chain_id = None\<rparr>\<rparr>"

lemma node_fetch: "fetch_rollup_config sample_node_env sample_node_provider w = (Ok sample_merged_config, w)"
  by (simp add: fetch_rollup_config_def act_bind_def act_ok_def act_try_def act_map_err_def url_checked_def
    sample_merge sample_node_env_def sample_node_provider_def with_chain_id_def with_op_node_url_def rpc_witness_new_def)

lemma node_ensure:
  "ensure_rollup_config sample_node_env sample_node_provider w =
     (Ok ''open-zk-rollup-config-1.json'', w(''open-zk-rollup-config-1.json'' \<mapsto> ''cfg''))"
  using node_fetch [of w]
  by (simp add: ensure_rollup_config_def existing_rollup_config_def write_config_def sample_node_env_def
    sample_node_provider_def with_chain_id_def with_op_node_url_def rpc_witness_new_def
    act_bind_def act_map_err_def Let_def show_nat.simps char_one)

lemma node_hash:
  assumes "w p = Some ''cfg''"
  shows "compute_rollup_config_hash sample_node_env p w = (Ok 2, w)"
  using assms
  by (simp add: compute_rollup_config_hash_def act_bind_def act_map_err_def sample_from_str_def sample_node_env_def)

lemma node_root: "fetch_output_root sample_node_env sample_node_provider ''l2'' n w = (Ok 100, w)"
  by (simp add: fetch_output_root_def request_output_root_def act_bind_def act_ok_def
    act_try_def act_map_err_def url_checked_def sample_node_env_def sample_node_provider_def with_chain_id_def
    with_op_node_url_def rpc_witness_new_def)

lemma node_l1: "ensure_l1_config sample_node_env sample_node_provider n w =
    (Ok ''open-zk-l1-config-1.json'', w(''open-zk-l1-config-1.json'' \<mapsto> ''l1''))"
  by (simp add: ensure_l1_config_def write_config_def url_checked_def act_bind_def act_ok_def act_try_def
    act_map_err_def Let_def show_nat.simps char_one sample_merged_config_def sample_chain_config_def
    sample_node_env_def sample_node_provider_def with_chain_id_def with_op_node_url_def rpc_witness_new_def)

lemma node_collect:
  "collect_witness sample_node_env host (w, \<lparr>kh_next = 0, kh_store = (\<lambda>_. Map.empty)\<rparr>) =
     (Ok 0, w, \<lparr>kh_next = 1, kh_store = (\<lambda>_. Map.empty)(0 := [100 \<mapsto> [1]])\<rparr>)"
  by (simp add: collect_witness_def new_store_def kv_defs run_client_and_server_def in_world_def act_bind_def
    act_map_err_def sample_node_env_def)

lemma node_inject:
  "inject_local sample_node_env host local_key_indices m w = (Ok (m(1 \<mapsto> [5])), w)"
  by (simp add: local_key_indices_def sample_node_env_def)

lemma node_urls:
  "re_parse_url sample_node_env u = Ok ()"
  "rp_l1_rpc_url sample_node_provider = ''l1''" "rp_l2_rpc_url sample_node_provider = ''l2''"
  "re_block_by_number sample_node_env u n w = re_block_by_number sample_rpc_env u n w"
  "re_from_str sample_node_env s = sample_from_str s"
  "re_read_to_string sample_node_env p w = (ok_or ''missing'' (w p), w)"
  by (simp_all add: sample_node_env_def sample_node_provider_def with_chain_id_def
    with_op_node_url_def rpc_witness_new_def)

lemma node_answers:
  "re_raw_request sample_node_env u ''optimism_outputAtBlock'' ps w = (Ok (JObj [(''outputRoot'', JStr ''r'')]), w)"
  "re_parse_b256 sample_node_env r = Some 100"
  by (simp_all add: sample_node_env_def)

lemma node_generates:
  assumes "archive_write ([100 \<mapsto> [1]](1 \<mapsto> [5])) = Ok bs"
  shows "\<exists>rw s. rpc_generate_witness boot_encode archive_write sample_node_env sample_node_provider request
    (Map.empty, \<lparr>kh_next = 0, kh_store = (\<lambda>_. Map.empty)\<rparr>) = (Ok rw, s)"
  using assms
  by (simp add: rpc_generate_witness_def act_bind_def in_world_def node_ensure node_hash url_checked_def
      act_map_err_def node_root sample_parsed node_l1 node_collect kv_snapshot_def node_inject
      serialize_preimages_def Let_def node_urls)

lemma node_helper:
  "\<exists>rw s. helper_generate_witness boot_encode archive_write (sample_cli_env\<lparr>cl_read_config := rd\<rparr>)
      sample_node_config first last_block (Map.empty, \<lparr>kh_next = 0, kh_store = (\<lambda>_. Map.empty)\<rparr>) = (Ok rw, s)"
proof -
  obtain bs where bs: "archive_write ([100 \<mapsto> [1]](1 \<mapsto> [5])) = Ok bs"
    using archive_writes [of "[100 \<mapsto> [1]](1 \<mapsto> [5])"] by auto
  have prov: "with_chain_id (with_op_node_url (rpc_witness_new ''l1'' ''l2'' ''beacon'') ''op'') 901 = sample_node_provider"
    by (simp add: sample_node_provider_def)
  show ?thesis
    using node_generates [OF bs, of "\<lparr>req_l1_head = 4, req_l2_start_block = first, req_l2_end_block = last_block,
        req_l2_start_output_root = 100, req_mode = Execute\<rparr>"]
    by (auto simp: helper_generate_witness_def act_bind_def in_world_def node_urls node_answers prov
        sample_node_config_def sample_cli_env_def unwrap_or_def act_map_err_def Let_def)
qed

theorem helper_boot_info_witness:
  "\<exists>rw s claim config_hash l1_head. helper_generate_witness boot_encode archive_write sample_cli_env sample_node_config 7 9
        (Map.empty, \<lparr>kh_next = 0, kh_store = (\<lambda>_. Map.empty)\<rparr>) = (Ok rw, s)
     \<and> boot_from_abi_bytes boot_decode (rw_boot_info rw) =
         Ok \<lparr>bi_l1_head = l1_head, bi_l2_pre_root = 100, bi_l2_claim = claim,
             bi_l2_block_number = 9, bi_rollup_config_hash = config_hash\<rparr>"
proof -
  let ?h = "\<lparr>kh_next = 0, kh_store = (\<lambda>_. Map.empty)\<rparr>"
  have env: "cl_rpc sample_cli_env = sample_node_env" by (simp add: sample_cli_env_def)
  obtain rw w' h' where run: "helper_generate_witness boot_encode archive_write sample_cli_env sample_node_config 7 9
        (Map.empty, ?h) = (Ok rw, w', h')"
    using node_helper [of "cl_read_config sample_cli_env" 7 9] by auto
  from helper_boot_info [OF bt_abi.boot_abi_axioms arch.preimage_archive_axioms run]
  obtain resp root l1_head claim config_hash where
    "answered_root sample_node_env resp = Some root"
    "boot_from_abi_bytes boot_decode (rw_boot_info rw) =
         Ok \<lparr>bi_l1_head = l1_head, bi_l2_pre_root = root, bi_l2_claim = claim,
             bi_l2_block_number = 9, bi_rollup_config_hash = config_hash\<rparr>"
    unfolding env by (elim exE conjE)
  moreover from this(1) have "root = 100"
    by (auto simp: answered_root_def node_answers bind_eq_Some_conv)
  ultimately show ?thesis using run by blast
qed

section \<open>A prover that runs the guest\<close>

definition running_sp1 :: "(nat, bytes, bytes, bytes, bytes \<times> bytes) sp1_sdk" where
  "running_sp1 = reference_sp1
     \<lparr>sdk_serialize := (\<lambda>p. Ok (snd p)),
      sdk_prove_groth16 := (\<lambda>pk i w.
        case range_main output_encode archive_read (sample_kona (sample_boot 103 13)) (\<lambda>_ _ _. ())
               (sp1_io (stream_sp1 (\<lambda>_ _. True) id)) ([VBytes i], []) of
          (Ok _, s) \<Rightarrow> (Ok (pk, snd s), Suc w) | _ \<Rightarrow> (Err ''guest failed'', w))\<rparr>"

definition running_zkvms ::
  "(nat, bytes, bytes, bytes, bytes \<times> bytes, bytes, bytes, bytes \<times> bytes) zkvms" where
  "running_zkvms =
     \<lparr>zk_sp1 = running_sp1, zk_risc0 = reference_risc0, zk_sp1_elf = [1], zk_risc0_elf = [2],
      zk_risc0_image_id = replicate 8 0\<rparr>"

theorem proof_attests_range_witness:
  "\<exists>bs a store bt. run_prover \<lparr>ft_kona = True, ft_sp1 = True, ft_risc0 = False\<rparr> running_zkvms
         \<lparr>ri_proof_mode = Beacon, ri_backend = Sp1, ri_proving_mode = Groth16, ri_aggregation_window = 1\<rparr>
         \<lparr>rw_boot_info = [], rw_oracle_data = bs, rw_blob_data = []\<rparr> 0 = (Ok a, 2)
     \<and> from_rkyv_bytes archive_read bs = Some store
     \<and> pipeline_accepts (sample_kona (sample_boot 103 13)) (\<lambda>_ _ _. ()) store bt
     \<and> journal_from_abi_bytes output_decode (pa_public_values a) = Ok (boot_journal bt)"
proof -
  let ?intent = "\<lparr>ri_proof_mode = Beacon, ri_backend = Sp1, ri_proving_mode = Groth16, ri_aggregation_window = 1\<rparr>"
  let ?ft = "\<lparr>ft_kona = True, ft_sp1 = True, ft_risc0 = False\<rparr>"
  let ?main = "\<lambda>bs. range_main output_encode archive_read (sample_kona (sample_boot 103 13)) (\<lambda>_ _ _. ())
               (sp1_io (stream_sp1 (\<lambda>_ _. True) id)) ([VBytes bs], [])"
  obtain bs where bs: "archive_write (ps_data sample_preimages) = Ok bs"
    using archive_writes [of "ps_data sample_preimages"] by (auto simp: sample_preimages_def)
  let ?wit = "\<lparr>rw_boot_info = [], rw_oracle_data = bs, rw_blob_data = []\<rparr>"
  have store: "from_rkyv_bytes archive_read bs = Some sample_preimages"
    using arch.guest_reads [of "ps_data sample_preimages" bs] bs
    by (simp add: serialize_preimages_def preimage_store_new_def)
  have "pipeline_accepts (sample_kona (sample_boot 103 13)) (\<lambda>_ _ _. ()) sample_preimages (sample_boot 103 13)"
    by (rule sample_accepts) simp_all
  with store have "\<exists>s. ?main bs = (Ok (), s)
      \<and> snd s = [] @ journal_to_abi_bytes output_encode (boot_journal (sample_boot 103 13))"
    by (subst range_main_commits [OF sp1_stream.guest_stream_axioms]) auto
  then obtain s where main: "?main bs = (Ok (), s)" by blast
  obtain a where run: "run_prover ?ft running_zkvms ?intent ?wit 0 = (Ok a, 2)"
    using main
    by (simp add: run_prover_def sp1_prove_def running_zkvms_def running_sp1_def reference_sp1_def sp1_program_new_def
        act_bind_def act_map_err_def pair_write_def Let_def)
  have guest: "\<exists>s'. ?main i = (Ok (), s') \<and> snd s' = sdk_public_values (zk_sp1 running_zkvms) pr"
    if "sdk_prove_groth16 (zk_sp1 running_zkvms) pk (sdk_stdin_write (zk_sp1 running_zkvms) i) w1 = (Ok pr, w2)"
    for i pk pr w1 w2
    using that
    by (auto simp: running_zkvms_def running_sp1_def reference_sp1_def split: prod.splits outcome.splits)
  have "pa_backend a = Sp1 \<and> (\<exists>store bt. from_rkyv_bytes archive_read (rw_oracle_data ?wit) = Some store
     \<and> pipeline_accepts (sample_kona (sample_boot 103 13)) (\<lambda>_ _ _. ()) store bt
     \<and> journal_from_abi_bytes output_decode (pa_public_values a) = Ok (boot_journal bt))"
    by (rule proof_attests_range [where boot = "\<lambda>bs. ([VBytes bs], [])", OF out_abi.journal_abi_axioms
          sp1_stream.guest_stream_axioms _ _ _ _ run]) (simp, erule guest, simp_all)
  then show ?thesis using run by auto
qed

end
