(* ===== verification/Proving_Path.thy ===== *)
theory Proving_Path
  imports Cli_Prove Soundness
begin

text \<open>
  One request on its whole way: the witness that the RPC provider of \<open>Rpc_Witness\<close> generates,
  the range guest of \<open>Pipeline\<close> on it, the artifact of the prover, the submission, and the
  oracle of \<open>Onchain\<close>.  The two ends of kona, its native host that serves the local inputs and
  its client that loads them, are tied by a locale.
\<close>

section \<open>Local inputs\<close>

text \<open>
  The host answers the local keys 1 to 4 from its configuration, big-endian; the client's boot
  information consists of what its store holds under these keys.
\<close>

locale kona_inputs =
  fixes E :: "'w rpc_env"
    and K :: "('orc, 'cfg, 'l1c, 'hdr, 'l1p, 'l2p, 'cur, 'da, 'pipe, 'exec) kona_ops"
  assumes serve_l1_head:
      "fst (re_local_get E host (re_local_key E 1) w) = Some (be_bytes 32 (sh_l1_head host))"
    and serve_agreed:
      "fst (re_local_get E host (re_local_key E 2) w) = Some (be_bytes 32 (sh_agreed_l2_output_root host))"
    and serve_claimed:
      "fst (re_local_get E host (re_local_key E 3) w) = Some (be_bytes 32 (sh_claimed_l2_output_root host))"
    and serve_number:
      "fst (re_local_get E host (re_local_key E 4) w) = Some (be_bytes 8 (sh_claimed_l2_block_number host))"
    and load_boot: "ko_load_boot K (ko_caching_oracle K n store store) = Ok boot \<Longrightarrow>
       ps_data store (re_local_key E 1) = Some (be_bytes 32 (kb_l1_head boot))
       \<and> ps_data store (re_local_key E 2) = Some (be_bytes 32 (kb_agreed_l2_output_root boot))
       \<and> ps_data store (re_local_key E 3) = Some (be_bytes 32 (kb_claimed_l2_output_root boot))
       \<and> ps_data store (re_local_key E 4) = Some (be_bytes 8 (kb_claimed_l2_block_number boot))"
begin

text \<open>Injected inputs are loaded again.\<close>

lemma injected_boot:
  assumes "inject_local E host local_key_indices m w = (Ok m' :: ('e, preimages) outcome, w')"
    and "ko_load_boot K (ko_caching_oracle K n (preimage_store_new m') (preimage_store_new m')) = Ok boot"
  shows "kb_l1_head boot = sh_l1_head host" "kb_agreed_l2_output_root boot = sh_agreed_l2_output_root host"
    "kb_claimed_l2_output_root boot = sh_claimed_l2_output_root host"
    "kb_claimed_l2_block_number boot = sh_claimed_l2_block_number host"
proof -
  note serves = inject_local_serves [OF assms(1), unfolded local_key_indices_def]
  have "m' (re_local_key E 1) = Some (be_bytes 32 (sh_l1_head host))"
    "m' (re_local_key E 2) = Some (be_bytes 32 (sh_agreed_l2_output_root host))"
    "m' (re_local_key E 3) = Some (be_bytes 32 (sh_claimed_l2_output_root host))"
    "m' (re_local_key E 4) = Some (be_bytes 8 (sh_claimed_l2_block_number host))"
    by (rule serves, rule serve_l1_head serve_agreed serve_claimed serve_number, simp)+
  with load_boot [OF assms(2)] show "kb_l1_head boot = sh_l1_head host"
    "kb_agreed_l2_output_root boot = sh_agreed_l2_output_root host"
    "kb_claimed_l2_output_root boot = sh_claimed_l2_output_root host"
    "kb_claimed_l2_block_number boot = sh_claimed_l2_block_number host"
    by (simp_all add: preimage_store_new_def be_bytes_inject)
qed

lemma generated_boot:
  assumes archive: "preimage_archive to_bytes check_root"
    and run: "rpc_generate_witness enc to_bytes E self request (w, h) = (Ok rw, w', h')"
    and store: "from_rkyv_bytes check_root (rw_oracle_data rw) = Some store"
    and accepts: "pipeline_accepts K factory store boot"
  obtains claim config_hash v v1 where
    "fetch_output_root E self (rp_l2_rpc_url self) (req_l2_end_block request) v = (Ok claim, v1)"
    "rw_boot_info rw = boot_to_abi_bytes enc \<lparr>bi_l1_head = req_l1_head request,
       bi_l2_pre_root = req_l2_start_output_root request, bi_l2_claim = claim,
       bi_l2_block_number = req_l2_end_block request, bi_rollup_config_hash = config_hash\<rparr>"
    "boot_journal boot = \<lparr>j_l1_head = req_l1_head request, j_l2_pre_root = req_l2_start_output_root request,
       j_l2_post_root = claim, j_l2_block_number = req_l2_end_block request,
       j_rollup_config_hash = 0, j_program_id = 0\<rparr>"
proof -
  from run obtain claim config_hash v v1 head path l1_path u u' writes m' u'' bs where
    claim: "fetch_output_root E self (rp_l2_rpc_url self) (req_l2_end_block request) v = (Ok claim, v1)"
    and inject: "inject_local E (build_host_config self request head claim path l1_path) local_key_indices
        (map_of (rev writes)) u' = (Ok m' :: (rpc_witness_error, preimages) outcome, u'')"
    and bs: "serialize_preimages to_bytes m' = (Ok bs :: (rpc_witness_error, bytes) outcome)"
    and rw: "rw = \<lparr>rw_boot_info = boot_to_abi_bytes enc \<lparr>bi_l1_head = req_l1_head request,
             bi_l2_pre_root = req_l2_start_output_root request, bi_l2_claim = claim,
             bi_l2_block_number = req_l2_end_block request, bi_rollup_config_hash = config_hash\<rparr>,
           rw_oracle_data = bs, rw_blob_data = []\<rparr>"
    by (rule generate_witness_parts)
  from preimage_archive.guest_reads [OF archive bs] store rw have "store = preimage_store_new m'" by simp
  with accepts have "ko_load_boot K (ko_caching_oracle K 1024 (preimage_store_new m') (preimage_store_new m')) = Ok boot"
    by (simp add: pipeline_accepts_def Let_def)
  note injected_boot [OF inject this]
  then have "boot_journal boot = \<lparr>j_l1_head = req_l1_head request, j_l2_pre_root = req_l2_start_output_root request,
       j_l2_post_root = claim, j_l2_block_number = req_l2_end_block request,
       j_rollup_config_hash = 0, j_program_id = 0\<rparr>"
    by (simp add: boot_journal_def build_host_config_def)
  with claim rw show thesis by (intro that) simp_all
qed

end

text \<open>
  C13: the host's boot information is what the guest proves. If a range guest runs to its end on
  the oracle data of a witness the RPC provider generated, it commits the journal with exactly
  the head, roots and block number of the witness's own boot information, which are those of
  the request and the determined claim; the configuration hash of the boot information is not
  among them, the journal has zero.
\<close>

theorem host_boot_info_proved:
  assumes abi: "boot_abi enc dec" and archive: "preimage_archive to_bytes check_root"
    and kona: "kona_inputs E K" and stream: "guest_stream io input committed accepts"
    and gen: "rpc_generate_witness enc to_bytes E self request (w, h) = (Ok rw, w', h')"
    and guest: "input s = VBytes (rw_oracle_data rw) # r" "range_main jenc check_root K factory io s = (Ok (), s')"
  shows "\<exists>bi. boot_from_abi_bytes dec (rw_boot_info rw) = Ok bi
     \<and> bi_l1_head bi = req_l1_head request \<and> bi_l2_pre_root bi = req_l2_start_output_root request
     \<and> bi_l2_block_number bi = req_l2_end_block request
     \<and> committed s' = committed s @ journal_to_abi_bytes jenc
          \<lparr>j_l1_head = bi_l1_head bi, j_l2_pre_root = bi_l2_pre_root bi, j_l2_post_root = bi_l2_claim bi,
           j_l2_block_number = bi_l2_block_number bi, j_rollup_config_hash = 0, j_program_id = 0\<rparr>"
proof -
  from guest have "\<exists>s''. range_main jenc check_root K factory io s = (Ok (), s'') \<and> committed s'' = committed s'" by blast
  then obtain store boot where run: "from_rkyv_bytes check_root (rw_oracle_data rw) = Some store"
      "pipeline_accepts K factory store boot"
      "committed s' = committed s @ journal_to_abi_bytes jenc (boot_journal boot)"
    unfolding range_main_commits [OF stream] guest(1) by auto
  obtain claim config_hash v v1 where
    "rw_boot_info rw = boot_to_abi_bytes enc \<lparr>bi_l1_head = req_l1_head request,
       bi_l2_pre_root = req_l2_start_output_root request, bi_l2_claim = claim,
       bi_l2_block_number = req_l2_end_block request, bi_rollup_config_hash = config_hash\<rparr>"
    "boot_journal boot = \<lparr>j_l1_head = req_l1_head request, j_l2_pre_root = req_l2_start_output_root request,
       j_l2_post_root = claim, j_l2_block_number = req_l2_end_block request,
       j_rollup_config_hash = 0, j_program_id = 0\<rparr>"
    by (rule kona_inputs.generated_boot [OF kona archive gen run(1,2)])
  with run(3) boot_abi.from_to_abi_bytes [OF abi] show ?thesis by simp
qed

text \<open>
  C7: from a request to the chain. Let the witness of a request be generated by the RPC
  provider, proved by the SP1 prover, whose proofs come from finished runs of the range guest,
  and the artifact submitted successfully with the journal its public values decode to. Then
  the oracle stores, under the request's end block, the root the provider determined for that
  block and the request's L1 head, and the latest block is at least the end block; the journal
  starts at the request's root.
\<close>

theorem request_settles:
  assumes archive: "preimage_archive to_bytes check_root" and abi: "journal_abi jenc jdec"
    and kona: "kona_inputs E K" and stream: "guest_stream io input committed accepts"
    and start: "\<And>bs. input (boot bs) = [VBytes bs] \<and> committed (boot bs) = []"
    and guest: "\<And>bs pk pr w1 w2. sdk_prove_groth16 (zk_sp1 Z) pk (sdk_stdin_write (zk_sp1 Z) bs) w1 = (Ok pr, w2) \<Longrightarrow>
        \<exists>s'. range_main jenc check_root K factory io (boot bs) = (Ok (), s')
           \<and> committed s' = sdk_public_values (zk_sp1 Z) pr"
    and intent: "ri_backend intent = Sp1" "ri_proving_mode intent = Groth16"
    and gen: "rpc_generate_witness enc to_bytes E self request (w, h) = (Ok rw, w', h')"
    and prove: "run_prover ft Z intent rw z = (Ok a, z')"
    and decode: "journal_from_abi_bytes jdec (pa_public_values a) = Ok j"
    and submit: "rpc_submit_proof jenc (chain_tx_env V msg oa ga) sub j a c = (Ok tx, c')" "rs_oracle_address sub = oa"
  shows "\<exists>claim v v1. fetch_output_root E self (rp_l2_rpc_url self) (req_l2_end_block request) v = (Ok claim, v1)
     \<and> op_outputRoot (os_proposals (ch_oracle c') (req_l2_end_block request)) = claim
     \<and> op_l1Head (os_proposals (ch_oracle c') (req_l2_end_block request)) = req_l1_head request
     \<and> os_latestBlockNumber (ch_oracle c') = max (os_latestBlockNumber (ch_oracle c)) (req_l2_end_block request)
     \<and> j_l2_pre_root j = req_l2_start_output_root request"
proof -
  have "pa_backend a = Sp1 \<and> (\<exists>store bt. from_rkyv_bytes check_root (rw_oracle_data rw) = Some store
     \<and> pipeline_accepts K factory store bt
     \<and> pa_public_values a = journal_to_abi_bytes jenc (boot_journal bt))"
    by (rule prover_attests [OF stream start _ intent prove]) (rule guest)
  then obtain store bt where run: "from_rkyv_bytes check_root (rw_oracle_data rw) = Some store"
      "pipeline_accepts K factory store bt" and "pa_public_values a = journal_to_abi_bytes jenc (boot_journal bt)"
    by blast
  with decode journal_abi.from_to_abi_bytes [OF abi] have j: "j = boot_journal bt" by simp
  obtain claim config_hash v v1 where
    claim: "fetch_output_root E self (rp_l2_rpc_url self) (req_l2_end_block request) v = (Ok claim, v1)"
    and journal: "boot_journal bt = \<lparr>j_l1_head = req_l1_head request, j_l2_pre_root = req_l2_start_output_root request,
       j_l2_post_root = claim, j_l2_block_number = req_l2_end_block request,
       j_rollup_config_hash = 0, j_program_id = 0\<rparr>"
    by (rule kona_inputs.generated_boot [OF kona archive gen run])
  obtain s' where "c' = c\<lparr>ch_oracle := s'\<rparr>"
    "op_outputRoot (os_proposals s' (j_l2_block_number j)) = j_l2_post_root j"
    "op_l1Head (os_proposals s' (j_l2_block_number j)) = j_l1_head j"
    "os_latestBlockNumber s' = max (os_latestBlockNumber (ch_oracle c)) (j_l2_block_number j)"
    by (rule submission_stored [OF abi submit])
  with claim show ?thesis unfolding j journal by (intro exI [of _ claim] exI [of _ v] exI [of _ v1]) simp
qed

section \<open>A host and a client that agree\<close>

text \<open>The small kona, loading its boot information from the store, and a host that serves it.\<close>

definition loading_kona ::
  "(preimage_store, unit, unit, u64, unit, unit, unit, unit, unit, unit) kona_ops" where
  "loading_kona = (sample_kona (sample_boot 0 0))\<lparr>ko_load_boot := (\<lambda>st.
     case (ps_data st 1, ps_data st 2, ps_data st 3, ps_data st 4) of
       (Some a, Some b, Some c, Some d) \<Rightarrow>
         if length a = 32 \<and> length b = 32 \<and> length c = 32 \<and> length d = 8
         then Ok \<lparr>kb_l1_head = be_word a, kb_agreed_l2_output_root = be_word b, kb_claimed_l2_output_root = be_word c,
                  kb_claimed_l2_block_number = be_word d, kb_rollup_config = (), kb_l1_config = ()\<rparr>
         else Err ''length''
     | _ \<Rightarrow> Err ''missing'')\<rparr>"

definition serving_env :: "(string \<rightharpoonup> string) rpc_env" where
  "serving_env = sample_rpc_env
     \<lparr>re_run_client := (\<lambda>_ w. ((ClientDone, [(100, replicate 127 0 @ [77])]), w)),
      re_local_get := (\<lambda>host k w.
        (if k = 1 then Some (be_bytes 32 (sh_l1_head host))
         else if k = 2 then Some (be_bytes 32 (sh_agreed_l2_output_root host))
         else if k = 3 then Some (be_bytes 32 (sh_claimed_l2_output_root host))
         else if k = 4 then Some (be_bytes 8 (sh_claimed_l2_block_number host))
         else None, w))\<rparr>"

interpretation loading: kona_inputs serving_env loading_kona
  by unfold_locales
    (auto simp: serving_env_def loading_kona_def sample_kona_def be_bytes_be_word
      split: option.splits if_splits)

text \<open>A request for which the small kona derives the root that the node answers.\<close>

definition path_request :: proof_request where
  "path_request = \<lparr>req_l1_head = 1, req_l2_start_block = 2, req_l2_end_block = 38,
     req_l2_start_output_root = 100, req_mode = Groth16\<rparr>"

definition path_preimages :: preimages where
  "path_preimages = [100 \<mapsto> replicate 127 0 @ [77], 1 \<mapsto> be_bytes 32 (1 :: b256), 2 \<mapsto> be_bytes 32 (100 :: b256),
     3 \<mapsto> be_bytes 32 (128 :: b256), 4 \<mapsto> be_bytes 8 (38 :: u64)]"

lemma serving_sel:
  "re_parse_url serving_env = re_parse_url sample_rpc_env"
  "re_raw_request serving_env = re_raw_request sample_rpc_env"
  "re_block_by_number serving_env = re_block_by_number sample_rpc_env"
  "re_canonicalize serving_env = re_canonicalize sample_rpc_env"
  "re_read serving_env = re_read sample_rpc_env"
  "re_read_to_string serving_env = re_read_to_string sample_rpc_env"
  "re_write serving_env = re_write sample_rpc_env"
  "re_temp_file serving_env = re_temp_file sample_rpc_env"
  "re_process_id serving_env = re_process_id sample_rpc_env"
  "re_from_str serving_env = re_from_str sample_rpc_env"
  "re_from_slice serving_env = re_from_slice sample_rpc_env"
  "re_to_string_pretty serving_env = re_to_string_pretty sample_rpc_env"
  "re_to_vec serving_env = re_to_vec sample_rpc_env"
  "re_keccak256 serving_env = re_keccak256 sample_rpc_env"
  "re_parse_b256 serving_env = re_parse_b256 sample_rpc_env"
  by (simp_all add: serving_env_def)

lemma serving_same:
  "url_checked serving_env = url_checked sample_rpc_env"
  "request_output_root serving_env = request_output_root sample_rpc_env"
  "header_output_root serving_env = header_output_root sample_rpc_env"
  "write_config serving_env = write_config sample_rpc_env"
  "existing_rollup_config serving_env = existing_rollup_config sample_rpc_env"
  unfolding url_checked_def request_output_root_def header_output_root_def write_config_def
      existing_rollup_config_def serving_sel
  by (rule HOL.refl)+

lemma serving_fetch: "fetch_rollup_config serving_env = fetch_rollup_config sample_rpc_env"
  unfolding fetch_rollup_config_def serving_sel serving_same
  by (rule HOL.refl)+

lemma serving_ensure:
  "ensure_rollup_config serving_env = ensure_rollup_config sample_rpc_env"
  "ensure_l1_config serving_env = ensure_l1_config sample_rpc_env"
  "compute_rollup_config_hash serving_env = compute_rollup_config_hash sample_rpc_env"
  "fetch_output_root serving_env = fetch_output_root sample_rpc_env"
  unfolding ensure_rollup_config_def ensure_l1_config_def compute_rollup_config_hash_def
      fetch_output_root_def serving_sel serving_same serving_fetch
  by (rule HOL.refl)+

lemma serving_collect:
  "collect_witness serving_env host (w, \<lparr>kh_next = 0, kh_store = (\<lambda>_. Map.empty)\<rparr>) =
     (Ok 0, w, \<lparr>kh_next = 1, kh_store = (\<lambda>_. Map.empty)(0 := [100 \<mapsto> replicate 127 0 @ [77]])\<rparr>)"
  by (simp add: collect_witness_def new_store_def kv_defs run_client_and_server_def in_world_def act_bind_def
    act_map_err_def serving_env_def)

lemma serving_inject:
  "inject_local serving_env host local_key_indices m w =
     (Ok (m(1 \<mapsto> be_bytes 32 (sh_l1_head host), 2 \<mapsto> be_bytes 32 (sh_agreed_l2_output_root host),
            3 \<mapsto> be_bytes 32 (sh_claimed_l2_output_root host), 4 \<mapsto> be_bytes 8 (sh_claimed_l2_block_number host))), w)"
  by (simp add: local_key_indices_def serving_env_def)

lemma path_generates:
  assumes "archive_write path_preimages = Ok bs"
  shows "\<exists>rw s. rpc_generate_witness boot_encode archive_write serving_env sample_rpc_provider path_request
      (Map.empty, \<lparr>kh_next = 0, kh_store = (\<lambda>_. Map.empty)\<rparr>) = (Ok rw, s) \<and> rw_oracle_data rw = bs"
proof -
  have "[100 \<mapsto> replicate 127 0 @ [77 :: u8], 1 \<mapsto> be_bytes 32 (1 :: b256), 2 \<mapsto> be_bytes 32 (100 :: b256),
     3 \<mapsto> be_bytes 32 (128 :: b256), 4 \<mapsto> be_bytes 8 (38 :: u64)] = path_preimages"
    by (simp add: path_preimages_def)
  then show ?thesis
    using assms
    by (simp add: rpc_generate_witness_def act_bind_def in_world_def serving_ensure sample_ensure sample_hash
      act_map_err_def sample_root sample_parsed sample_l1 serving_collect kv_snapshot_def serving_inject
      serialize_preimages_def Let_def serving_sel serving_same path_request_def build_host_config_def url_checked_def)
qed

abbreviation path_main :: "bytes \<Rightarrow> (unit, unit) outcome \<times> stream_state" where
  "path_main bs \<equiv> range_main output_encode archive_read loading_kona (\<lambda>_ _ _. ())
     (sp1_io (stream_sp1 (\<lambda>_ _. True) id)) ([VBytes bs], [])"

definition path_boot :: "(unit, unit) kona_boot" where
  "path_boot = \<lparr>kb_l1_head = 1, kb_agreed_l2_output_root = 100, kb_claimed_l2_output_root = 128,
     kb_claimed_l2_block_number = 38, kb_rollup_config = (), kb_l1_config = ()\<rparr>"

lemma path_accepts: "pipeline_accepts loading_kona (\<lambda>_ _ _. ()) (preimage_store_new path_preimages) path_boot"
proof -
  let ?K = loading_kona and ?st = "preimage_store_new path_preimages"
  have kona: "ko_caching_oracle ?K k st st = st" "ko_header_by_hash ?K p hh = Ok 10" "ko_header_number ?K x = x"
    for k st p hh x
    by (simp_all add: loading_kona_def sample_kona_def)
  have load: "ko_load_boot ?K ?st = Ok path_boot"
    by (simp add: loading_kona_def preimage_store_new_def path_preimages_def path_boot_def be_word_be_bytes)
  have head: "fetch_safe_head_hash ?K ?st 100 = Ok 77"
    by (simp add: fetch_safe_head_hash_def loading_kona_def sample_kona_def preimage_store_new_def path_preimages_def
        preimage_get_exact_def preimage_get_def subslice_def b256_of_slice_def be_word_def Let_def)
  have "derive_output_root ?K f orc path_boot hd' p q = Ok 128" for f orc hd' p q
    by (simp add: derive_output_root_def loading_kona_def sample_kona_def path_boot_def Let_def)
  with load head kona show ?thesis
    by (auto simp: pipeline_accepts_def path_boot_def Let_def)
qed

lemma path_runs:
  obtains rw w h bs where "rpc_generate_witness boot_encode archive_write serving_env sample_rpc_provider path_request
      (Map.empty, \<lparr>kh_next = 0, kh_store = (\<lambda>_. Map.empty)\<rparr>) = (Ok rw, w, h)"
    "\<exists>s. path_main (rw_oracle_data rw) = (Ok (), s) \<and> snd s = journal_to_abi_bytes output_encode (boot_journal path_boot)"
proof -
  obtain bs where bs: "archive_write path_preimages = Ok bs"
    using archive_writes [of path_preimages] by (auto simp: path_preimages_def)
  from path_generates [OF bs] obtain rw s where
    gen: "rpc_generate_witness boot_encode archive_write serving_env sample_rpc_provider path_request
      (Map.empty, \<lparr>kh_next = 0, kh_store = (\<lambda>_. Map.empty)\<rparr>) = (Ok rw, s)" "rw_oracle_data rw = bs" by blast
  have "from_rkyv_bytes archive_read bs = Some (preimage_store_new path_preimages)"
    using arch.guest_reads [of path_preimages bs] bs by (simp add: serialize_preimages_def)
  with path_accepts have "\<exists>s. path_main bs = (Ok (), s)
      \<and> snd s = [] @ journal_to_abi_bytes output_encode (boot_journal path_boot)"
    by (subst range_main_commits [OF sp1_stream.guest_stream_axioms]) auto
  with gen show thesis by (cases s) (auto intro: that)
qed

theorem host_boot_info_proved_witness:
  "\<exists>rw s s' bi. rpc_generate_witness boot_encode archive_write serving_env sample_rpc_provider path_request
       (Map.empty, \<lparr>kh_next = 0, kh_store = (\<lambda>_. Map.empty)\<rparr>) = (Ok rw, s)
     \<and> boot_from_abi_bytes boot_decode (rw_boot_info rw) = Ok bi \<and> bi_l2_pre_root bi = 100 \<and> bi_l2_block_number bi = 38
     \<and> path_main (rw_oracle_data rw) = (Ok (), s')
     \<and> snd s' = journal_to_abi_bytes output_encode
          \<lparr>j_l1_head = bi_l1_head bi, j_l2_pre_root = bi_l2_pre_root bi, j_l2_post_root = bi_l2_claim bi,
           j_l2_block_number = bi_l2_block_number bi, j_rollup_config_hash = 0, j_program_id = 0\<rparr>"
proof -
  obtain rw w h s' where gen: "rpc_generate_witness boot_encode archive_write serving_env sample_rpc_provider path_request
      (Map.empty, \<lparr>kh_next = 0, kh_store = (\<lambda>_. Map.empty)\<rparr>) = (Ok rw, w, h)"
    and main: "path_main (rw_oracle_data rw) = (Ok (), s')"
    by (rule path_runs) blast
  from host_boot_info_proved [OF bt_abi.boot_abi_axioms arch.preimage_archive_axioms loading.kona_inputs_axioms
      sp1_stream.guest_stream_axioms gen _ main, of "[]"]
  obtain bi where bi: "boot_from_abi_bytes boot_decode (rw_boot_info rw) = Ok bi"
    "bi_l2_pre_root bi = 100" "bi_l2_block_number bi = 38"
    "snd s' = journal_to_abi_bytes output_encode
          \<lparr>j_l1_head = bi_l1_head bi, j_l2_pre_root = bi_l2_pre_root bi, j_l2_post_root = bi_l2_claim bi,
           j_l2_block_number = bi_l2_block_number bi, j_rollup_config_hash = 0, j_program_id = 0\<rparr>"
    by (auto simp: path_request_def)
  show ?thesis
    by (rule exI [of _ rw], rule exI [of _ "(w, h)"], rule exI [of _ s'], rule exI [of _ bi])
      (simp add: gen main bi)
qed

text \<open>A prover over this guest, and a chain that accepts its proof.\<close>

definition path_zkvms ::
  "(nat, bytes, bytes, bytes, bytes \<times> bytes, bytes, bytes, bytes \<times> bytes) zkvms" where
  "path_zkvms = running_zkvms\<lparr>zk_sp1 := running_sp1\<lparr>sdk_prove_groth16 := (\<lambda>pk i w.
     case path_main i of (Ok _, s) \<Rightarrow> (Ok (pk, snd s), Suc w) | _ \<Rightarrow> (Err ''guest failed'', w))\<rparr>\<rparr>"

definition path_intent :: resolved_intent where
  "path_intent = \<lparr>ri_proof_mode = Beacon, ri_backend = Sp1, ri_proving_mode = Groth16, ri_aggregation_window = 1\<rparr>"

theorem request_settles_witness:
  "\<exists>rw s a j c'. rpc_generate_witness boot_encode archive_write serving_env sample_rpc_provider path_request
       (Map.empty, \<lparr>kh_next = 0, kh_store = (\<lambda>_. Map.empty)\<rparr>) = (Ok rw, s)
     \<and> run_prover \<lparr>ft_kona = True, ft_sp1 = True, ft_risc0 = False\<rparr> path_zkvms path_intent rw 0 = (Ok a, 2)
     \<and> journal_from_abi_bytes output_decode (pa_public_values a) = Ok j
     \<and> rpc_submit_proof output_encode (chain_tx_env sample_verifiers sample_msg 3 4) (rpc_submitter_new ''u'' 3 ''k'')
         j a sample_c0 = (Ok 1, c')
     \<and> op_outputRoot (os_proposals (ch_oracle c') 38) = 128 \<and> j_l2_pre_root j = 100"
proof -
  let ?ft = "\<lparr>ft_kona = True, ft_sp1 = True, ft_risc0 = False\<rparr>"
  let ?J = "journal_to_abi_bytes output_encode (boot_journal path_boot)"
  obtain rw w h s' where gen: "rpc_generate_witness boot_encode archive_write serving_env sample_rpc_provider path_request
      (Map.empty, \<lparr>kh_next = 0, kh_store = (\<lambda>_. Map.empty)\<rparr>) = (Ok rw, w, h)"
    and main: "path_main (rw_oracle_data rw) = (Ok (), s')" "snd s' = ?J"
    by (rule path_runs) blast
  obtain a where prove: "run_prover ?ft path_zkvms path_intent rw 0 = (Ok a, 2)"
    and a: "pa_public_values a = ?J" "pa_backend a = Sp1"
    using main
    by (simp add: run_prover_def sp1_prove_def path_zkvms_def path_intent_def running_zkvms_def running_sp1_def
        reference_sp1_def sp1_program_new_def act_bind_def act_map_err_def pair_write_def Let_def)
  have decode: "journal_from_abi_bytes output_decode (pa_public_values a) = Ok (boot_journal path_boot)"
    unfolding a by (rule out_abi.from_to_abi_bytes)
  obtain c' where submit: "rpc_submit_proof output_encode (chain_tx_env sample_verifiers sample_msg 3 4)
      (rpc_submitter_new ''u'' 3 ''k'') (boot_journal path_boot) a sample_c0 = (Ok 1, c')"
    using a(2) out_abi.length_to_abi_bytes out_abi.to_abi_bytes_slot_at
    by (simp add: rpc_submit_proof_def build_provider_def chain_tx_env_def rpc_submitter_new_def act_bind_def
        act_map_err_def Let_def submitSp1Proof_def sample_verifiers_def processJournal_def sample_c0_def oracle_new_def
        no_proposal_def)
  have guest: "\<exists>s'. path_main i = (Ok (), s') \<and> snd s' = sdk_public_values (zk_sp1 path_zkvms) pr"
    if "sdk_prove_groth16 (zk_sp1 path_zkvms) pk (sdk_stdin_write (zk_sp1 path_zkvms) i) w1 = (Ok pr, w2)"
    for i pk pr w1 w2
    using that
    by (auto simp: path_zkvms_def running_zkvms_def running_sp1_def reference_sp1_def split: prod.splits outcome.splits)
  have "\<exists>claim v v1. fetch_output_root serving_env sample_rpc_provider (rp_l2_rpc_url sample_rpc_provider)
        (req_l2_end_block path_request) v = (Ok claim, v1)
     \<and> op_outputRoot (os_proposals (ch_oracle c') (req_l2_end_block path_request)) = claim
     \<and> op_l1Head (os_proposals (ch_oracle c') (req_l2_end_block path_request)) = req_l1_head path_request
     \<and> os_latestBlockNumber (ch_oracle c') = max (os_latestBlockNumber (ch_oracle sample_c0)) (req_l2_end_block path_request)
     \<and> j_l2_pre_root (boot_journal path_boot) = req_l2_start_output_root path_request"
    by (rule request_settles [where boot = "\<lambda>bs. ([VBytes bs], [])", OF arch.preimage_archive_axioms out_abi.journal_abi_axioms
          loading.kona_inputs_axioms sp1_stream.guest_stream_axioms _ _ _ _ gen prove decode submit])
      (simp, erule guest, simp_all add: path_intent_def rpc_submitter_new_def)
  then have "op_outputRoot (os_proposals (ch_oracle c') 38) = 128" "j_l2_pre_root (boot_journal path_boot) = 100"
    by (auto simp: serving_ensure sample_root path_request_def)
  with gen prove decode submit show ?thesis
    by (intro exI [of _ rw] exI [of _ "(w, h)"] exI [of _ a] exI [of _ "boot_journal path_boot"] exI [of _ c']) simp
qed

end
