(* ===== verification/Forgery.thy ===== *)
theory Forgery
  imports Proving_Path
begin

text \<open>
  The range guest's preimages are the prover's: \<open>PreimageStore\<close> (crates/guest/src/oracle.rs)
  serves whatever bytes the archive holds under a key, and nothing on the way to the journal
  compares a value with the hash it is stored under.  The theory takes kona as a client that
  only reads its store and shows which journals that allows.
\<close>

section \<open>A client that reads its store\<close>

text \<open>
  \<open>local_key\<close> and \<open>keccak_key\<close> are the keys of the two kinds of preimages, told apart by their
  type byte; \<open>config\<close> holds entries under the local keys 5 to 7 with which boot information
  loads; \<open>header_bytes\<close> is the encoding of some header \<open>hdr\<close>.
\<close>

locale reading_kona = preimage_archive to_bytes check_root
  for to_bytes :: "preimages \<Rightarrow> (string, bytes) outcome" and check_root +
  fixes K :: "('orc, 'cfg, 'l1c, 'hdr, 'l1p, 'l2p, 'cur, 'da, 'pipe, 'exec) kona_ops"
    and local_key :: "u64 \<Rightarrow> b256"
    and keccak_key :: "b256 \<Rightarrow> b256"
    and config :: preimages
    and header_bytes :: bytes
    and hdr :: 'hdr
  assumes archives: "finite (dom m) \<Longrightarrow> \<forall>v \<in> ran m. length v < 2 ^ 64 \<Longrightarrow> \<exists>bs. to_bytes m = Ok bs"
    and gets: "ko_get_exact K (ko_caching_oracle K n st st) r buf = preimage_get_exact keccak_key st r buf"
    and hints: "ko_send_starting_l2_output K orc r = Ok ()"
    and loads: "config \<subseteq>\<^sub>m ps_data st \<Longrightarrow> ps_data st (local_key 1) = Some (be_bytes 32 a) \<Longrightarrow>
        ps_data st (local_key 2) = Some (be_bytes 32 r) \<Longrightarrow> ps_data st (local_key 3) = Some (be_bytes 32 c) \<Longrightarrow>
        ps_data st (local_key 4) = Some (be_bytes 8 number) \<Longrightarrow>
        \<exists>boot. ko_load_boot K (ko_caching_oracle K n st st) = Ok boot \<and> kb_l1_head boot = a
          \<and> kb_agreed_l2_output_root boot = r \<and> kb_claimed_l2_output_root boot = c
          \<and> kb_claimed_l2_block_number boot = number"
    and header: "ps_data st (keccak_key h) = Some header_bytes \<Longrightarrow>
        ko_header_by_hash K (ko_l2_provider K h cfg (ko_caching_oracle K n st st)) h = Ok hdr"
    and kinds: "keccak_key h \<noteq> local_key i"
    and locals: "i \<in> {1, 2, 3, 4} \<Longrightarrow> j \<in> {1, 2, 3, 4} \<Longrightarrow> local_key i = local_key j \<longleftrightarrow> i = j"
    and sizes: "length header_bytes < 2 ^ 64" "\<forall>v \<in> ran config. length v < 2 ^ 64"
    and config_keys: "dom config \<subseteq> local_key ` {5, 6, 7}" "i \<in> {1, 2, 3, 4} \<Longrightarrow> local_key i \<notin> local_key ` {5, 6, 7}"
begin

text \<open>Preimages for a claim of any root, at any block, with any L1 head.\<close>

definition forged :: "b256 \<Rightarrow> b256 \<Rightarrow> u64 \<Rightarrow> b256 \<Rightarrow> preimages" where
  "forged a r number h = config(local_key 1 \<mapsto> be_bytes 32 a, local_key 2 \<mapsto> be_bytes 32 r,
     local_key 3 \<mapsto> be_bytes 32 r, local_key 4 \<mapsto> be_bytes 8 number,
     keccak_key r \<mapsto> replicate 96 0 @ be_bytes 32 h, keccak_key h \<mapsto> header_bytes)"

lemma forged_sel:
  assumes "keccak_key h \<noteq> keccak_key r"
  shows "forged a r number h (local_key 1) = Some (be_bytes 32 a)" "forged a r number h (local_key 2) = Some (be_bytes 32 r)"
    "forged a r number h (local_key 3) = Some (be_bytes 32 r)" "forged a r number h (local_key 4) = Some (be_bytes 8 number)"
    "forged a r number h (keccak_key r) = Some (replicate 96 0 @ be_bytes 32 h)"
    "forged a r number h (keccak_key h) = Some header_bytes" "config \<subseteq>\<^sub>m forged a r number h"
proof -
  note distinct = kinds kinds [symmetric] locals
  show "forged a r number h (local_key 1) = Some (be_bytes 32 a)" "forged a r number h (local_key 2) = Some (be_bytes 32 r)"
    "forged a r number h (local_key 3) = Some (be_bytes 32 r)" "forged a r number h (local_key 4) = Some (be_bytes 8 number)"
    "forged a r number h (keccak_key r) = Some (replicate 96 0 @ be_bytes 32 h)"
    "forged a r number h (keccak_key h) = Some header_bytes"
    using assms by (simp_all add: forged_def distinct)
  show "config \<subseteq>\<^sub>m forged a r number h"
    unfolding map_le_def
  proof
    fix x
    assume "x \<in> dom config"
    with config_keys(1) have x: "x \<in> local_key ` {5, 6, 7}" by (rule subsetD)
    then have "x \<noteq> local_key i" if "i \<in> {1, 2, 3, 4}" for i
      using config_keys(2) [OF that] by auto
    moreover from x kinds have "x \<noteq> keccak_key y" for y by auto
    ultimately show "config x = forged a r number h x" by (simp add: forged_def)
  qed
qed

lemma forged_accepted:
  assumes "keccak_key h \<noteq> keccak_key r" and "ko_header_number K hdr \<le> number"
  obtains bs boot where "from_rkyv_bytes check_root bs = Some (preimage_store_new (forged a r number h))"
    "pipeline_accepts K factory (preimage_store_new (forged a r number h)) boot"
    "boot_journal boot = \<lparr>j_l1_head = a, j_l2_pre_root = r, j_l2_post_root = r, j_l2_block_number = number,
       j_rollup_config_hash = 0, j_program_id = 0\<rparr>"
proof -
  let ?st = "preimage_store_new (forged a r number h)"
  let ?orc = "ko_caching_oracle K 1024 ?st ?st"
  note sel = forged_sel [OF assms(1), of a number]
  have data: "ps_data ?st = forged a r number h" by (simp add: preimage_store_new_def)
  have "finite (dom config)" using config_keys(1) by (rule finite_subset) simp
  then have "finite (dom (forged a r number h))" by (simp add: forged_def)
  moreover have "\<forall>v \<in> ran (forged a r number h). length v < 2 ^ 64"
  proof
    fix v
    assume "v \<in> ran (forged a r number h)"
    then obtain k where "forged a r number h k = Some v" by (auto simp: ran_def)
    then have "v \<in> ran config \<or> v \<in> {be_bytes 32 a, be_bytes 32 r, be_bytes 8 number, replicate 96 0 @ be_bytes 32 h, header_bytes}"
      by (auto simp: forged_def ran_def split: if_splits)
    with sizes show "length v < 2 ^ 64" by auto
  qed
  ultimately obtain bs where "to_bytes (forged a r number h) = Ok bs" using archives by blast
  then have read: "from_rkyv_bytes check_root bs = Some ?st"
    using guest_reads [of "forged a r number h" bs] by (simp add: serialize_preimages_def)
  obtain boot where boot: "ko_load_boot K ?orc = Ok boot" "kb_l1_head boot = a" "kb_agreed_l2_output_root boot = r"
      "kb_claimed_l2_output_root boot = r" "kb_claimed_l2_block_number boot = number"
    using loads [of ?st a r r number 1024] sel unfolding data by blast
  have "fetch_safe_head_hash K ?orc r = Ok h"
    by (simp add: fetch_safe_head_hash_def gets hints preimage_get_exact_def preimage_get_def data sel subslice_def
        b256_of_slice_def be_word_be_bytes)
  moreover have "ko_header_by_hash K (ko_l2_provider K h (kb_rollup_config boot) ?orc) h = Ok hdr"
    by (rule header) (simp add: data sel)
  ultimately have "pipeline_accepts K factory ?st boot"
    using boot assms(2) by (simp add: pipeline_accepts_def)
  moreover have "boot_journal boot = \<lparr>j_l1_head = a, j_l2_pre_root = r, j_l2_post_root = r, j_l2_block_number = number,
       j_rollup_config_hash = 0, j_program_id = 0\<rparr>"
    using boot by (simp add: boot_journal_def)
  ultimately show thesis using read that by blast
qed

end

text \<open>
  C12: any output root can be proved. Because the guest takes preimages without comparing them
  with their keys, for every output root, L1 head and block number there is an input on which
  the range guest commits them, with one made-up header for the safe head. Over a complete proof
  system the oracle then stores that root for any block it has not stored yet.
\<close>

theorem any_root_provable:
  assumes ps: "complete_proof_system io input committed accepts enc dec V commits check_root K factory range_key agg_key range_words"
    and kona: "reading_kona to_bytes check_root K local_key keccak_key config header_bytes hdr"
    and header: "keccak_key h \<noteq> keccak_key root" "ko_header_number K hdr \<le> number"
    and configured: "os_sp1ProgramVKey s = range_key" "\<not> isBlockProven s number"
  shows "\<exists>pr s' evs. oracle_exec V msg (SubmitSp1Proof (journal_to_abi_bytes enc
         \<lparr>j_l1_head = head, j_l2_pre_root = root, j_l2_post_root = root, j_l2_block_number = number,
          j_rollup_config_hash = 0, j_program_id = 0\<rparr>) pr) s = Ok (s', evs)
     \<and> op_outputRoot (os_proposals s' number) = root
     \<and> os_latestBlockNumber s' = max (os_latestBlockNumber s) number"
proof -
  let ?j = "\<lparr>j_l1_head = head, j_l2_pre_root = root, j_l2_post_root = root, j_l2_block_number = number,
          j_rollup_config_hash = 0, j_program_id = 0\<rparr>"
  obtain bs boot st where forged: "from_rkyv_bytes check_root bs = Some st" "pipeline_accepts K factory st boot"
      "boot_journal boot = ?j"
    by (rule reading_kona.forged_accepted [OF kona header])
  have "commits (os_sp1ProgramVKey s) (journal_to_abi_bytes enc ?j)"
    using complete_proof_system.range_commits [OF ps forged(1,2)] by (simp add: forged(3) configured(1))
  from complete_proof_system.oracle_takes [OF ps this, of msg] configured(2) show ?thesis by auto
qed

section \<open>A small client\<close>

text \<open>The kona of \<open>Proving_Path\<close> that loads its boot information, with typed keys for hashes.\<close>

definition typed_key :: "b256 \<Rightarrow> b256" where
  "typed_key h = set_bit 255 h"

definition typed_kona :: small_kona where
  "typed_kona = loading_kona\<lparr>ko_get_exact := preimage_get_exact typed_key\<rparr>"

lemma typed_key_kind: "typed_key h \<noteq> ucast (i :: u64)"
proof -
  have "bit (typed_key h) 255" by (simp add: typed_key_def bit_simps)
  moreover have "\<not> bit (ucast i :: b256) 255" by (auto simp: bit_simps dest: bit_imp_le_length)
  ultimately show ?thesis by metis
qed

interpretation typed: reading_kona archive_write archive_read typed_kona "ucast :: u64 \<Rightarrow> b256" typed_key
  Map.empty "[]" "10"
proof unfold_locales
  show "\<exists>bs. archive_write m = Ok bs" if "finite (dom m)" "\<forall>v \<in> ran m. length v < 2 ^ 64" for m
    using archive_writes [of m] that by auto
  fix st :: preimage_store and a r c :: b256 and number :: u64 and n
  assume "ps_data st (ucast (1 :: u64)) = Some (be_bytes 32 a)" "ps_data st (ucast (2 :: u64)) = Some (be_bytes 32 r)"
    "ps_data st (ucast (3 :: u64)) = Some (be_bytes 32 c)" "ps_data st (ucast (4 :: u64)) = Some (be_bytes 8 number)"
  then show "\<exists>boot. ko_load_boot typed_kona (ko_caching_oracle typed_kona n st st) = Ok boot \<and> kb_l1_head boot = a
      \<and> kb_agreed_l2_output_root boot = r \<and> kb_claimed_l2_output_root boot = c \<and> kb_claimed_l2_block_number boot = number"
    by (simp add: typed_kona_def loading_kona_def sample_kona_def be_word_be_bytes)
qed (auto simp: typed_kona_def loading_kona_def sample_kona_def typed_key_kind)

theorem any_root_provable_witness:
  "\<exists>pr s' evs. oracle_exec (ideal_verifiers typed_kona) sample_msg (SubmitSp1Proof (journal_to_abi_bytes output_encode
         \<lparr>j_l1_head = 5, j_l2_pre_root = 666, j_l2_post_root = 666, j_l2_block_number = 1000,
          j_rollup_config_hash = 0, j_program_id = 0\<rparr>) pr) (ch_oracle (ideal_chain 1)) = Ok (s', evs)
     \<and> op_outputRoot (os_proposals s' 1000) = 666"
proof -
  have "typed_key 1 \<noteq> typed_key 666"
  proof
    assume "typed_key 1 = typed_key 666"
    then have "bit (typed_key 1) 0 = bit (typed_key 666) 0" by simp
    then show False by (simp add: typed_key_def bit_simps bit_numeral_rec)
  qed
  moreover have "ko_header_number typed_kona 10 \<le> (1000 :: u64)"
    by (simp add: typed_kona_def loading_kona_def sample_kona_def)
  ultimately show ?thesis
    using any_root_provable [OF ideal.complete_proof_system_axioms typed.reading_kona_axioms, of 1 666 1000
        "ch_oracle (ideal_chain 1)" sample_msg 5] ideal_chain_fresh
    by blast
qed

end
