(* ===== verification/Cli_Estimate.thy ===== *)
theory Cli_Estimate
  imports Cli_Prove Planning Pricing
begin

text \<open>
  The command line's \<open>estimate\<close> (crates/cli/src/commands/estimate.rs): the choice of a pricing
  provider, the count of blocks and ranges, the execution that counts cycles, and the report.
  The market APIs and the text of a double with so many decimals are parameters.
\<close>

section \<open>Pricing providers\<close>

record ('w, 'f, 'signer, 'client) pricing_env =
  pe_f64 :: "'f f64_ops"
  pe_fixed_digits :: "nat \<Rightarrow> 'f \<Rightarrow> string"
  pe_indexer :: "'w indexer_ops"
  pe_get_json :: "string \<Rightarrow> ('w, string, json) action"
  pe_as_f64 :: "json \<Rightarrow> 'f option"
  pe_env :: "string \<Rightarrow> string option"
  pe_local_signer :: "string \<Rightarrow> (string, 'signer) outcome"
  pe_new_client :: "'signer \<Rightarrow> string \<Rightarrow> 'client"
  pe_requests :: "'client \<Rightarrow> u32 \<Rightarrow> ('w, string, filtered_response) action"

datatype ('client, 'f) dyn_pricing =
    DynFixed "'f fixed_pricing"
  | DynBoundless "'f boundless_pricing"
  | DynSuccinct "('client, 'f) succinct_pricing"

text \<open>The texts of the providers' errors.\<close>

definition quoted :: "string \<Rightarrow> string" where
  "quoted s = [CHR 0x27] @ s @ [CHR 0x27]"

fun fixed_pricing_error_to_string :: "fixed_pricing_error \<Rightarrow> string" where
  "fixed_pricing_error_to_string (FixedPricingError s) = ''fixed pricing error: '' @ s"

fun boundless_pricing_error_to_string :: "boundless_pricing_error \<Rightarrow> string" where
  "boundless_pricing_error_to_string (BoundlessHttp e) = ''HTTP request failed: '' @ e"
| "boundless_pricing_error_to_string BoundlessNoData = ''no aggregate data returned from indexer''"
| "boundless_pricing_error_to_string (BoundlessParseWei s e) =
     ''failed to parse wei value '' @ quoted s @ '': '' @ e"
| "boundless_pricing_error_to_string (BoundlessUnsupportedBackend b) =
     ''backend '' @ show_backend b @ '' is not supported by Boundless pricing''"

fun succinct_pricing_error_to_string :: "succinct_pricing_error \<Rightarrow> string" where
  "succinct_pricing_error_to_string (SuccinctGrpc e) = ''gRPC call failed: '' @ e"
| "succinct_pricing_error_to_string SuccinctNoData = ''no fulfilled proof requests found''"
| "succinct_pricing_error_to_string (SuccinctConfig e) = ''configuration error: '' @ e"
| "succinct_pricing_error_to_string (SuccinctUnsupportedBackend b) =
     ''backend '' @ show_backend b @ '' is not supported by Succinct pricing''"

fun dyn_price ::
  "('w, 'f, 'signer, 'client) pricing_env \<Rightarrow> ('client, 'f) dyn_pricing \<Rightarrow> cycle_estimate
     \<Rightarrow> ('w, string, 'f pricing_info) action" where
  "dyn_price P (DynFixed p) estimate =
     act_map_err fixed_pricing_error_to_string (act_lift (fixed_price (pe_f64 P) p estimate))"
| "dyn_price P (DynBoundless p) estimate =
     act_map_err boundless_pricing_error_to_string (boundless_price (pe_f64 P) (pe_indexer P) p estimate)"
| "dyn_price P (DynSuccinct p) estimate =
     act_map_err succinct_pricing_error_to_string (succinct_price (pe_f64 P) (pe_requests P) p estimate)"

definition resolve_boundless ::
  "('w, 'f, 'signer, 'client) pricing_env \<Rightarrow> 'f cli_config \<Rightarrow> ('w, string, ('client, 'f) dyn_pricing) action" where
  "resolve_boundless P config =
     (let percentile = unwrap_or P50 (percentile_parse (gc_boundless_percentile (cc_pricing config)))
      in act_bind (fetch_eth_usd (pe_f64 P) (pe_get_json P) (pe_as_f64 P) (gc_eth_usd_price (cc_pricing config)))
           (\<lambda>eth_usd.
         act_return (DynBoundless (boundless_with_options ''https://d2mdvlnmyov1e1.cloudfront.net'' percentile eth_usd))))"

definition resolve_succinct ::
  "('w, 'f, 'signer, 'client) pricing_env \<Rightarrow> 'f cli_config \<Rightarrow> ('w, string, ('client, 'f) dyn_pricing) action" where
  "resolve_succinct P config =
     act_bind (fetch_prove_usd (pe_f64 P) (pe_get_json P) (pe_as_f64 P) (gc_prove_usd_price (cc_pricing config)))
       (\<lambda>prove_usd.
     act_bind (act_lift (map_err succinct_pricing_error_to_string
         (succinct_from_env (pe_env P) (pe_local_signer P) (pe_new_client P) prove_usd))) (\<lambda>pricing.
     act_return (DynSuccinct pricing)))"

definition resolve_pricing ::
  "features \<Rightarrow> ('w, 'f, 'signer, 'client) pricing_env \<Rightarrow> 'f cli_config \<Rightarrow> string option \<Rightarrow> zkvm_backend
     \<Rightarrow> ('w, string, ('client, 'f) dyn_pricing) action" where
  "resolve_pricing ft P config pricing_arg backend =
     (let provider = unwrap_or (gc_provider (cc_pricing config)) pricing_arg;
          fixed = act_return (DynFixed (fixed_pricing_default (pe_f64 P)))
      in if provider = ''boundless'' then resolve_boundless P config
         else if provider = ''succinct''
         then if ft_sp1 ft then resolve_succinct P config
              else act_fail (''succinct pricing requires the `sp1` feature '' @ em_dash
                     @ '' compile with: cargo build --bin open-zk --features sp1'')
         else if provider = ''fixed'' then fixed
         else if backend = RiscZero then resolve_boundless P config
         else if backend = Sp1 \<and> ft_sp1 ft
         then act_bind (act_try (resolve_succinct P config)) (\<lambda>r. case r of
                Ok p \<Rightarrow> act_return p
              | Err _ \<Rightarrow> fixed
              | Panic x \<Rightarrow> act_lift (Panic x))
         else fixed)"

section \<open>The report\<close>

definition compose_cost_estimate :: "cycle_estimate \<Rightarrow> 'f pricing_info \<Rightarrow> 'f cost_estimate" where
  "compose_cost_estimate cycle pricing =
     \<lparr>co_estimated_cycles = ce_cycles cycle, co_estimated_cost_usd = pi_cost_usd pricing,
      co_estimated_duration_secs = pi_duration_secs pricing\<rparr>"

definition format_cost :: "(nat \<Rightarrow> 'f \<Rightarrow> string) \<Rightarrow> 'f pricing_info \<Rightarrow> string" where
  "format_cost fmt pricing =
     (case (pi_native_cost pricing, pi_native_symbol pricing, pi_token_usd_rate pricing) of
        (Some native, Some symbol, Some rate) \<Rightarrow>
          ''$'' @ fmt 4 (pi_cost_usd pricing) @ '' ('' @ fmt 7 native @ '' '' @ symbol @ '' @ $''
            @ fmt 2 rate @ ''/'' @ symbol @ '')''
      | _ \<Rightarrow> ''$'' @ fmt 4 (pi_cost_usd pricing))"

definition format_cycles :: "'f f64_ops \<Rightarrow> (nat \<Rightarrow> 'f \<Rightarrow> string) \<Rightarrow> u64 \<Rightarrow> string" where
  "format_cycles F fmt cycles =
     (if cycles \<ge> 1000000000 then fmt 2 (f_div F (f_of_nat F (unat cycles)) (f_lit F 1 9)) @ ''B''
      else if cycles \<ge> 1000000 then fmt 2 (f_div F (f_of_nat F (unat cycles)) (f_lit F 1 6)) @ ''M''
      else if cycles \<ge> 1000 then fmt 1 (f_div F (f_of_nat F (unat cycles)) (f_lit F 1 3)) @ ''K''
      else show_u64 cycles)"

definition format_duration :: "u64 \<Rightarrow> string" where
  "format_duration secs =
     (if secs \<ge> 3600 then show_u64 (secs div 3600) @ ''h '' @ show_u64 ((secs mod 3600) div 60) @ ''m''
      else if secs \<ge> 60 then show_u64 (secs div 60) @ ''m '' @ show_u64 (secs mod 60) @ ''s''
      else show_u64 secs @ ''s'')"

definition print_estimate ::
  "build \<Rightarrow> 'f f64_ops \<Rightarrow> (nat \<Rightarrow> 'f \<Rightarrow> string) \<Rightarrow> 'f cost_estimate \<Rightarrow> 'f pricing_info \<Rightarrow> u64 \<Rightarrow> bool
     \<Rightarrow> ('w, unit) command" where
  "print_estimate m F fmt estimate pricing num_ranges needs_aggregation =
     act_bind (printlns [''Per-range estimate:'',
       ''  Cycles:   '' @ format_cycles F fmt (co_estimated_cycles estimate),
       ''  Cost:     '' @ format_cost fmt pricing,
       ''  Duration: '' @ format_duration (co_estimated_duration_secs estimate),
       ''  Pricing:  '' @ pi_source pricing]) (\<lambda>_.
     if needs_aggregation
     then act_bind (act_lift (mul_u64 m (co_estimated_cycles estimate) num_ranges)) (\<lambda>total_cycles.
          let total_cost = f_mul F (co_estimated_cost_usd estimate) (f_of_nat F (unat num_ranges))
          in act_bind (act_lift (mul_u64 m (co_estimated_duration_secs estimate) num_ranges)) (\<lambda>total_duration.
             printlns [[],
               ''Total estimate ('' @ show_u64 num_ranges @ '' ranges + aggregation):'',
               ''  Cycles:   '' @ format_cycles F fmt total_cycles,
               ''  Cost:     $'' @ fmt 4 total_cost,
               ''  Duration: '' @ format_duration total_duration @ '' (sequential)'',
               [],
               ''  Note: Aggregation adds ~10-20% overhead. Ranges can be proven in parallel'',
               ''  to reduce wall-clock time.'']))
     else printlns [[],
            ''Total estimate (single range):'',
            ''  Cycles:   '' @ format_cycles F fmt (co_estimated_cycles estimate),
            ''  Cost:     $'' @ fmt 4 (co_estimated_cost_usd estimate),
            ''  Duration: '' @ format_duration (co_estimated_duration_secs estimate)])"

section \<open>Counting cycles\<close>

definition run_cycle_count ::
  "features \<Rightarrow> ('w, 'stdin, 'pk, 'vk, 'proof, 'b, 'env, 'receipt) zkvms \<Rightarrow> resolved_intent \<Rightarrow> raw_witness
     \<Rightarrow> ('w, string, cycle_estimate) action" where
  "run_cycle_count ft Z intent witness =
     (if ri_backend intent = Mock
      then act_map_err (\<lambda>e. case e of MockProverError s \<Rightarrow> ''mock prover error: '' @ s)
             (mock_count_cycles (mock_program_new ''range-ethereum'') \<lparr>mw_data = []\<rparr>)
      else if ri_backend intent = Sp1 \<and> ft_sp1 ft
      then let stdin = sdk_stdin_write (zk_sp1 Z) (rw_oracle_data witness);
               sp1_witness = \<lparr>sw_stdin = stdin\<rparr>;
               program = sp1_program_new ''range-ethereum'' (zk_sp1_elf Z)
           in act_map_err sp1_prover_error_to_string (sp1_count_cycles (zk_sp1 Z) program sp1_witness)
      else if ri_backend intent = RiscZero \<and> ft_risc0 ft
      then let rz_witness = \<lparr>zw_oracle_data = rw_oracle_data witness\<rparr>;
               program = risc_zero_program_new ''range-ethereum'' (zk_risc0_image_id Z) (zk_risc0_elf Z)
           in act_map_err risc_zero_prover_error_to_string (risc0_count_cycles (zk_risc0 Z) program rz_witness)
      else act_fail (not_available (ri_backend intent)))"

text \<open>The first lines of \<open>execute\<close>: blocks, ranges, and whether they are aggregated.\<close>

definition estimate_counts ::
  "build \<Rightarrow> resolved_intent \<Rightarrow> u64 \<Rightarrow> u64 \<Rightarrow> (string, u64 \<times> u64 \<times> bool) outcome" where
  "estimate_counts m intent start_block end_block =
     and_then (add_u64 m (saturating_sub_u64 end_block start_block) 1) (\<lambda>num_blocks.
     and_then (div_ceil_u64 num_blocks (ri_aggregation_window intent)) (\<lambda>num_ranges.
     Ok (num_blocks, num_ranges, num_ranges > 1)))"

fun show_bool :: "bool \<Rightarrow> string" where
  "show_bool True = ''true''"
| "show_bool False = ''false''"

text \<open>The block compiled with the kona feature.\<close>

definition estimate_real ::
  "build \<Rightarrow> (boot_info_output \<Rightarrow> bytes) \<Rightarrow> (preimages \<Rightarrow> (string, bytes) outcome) \<Rightarrow> features
     \<Rightarrow> ('w, 'stdin, 'pk, 'vk, 'proof, 'b, 'env, 'receipt) zkvms \<Rightarrow> ('w, 'f) cli_env
     \<Rightarrow> ('w, 'f, 'signer, 'client) pricing_env \<Rightarrow> 'f cli_config \<Rightarrow> resolved_intent \<Rightarrow> ('client, 'f) dyn_pricing
     \<Rightarrow> u64 \<Rightarrow> u64 \<Rightarrow> u64 \<Rightarrow> bool \<Rightarrow> ('w, unit) command" where
  "estimate_real m enc to_bytes ft Z C P config intent pricing start_block end_block num_ranges needs_aggregation =
     act_bind (println ''Generating witness from RPC nodes...'') (\<lambda>_.
     act_bind (on_state (helper_generate_witness enc to_bytes C config start_block end_block)) (\<lambda>witness.
     act_bind (printlns [''Witness generated: '' @ show_nat (length (rw_oracle_data witness)) @ '' bytes oracle data'',
         ''Executing guest program to count cycles...'']) (\<lambda>_.
     act_bind (on_system (run_cycle_count ft Z intent witness)) (\<lambda>cycle_estimate.
     act_bind (elapsed C) (\<lambda>t.
     act_bind (printlns [''Execution completed in '' @ t @ ''s'', []]) (\<lambda>_.
     act_bind (on_system (dyn_price P pricing cycle_estimate)) (\<lambda>pricing_info.
     print_estimate m (pe_f64 P) (pe_fixed_digits P) (compose_cost_estimate cycle_estimate pricing_info)
       pricing_info num_ranges needs_aggregation)))))))"

definition estimate_execute ::
  "build \<Rightarrow> (boot_info_output \<Rightarrow> bytes) \<Rightarrow> (preimages \<Rightarrow> (string, bytes) outcome) \<Rightarrow> features
     \<Rightarrow> ('w, 'stdin, 'pk, 'vk, 'proof, 'b, 'env, 'receipt) zkvms \<Rightarrow> ('w, 'f) cli_env
     \<Rightarrow> ('w, 'f, 'signer, 'client) pricing_env \<Rightarrow> u64 \<Rightarrow> u64 \<Rightarrow> string \<Rightarrow> string option \<Rightarrow> ('w, unit) command" where
  "estimate_execute m enc to_bytes ft Z C P start_block end_block path pricing_arg =
     act_bind (on_system (cl_read_config C path)) (\<lambda>config.
     act_bind (act_lift (map_err config_error_text (to_sdk_config config))) (\<lambda>sdk_config.
     let intent = config_resolve sdk_config;
         mock_mode = is_mock_mode (cl_sp1_prover C) config;
         report = print_estimate m (pe_f64 P) (pe_fixed_digits P)
     in act_bind (act_lift (estimate_counts m intent start_block end_block))
          (\<lambda>(num_blocks, num_ranges, needs_aggregation).
        act_bind (printlns [''Cost Estimate'', ''============='',
            ''Block range: '' @ show_u64 start_block @ ''..'' @ show_u64 end_block @ '' (''
              @ show_u64 num_blocks @ '' blocks)'',
            ''Backend: '' @ show_backend (ri_backend intent),
            ''Mode: '' @ show_proof_mode (ri_proof_mode intent),
            ''Range proofs needed: '' @ show_u64 num_ranges,
            ''Aggregation needed: '' @ show_bool needs_aggregation, []]) (\<lambda>_.
        act_bind (on_system (resolve_pricing ft P config pricing_arg (ri_backend intent))) (\<lambda>pricing.
        if mock_mode
        then act_bind (println ''Mock mode: executing cost estimation with mock backend...'') (\<lambda>_.
             act_bind (act_map_err (\<lambda>e. case e of MockProverError s \<Rightarrow> ''mock prover error: '' @ s)
               (mock_count_cycles (mock_program_new ''range-ethereum'') \<lparr>mw_data = []\<rparr>)) (\<lambda>cycle_estimate.
             act_bind (on_system (dyn_price P pricing cycle_estimate)) (\<lambda>pricing_info.
             act_bind (report (compose_cost_estimate cycle_estimate pricing_info) pricing_info
                 num_ranges needs_aggregation) (\<lambda>_.
             printlns [[], ''Note: mock estimates are zero '' @ em_dash
               @ '' use a real backend for accurate costs.'']))))
        else if \<not> ft_kona ft
        then act_fail (''cost estimation requires the `kona` feature '' @ em_dash
               @ '' compile with: cargo build --bin open-zk --features kona'')
        else estimate_real m enc to_bytes ft Z C P config intent pricing start_block end_block
               num_ranges needs_aggregation)))))"

section \<open>How many ranges\<close>

lemma ceil_nat:
  assumes "0 < (w :: nat)"
  shows "(n + (w - 1)) div w = (if n mod w = 0 then n div w else Suc (n div w))"
proof -
  let ?q = "n div w" and ?r = "n mod w"
  have n: "n = ?q * w + ?r" by simp
  show ?thesis
  proof (cases "?r = 0")
    case True
    have "n + (w - 1) = ?q * w + (w - 1)" using n True by linarith
    also have "\<dots> div w = ?q" by (rule div_nat_eqI) (use assms in \<open>simp_all add: algebra_simps\<close>)
    finally show ?thesis using True by simp
  next
    case False
    have r: "?r < w" using assms by simp
    have "n + (w - 1) = Suc ?q * w + (?r - 1)" using n False assms by simp
    also have "\<dots> div w = Suc ?q"
      by (rule div_nat_eqI) (use assms r in \<open>simp_all add: algebra_simps\<close>)
    finally show ?thesis using False by simp
  qed
qed

lemma div_ceil_Ok:
  assumes "0 < w"
  shows "\<exists>q. div_ceil_u64 n w = Ok q \<and> unat q = (unat n + (unat w - 1)) div unat w"
proof -
  have w: "0 < unat w" using assms by (simp add: word_less_nat_alt)
  have nz: "w \<noteq> 0" using assms by auto
  note ceil = ceil_nat [where n = "unat n"]
  have mod_iff: "n mod w = 0 \<longleftrightarrow> unat n mod unat w = 0"
    by (metis unat_mod unsigned_0 unsigned_word_eqI)
  show ?thesis
  proof (cases "n mod w = 0")
    case True
    then show ?thesis using mod_iff ceil [OF w] nz by (simp add: div_ceil_u64_def unat_div)
  next
    case False
    then have "unat w \<noteq> 1" using mod_iff by auto
    with w have "2 \<le> unat w" by linarith
    then have "unat n div unat w \<le> unat n div 2" by (rule div_le_mono2 [rotated]) simp
    with unat_u64_less [of n] have "Suc (unat n div unat w) < 2 ^ 64" by simp
    then have "unat (n div w + 1) = Suc (unat n div unat w)"
      by (subst unat_add_fits) (simp_all add: fits_u64_def unat_div)
    with False mod_iff ceil [OF w] nz show ?thesis by (simp add: div_ceil_u64_def)
  qed
qed

lemma counts_upwards:
  assumes "0 < ri_aggregation_window intent" and "fits_u64 (unat e + unat (ri_aggregation_window intent))"
    and le: "start \<le> e"
  shows "\<exists>reqs n k. plan_range m intent start e st = Some (Ok reqs)
     \<and> estimate_counts m intent start e = Ok (n, k, 1 < length reqs)
     \<and> unat n = Suc (unat e) - unat start \<and> unat k = length reqs"
proof -
  let ?w = "ri_aggregation_window intent"
  have w: "0 < unat ?w" using assms(1) by (simp add: word_less_nat_alt)
  obtain rs where rs: "plan_range m intent start e st = Some (Ok rs)"
      "map request_range rs = windows (unat ?w) (unat start) (unat e)"
    using plan_range_windows [OF assms(2,1) le] by blast
  have le': "unat start \<le> unat e" using le by (simp add: word_le_nat_alt)
  have e: "Suc (unat e) < 2 ^ 64" using assms(2) w by (simp add: fits_u64_def)
  have n: "unat (saturating_sub_u64 e start + 1) = Suc (unat e) - unat start"
    by (subst unat_add_fits) (use e le' in \<open>simp_all add: fits_u64_def unat_saturating_sub Suc_diff_le\<close>)
  have add: "add_u64 m (saturating_sub_u64 e start) 1 = (Ok (saturating_sub_u64 e start + 1) :: (string, u64) outcome)"
    by (rule add_u64_fits) (use e in \<open>simp add: fits_u64_def unat_saturating_sub\<close>)
  obtain k where k: "div_ceil_u64 (saturating_sub_u64 e start + 1) ?w = (Ok k :: (string, u64) outcome)"
      "unat k = (Suc (unat e) - unat start + (unat ?w - 1)) div unat ?w"
    using div_ceil_Ok [OF assms(1), of "saturating_sub_u64 e start + 1"] n by auto
  have "unat k = length rs"
    using k(2) length_windows [OF w, of "unat start" "unat e"] by (simp flip: rs(2))
  moreover from this have "(1 < k) = (1 < length rs)" by (simp add: word_less_nat_alt)
  ultimately show ?thesis
    using rs(1) n add k(1) by (simp add: estimate_counts_def)
qed

text \<open>
  C35: the number of range proofs that \<open>estimate\<close> announces. Below the top of the block numbers
  it is the number of requests that the orchestrator plans for the same blocks and intent, and
  aggregation is announced exactly when more than one is planned; a start above the end counts
  as one block where nothing is planned; the whole range of block numbers overflows: a panic in
  a debug build, and zero blocks and ranges in a release build.
\<close>

theorem estimate_counts_plan:
  assumes "0 < ri_aggregation_window intent" and "fits_u64 (unat e + unat (ri_aggregation_window intent))"
  shows "(start \<le> e \<longrightarrow> (\<exists>reqs n k. plan_range m intent start e st = Some (Ok reqs)
         \<and> estimate_counts m intent start e = Ok (n, k, 1 < length reqs)
         \<and> unat n = Suc (unat e) - unat start \<and> unat k = length reqs))
   \<and> (e < start \<longrightarrow> plan_range m intent start e st = Some (Ok [])
         \<and> estimate_counts m intent start e = Ok (1, 1, False))
   \<and> estimate_counts Debug intent 0 (- 1) = Panic ArithmeticOverflow
   \<and> estimate_counts Release intent 0 (- 1) = Ok (0, 0, False)"
proof (intro conjI impI)
  let ?w = "ri_aggregation_window intent"
  have w: "0 < unat ?w" using assms(1) by (simp add: word_less_nat_alt)
  show "\<exists>reqs n k. plan_range m intent start e st = Some (Ok reqs)
         \<and> estimate_counts m intent start e = Ok (n, k, 1 < length reqs)
         \<and> unat n = Suc (unat e) - unat start \<and> unat k = length reqs" if "start \<le> e"
    by (rule counts_upwards [OF assms that])
  have one: "div_ceil_u64 1 ?w = (Ok 1 :: (string, u64) outcome)"
  proof -
    obtain q where "div_ceil_u64 1 ?w = (Ok q :: (string, u64) outcome)" "unat q = (1 + (unat ?w - 1)) div unat ?w"
      using div_ceil_Ok [OF assms(1), of 1] by auto
    moreover have "1 + (unat ?w - 1) = unat ?w" using w by simp
    ultimately have "unat q = unat (1 :: u64)" using w by simp
    then have "q = 1" by (rule unsigned_word_eqI)
    with \<open>div_ceil_u64 1 ?w = Ok q\<close> show ?thesis by simp
  qed
  show "plan_range m intent start e st = Some (Ok [])" if "e < start"
  proof -
    have "\<not> start \<le> e" using that by (simp add: not_le)
    then show ?thesis by (simp add: plan_range_def Let_def plan_loop.simps)
  qed
  show "estimate_counts m intent start e = Ok (1, 1, False)" if "e < start"
    using that one by (simp add: estimate_counts_def saturating_sub_u64_def add_u64_def fits_u64_def)
  show "estimate_counts Debug intent 0 (- 1) = Panic ArithmeticOverflow"
    by (simp add: estimate_counts_def saturating_sub_u64_def add_u64_def fits_u64_def
        unsigned_minus_1_eq_mask mask_eq_exp_minus_1)
  show "estimate_counts Release intent 0 (- 1) = Ok (0, 0, False)"
    using assms(1) by (simp add: estimate_counts_def saturating_sub_u64_def add_u64_def div_ceil_u64_def)
qed

theorem estimate_counts_plan_witness:
  "\<exists>reqs n k. plan_range Debug sample_intent 501 750 (mock_monitor_default_state (0, 0)) = Some (Ok reqs)
     \<and> estimate_counts Debug sample_intent 501 750 = Ok (n, k, True) \<and> unat n = 250 \<and> length reqs = 3"
proof -
  have w: "ri_aggregation_window sample_intent = 100" by (simp add: sample_intent_def intent_resolve_def)
  obtain reqs n k where t: "plan_range Debug sample_intent 501 750 (mock_monitor_default_state (0, 0)) = Some (Ok reqs)"
      "estimate_counts Debug sample_intent 501 750 = Ok (n, k, 1 < length reqs)"
      "unat n = Suc (unat (750 :: u64)) - unat (501 :: u64)" "unat k = length reqs"
    using estimate_counts_plan [of sample_intent 750 501 Debug "mock_monitor_default_state (0, 0)"]
    by (auto simp: w fits_u64_def)
  have "estimate_counts Debug sample_intent 501 750 = Ok (250, 3, True)"
    by (simp add: estimate_counts_def saturating_sub_u64_def add_u64_def fits_u64_def div_ceil_u64_def w)
  with t show ?thesis by auto
qed

section \<open>What the report says\<close>

lemma command_Ok_iffs:
  "act_lift r s = (Ok a, s') \<longleftrightarrow> r = Ok a \<and> s' = s"
  "println l s = (Ok u, s') \<longleftrightarrow> s' = (fst s, snd s @ [l])"
  "printlns ls s = (Ok u, s') \<longleftrightarrow> s' = (fst s, snd s @ ls)"
  by (cases s; auto simp: act_lift_def)+

lemma command_OkD:
  "on_state m s = (Ok a, s') \<Longrightarrow> \<exists>t. m (fst s) = (Ok a, t) \<and> s' = (t, snd s)"
  "on_system n s = (Ok b, s') \<Longrightarrow> \<exists>v v'. n v = (Ok b, v') \<and> snd s' = snd s"
  "elapsed C s = (Ok t, s') \<Longrightarrow> snd s' = snd s"
  by (cases s; cases "fst s"; auto simp: elapsed_def on_system_def on_state_def in_world_def
    split: prod.splits)+

lemma command_bind:
  "act_bind (act_lift (Ok a)) f = f a"
  "act_bind (printlns ls) g (s, out) = g () (s, out @ ls)"
  by (auto simp: act_bind_def fun_eq_iff)

lemma report_totals:
  assumes "print_estimate m F fmt est pricing k True s = (Ok (), s')"
  shows "\<exists>total rest. mul_u64 m (co_estimated_cycles est) k = (Ok total :: (string, u64) outcome)
     \<and> snd s' = snd s @ [''Per-range estimate:'', ''  Cycles:   '' @ format_cycles F fmt (co_estimated_cycles est)] @ rest
     \<and> ''  Cycles:   '' @ format_cycles F fmt total \<in> set rest"
  using assms by (auto simp: print_estimate_def act_bind_Ok_iff command_Ok_iffs Let_def)

lemma estimate_real_Ok:
  assumes "estimate_real m enc to_bytes ft Z C P config intent pricing start_block end_block k True s = (Ok (), s')"
    and "snd s = out @ pre0"
  shows "\<exists>v witness v' u u' cycles total pre rest.
       helper_generate_witness enc to_bytes C config start_block end_block v = (Ok witness, v')
     \<and> run_cycle_count ft Z intent witness u = (Ok cycles, u')
     \<and> mul_u64 m (ce_cycles cycles) k = (Ok total :: (string, u64) outcome)
     \<and> snd s' = out @ pre @ [''Per-range estimate:'',
          ''  Cycles:   '' @ format_cycles (pe_f64 P) (pe_fixed_digits P) (ce_cycles cycles)] @ rest
     \<and> ''  Cycles:   '' @ format_cycles (pe_f64 P) (pe_fixed_digits P) total \<in> set rest"
proof -
  from assms(1) [unfolded estimate_real_def] obtain s1 s2 s3 s4 s5 s6 s7 witness cycles t info where
    steps: "println ''Generating witness from RPC nodes...'' s = (Ok (), s1)"
      "on_state (helper_generate_witness enc to_bytes C config start_block end_block) s1 = (Ok witness, s2)"
      "printlns [''Witness generated: '' @ show_nat (length (rw_oracle_data witness)) @ '' bytes oracle data'',
         ''Executing guest program to count cycles...''] s2 = (Ok (), s3)"
      "on_system (run_cycle_count ft Z intent witness) s3 = (Ok cycles, s4)"
      "elapsed C s4 = (Ok t, s5)"
      "printlns [''Execution completed in '' @ t @ ''s'', []] s5 = (Ok (), s6)"
      "on_system (dyn_price P pricing cycles) s6 = (Ok info, s7)"
    and report: "print_estimate m (pe_f64 P) (pe_fixed_digits P) (compose_cost_estimate cycles info) info k True s7 = (Ok (), s')"
    by (elim act_bindE) simp
  from steps assms(2) have "\<exists>pre. snd s7 = out @ pre"
    by (auto simp: command_Ok_iffs dest!: command_OkD)
  moreover have "\<exists>v v'. helper_generate_witness enc to_bytes C config start_block end_block v = (Ok witness, v')"
    using command_OkD(1) [OF steps(2)] by blast
  moreover have "\<exists>u u'. run_cycle_count ft Z intent witness u = (Ok cycles, u')"
    using command_OkD(2) [OF steps(4)] by blast
  moreover note report_totals [OF report]
  ultimately show ?thesis
    by (simp add: compose_cost_estimate_def) (elim exE conjE, intro exI conjI, assumption+, simp+)
qed

text \<open>
  What the reported cycles are. Outside mock mode a report that announces aggregation
  comes from one witness for the whole block range and one execution of it: its cycles are
  printed as the estimate per range, and multiplied by the number of ranges for the total.
\<close>

theorem estimate_extrapolates:
  assumes config: "cl_read_config C path w = (Ok config, w1)" "\<not> is_mock_mode (cl_sp1_prover C) config"
    and sdk: "to_sdk_config config = Ok sdk_config"
    and counts: "estimate_counts m (config_resolve sdk_config) start_block end_block = (Ok (n, k, True))"
    and run: "estimate_execute m enc to_bytes ft Z C P start_block end_block path arg ((w, h), out) = (Ok (), s', out')"
  shows "\<exists>v witness v' u u' cycles total pre rest.
       helper_generate_witness enc to_bytes C config start_block end_block v = (Ok witness, v')
     \<and> run_cycle_count ft Z (config_resolve sdk_config) witness u = (Ok cycles, u')
     \<and> mul_u64 m (ce_cycles cycles) k = (Ok total :: (string, u64) outcome)
     \<and> out' = out @ pre @ [''Per-range estimate:'',
          ''  Cycles:   '' @ format_cycles (pe_f64 P) (pe_fixed_digits P) (ce_cycles cycles)] @ rest
     \<and> ''  Cycles:   '' @ format_cycles (pe_f64 P) (pe_fixed_digits P) total \<in> set rest"
proof -
  have "on_system (cl_read_config C path) ((w, h), out) = (Ok config, (w1, h), out)"
    using config(1) by simp
  note read = act_bind_cases(1) [where m = "on_system (cl_read_config C path)", OF this]
  from run obtain pricing s1 pre where
    real: "estimate_real m enc to_bytes ft Z C P config (config_resolve sdk_config) pricing start_block end_block k True s1
       = (Ok (), s', out')"
    and pre: "snd s1 = out @ pre"
    by (auto simp: estimate_execute_def read sdk counts config(2) Let_def command_bind act_bind_Ok_iff
        split: if_splits dest!: command_OkD(2))
  from estimate_real_Ok [OF real pre] show ?thesis by simp
qed

definition counting_sp1 :: "(string \<rightharpoonup> string, bytes, bytes, bytes, bytes) sp1_sdk" where
  "counting_sp1 =
     \<lparr>sdk_stdin_write = id, sdk_execute = (\<lambda>elf i w. (Ok ([], 5000), w)), sdk_setup = (\<lambda>elf w. (Ok elf, w)),
      sdk_prove_compressed = (\<lambda>pk i w. (Ok i, w)), sdk_prove_groth16 = (\<lambda>pk i w. (Ok i, w)),
      sdk_public_values = id, sdk_serialize = Ok, sdk_deserialize = Ok, sdk_verifying_key = id,
      sdk_vk_bytes32 = be_word, sdk_verify = (\<lambda>_ _. Ok ())\<rparr>"

definition counting_zkvms ::
  "(string \<rightharpoonup> string, bytes, bytes, bytes, bytes, bytes, bytes, bytes) zkvms" where
  "counting_zkvms =
     \<lparr>zk_sp1 = counting_sp1,
      zk_risc0 = \<lparr>r0_env_write = Ok, r0_env_build = Ok, r0_prove_with_opts = (\<lambda>env elf opts w. (Ok (env, 1), w)),
        r0_prove = (\<lambda>env elf w. (Ok (env, 1), w)), r0_journal = id, r0_serialize = Ok, r0_deserialize = Ok,
        r0_verify = (\<lambda>_ _. Ok ())\<rparr>,
      zk_sp1_elf = [1], zk_risc0_elf = [2], zk_risc0_image_id = replicate 8 0\<rparr>"

definition sample_pricing_env :: "(string \<rightharpoonup> string, nat, unit, unit) pricing_env" where
  "sample_pricing_env =
     \<lparr>pe_f64 = \<lparr>f_lit = (\<lambda>m e. nat m), f_of_nat = id, f_add = (+), f_mul = (*), f_div = (div),
        f_partial_cmp = (\<lambda>_ _. None)\<rparr>,
      pe_fixed_digits = (\<lambda>_. show_nat),
      pe_indexer = \<lparr>ix_get_text = (\<lambda>_ w. (Err ''offline'', w)), ix_parse_response = (\<lambda>_. Err ''none''),
        ix_int_error = id\<rparr>,
      pe_get_json = (\<lambda>_ w. (Err ''offline'', w)), pe_as_f64 = (\<lambda>_. None), pe_env = (\<lambda>_. None),
      pe_local_signer = (\<lambda>_. Ok ()), pe_new_client = (\<lambda>_ _. ()),
      pe_requests = (\<lambda>_ _ w. (Err ''offline'', w))\<rparr>"

theorem estimate_extrapolates_witness:
  "\<exists>s out' total. estimate_execute Release boot_encode archive_write
        \<lparr>ft_kona = True, ft_sp1 = True, ft_risc0 = False\<rparr> counting_zkvms
        (sample_cli_env\<lparr>cl_read_config := (\<lambda>_ w. (Ok sample_node_config, w))\<rparr>) sample_pricing_env
        7 250 ''open-zk.toml'' (Some ''fixed'') ((Map.empty, \<lparr>kh_next = 0, kh_store = (\<lambda>_. Map.empty)\<rparr>), [])
          = (Ok (), s, out')
     \<and> total = 3 * 5000
     \<and> ''  Cycles:   '' @ format_cycles (pe_f64 sample_pricing_env) (pe_fixed_digits sample_pricing_env) total
         \<in> set out'"
proof -
  let ?ft = "\<lparr>ft_kona = True, ft_sp1 = True, ft_risc0 = False\<rparr>"
  let ?C = "sample_cli_env\<lparr>cl_read_config := (\<lambda>_ w. (Ok sample_node_config, w))\<rparr>"
  let ?h = "\<lparr>kh_next = 0, kh_store = (\<lambda>_. Map.empty)\<rparr>"
  obtain sdk where sdk: "to_sdk_config sample_node_config = Ok sdk"
    by (simp add: to_sdk_config_Ok)
  have intent: "config_resolve sdk = \<lparr>ri_proof_mode = Sentinel, ri_backend = Sp1, ri_proving_mode = Groth16,
                                ri_aggregation_window = 100\<rparr>"
    using sdk
    by (auto simp: to_sdk_config_Ok sample_node_config_def default_cli_config_def proving_config_default_def default_backend_def
        default_allowed_backends_def default_security_def config_resolve_def intent_resolve_def
        parse_backend_def parse_security_def parse_allowed_backend_def List.map_filter_simps)
  have counts: "estimate_counts Release (config_resolve sdk) 7 250 = Ok (244, 3, True)"
    by (simp add: estimate_counts_def intent saturating_sub_u64_def add_u64_def div_ceil_u64_def)
  have count: "run_cycle_count ?ft counting_zkvms (config_resolve sdk) rw w = (Ok \<lparr>ce_cycles = 5000, ce_backend = Sp1\<rparr>, w)"
    for rw w
    by (simp add: run_cycle_count_def intent counting_zkvms_def counting_sp1_def sp1_count_cycles_def
        sp1_program_new_def act_bind_def act_map_err_def Let_def)
  have mock: "\<not> is_mock_mode (cl_sp1_prover ?C) sample_node_config"
    by (simp add: is_mock_mode_def sample_cli_env_def sample_node_config_def default_cli_config_def
        proving_config_default_def default_backend_def)
  obtain rw s where helper: "helper_generate_witness boot_encode archive_write ?C sample_node_config 7 250 (Map.empty, ?h)
      = (Ok rw, s)"
    using node_helper by blast
  let ?F = "pe_f64 sample_pricing_env"
  have pricing: "resolve_pricing ?ft sample_pricing_env sample_node_config (Some ''fixed'') b w
      = (Ok (DynFixed (fixed_pricing_default ?F)), w)" for b w
    by (simp add: resolve_pricing_def unwrap_or_def)
  obtain info where price: "\<And>w. dyn_price sample_pricing_env (DynFixed (fixed_pricing_default ?F))
      \<lparr>ce_cycles = 5000, ce_backend = Sp1\<rparr> w = (Ok info, w)"
    by (simp add: act_map_err_def fixed_price_def div_u64_def fixed_pricing_default_def)
  have report: "\<exists>L. print_estimate Release F fmt est pr k True (t, out) = (Ok (), t, out @ L)"
    for F :: "nat f64_ops" and fmt est pr k out and t :: "(string \<rightharpoonup> string) \<times> kv_heap"
    by (simp add: print_estimate_def act_bind_def mul_u64_def Let_def)
  obtain v h' where s: "s = (v, h')" by fastforce
  have el: "elapsed ?C ((v, h'), out) = (Ok ''0.00'', (v, h'), out)" for v h' out
    by (simp add: elapsed_def on_system_def on_state_def in_world_def sample_cli_env_def)
  have "\<exists>s out'. estimate_execute Release boot_encode archive_write ?ft counting_zkvms ?C sample_pricing_env
        7 250 ''open-zk.toml'' (Some ''fixed'') ((Map.empty, ?h), []) = (Ok (), s, out')"
    using mock
    by (simp add: estimate_execute_def estimate_real_def act_bind_def on_system_def on_state_def in_world_def
        sdk counts helper [unfolded s] count pricing price el Let_def del: dyn_price.simps) (use report in blast)
  then obtain s' out' where run: "estimate_execute Release boot_encode archive_write ?ft counting_zkvms ?C sample_pricing_env
        7 250 ''open-zk.toml'' (Some ''fixed'') ((Map.empty, ?h), []) = (Ok (), s', out')"
    by blast
  have config: "cl_read_config ?C ''open-zk.toml'' Map.empty = (Ok sample_node_config, Map.empty)" by simp
  from estimate_extrapolates [OF config mock sdk counts run] obtain rw' u u' cycles total pre rest where
    c: "run_cycle_count ?ft counting_zkvms (config_resolve sdk) rw' u = (Ok cycles, u')"
    and m: "mul_u64 Release (ce_cycles cycles) 3 = (Ok total :: (string, u64) outcome)"
    and o: "out' = [] @ pre @ [''Per-range estimate:'',
          ''  Cycles:   '' @ format_cycles ?F (pe_fixed_digits sample_pricing_env) (ce_cycles cycles)] @ rest"
    and t: "''  Cycles:   '' @ format_cycles ?F (pe_fixed_digits sample_pricing_env) total \<in> set rest"
    by (elim exE conjE)
  from c have "cycles = \<lparr>ce_cycles = 5000, ce_backend = Sp1\<rparr>" by (simp add: count)
  with m have "total = 3 * 5000" by (simp add: mul_u64_def)
  moreover from o t have "''  Cycles:   '' @ format_cycles ?F (pe_fixed_digits sample_pricing_env) total \<in> set out'"
    by simp
  ultimately show ?thesis using run by blast
qed

end
