(* ===== verification/Cli_Service.thy ===== *)
theory Cli_Service
  imports Cli_Prove Engine_Steps
begin

text \<open>
  The commands \<open>serve\<close>, \<open>status\<close> and \<open>init\<close> (crates/cli/src/commands/serve.rs, status.rs,
  init.rs).  Ctrl-C is the number of awaits of the engine that complete before it
  arrives, if it does: the \<open>select!\<close> then drops the engine where it is.  What the logging task prints is a separate stream.
\<close>

section \<open>Serving\<close>

record serve_args =
  sv_config :: string
  sv_poll_interval :: u64
  sv_oracle_address :: "string option"

datatype output_line = Stdout string | Stderr string

definition range_text :: "u64 \<Rightarrow> u64 \<Rightarrow> string" where
  "range_text start last_block = '': blocks '' @ show_u64 start @ ''..'' @ show_u64 last_block"

fun log_event :: "engine_event \<Rightarrow> output_line" where
  "log_event (RangeDetected a b) = Stdout (''[engine] range detected'' @ range_text a b)"
| "log_event (ProofStarted a b) = Stdout (''[engine] proof started'' @ range_text a b)"
| "log_event (ProofCompleted a b) = Stdout (''[engine] proof completed'' @ range_text a b)"
| "log_event (ProofSubmitted a b) = Stdout (''[engine] proof submitted'' @ range_text a b)"
| "log_event (AggregationStarted n) =
     Stdout (''[engine] aggregation started: '' @ show_nat n @ '' proofs'')"
| "log_event (AggregationCompleted a b) = Stdout (''[engine] aggregation completed'' @ range_text a b)"
| "log_event (DisputeDetected a b) = Stdout (''[engine] dispute detected'' @ range_text a b)"
| "log_event (DisputeResolved a b) = Stdout (''[engine] dispute resolved'' @ range_text a b)"
| "log_event (EngineErrorEvent message) = Stderr (''[engine] error: '' @ message)"

text \<open>What \<open>select!\<close> returns: the engine's result, or the interrupt.\<close>

datatype 's selected = Ended "(engine_error, unit) outcome" 's | Interrupted 's

fun select_awaits ::
  "(control \<Rightarrow> 's \<Rightarrow> (control \<times> 's) option) \<Rightarrow> nat \<Rightarrow> control \<Rightarrow> 's \<Rightarrow> 's selected option" where
  "select_awaits body 0 c s = Some (case c of Stopped r \<Rightarrow> Ended r s | _ \<Rightarrow> Interrupted s)"
| "select_awaits body (Suc n) c s =
     (case c of
        Stopped r \<Rightarrow> Some (Ended r s)
      | _ \<Rightarrow> (case body c s of None \<Rightarrow> None | Some (c', s') \<Rightarrow> select_awaits body n c' s'))"

text \<open>Every interrupted engine is at one of its await points, so its events are a word of the protocol.\<close>

lemma select_awaits_at:
  assumes "engine_at m sleep E s0 c s" and "select_awaits (engine_resume m sleep E) n c s = Some (Interrupted t)"
  shows "\<exists>c'. engine_at m sleep E s0 c' t"
  using assms
proof (induction n arbitrary: c s)
  case 0
  then have "s = t" by (cases c) auto
  with 0 show ?case by blast
next
  case (Suc n)
  from Suc.prems(2) obtain c' s' where "engine_resume m sleep E c s = Some (c', s')"
    "select_awaits (engine_resume m sleep E) n c' s' = Some (Interrupted t)"
    by (cases c) (auto simp del: engine_resume.simps split: option.splits)
  with Suc.IH [OF engine_at.resumes [OF Suc.prems(1)]] show ?case by blast
qed

text \<open>
  Running an engine as a service: its result or shutdown, the world, the lines printed after
  the start and the lines of the logging task, which reads the engine's receiver.
\<close>

type_synonym 'w service_result = "(string, unit) outcome \<times> 'w \<times> string list \<times> output_line list"

definition serve_service ::
  "build \<Rightarrow> (duration \<Rightarrow> 'w \<Rightarrow> 'w) \<Rightarrow> engine_config \<Rightarrow> ('w, 'e) chain_monitor \<Rightarrow> nat option \<Rightarrow> 'w
     \<Rightarrow> 'w service_result option" where
  "serve_service m sleep config mon ctrl_c w =
     (let (engine, fresh) = engine_new 0 config mon mock_dispatcher;
          (rx, engine, fresh) = take_event_receiver fresh engine;
          s = \<lparr>rs_world = w, rs_sent = []\<rparr>;
          logged = (\<lambda>s. map (\<lambda>x. log_event (snd x)) (filter (\<lambda>x. fst x = rx) (rs_sent s)))
      in map_option
           (\<lambda>outcome. case outcome of
              Ended r s \<Rightarrow> (map_err engine_error_to_string r, rs_world s, [], logged s)
            | Interrupted s \<Rightarrow> (Ok (), rs_world s, [[], ''Shutting down gracefully...''], logged s))
           (case ctrl_c of
              None \<Rightarrow> map_option (\<lambda>(r, s). Ended r s) (engine_run m sleep engine s)
            | Some n \<Rightarrow> select_awaits (engine_resume m sleep engine) n Polling s))"

definition after_lines :: "string list \<Rightarrow> 'w service_result option \<Rightarrow> 'w service_result option" where
  "after_lines ls res = map_option (\<lambda>(r, w, out, logged). (r, w, ls @ out, logged)) res"

definition serve_banner :: "resolved_intent \<Rightarrow> u64 \<Rightarrow> bool \<Rightarrow> string list" where
  "serve_banner intent poll_interval mock_mode =
     [''Starting open-zk service...'',
      ''  Mode:          '' @ show_proof_mode (ri_proof_mode intent),
      ''  Backend:       '' @ show_backend (ri_backend intent),
      ''  Poll interval: '' @ show_u64 poll_interval @ ''s'']
     @ (if mock_mode then [''  Mock mode:     ENABLED (no real ZK proofs)''] else []) @ [[]]"

definition serve_engine_config :: "resolved_intent \<Rightarrow> u64 \<Rightarrow> engine_config" where
  "serve_engine_config intent poll_interval =
     \<lparr>ec_intent = intent, ec_poll_interval = duration_from_secs poll_interval, ec_max_concurrent_proofs = 4\<rparr>"

definition serve_execute ::
  "build \<Rightarrow> (duration \<Rightarrow> 'w \<Rightarrow> 'w) \<Rightarrow> duration \<Rightarrow> (string \<Rightarrow> (string, address) outcome) \<Rightarrow> ('w, 'f) cli_env
     \<Rightarrow> serve_args \<Rightarrow> nat option \<Rightarrow> 'w \<Rightarrow> 'w service_result option" where
  "serve_execute m sleep now parse_address C args ctrl_c w =
     (case act_bind (cl_read_config C (sv_config args)) (\<lambda>config.
           act_bind (act_lift (map_err config_error_text (to_sdk_config config))) (\<lambda>sdk_config.
           act_return (config, sdk_config))) w of
        (Err e, w1) \<Rightarrow> Some (Err e, w1, [], [])
      | (Panic p, w1) \<Rightarrow> Some (Panic p, w1, [], [])
      | (Ok (config, sdk_config), w1) \<Rightarrow>
          let intent = config_resolve sdk_config;
              mock_mode = is_mock_mode (cl_sp1_prover C) config;
              banner = serve_banner intent (sv_poll_interval args) mock_mode;
              engine_config = serve_engine_config intent (sv_poll_interval args)
          in if mock_mode \<or> sv_oracle_address args = None
             then after_lines
                    (banner
                     @ (if sv_oracle_address args = None \<and> \<not> mock_mode
                        then [''Warning: no --oracle-address provided, running in mock mode.'', []] else [])
                     @ [''Engine running (press Ctrl+C to stop)...'', []])
                    (serve_service m sleep engine_config (mock_monitor m (mock_monitor_default_state now)) ctrl_c w1)
             else case parse_address (the (sv_oracle_address args)) of
                    Ok _ \<Rightarrow> after_lines
                      (banner @ [''Engine running with RPC monitor (press Ctrl+C to stop)...'', []])
                      (serve_service m sleep engine_config (skeleton_monitor m) ctrl_c w1)
                  | Err e \<Rightarrow> Some (Err e, w1, banner, [])
                  | Panic p \<Rightarrow> Some (Panic p, w1, banner, []))"

section \<open>An engine with nothing to do\<close>

text \<open>A poll that finds no work goes straight to sleep.\<close>

lemma quiet_poll:
  assumes "mode_of E = Beacon \<Longrightarrow> cm_pending_range (en_monitor E) (rs_world s) = (Ok None, rs_world s)"
    and "mode_of E = Sentinel \<Longrightarrow> cm_active_dispute (en_monitor E) (rs_world s) = (None, rs_world s)"
  shows "engine_resume m sleep E Polling s = Some (Sleeping, s)"
  using assms by (cases "mode_of E") (simp_all add: resume_def monitor_call_def on_world_def act_map_err_def)

text \<open>
  A monitor that never reports work leaves the world to the clock alone: half of the awaits are
  polls, the other half sleep.
\<close>

lemma idle_service:
  assumes poll: "\<And>s. engine_resume m sleep E Polling s = Some (Sleeping, s)"
  shows "engine_run m sleep E s = None"
    and "select_awaits (engine_resume m sleep E) n Polling s =
      Some (Interrupted (s\<lparr>rs_world := (sleep (ec_poll_interval (en_config E)) ^^ (n div 2)) (rs_world s)\<rparr>))"
proof -
  have "engine_iteration m sleep E s = Some (Ok (), s\<lparr>rs_world := sleep (ec_poll_interval (en_config E)) (rs_world s)\<rparr>)" for s
    using remaining_Polling [OF poll, of s] by (simp add: then_sleep_def)
  then show "engine_run m sleep E s = None"
    unfolding engine_run_loop by (intro run_loop_forever [where I = "\<lambda>_. True"]) simp_all
  have wake: "engine_resume m sleep E Sleeping s =
      Some (Polling, s\<lparr>rs_world := sleep (ec_poll_interval (en_config E)) (rs_world s)\<rparr>)" for s by simp
  show "select_awaits (engine_resume m sleep E) n Polling s =
      Some (Interrupted (s\<lparr>rs_world := (sleep (ec_poll_interval (en_config E)) ^^ (n div 2)) (rs_world s)\<rparr>))"
    by (induction n arbitrary: s rule: induct_nat_012)
      (simp_all add: poll wake funpow_swap1 del: engine_resume.simps)
qed

lemma idle_serve:
  fixes mon :: "('w, 'e) chain_monitor"
  assumes "ri_proof_mode (ec_intent config) = Beacon \<Longrightarrow> \<forall>w. cm_pending_range mon w = (Ok None, w)"
    and "ri_proof_mode (ec_intent config) = Sentinel \<Longrightarrow> \<forall>w. cm_active_dispute mon w = (None, w)"
  shows "serve_service m sleep config mon ctrl_c w = map_option
      (\<lambda>n. (Ok (), (sleep (ec_poll_interval config) ^^ (n div 2)) w, [[], ''Shutting down gracefully...''], [])) ctrl_c"
proof -
  let ?E = "\<lambda>rx. \<lparr>en_config = config, en_monitor = mon, en_dispatcher = mock_dispatcher,
      en_event_tx = 0, en_event_rx = rx\<rparr> :: ('w, 'e, mock_dispatcher_error) engine"
  have poll: "engine_resume m sleep (?E rx) Polling s = Some (Sleeping, s)" for s rx
    using assms by (intro quiet_poll) simp_all
  note idle = idle_service [OF poll]
  show ?thesis
    by (cases ctrl_c)
      (simp_all add: serve_service_def engine_new_def take_event_receiver_def Let_def idle)
qed

lemma skeleton_serve_beacon:
  assumes "ri_proof_mode (ec_intent config) = Beacon"
  shows "serve_service m sleep config (skeleton_monitor m :: ('w, rpc_monitor_error) chain_monitor) ctrl_c w =
     (if ctrl_c = Some 0 then Some (Ok (), w, [[], ''Shutting down gracefully...''], [])
      else Some (Err (''monitor error: L1 RPC error: RPC chain monitor not available ''
                        @ em_dash @ '' enable `rpc` feature''), w, [], []))"
proof -
  let ?E = "\<lambda>rx. \<lparr>en_config = config, en_monitor = skeleton_monitor m, en_dispatcher = mock_dispatcher,
      en_event_tx = 0, en_event_rx = rx\<rparr> :: ('w, rpc_monitor_error, mock_dispatcher_error) engine"
  let ?s = "\<lparr>rs_world = w, rs_sent = []\<rparr>"
  let ?e = "L1Rpc (''RPC chain monitor not available '' @ em_dash @ '' enable `rpc` feature'')"
  have pending: "cm_pending_range (skeleton_monitor m :: ('w, rpc_monitor_error) chain_monitor) w = (Err ?e, w)"
    by (simp add: skeleton_monitor_def default_pending_range_def skeleton_get_state_def act_bind_def)
  have "engine_resume m sleep (?E rx) Polling ?s = Some (Stopped (Err (EngineMonitor
      (cm_error_to_string (skeleton_monitor m :: ('w, _) chain_monitor) ?e))), ?s)" for rx
    using assms pending by (simp add: resume_def monitor_call_def on_world_def act_map_err_def)
  moreover have "cm_error_to_string (skeleton_monitor m :: ('w, _) chain_monitor) ?e =
      ''L1 RPC error: RPC chain monitor not available '' @ em_dash @ '' enable `rpc` feature''"
    by (simp add: skeleton_monitor_def)
  ultimately have poll: "engine_resume m sleep (?E rx) Polling ?s = Some (Stopped (Err (EngineMonitor
      (''L1 RPC error: RPC chain monitor not available '' @ em_dash @ '' enable `rpc` feature''))), ?s)" for rx
    by simp
  from engine_at.resumes [OF engine_at.begins this] have run: "engine_run m sleep (?E rx) ?s = Some (Err (EngineMonitor
      (''L1 RPC error: RPC chain monitor not available '' @ em_dash @ '' enable `rpc` feature'')), ?s)" for rx
    unfolding engine_run_at .
  have sel: "select_awaits (engine_resume m sleep (?E rx)) (Suc n) Polling ?s = Some (Ended (Err (EngineMonitor
      (''L1 RPC error: RPC chain monitor not available '' @ em_dash @ '' enable `rpc` feature''))) ?s)" for n rx
    using poll [of rx] by (cases n) (simp_all del: engine_resume.simps)
  show ?thesis
  proof (cases ctrl_c)
    case (Some n)
    then show ?thesis
      using sel by (cases n)
        (simp_all add: serve_service_def engine_new_def take_event_receiver_def Let_def del: select_awaits.simps(2) engine_resume.simps)
  qed (simp add: serve_service_def engine_new_def take_event_receiver_def Let_def run)
qed

lemma serve_engine_config_sel [simp]:
  "ec_poll_interval (serve_engine_config intent poll_interval) = duration_from_secs poll_interval"
  "ec_intent (serve_engine_config intent poll_interval) = intent"
  by (simp_all add: serve_engine_config_def)

text \<open>What the two services do when they have nothing to do: sleep, until Ctrl-C.\<close>

definition idles ::
  "(duration \<Rightarrow> 'w \<Rightarrow> 'w) \<Rightarrow> duration \<Rightarrow> nat option \<Rightarrow> 'w \<Rightarrow> string list \<Rightarrow> 'w service_result option" where
  "idles sleep poll ctrl_c w pre =
     map_option (\<lambda>n. (Ok (), (sleep poll ^^ (n div 2)) w, pre @ [[], ''Shutting down gracefully...''], [])) ctrl_c"

lemma mock_serve:
  "serve_service m sleep config (mock_monitor m (mock_monitor_default_state now)) ctrl_c w =
     idles sleep (ec_poll_interval config) ctrl_c w []"
  unfolding idles_def append_Nil
  by (rule idle_serve)
    (simp_all add: mock_monitor_def mock_monitor_default_state_def default_pending_range_def
        default_active_dispute_def pending_of_state_def act_bind_def Let_def)

lemma skeleton_serve_sentinel:
  assumes "ri_proof_mode (ec_intent config) = Sentinel"
  shows "serve_service m sleep config (skeleton_monitor m :: ('w, rpc_monitor_error) chain_monitor) ctrl_c w =
     idles sleep (ec_poll_interval config) ctrl_c w []"
  unfolding idles_def append_Nil
  by (rule idle_serve) (simp_all add: skeleton_monitor_def default_active_dispute_def assms)

lemma after_idles: "after_lines ls (idles sleep poll ctrl_c w []) = idles sleep poll ctrl_c w ls"
  by (cases ctrl_c) (simp_all add: after_lines_def idles_def)

lemma idles_quiet: "idles sleep poll ctrl_c w pre = Some (r, w', out, logged) \<Longrightarrow> logged = []"
  by (cases ctrl_c) (simp_all add: idles_def)

text \<open>What \<open>serve\<close> runs once its configuration is read.\<close>

lemma serve_execute_cases:
  fixes C :: "('w, 'f) cli_env"
  assumes "cl_read_config C (sv_config args) w = (Ok config, w1)" and "to_sdk_config config = Ok sdk_config"
    and "\<forall>a. sv_oracle_address args = Some a \<longrightarrow> (\<exists>addr. parse_address a = Ok addr)"
  shows "\<exists>pre. serve_execute m sleep now parse_address C args ctrl_c w =
     (let cfg = serve_engine_config (config_resolve sdk_config) (sv_poll_interval args)
      in if is_mock_mode (cl_sp1_prover C) config \<or> sv_oracle_address args = None
         then after_lines pre (serve_service m sleep cfg (mock_monitor m (mock_monitor_default_state now)) ctrl_c w1)
         else after_lines pre
           (serve_service m sleep cfg (skeleton_monitor m :: ('w, rpc_monitor_error) chain_monitor) ctrl_c w1))"
proof -
  have "act_bind (cl_read_config C (sv_config args)) (\<lambda>config.
           act_bind (act_lift (map_err config_error_text (to_sdk_config config))) (\<lambda>sdk_config.
           act_return (config, sdk_config))) w = (Ok (config, sdk_config), w1)"
    using assms(1,2) by (simp add: act_bind_def)
  with assms(3) show ?thesis
    by (cases "sv_oracle_address args") (auto simp: serve_execute_def Let_def)
qed

text \<open>
  C33: what the service does. Once its configuration is read, \<open>serve\<close> sends no event and logs no
  line, in any mode, with or without an oracle address: it never proves, submits or disputes
  anything. Without an oracle or in mock mode, and in Sentinel mode, it polls until Ctrl-C, its
  only way to stop, and then succeeds; with an oracle address in Beacon mode it ends with an
  error at its first poll.
\<close>

theorem serve_never_proves:
  fixes C :: "('w, 'f) cli_env"
  assumes "cl_read_config C (sv_config args) w = (Ok config, w1)"
    and "to_sdk_config config = Ok sdk_config"
    and "\<forall>a. sv_oracle_address args = Some a \<longrightarrow> (\<exists>addr. parse_address a = Ok addr)"
  shows "(\<forall>r w' out logged. serve_execute m sleep now parse_address C args ctrl_c w = Some (r, w', out, logged)
       \<longrightarrow> logged = [])
   \<and> (if is_mock_mode (cl_sp1_prover C) config \<or> sv_oracle_address args = None
          \<or> ri_proof_mode (config_resolve sdk_config) = Sentinel
      then \<exists>pre. serve_execute m sleep now parse_address C args ctrl_c w =
         idles sleep (duration_from_secs (sv_poll_interval args)) ctrl_c w1 pre
      else ctrl_c \<noteq> Some 0 \<longrightarrow> (\<exists>out. serve_execute m sleep now parse_address C args ctrl_c w =
         Some (Err (''monitor error: L1 RPC error: RPC chain monitor not available ''
                      @ em_dash @ '' enable `rpc` feature''), w1, out, [])))"
proof -
  let ?cfg = "serve_engine_config (config_resolve sdk_config) (sv_poll_interval args)"
  let ?mock = "is_mock_mode (cl_sp1_prover C) config \<or> sv_oracle_address args = None"
  obtain pre where run: "serve_execute m sleep now parse_address C args ctrl_c w =
     (if ?mock then after_lines pre (serve_service m sleep ?cfg (mock_monitor m (mock_monitor_default_state now)) ctrl_c w1)
      else after_lines pre
        (serve_service m sleep ?cfg (skeleton_monitor m :: ('w, rpc_monitor_error) chain_monitor) ctrl_c w1))"
    using serve_execute_cases [of C args w config w1 sdk_config parse_address m sleep now ctrl_c] assms
    by (auto simp: Let_def)
  show ?thesis
  proof (cases "?mock \<or> ri_proof_mode (config_resolve sdk_config) = Sentinel")
    case True
    then have "serve_execute m sleep now parse_address C args ctrl_c w =
        idles sleep (duration_from_secs (sv_poll_interval args)) ctrl_c w1 pre"
      by (auto simp: run mock_serve skeleton_serve_sentinel after_idles)
    with True show ?thesis by (auto dest: idles_quiet)
  next
    case False
    then have mode: "ri_proof_mode (ec_intent ?cfg) = Beacon"
      by (cases "ri_proof_mode (config_resolve sdk_config)") simp_all
    show ?thesis
      using False run unfolding skeleton_serve_beacon [OF mode]
      by (cases "ctrl_c = Some 0") (auto simp: after_lines_def)
  qed
qed

theorem serve_never_proves_witness:
  "\<exists>out. serve_execute Release (\<lambda>_ w. w(''clock'' \<mapsto> ''12'')) (0, 0) (\<lambda>_. Ok 1) sample_cli_env
      \<lparr>sv_config = ''open-zk.toml'', sv_poll_interval = 12, sv_oracle_address = Some ''0x1''\<rparr> (Some 2) Map.empty
    = Some (Ok (), [''clock'' \<mapsto> ''12''], out, [])"
proof -
  let ?args = "\<lparr>sv_config = ''open-zk.toml'', sv_poll_interval = 12, sv_oracle_address = Some ''0x1''\<rparr>"
  obtain sdk where sdk: "to_sdk_config (default_cli_config :: nat cli_config) = Ok sdk"
    by (simp add: to_sdk_config_Ok)
  then have mode: "ri_proof_mode (config_resolve sdk) = Sentinel"
    by (auto simp: to_sdk_config_Ok default_cli_config_def proving_config_default_def default_security_def
        config_resolve_def intent_resolve_def parse_security_def)
  have read: "cl_read_config sample_cli_env (sv_config ?args) w = (Ok default_cli_config, w)" for w
    by (simp add: sample_cli_env_def)
  have "\<forall>a. sv_oracle_address ?args = Some a \<longrightarrow> (\<exists>addr. (\<lambda>_. Ok 1) a = (Ok addr :: (string, address) outcome))"
    by simp
  from serve_never_proves [OF read sdk this, of Release "\<lambda>_ w. w(''clock'' \<mapsto> ''12'')" "(0, 0)" "Some 2" Map.empty] mode
  show ?thesis by (elim conjE) (simp add: idles_def split: if_splits, blast)
qed

section \<open>Status\<close>

text \<open>\<open>block_number\<close> asks a node for its latest block; a failed safe-block query counts as none.\<close>

definition fetch_chain_status ::
  "('w, 'url) node_ops \<Rightarrow> ('url \<Rightarrow> ('w, string, u64) action) \<Rightarrow> (string \<Rightarrow> (string, 'url) outcome)
     \<Rightarrow> (string \<Rightarrow> (string, address) outcome) \<Rightarrow> bytes \<Rightarrow> 'f cli_config \<Rightarrow> string option \<Rightarrow> ('w, unit) command" where
  "fetch_chain_status N block_number parse_url parse_address latest_block_number_call config oracle_address =
     act_bind (act_lift (parse_url (nc_l1_rpc_url (cc_network config)))) (\<lambda>l1.
     act_bind (act_lift (parse_url (nc_l2_rpc_url (cc_network config)))) (\<lambda>l2.
     act_bind (on_system (act_map_err (\<lambda>e. ''L1 RPC unreachable: '' @ e) (block_number l1))) (\<lambda>l1_block.
     act_bind (printlns [''L1:'', ''  Latest block: '' @ show_u64 l1_block]) (\<lambda>_.
     act_bind (on_system (act_map_err (\<lambda>e. ''L2 RPC unreachable: '' @ e) (block_number l2))) (\<lambda>l2_latest.
     act_bind (on_system (act_try (no_get_block_by_number N l2 Safe))) (\<lambda>found.
     let l2_safe = map_option bh_number (Option.bind (result_ok found) (\<lambda>b. b))
     in act_bind (printlns ([''L2:'', ''  Latest block: '' @ show_u64 l2_latest]
            @ (case l2_safe of Some safe \<Rightarrow> [''  Safe block:   '' @ show_u64 safe] | None \<Rightarrow> []))) (\<lambda>_.
        case oracle_address of
          None \<Rightarrow> printlns [[], ''Tip: pass --oracle-address to show proving progress.'']
        | Some addr_str \<Rightarrow>
            act_bind (act_lift (parse_address addr_str)) (\<lambda>oracle_addr.
            act_bind (on_system (act_try (no_call N l1 oracle_addr latest_block_number_call))) (\<lambda>call_result.
            act_bind (println (''Oracle ('' @ addr_str @ ''):'')) (\<lambda>_.
            case call_result of
              Ok result \<Rightarrow>
                if 32 \<le> length result
                then act_bind (act_lift (subslice result 24 32)) (\<lambda>bytes.
                     let proven_block = be_word bytes
                     in printlns ([''  Latest proven block: '' @ show_u64 proven_block]
                          @ (case l2_safe of
                               Some safe \<Rightarrow>
                                 [''  Pending blocks:      '' @ show_u64 (saturating_sub_u64 safe proven_block)]
                             | None \<Rightarrow> [])))
                else println ''  (unexpected response)''
            | Err e \<Rightarrow> println (''  (contract call failed: '' @ e @ '')'')
            | Panic x \<Rightarrow> act_lift (Panic x)))))))))))"

definition status_execute ::
  "('w, 'url) node_ops \<Rightarrow> ('url \<Rightarrow> ('w, string, u64) action) \<Rightarrow> (string \<Rightarrow> (string, 'url) outcome)
     \<Rightarrow> (string \<Rightarrow> (string, address) outcome) \<Rightarrow> bytes \<Rightarrow> ('w, 'f) cli_env \<Rightarrow> string \<Rightarrow> string option
     \<Rightarrow> ('w, unit) command" where
  "status_execute N block_number parse_url parse_address latest_block_number_call C path oracle_address =
     act_bind (on_system (cl_read_config C path)) (\<lambda>config.
     act_bind (printlns [''open-zk Status'', ''=============='', [], ''Network:'',
        ''  L1 RPC: '' @ nc_l1_rpc_url (cc_network config),
        ''  L2 RPC: '' @ nc_l2_rpc_url (cc_network config),
        ''  Beacon: '' @ nc_l1_beacon_url (cc_network config), []]) (\<lambda>_.
     fetch_chain_status N block_number parse_url parse_address latest_block_number_call config oracle_address))"

text \<open>
  C31: status and monitor agree. On nodes that answer reads, with an oracle answer of at least a
  slot, the proven block that \<open>status\<close> prints is the one of the RPC monitor's snapshot for the
  same nodes and oracle, and its pending count is the number of blocks in the range that the
  monitor reports as pending.
\<close>

theorem status_agrees:
  assumes urls: "parse_url (nc_l1_rpc_url (cc_network config)) = Ok l1" "parse_url (nc_l2_rpc_url (cc_network config)) = Ok l2"
    and addr: "parse_address text_address = Ok oracle"
    and blocks: "block_number l1 w = (Ok n1, w)" "block_number l2 w = (Ok n2, w)"
      "no_get_block_by_number N l1 Finalized w = (Ok (Some fin), w)"
      "no_get_block_by_number N l2 Safe w = (Ok (Some safe), w)"
    and call: "no_call N l1 oracle lc w = (Ok answer, w)" "32 \<le> length answer"
  shows "\<exists>self st lines pending range.
       rpc_monitor_new parse_url (nc_l1_rpc_url (cc_network config)) (nc_l2_rpc_url (cc_network config)) oracle = Ok self
     \<and> cm_get_state (rpc_monitor m N lc dc self) w = (Ok st, w)
     \<and> cm_pending_range (rpc_monitor m N lc dc self) w = (Ok range, w)
     \<and> fetch_chain_status N block_number parse_url parse_address lc config (Some text_address) ((w, h), out)
         = (Ok (), ((w, h), out @ lines @ [''  Latest proven block: '' @ show_u64 (cs_l2_proven_block st),
                                          ''  Pending blocks:      '' @ show_u64 pending]))
     \<and> unat pending = (case range of None \<Rightarrow> 0 | Some (a, b) \<Rightarrow> Suc (unat b) - unat a)"
proof -
  let ?self = "\<lparr>rm_l1_rpc_url = l1, rm_l2_rpc_url = l2, rm_oracle_address = oracle, rm_dispute_address = None\<rparr>"
  let ?proven = "be_word (take 8 (drop 24 answer)) :: u64"
  let ?st = "\<lparr>cs_l1_head = bh_hash fin, cs_l1_block_number = bh_number fin, cs_l2_proven_block = ?proven,
              cs_l2_safe_block = bh_number safe, cs_timestamp = no_now N w\<rparr>"
  let ?pending = "saturating_sub_u64 (bh_number safe) ?proven"
  have slice: "subslice answer 24 32 = (Ok (take 8 (drop 24 answer)) :: ('e, bytes) outcome)"
    using call(2) by (simp add: subslice_def)
  have new: "rpc_monitor_new parse_url (nc_l1_rpc_url (cc_network config)) (nc_l2_rpc_url (cc_network config)) oracle = Ok ?self"
    by (simp add: rpc_monitor_new_def urls)
  have get: "rpc_get_state N lc ?self w = (Ok ?st, w)"
    by (simp add: rpc_get_state_def act_bind_def act_map_err_def blocks call decode_proven_block_def slice)
  have state: "cm_get_state (rpc_monitor m N lc dc ?self) w = (Ok ?st, w)"
    using get by (simp add: rpc_monitor_def)
  have range: "cm_pending_range (rpc_monitor m N lc dc ?self) w =
      (Ok (if ?proven < bh_number safe then Some (?proven + 1, bh_number safe) else None), w)"
    using rpc_range.pending_range_eq [of m N lc dc ?self w] state by simp
  have printed: "\<exists>lines. fetch_chain_status N block_number parse_url parse_address lc config (Some text_address) ((w, h), out)
      = (Ok (), ((w, h), out @ lines @ [''  Latest proven block: '' @ show_u64 ?proven,
                                       ''  Pending blocks:      '' @ show_u64 ?pending]))"
    by (simp add: fetch_chain_status_def act_bind_def on_system_def on_state_def in_world_def act_map_err_def act_try_def
        urls addr blocks call slice Let_def)
  have count: "unat ?pending = (case (if ?proven < bh_number safe then Some (?proven + 1, bh_number safe) else None) of
      None \<Rightarrow> 0 | Some (a, b) \<Rightarrow> Suc (unat b) - unat a)"
    using succ_u64_unat(2) [of ?proven "bh_number safe"]
    by (auto simp: unat_saturating_sub word_less_nat_alt)
  from new state range printed count show ?thesis
    by (intro exI [of _ ?self] exI [of _ ?st]) auto
qed

theorem status_agrees_witness:
  "\<exists>lines. fetch_chain_status sample_node (\<lambda>_ w. (Ok 900, w)) (\<lambda>_. Ok ()) (\<lambda>_. Ok 1) []
      (default_cli_config :: nat cli_config) (Some ''0x1'') (((), \<lparr>kh_next = 0, kh_store = (\<lambda>_. Map.empty)\<rparr>), [])
    = (Ok (), (((), \<lparr>kh_next = 0, kh_store = (\<lambda>_. Map.empty)\<rparr>), lines @ [''  Latest proven block: '' @ show_u64 500, ''  Pending blocks:      '' @ show_u64 250]))"
proof -
  have proven: "be_word (take 8 (drop 24 (abi_words [500]))) = (500 :: u64)"
    using decode_proven_block_encoded [of 500] by (simp add: decode_proven_block_def subslice_def)
  let ?fin = "\<lparr>bh_hash = 7, bh_number = 100, bh_state_root = 0, bh_withdrawals_root = None\<rparr>"
  let ?safe = "\<lparr>bh_hash = 7, bh_number = 750, bh_state_root = 0, bh_withdrawals_root = None\<rparr>"
  obtain self st lines pending range where t:
    "rpc_monitor_new (\<lambda>_. Ok ()) (nc_l1_rpc_url (cc_network (default_cli_config :: nat cli_config)))
       (nc_l2_rpc_url (cc_network (default_cli_config :: nat cli_config))) 1 = Ok self"
    "cm_get_state (rpc_monitor Debug sample_node [] (\<lambda>_. []) self) () = (Ok st, ())"
    "cm_pending_range (rpc_monitor Debug sample_node [] (\<lambda>_. []) self) () = (Ok range, ())"
    "fetch_chain_status sample_node (\<lambda>_ w. (Ok 900, w)) (\<lambda>_. Ok ()) (\<lambda>_. Ok 1) []
      (default_cli_config :: nat cli_config) (Some ''0x1'') (((), \<lparr>kh_next = 0, kh_store = (\<lambda>_. Map.empty)\<rparr>), [])
    = (Ok (), (((), \<lparr>kh_next = 0, kh_store = (\<lambda>_. Map.empty)\<rparr>), [] @ lines @ [''  Latest proven block: '' @ show_u64 (cs_l2_proven_block st),
        ''  Pending blocks:      '' @ show_u64 pending]))"
    "unat pending = (case range of None \<Rightarrow> 0 | Some (a, b) \<Rightarrow> Suc (unat b) - unat a)"
    using status_agrees [of "\<lambda>_. Ok ()" "default_cli_config :: nat cli_config" "()" "()" "\<lambda>_. Ok 1" "''0x1''" 1
        "\<lambda>_ w. (Ok 900, w)" "()" 900 900 sample_node ?fin ?safe "[]" "abi_words [500]" Debug "\<lambda>_. []" "\<lparr>kh_next = 0, kh_store = (\<lambda>_. Map.empty)\<rparr>" "[]"]
    by (auto simp: sample_node_def)
  have "self = sample_rpc_monitor" using t(1) by (simp add: rpc_monitor_new_def sample_rpc_monitor_def)
  moreover have st: "rpc_get_state sample_node [] sample_rpc_monitor () =
     (Ok \<lparr>cs_l1_head = 7, cs_l1_block_number = 100, cs_l2_proven_block = 500,
          cs_l2_safe_block = 750, cs_timestamp = (0, 0)\<rparr>, ())"
    using decode_proven_block_encoded [of 500]
    by (simp add: rpc_get_state_def act_bind_def act_map_err_def sample_node_def sample_rpc_monitor_def)
  ultimately have "cs_l2_proven_block st = 500" "range = Some (501, 750)"
    using t(2,3) rpc_range.pending_range_eq [of Debug sample_node "[]" "\<lambda>_. []" self "()"]
    by (auto simp: rpc_monitor_def)
  moreover from this(2) t(5) have "pending = 250" by (simp add: word_unat_eq_iff)
  ultimately show ?thesis using t(4) by auto
qed

section \<open>Init\<close>

text \<open>Whether a path exists, writing a file, and the printer of the toml crate are parameters.\<close>

definition default_toml :: "('f cli_config \<Rightarrow> string) \<Rightarrow> string" where
  "default_toml to_toml = to_toml default_cli_config"

definition init_execute ::
  "(string \<Rightarrow> 'w \<Rightarrow> bool) \<Rightarrow> (string \<Rightarrow> string \<Rightarrow> ('w, string, unit) action) \<Rightarrow> ('f cli_config \<Rightarrow> string)
     \<Rightarrow> string \<Rightarrow> bool \<Rightarrow> ('w, unit) command" where
  "init_execute path_exists write to_toml output force = (\<lambda>s.
     if path_exists output (fst (fst s)) \<and> \<not> force
     then act_fail (''Config file already exists at '' @ output @ ''. Use --force to overwrite.'') s
     else (let toml_content = default_toml to_toml
           in act_bind (on_system (write output toml_content)) (\<lambda>_.
              printlns [''Created config file at '' @ output,
                        ''Edit the [network] section with your RPC URLs to get started.''])) s)"

lemma init_keeps_config:
  assumes "path_exists output w"
  shows "\<exists>e. init_execute path_exists write to_toml output False ((w, h), out) = (Err e, ((w, h), out))"
  using assms by (simp add: init_execute_def)

end
