(* ===== verification/Cli_Deploy.thy ===== *)
theory Cli_Deploy
  imports Cli_Prove
begin

text \<open>
  The command line's \<open>fast-track\<close> (crates/cli/src/commands/fast_track.rs): it checks its
  arguments and the nodes, runs the forge script and reads the deployed addresses off the
  script's output.  Strings are their UTF-8 bytes, so the slice of a line can panic inside a
  character.  Processes, nodes, the address type's parser and printer are parameters.
\<close>

section \<open>Text\<close>

text \<open>\<open>str::lines\<close>: split at line feeds, each with an optional carriage return before it.\<close>

fun str_lines :: "string \<Rightarrow> string list" where
  "str_lines [] = []"
| "str_lines (c # cs) =
     (if c = CHR 0x0A then [] # str_lines cs
      else if c = CHR 0x0D \<and> cs \<noteq> [] \<and> hd cs = CHR 0x0A then str_lines cs
      else case str_lines cs of [] \<Rightarrow> [[c]] | l # ls \<Rightarrow> (c # l) # ls)"

definition starts_with :: "string \<Rightarrow> string \<Rightarrow> bool" where
  "starts_with p s \<longleftrightarrow> take (length p) s = p"

fun str_find :: "string \<Rightarrow> string \<Rightarrow> nat option" where
  "str_find p [] = (if p = [] then Some 0 else None)"
| "str_find p (c # cs) = (if starts_with p (c # cs) then Some 0 else map_option Suc (str_find p cs))"

definition contains :: "string \<Rightarrow> string \<Rightarrow> bool" where
  "contains p s \<longleftrightarrow> str_find p s \<noteq> None"

text \<open>The characters \<open>trim\<close> removes, Unicode's white space, as UTF-8.\<close>

definition white_space :: "string list" where
  "white_space =
     map (\<lambda>c. [c]) [CHR 0x09, CHR 0x0A, CHR 0x0B, CHR 0x0C, CHR 0x0D, CHR 0x20]
     @ [[CHR 0xC2, CHR 0x85], [CHR 0xC2, CHR 0xA0], [CHR 0xE1, CHR 0x9A, CHR 0x80]]
     @ map (\<lambda>c. [CHR 0xE2, CHR 0x80, c])
         [CHR 0x80, CHR 0x81, CHR 0x82, CHR 0x83, CHR 0x84, CHR 0x85, CHR 0x86, CHR 0x87, CHR 0x88,
          CHR 0x89, CHR 0x8A, CHR 0xA8, CHR 0xA9, CHR 0xAF]
     @ [[CHR 0xE2, CHR 0x81, CHR 0x9F], [CHR 0xE3, CHR 0x80, CHR 0x80]]"

fun strip_while :: "nat \<Rightarrow> string list \<Rightarrow> string \<Rightarrow> string" where
  "strip_while 0 ws s = s"
| "strip_while (Suc n) ws s =
     (case List.find (\<lambda>w. starts_with w s) ws of
        Some w \<Rightarrow> strip_while n ws (drop (length w) s)
      | None \<Rightarrow> s)"

text \<open>Every step removes a character, so the length is enough fuel.\<close>

definition str_trim :: "string \<Rightarrow> string" where
  "str_trim s =
     (let t = strip_while (length s) white_space s
      in rev (strip_while (length t) (map rev white_space) (rev t)))"

definition is_ascii_hexdigit :: "char \<Rightarrow> bool" where
  "is_ascii_hexdigit c \<longleftrightarrow> c \<in> set ''0123456789abcdefABCDEF''"

text \<open>Slicing up to an index inside a character panics.\<close>

definition is_char_boundary :: "string \<Rightarrow> nat \<Rightarrow> bool" where
  "is_char_boundary s i \<longleftrightarrow>
     i = 0 \<or> i = length s \<or> i < length s \<and> \<not> (0x80 \<le> (of_char (s ! i) :: nat) \<and> (of_char (s ! i) :: nat) < 0xC0)"

definition str_upto :: "string \<Rightarrow> nat \<Rightarrow> ('e, string) outcome" where
  "str_upto s i = (if is_char_boundary s i then Ok (take i s) else Panic SliceOutOfRange)"

section \<open>The command\<close>

record fast_track_args =
  ft_l1_rpc_url :: string
  ft_l2_rpc_url :: string
  ft_l1_beacon_url :: string
  ft_deployer_key :: string
  ft_owner_key :: string
  ft_starting_block :: u64
  ft_submission_interval :: u64
  ft_challenge_timeout :: u64
  ft_with_dispute_game :: bool

definition DEFAULT_L1_RPC :: string where "DEFAULT_L1_RPC = ''http://127.0.0.1:8545''"
definition DEFAULT_L2_RPC :: string where "DEFAULT_L2_RPC = ''http://127.0.0.1:9545''"
definition DEFAULT_L1_BEACON :: string where "DEFAULT_L1_BEACON = ''http://127.0.0.1:5052''"

record deployment_result =
  dr_oracle_address :: address
  dr_dispute_game_address :: "address option"
  dr_deployer :: address
  dr_starting_block :: u64

text \<open>A command to run, and what a finished process leaves: its success and its two outputs.\<close>

record forge_command =
  fc_current_dir :: string
  fc_args :: "string list"
  fc_envs :: "(string \<times> string) list"

record process_output =
  po_success :: bool
  po_stdout :: string
  po_stderr :: string

record 'w deploy_env =
  dp_sp1_prover :: "string option"
  dp_parse_url :: "string \<Rightarrow> (string, unit) outcome"
  dp_chain_id :: "string \<Rightarrow> ('w, string, u64) action"
  dp_forge_version :: "('w, string, process_output) action"
  dp_forge :: "forge_command \<Rightarrow> ('w, string, process_output) action"
  dp_parse_address :: "string \<Rightarrow> address option"
  dp_show_address :: "address \<Rightarrow> string"
  dp_to_string_pretty :: "json \<Rightarrow> (string, string) outcome"
  dp_write :: "string \<Rightarrow> string \<Rightarrow> ('w, string, unit) action"

definition unprefixed :: "string \<Rightarrow> string" where
  "unprefixed key = (if starts_with ''0x'' key then drop 2 key else key)"

definition verify_connectivity :: "'w deploy_env \<Rightarrow> string \<Rightarrow> string \<Rightarrow> ('w, unit) command" where
  "verify_connectivity D l1_rpc l2_rpc =
     act_bind (act_lift (dp_parse_url D l1_rpc)) (\<lambda>_.
     act_bind (act_lift (dp_parse_url D l2_rpc)) (\<lambda>_.
     act_bind (on_system (act_map_err (\<lambda>e. ''L1 RPC unreachable: '' @ e) (dp_chain_id D l1_rpc))) (\<lambda>l1_chain_id.
     act_bind (on_system (act_map_err (\<lambda>e. ''L2 RPC unreachable: '' @ e) (dp_chain_id D l2_rpc))) (\<lambda>l2_chain_id.
     printlns [''L1 chain ID: '' @ show_u64 l1_chain_id, ''L2 chain ID: '' @ show_u64 l2_chain_id]))))"

definition check_foundry :: "'w deploy_env \<Rightarrow> ('w, unit) command" where
  "check_foundry D =
     act_bind (on_system (act_try (dp_forge_version D))) (\<lambda>output.
     case output of
       Ok out \<Rightarrow>
         if po_success out then println (''Foundry: '' @ str_trim (po_stdout out))
         else act_fail ''Foundry not found. Install it with: curl -L https://foundry.paradigm.xyz | bash''
     | _ \<Rightarrow> act_fail ''Foundry not found. Install it with: curl -L https://foundry.paradigm.xyz | bash'')"

definition forge_script :: "fast_track_args \<Rightarrow> forge_command" where
  "forge_script args =
     (let deployer_key_prefixed =
            (if starts_with ''0x'' (ft_deployer_key args) then ft_deployer_key args
             else ''0x'' @ ft_deployer_key args)
      in \<lparr>fc_current_dir = ''contracts'',
          fc_args = [''script'', ''script/DeployDevnet.s.sol'', ''--rpc-url'', ft_l1_rpc_url args, ''--broadcast''],
          fc_envs = [(''DEPLOYER_PRIVATE_KEY'', deployer_key_prefixed),
                     (''DEPLOY_DISPUTE_GAME'', if ft_with_dispute_game args then ''true'' else ''false''),
                     (''CHALLENGE_TIMEOUT'', show_u64 (ft_challenge_timeout args))]\<rparr>)"

definition deploy_via_forge :: "'w deploy_env \<Rightarrow> fast_track_args \<Rightarrow> ('w, string) command" where
  "deploy_via_forge D args =
     act_bind (println ''Running forge script...'') (\<lambda>_.
     act_bind (on_system (act_map_err (\<lambda>e. ''failed to run forge: '' @ e) (dp_forge D (forge_script args)))) (\<lambda>output.
     let stdout = po_stdout output;
         stderr = po_stderr output
     in if \<not> po_success output
        then act_fail (''forge script failed:'' @ [CHR 0x0A] @ ''stdout:'' @ [CHR 0x0A] @ stdout @ [CHR 0x0A]
               @ ''stderr:'' @ [CHR 0x0A] @ stderr)
        else act_bind (printlns (map (\<lambda>line. ''  '' @ line)
               (filter (\<lambda>line. contains ''::'' line \<or> contains ''Deployed'' line \<or> contains ''0x'' line)
                 (str_lines stdout)))) (\<lambda>_.
             act_return stdout)))"

fun extract_from_lines ::
  "(string \<Rightarrow> address option) \<Rightarrow> string \<Rightarrow> string list \<Rightarrow> ('e, address option) outcome" where
  "extract_from_lines parse_address contract_name [] = Ok None"
| "extract_from_lines parse_address contract_name (line # lines) =
     (if contains contract_name line
      then case str_find ''0x'' line of
             Some pos \<Rightarrow>
               let addr_str = drop pos line
               in and_then (if 42 \<le> length addr_str then str_upto addr_str 42 else Ok (str_trim addr_str))
                    (\<lambda>addr_candidate.
                  case parse_address addr_candidate of
                    Some addr \<Rightarrow> Ok (Some addr)
                  | None \<Rightarrow> extract_from_lines parse_address contract_name lines)
           | None \<Rightarrow> extract_from_lines parse_address contract_name lines
      else extract_from_lines parse_address contract_name lines)"

definition extract_address ::
  "(string \<Rightarrow> address option) \<Rightarrow> string \<Rightarrow> string \<Rightarrow> ('e, address option) outcome" where
  "extract_address parse_address output contract_name =
     extract_from_lines parse_address contract_name (str_lines output)"

definition parse_deployment_output ::
  "(string \<Rightarrow> address option) \<Rightarrow> string \<Rightarrow> fast_track_args \<Rightarrow> (string, deployment_result) outcome" where
  "parse_deployment_output parse_address output args =
     and_then (extract_address parse_address output ''OpenZkL2OutputOracle'') (\<lambda>found.
     and_then (ok_or ''failed to find OpenZkL2OutputOracle address in forge output'' found) (\<lambda>oracle_address.
     and_then
       (if ft_with_dispute_game args
        then and_then (extract_address parse_address output ''OpenZkDisputeGame'') (\<lambda>found.
             and_then (ok_or ''failed to find OpenZkDisputeGame address in forge output'' found) (\<lambda>a. Ok (Some a)))
        else Ok None) (\<lambda>dispute_game_address.
     Ok \<lparr>dr_oracle_address = oracle_address, dr_dispute_game_address = dispute_game_address,
         dr_deployer = 0, dr_starting_block = ft_starting_block args\<rparr>)))"

definition deployment_json :: "'w deploy_env \<Rightarrow> fast_track_args \<Rightarrow> deployment_result \<Rightarrow> bool \<Rightarrow> json" where
  "deployment_json D args result mock_mode =
     JObj [(''oracle_address'', JStr (dp_show_address D (dr_oracle_address result))),
           (''dispute_game_address'',
             case dr_dispute_game_address result of None \<Rightarrow> JNull | Some a \<Rightarrow> JStr (dp_show_address D a)),
           (''starting_block'', JInt (uint (dr_starting_block result))),
           (''l1_rpc_url'', JStr (ft_l1_rpc_url args)),
           (''l2_rpc_url'', JStr (ft_l2_rpc_url args)),
           (''l1_beacon_url'', JStr (ft_l1_beacon_url args)),
           (''mock_mode'', JBool mock_mode)]"

definition fast_track_execute :: "'w deploy_env \<Rightarrow> fast_track_args \<Rightarrow> ('w, unit) command" where
  "fast_track_execute D args =
     (let deployer_key = unprefixed (ft_deployer_key args);
          mock_mode = (dp_sp1_prover D = Some ''mock'')
      in if \<not> (length deployer_key = 64 \<and> (\<forall>c \<in> set deployer_key. is_ascii_hexdigit c))
         then act_fail ''invalid deployer key: must be 64 hex characters''
         else
         act_bind (printlns [''Open-ZK Fast Track Deployment'', ''============================='',
           ''L1 RPC:     '' @ ft_l1_rpc_url args, ''L2 RPC:     '' @ ft_l2_rpc_url args,
           ''L1 Beacon:  '' @ ft_l1_beacon_url args,
           ''Mock mode:  '' @ (if mock_mode then ''true'' else ''false''), []]) (\<lambda>_.
         act_bind (verify_connectivity D (ft_l1_rpc_url args) (ft_l2_rpc_url args)) (\<lambda>_.
         act_bind (check_foundry D) (\<lambda>_.
         act_bind (deploy_via_forge D args) (\<lambda>output.
         act_bind (act_lift (parse_deployment_output (dp_parse_address D) output args)) (\<lambda>result.
         act_bind (printlns ([[], ''Deployment Summary'', ''=================='',
             ''Oracle:       '' @ dp_show_address D (dr_oracle_address result)]
           @ (case dr_dispute_game_address result of
                Some dispute \<Rightarrow> [''DisputeGame:  '' @ dp_show_address D dispute] | None \<Rightarrow> [])
           @ [''Start block:  '' @ show_u64 (dr_starting_block result), [],
              ''Save these addresses in your open-zk.toml to use with `open-zk serve`.''])) (\<lambda>_.
         act_bind (act_lift (dp_to_string_pretty D (deployment_json D args result mock_mode))) (\<lambda>content.
         on_system (dp_write D ''deployment.json'' content)))))))))"

section \<open>Reading the script's output\<close>

text \<open>
  What the address type documents: an address prints as 0x and forty ASCII hexadecimal digits,
  and the text parses back.
\<close>

locale address_text =
  fixes parse_address :: "string \<Rightarrow> address option" and show_address :: "address \<Rightarrow> string"
  assumes parse_show: "parse_address (show_address a) = Some a"
    and show_shape: "\<exists>ds. show_address a = ''0x'' @ ds \<and> length ds = 40 \<and> (\<forall>c \<in> set ds. is_ascii_hexdigit c)"
begin

lemma show_length: "length (show_address a) = 42"
  using show_shape [of a] by auto

lemma candidate: "str_upto (show_address a) 42 = Ok (show_address a)"
  by (simp add: str_upto_def is_char_boundary_def show_length)

lemma first_line:
  assumes "contains name (prefix_text @ show_address a)"
    and "str_find ''0x'' (prefix_text @ show_address a) = Some (length prefix_text)"
    and "\<forall>l \<in> set pre. \<not> contains name l"
  shows "extract_from_lines parse_address name (pre @ (prefix_text @ show_address a) # post) = Ok (Some a)"
  using assms(3) by (induction pre) (simp_all add: assms(1,2) show_length candidate parse_show)

end

lemma str_lines_line:
  assumes "CHR 0x0A \<notin> set l" and "CHR 0x0D \<notin> set l"
  shows "str_lines (l @ CHR 0x0A # rest) = l # str_lines rest"
  using assms by (induction l) auto

lemma str_lines_unlines:
  assumes "\<forall>l \<in> set ls. CHR 0x0A \<notin> set l \<and> CHR 0x0D \<notin> set l"
  shows "str_lines (concat (map (\<lambda>l. l @ [CHR 0x0A]) ls)) = ls"
  using assms by (induction ls) (simp_all add: str_lines_line)

lemma find_skip:
  assumes "c \<noteq> CHR ''0''"
  shows "str_find ''0x'' (c # cs) = map_option Suc (str_find ''0x'' cs)"
  using assms by (simp add: starts_with_def)

lemma contains_skip: "contains p cs \<Longrightarrow> contains p (c # cs)"
  by (auto simp: contains_def)

lemma contains_here: "contains p (p @ cs)"
  by (cases p; cases cs) (simp_all add: contains_def starts_with_def)

lemma hex_chars:
  "\<not> is_ascii_hexdigit (CHR 0x0A)" "\<not> is_ascii_hexdigit (CHR 0x0D)" "\<not> is_ascii_hexdigit (CHR ''O'')"
  by (simp_all add: is_ascii_hexdigit_def)

lemma script_lines:
  assumes "address_text parse_address show_address"
  shows "str_find ''0x'' (''  OpenZkL2OutputOracle:     '' @ show_address a) = Some (length ''  OpenZkL2OutputOracle:     '')"
    and "str_find ''0x'' (''  OpenZkDisputeGame:       '' @ show_address a) = Some (length ''  OpenZkDisputeGame:       '')"
    and "contains ''OpenZkL2OutputOracle'' (''  OpenZkL2OutputOracle:     '' @ show_address a)"
    and "contains ''OpenZkDisputeGame'' (''  OpenZkDisputeGame:       '' @ show_address a)"
proof -
  obtain ds where ds: "show_address a = ''0x'' @ ds"
    using address_text.show_shape [OF assms] by blast
  show "str_find ''0x'' (''  OpenZkL2OutputOracle:     '' @ show_address a) = Some (length ''  OpenZkL2OutputOracle:     '')"
    "str_find ''0x'' (''  OpenZkDisputeGame:       '' @ show_address a) = Some (length ''  OpenZkDisputeGame:       '')"
    by (simp_all add: ds starts_with_def)
  show "contains ''OpenZkL2OutputOracle'' (''  OpenZkL2OutputOracle:     '' @ show_address a)"
    "contains ''OpenZkDisputeGame'' (''  OpenZkDisputeGame:       '' @ show_address a)"
    by (simp_all add: contains_def starts_with_def)
qed

text \<open>
  C38: reading the deployment back. Whatever else the forge script prints, the addresses that
  its log shows for the oracle and the dispute game are the ones in the deployment result,
  provided no earlier line names the contracts; the dispute game's only when it was asked for.
\<close>

theorem deployment_addresses:
  assumes addr: "address_text parse_address show_address"
    and plain: "\<forall>l \<in> set (pre @ mid @ post). CHR 0x0A \<notin> set l \<and> CHR 0x0D \<notin> set l"
    and unnamed: "\<forall>l \<in> set (pre @ mid). \<not> contains ''OpenZkL2OutputOracle'' l \<and> \<not> contains ''OpenZkDisputeGame'' l"
    and log: "out = concat (map (\<lambda>l. l @ [CHR 0x0A])
        (pre @ (''  OpenZkDisputeGame:       '' @ show_address game) # mid
         @ (''  OpenZkL2OutputOracle:     '' @ show_address oracle_addr) # post))"
  shows "parse_deployment_output parse_address out args =
     Ok \<lparr>dr_oracle_address = oracle_addr,
         dr_dispute_game_address = (if ft_with_dispute_game args then Some game else None),
         dr_deployer = 0, dr_starting_block = ft_starting_block args\<rparr>"
proof -
  let ?game = "''  OpenZkDisputeGame:       '' @ show_address game"
  let ?oracle_addr = "''  OpenZkL2OutputOracle:     '' @ show_address oracle_addr"
  have ascii: "CHR 0x0A \<notin> set (show_address a) \<and> CHR 0x0D \<notin> set (show_address a)" for a
    using address_text.show_shape [OF addr, of a] hex_chars by auto
  have ls: "str_lines out = pre @ ?game # mid @ ?oracle_addr # post"
    unfolding log by (rule str_lines_unlines) (use plain ascii in auto)
  have other: "\<not> contains ''OpenZkL2OutputOracle'' ?game"
  proof -
    obtain ds where "show_address game = ''0x'' @ ds" "\<forall>c \<in> set ds. is_ascii_hexdigit c"
      using address_text.show_shape [OF addr, of game] by blast
    moreover have "str_find ''OpenZkL2OutputOracle'' ds = None" if "\<forall>c \<in> set ds. is_ascii_hexdigit c" for ds
      using that by (induction ds) (use hex_chars in \<open>auto simp: starts_with_def\<close>)
    ultimately show ?thesis by (simp add: contains_def starts_with_def)
  qed
  have "extract_address parse_address out ''OpenZkL2OutputOracle'' = (Ok (Some oracle_addr) :: (string, _) outcome)"
    using address_text.first_line [OF addr script_lines(3) [OF addr], where pre = "pre @ ?game # mid" and post = post]
      script_lines(1) [OF addr] unnamed other
    by (simp add: extract_address_def ls)
  moreover have "extract_address parse_address out ''OpenZkDisputeGame'' = (Ok (Some game) :: (string, _) outcome)"
    using address_text.first_line [OF addr script_lines(4) [OF addr], where pre = pre and post = "mid @ ?oracle_addr # post"]
      script_lines(2) [OF addr] unnamed
    by (simp add: extract_address_def ls)
  ultimately show ?thesis by (simp add: parse_deployment_output_def)
qed

text \<open>
  What a deployment does not depend on. The owner's key, unchecked, and the submission
  interval have no influence on the whole command, and the starting block none on the script
  that is run: it only appears in the summary and the deployment file.
\<close>

theorem deployment_ignores:
  "fast_track_execute D (args\<lparr>ft_owner_key := key, ft_submission_interval := interval\<rparr>) = fast_track_execute D args
   \<and> forge_script (args\<lparr>ft_starting_block := start\<rparr>) = forge_script args
   \<and> parse_deployment_output p output (args\<lparr>ft_starting_block := start\<rparr>) =
       and_then (parse_deployment_output p output args) (\<lambda>r. Ok (r\<lparr>dr_starting_block := start\<rparr>))"
proof (intro conjI)
  let ?args = "args\<lparr>ft_owner_key := key, ft_submission_interval := interval\<rparr>"
  have "deploy_via_forge D ?args = deploy_via_forge D args"
    by (simp add: deploy_via_forge_def forge_script_def)
  moreover have "parse_deployment_output p' out ?args = parse_deployment_output p' out args" for p' out
    by (simp add: parse_deployment_output_def)
  moreover have "deployment_json D ?args = deployment_json D args"
    by (simp add: fun_eq_iff deployment_json_def)
  ultimately show "fast_track_execute D ?args = fast_track_execute D args"
    by (simp add: fast_track_execute_def Let_def)
  show "forge_script (args\<lparr>ft_starting_block := start\<rparr>) = forge_script args"
    by (simp add: forge_script_def)
  show "parse_deployment_output p output (args\<lparr>ft_starting_block := start\<rparr>) =
       and_then (parse_deployment_output p output args) (\<lambda>r. Ok (r\<lparr>dr_starting_block := start\<rparr>))"
    by (simp add: parse_deployment_output_def and_then_assoc)
qed

text \<open>The slice of a line panics when its forty-second byte is inside a character.\<close>

lemma extract_address_panics:
  "extract_address p (''Oracle 0x'' @ replicate 39 (CHR ''a'') @ [CHR 0xC3, CHR 0xA9]) ''Oracle''
     = Panic SliceOutOfRange"
  by (simp add: extract_address_def contains_def starts_with_def str_upto_def is_char_boundary_def
      eval_nat_numeral replicate_Suc)

section \<open>An address text\<close>

definition hex_text :: "address \<Rightarrow> string" where
  "hex_text a = ''0x'' @ map (\<lambda>i. ''0123456789abcdef'' ! (unat a div 16 ^ i mod 16)) (rev [0..<40])"

definition hex_value :: "char \<Rightarrow> nat" where
  "hex_value c = length (takeWhile (\<lambda>x. x \<noteq> c) ''0123456789abcdef'')"

definition hex_address :: "string \<Rightarrow> address option" where
  "hex_address s =
     (if length s = 42 \<and> starts_with ''0x'' s
      then Some (of_nat (foldl (\<lambda>n c. n * 16 + hex_value c) 0 (drop 2 s))) else None)"

lemma hex_digits_value:
  assumes "d < 16"
  shows "hex_value (''0123456789abcdef'' ! d) = d \<and> is_ascii_hexdigit (''0123456789abcdef'' ! d)"
proof -
  have "\<forall>d \<in> set [0..<16]. hex_value (''0123456789abcdef'' ! d) = d \<and> is_ascii_hexdigit (''0123456789abcdef'' ! d)"
    by code_simp
  with assms show ?thesis by simp
qed

lemma hex_foldl:
  "foldl (\<lambda>n c. n * 16 + hex_value c) acc (map (\<lambda>i. ''0123456789abcdef'' ! (v div 16 ^ i mod 16)) (rev [0..<k]))
     = acc * 16 ^ k + v mod 16 ^ k"
proof (induction k arbitrary: acc)
  case (Suc k)
  have "v mod 16 ^ Suc k = 16 ^ k * (v div 16 ^ k mod 16) + v mod 16 ^ k"
    using mod_mult2_eq [of v "16 ^ k" 16] by (simp add: mult.commute)
  moreover have "hex_value (''0123456789abcdef'' ! (v div 16 ^ k mod 16)) = v div 16 ^ k mod 16"
    using hex_digits_value [of "v div 16 ^ k mod 16"] by simp
  ultimately show ?case by (simp add: Suc.IH add_mult_distrib del: nth_Cons')
qed simp

interpretation hex: address_text hex_address hex_text
proof unfold_locales
  fix a :: address
  have "unat a mod 16 ^ 40 = unat a"
    using unsigned_less [of a, where ?'a = nat] by (simp add: mod_less)
  then show "hex_address (hex_text a) = Some a"
    using hex_foldl [of 0 "unat a" 40] by (simp add: hex_address_def hex_text_def starts_with_def)
  show "\<exists>ds. hex_text a = ''0x'' @ ds \<and> length ds = 40 \<and> (\<forall>c \<in> set ds. is_ascii_hexdigit c)"
    using hex_digits_value
    by (intro exI [of _ "map (\<lambda>i. ''0123456789abcdef'' ! (unat a div 16 ^ i mod 16)) (rev [0..<40])"])
      (auto simp: hex_text_def simp del: nth_Cons')
qed

theorem deployment_addresses_witness:
  "parse_deployment_output hex_address
     (concat (map (\<lambda>l. l @ [CHR 0x0A])
        ([''== Logs =='', ''  OpenZkDisputeGame:       '' @ hex_text 10,
          ''  challengeTimeout:       3600'', ''  OpenZkL2OutputOracle:     '' @ hex_text 11])))
     \<lparr>ft_l1_rpc_url = ''l1'', ft_l2_rpc_url = ''l2'', ft_l1_beacon_url = ''b'', ft_deployer_key = [], ft_owner_key = [],
      ft_starting_block = 0, ft_submission_interval = 20, ft_challenge_timeout = 3600, ft_with_dispute_game = True\<rparr>
   = Ok \<lparr>dr_oracle_address = 11, dr_dispute_game_address = Some 10, dr_deployer = 0, dr_starting_block = 0\<rparr>"
proof -
  have "\<not> contains n l" if "l \<in> {''== Logs =='', ''  challengeTimeout:       3600''}"
    "n \<in> {''OpenZkL2OutputOracle'', ''OpenZkDisputeGame''}" for l n
    using that by (elim insertE emptyE) (simp_all add: contains_def starts_with_def)
  then show ?thesis
    using deployment_addresses [OF hex.address_text_axioms, of "[''== Logs =='']" "[''  challengeTimeout:       3600'']" "[]" _ 10 11]
    by simp
qed

end
