(* ===== verification/Cli_Main.thy ===== *)
theory Cli_Main
  imports Cli_Estimate Cli_Service Cli_Deploy
begin

text \<open>
  The command line's entry point, crates/cli/src/main.rs, with the argument structs of its
  commands: parsing the arguments is clap's, dispatching them is the code's.  The theory also
  follows a configuration from \<open>init\<close> to the engine it configures.
\<close>

section \<open>Commands\<close>

record prove_args =
  pv_start_block :: u64
  pv_end_block :: u64
  pv_config :: string

record estimate_args =
  es_start_block :: u64
  es_end_block :: u64
  es_config :: string
  es_pricing :: "string option"

record status_args =
  st_config :: string
  st_oracle_address :: "string option"

record init_args =
  in_output :: string
  in_force :: bool

datatype commands =
    Prove prove_args
  | Serve serve_args
  | Status status_args
  | Estimate estimate_args
  | Init init_args
  | FastTrack fast_track_args

text \<open>What the commands take from outside: the SDKs, the nodes, the file system, the build.\<close>

record ('w, 'f, 'd, 'stdin, 'pk, 'vk, 'pr, 'b, 'env, 'receipt, 'signer, 'client, 'url) main_env =
  me_build :: build
  me_features :: features
  me_boot_enc :: "boot_info_output \<Rightarrow> bytes"
  me_to_bytes :: "preimages \<Rightarrow> (string, bytes) outcome"
  me_journal_dec :: "bytes \<Rightarrow> ('d, state_transition_output) outcome"
  me_zkvms :: "('w, 'stdin, 'pk, 'vk, 'pr, 'b, 'env, 'receipt) zkvms"
  me_cli :: "('w, 'f) cli_env"
  me_pricing :: "('w, 'f, 'signer, 'client) pricing_env"
  me_deploy :: "'w deploy_env"
  me_sleep :: "duration \<Rightarrow> 'w \<Rightarrow> 'w"
  me_now :: duration
  me_parse_address :: "string \<Rightarrow> (string, address) outcome"
  me_parse_url :: "string \<Rightarrow> (string, 'url) outcome"
  me_nodes :: "('w, 'url) node_ops"
  me_block_number :: "'url \<Rightarrow> ('w, string, u64) action"
  me_latest_block_number_call :: bytes
  me_path_exists :: "string \<Rightarrow> 'w \<Rightarrow> bool"
  me_write :: "string \<Rightarrow> string \<Rightarrow> ('w, string, unit) action"
  me_to_toml :: "'f cli_config \<Rightarrow> string"

text \<open>A command of its own process: no shared store yet, nothing printed.\<close>

definition run_command :: "('w, unit) command \<Rightarrow> 'w \<Rightarrow> 'w service_result option" where
  "run_command cmd w =
     (case cmd ((w, \<lparr>kh_next = 0, kh_store = (\<lambda>_. Map.empty)\<rparr>), []) of (r, (w', _), out) \<Rightarrow> Some (r, w', out, []))"

text \<open>The \<open>match\<close> of \<open>main\<close>; \<open>ctrl_c\<close> is the number of engine turns before the interrupt.\<close>

fun cli_main ::
  "('w, 'f, 'd, 'stdin, 'pk, 'vk, 'pr, 'b, 'env, 'receipt, 'signer, 'client, 'url) main_env \<Rightarrow> nat option \<Rightarrow> commands
     \<Rightarrow> 'w \<Rightarrow> 'w service_result option" where
  "cli_main M ctrl_c (Prove args) w =
     run_command (prove_execute (me_boot_enc M) (me_to_bytes M) (me_journal_dec M) (me_features M) (me_zkvms M) (me_cli M)
       (pv_start_block args) (pv_end_block args) (pv_config args)) w"
| "cli_main M ctrl_c (Serve args) w =
     serve_execute (me_build M) (me_sleep M) (me_now M) (me_parse_address M) (me_cli M) args ctrl_c w"
| "cli_main M ctrl_c (Status args) w =
     run_command (status_execute (me_nodes M) (me_block_number M) (me_parse_url M) (me_parse_address M)
       (me_latest_block_number_call M) (me_cli M) (st_config args) (st_oracle_address args)) w"
| "cli_main M ctrl_c (Estimate args) w =
     run_command (estimate_execute (me_build M) (me_boot_enc M) (me_to_bytes M) (me_features M) (me_zkvms M) (me_cli M)
       (me_pricing M) (es_start_block args) (es_end_block args) (es_config args) (es_pricing args)) w"
| "cli_main M ctrl_c (Init args) w =
     run_command (init_execute (me_path_exists M) (me_write M) (me_to_toml M) (in_output args) (in_force args)) w"
| "cli_main M ctrl_c (FastTrack args) w = run_command (fast_track_execute (me_deploy M) args) w"

section \<open>From init to serve\<close>

text \<open>The document that serde writes for a configuration: every field of its sections is present.\<close>

definition toml_of_cli :: "'f cli_config \<Rightarrow> 'f toml_document" where
  "toml_of_cli c =
     \<lparr>td_network = cc_network c,
      td_proving = Some \<lparr>tp_backend = Some (vc_backend (cc_proving c)),
        tp_allowed_backends = Some (vc_allowed_backends (cc_proving c)),
        tp_security = Some (vc_security (cc_proving c)),
        tp_target_finality_secs = Some (vc_target_finality_secs (cc_proving c)),
        tp_max_concurrent_proofs = Some (vc_max_concurrent_proofs (cc_proving c))\<rparr>,
      td_pricing = Some \<lparr>tg_provider = Some (gc_provider (cc_pricing c)),
        tg_eth_usd_price = gc_eth_usd_price (cc_pricing c),
        tg_prove_usd_price = gc_prove_usd_price (cc_pricing c),
        tg_boundless_percentile = Some (gc_boundless_percentile (cc_pricing c))\<rparr>\<rparr>"

lemma toml_of_cli_read [simp]: "cli_from_toml (toml_of_cli c) = c"
  by (cases c)
    (simp add: toml_of_cli_def cli_from_toml_def proving_from_toml_def pricing_from_toml_def unwrap_or_def)

text \<open>
  The command line's configuration file: what is written is read, and the toml crate parses the
  default document it printed.
\<close>

locale config_files =
  fixes M :: "('w, 'f, 'd, 'stdin, 'pk, 'vk, 'pr, 'b, 'env, 'receipt, 'signer, 'client, 'url) main_env"
    and read :: "string \<Rightarrow> 'w \<Rightarrow> (string, string) outcome"
    and from_str :: "string \<Rightarrow> (string, 'f toml_document) outcome"
  assumes read_config: "cl_read_config (me_cli M) path w = (cli_from_file (\<lambda>p. read p w) from_str path, w)"
    and read_written: "me_write M path content w = (Ok (), w') \<Longrightarrow> read path w' = Ok content"
    and parse_default: "from_str (default_toml (me_to_toml M)) = Ok (toml_of_cli default_cli_config)"
begin

lemma init_writes:
  assumes "cli_main M ctrl_c (Init args) w = Some (Ok (), w', out, logged)"
  shows "cl_read_config (me_cli M) (in_output args) w' = (Ok default_cli_config, w')"
proof -
  from assms have "me_write M (in_output args) (default_toml (me_to_toml M)) w = (Ok (), w')"
    by (auto simp: run_command_def init_execute_def act_bind_Ok_iff on_system_def on_state_def in_world_def Let_def
        printlns_def split: prod.splits if_splits)
  from read_written [OF this] parse_default show ?thesis
    by (simp add: read_config cli_from_file_def)
qed

text \<open>The written configuration serves in Sentinel mode, and so idles.\<close>

lemma init_serves:
  assumes "cli_main M cc (Init args) w = Some (Ok (), w', out, logged)" and "sv_config sargs = in_output args"
    and "\<forall>a. sv_oracle_address sargs = Some a \<longrightarrow> (\<exists>addr. me_parse_address M a = Ok addr)"
  shows "\<exists>pre. cli_main M ctrl_c (Serve sargs) w' =
     idles (me_sleep M) (duration_from_secs (sv_poll_interval sargs)) ctrl_c w' pre"
proof -
  obtain sdk where sdk: "to_sdk_config (default_cli_config :: 'f cli_config) = Ok sdk"
    by (simp add: to_sdk_config_Ok)
  then have mode: "ri_proof_mode (config_resolve sdk) = Sentinel"
    by (auto simp: to_sdk_config_Ok default_cli_config_def proving_config_default_def default_security_def
        config_resolve_def intent_resolve_def parse_security_def)
  have "cl_read_config (me_cli M) (sv_config sargs) w' = (Ok default_cli_config, w')"
    using init_writes [OF assms(1)] assms(2) by simp
  from serve_execute_cases [OF this sdk assms(3), of "me_build M" "me_sleep M" "me_now M" ctrl_c] mode
  show ?thesis
    by (auto simp: Let_def mock_serve skeleton_serve_sentinel after_idles)
qed

end

text \<open>
  C40: from init to serve. If \<open>open-zk init\<close> reports success, every command reads the default
  configuration back from the file it wrote; \<open>open-zk serve\<close> with that file and any valid oracle
  address polls until Ctrl-C without doing anything else, and a second \<open>init\<close> without --force
  is refused and leaves the world as it is.
\<close>

theorem init_then_serve:
  assumes files: "config_files M read from_str"
    and init: "cli_main M cc (Init args) w = Some (Ok (), w', out, logged)"
    and args: "sv_config sargs = in_output args"
      "\<forall>a. sv_oracle_address sargs = Some a \<longrightarrow> (\<exists>addr. me_parse_address M a = Ok addr)"
  shows "cl_read_config (me_cli M) (in_output args) w' = (Ok default_cli_config, w')
     \<and> (\<exists>pre. cli_main M ctrl_c (Serve sargs) w' =
          idles (me_sleep M) (duration_from_secs (sv_poll_interval sargs)) ctrl_c w' pre)
     \<and> (me_path_exists M (in_output args) w' \<longrightarrow>
          (\<exists>e. cli_main M cc (Init (args\<lparr>in_force := False\<rparr>)) w' = Some (Err e, w', [], [])))"
proof (intro conjI impI)
  show "cl_read_config (me_cli M) (in_output args) w' = (Ok default_cli_config, w')"
    by (rule config_files.init_writes [OF files init])
  show "\<exists>pre. cli_main M ctrl_c (Serve sargs) w' =
      idles (me_sleep M) (duration_from_secs (sv_poll_interval sargs)) ctrl_c w' pre"
    by (rule config_files.init_serves [OF files init args])
  show "\<exists>e. cli_main M cc (Init (args\<lparr>in_force := False\<rparr>)) w' = Some (Err e, w', [], [])"
    if "me_path_exists M (in_output args) w'"
    using that by (simp add: run_command_def init_execute_def)
qed

section \<open>Configured engines\<close>

text \<open>A turn returns when the planning in it does.\<close>

lemma beacon_round_returns:
  assumes "\<And>st. engine_plan_range m E a b st \<noteq> None"
  shows "beacon_round m E a b s \<noteq> None"
  using assms by (auto simp: beacon_round_def simp del: not_None_eq split: prod.splits outcome.splits option.splits)

lemma sentinel_round_returns:
  assumes "\<And>st. engine_plan_range m E (di_start_block d) (di_end_block d) st \<noteq> None"
  shows "sentinel_round m E d s \<noteq> None"
  using assms by (auto simp: sentinel_round_def simp del: not_None_eq split: prod.splits outcome.splits option.splits)

lemma plan_range_returns:
  assumes "fits_u64 (unat b + unat (ri_aggregation_window i))" and "0 < ri_aggregation_window i"
  shows "plan_range m i a b st \<noteq> None"
proof (cases "a \<le> b")
  case True
  with assms obtain rs where "plan_range m i a b st = Some (Ok rs)" by (rule plan_range_windows)
  then show ?thesis by simp
qed (simp add: plan_range_def plan_loop.simps)

lemma configured_turn:
  assumes config: "to_sdk_config cfg = Ok c" "ec_intent (en_config E) = config_resolve c"
    and ranges: "\<And>w a b w'. cm_pending_range (en_monitor E) w = (Ok (Some (a, b)), w') \<Longrightarrow> fits_u64 (unat b + 1000)"
    and disputes: "\<And>w d w'. cm_active_dispute (en_monitor E) w = (Some d, w') \<Longrightarrow> fits_u64 (unat (di_end_block d) + 1000)"
  shows "engine_iteration m sleep E s \<noteq> None"
proof -
  let ?i = "ec_intent (en_config E)"
  have wf: "intent_wf ?i"
    using config resolved_wf [of cfg] by simp
  note w = intent_wf_window [OF wf]
  have plan: "engine_plan_range m E a e st \<noteq> None" if "fits_u64 (unat e + 1000)" for a e st
    unfolding engine_plan_range_def
    using that w by (intro plan_range_returns) (simp_all add: fits_u64_def)
  show ?thesis
  proof (cases "ri_proof_mode ?i")
    case Beacon
    have "(case monitor_call E (cm_pending_range (en_monitor E)) s of
          (Ok (Some (start, end_block)), s1) \<Rightarrow> beacon_round m E start end_block s1
        | (Ok None, s1) \<Rightarrow> Some (Ok (), s1)
        | (Err e, s1) \<Rightarrow> Some (Err e, s1)
        | (Panic p, s1) \<Rightarrow> Some (Panic p, s1)) \<noteq> None"
      using ranges [of "rs_world s"] beacon_round_returns [of m E] plan
      by (auto simp: monitor_call_def on_world_def act_map_err_def split: prod.splits outcome.splits option.splits)
    with Beacon show ?thesis by (simp add: engine_iteration_def beacon_iteration_def)
  next
    case Sentinel
    have "(case cm_active_dispute (en_monitor E) (rs_world s) of
          (Some dispute, w1) \<Rightarrow> sentinel_round m E dispute (s\<lparr>rs_world := w1\<rparr>)
        | (None, w1) \<Rightarrow> Some (Ok (), s\<lparr>rs_world := w1\<rparr>)) \<noteq> None"
      using disputes [of "rs_world s"] sentinel_round_returns [of m E] plan
      by (auto split: prod.splits option.splits)
    with Sentinel show ?thesis by (simp add: engine_iteration_def sentinel_iteration_def)
  qed
qed

text \<open>
  C22: a configured service keeps going. For the intent of any configuration file, and a monitor
  whose ranges and disputes end at least a thousand blocks below 2 to the 64, every turn of the
  engine returns, from every state it can be in, and at every await point it reaches it can go
  on unless it has stopped: the planning loop never runs away, the service comes back to its
  poll or fails with an error.
\<close>

theorem configured_turns_end:
  assumes config: "to_sdk_config cfg = Ok c" "ec_intent (en_config E) = config_resolve c"
    and ranges: "\<And>w a b w'. cm_pending_range (en_monitor E) w = (Ok (Some (a, b)), w') \<Longrightarrow> fits_u64 (unat b + 1000)"
    and disputes: "\<And>w d w'. cm_active_dispute (en_monitor E) w = (Some d, w') \<Longrightarrow> fits_u64 (unat (di_end_block d) + 1000)"
  shows "engine_iteration m sleep E s \<noteq> None
    \<and> (engine_at m sleep E s c' t \<longrightarrow> engine_resume m sleep E c' t = None \<longrightarrow> (\<exists>r. c' = Stopped r))"
proof (intro conjI impI)
  have turn: "engine_iteration m sleep E u \<noteq> None" for u
    using config ranges disputes by (rule configured_turn)
  show "engine_iteration m sleep E s \<noteq> None" by (rule turn)
  assume at: "engine_at m sleep E s c' t" and stuck: "engine_resume m sleep E c' t = None"
  from steps_turn [OF at] obtain u where "remaining m sleep E c' t = engine_iteration m sleep E u" by blast
  with turn [of u] have rest: "remaining m sleep E c' t \<noteq> None" by simp
  show "\<exists>r. c' = Stopped r"
  proof (rule ccontr)
    assume "\<nexists>r. c' = Stopped r"
    moreover have "c' \<noteq> Sleeping" using stuck by auto
    ultimately show False using remaining_step [of c' m sleep E t] rest stuck by simp
  qed
qed

section \<open>A small machine\<close>

text \<open>The world is the file system; the nodes and the deployment tools are offline.\<close>

type_synonym files = "string \<rightharpoonup> string"

definition sample_from_toml :: "string \<Rightarrow> (string, nat toml_document) outcome" where
  "sample_from_toml s = (if s = ''default'' then Ok (toml_of_cli default_cli_config) else Err ''syntax'')"

definition sample_read :: "string \<Rightarrow> files \<Rightarrow> (string, string) outcome" where
  "sample_read p w = ok_or ''missing'' (w p)"

definition offline_deploy :: "files deploy_env" where
  "offline_deploy =
     \<lparr>dp_sp1_prover = None, dp_parse_url = (\<lambda>_. Ok ()), dp_chain_id = (\<lambda>_ w. (Err ''offline'', w)),
      dp_forge_version = (\<lambda>w. (Err ''offline'', w)), dp_forge = (\<lambda>_ w. (Err ''offline'', w)),
      dp_parse_address = hex_address, dp_show_address = hex_text, dp_to_string_pretty = (\<lambda>_. Err ''offline''),
      dp_write = (\<lambda>p c w. (Ok (), w(p \<mapsto> c)))\<rparr>"

definition sample_main ::
  "(files, nat, abi_error, bytes, bytes, bytes, bytes, bytes, bytes, bytes, unit, unit, unit) main_env" where
  "sample_main =
     \<lparr>me_build = Release, me_features = \<lparr>ft_kona = True, ft_sp1 = True, ft_risc0 = False\<rparr>,
      me_boot_enc = boot_encode, me_to_bytes = archive_write, me_journal_dec = output_decode,
      me_zkvms = counting_zkvms,
      me_cli = sample_cli_env\<lparr>cl_read_config := (\<lambda>path w. (cli_from_file (\<lambda>p. sample_read p w) sample_from_toml path, w))\<rparr>,
      me_pricing = sample_pricing_env, me_deploy = offline_deploy, me_sleep = (\<lambda>_ w. w(''clock'' \<mapsto> ''12'')),
      me_now = (0, 0), me_parse_address = (\<lambda>_. Ok 1), me_parse_url = (\<lambda>_. Ok ()),
      me_nodes = \<lparr>no_get_block_by_number = (\<lambda>_ _ w. (Err ''offline'', w)), no_call = (\<lambda>_ _ _ w. (Err ''offline'', w)),
                  no_now = (\<lambda>_. (0, 0))\<rparr>,
      me_block_number = (\<lambda>_ w. (Err ''offline'', w)), me_latest_block_number_call = [],
      me_path_exists = (\<lambda>p w. w p \<noteq> None), me_write = (\<lambda>p c w. (Ok (), w(p \<mapsto> c))), me_to_toml = (\<lambda>_. ''default'')\<rparr>"

interpretation sample_files: config_files sample_main sample_read sample_from_toml
  by unfold_locales (auto simp: sample_main_def sample_read_def sample_from_toml_def default_toml_def)

theorem init_then_serve_witness:
  "\<exists>w' out pre. cli_main sample_main None (Init \<lparr>in_output = ''open-zk.toml'', in_force = False\<rparr>) Map.empty
        = Some (Ok (), w', out, [])
     \<and> cli_main sample_main (Some 2) (Serve \<lparr>sv_config = ''open-zk.toml'', sv_poll_interval = 12, sv_oracle_address = None\<rparr>) w'
        = Some (Ok (), w'(''clock'' \<mapsto> ''12''), pre @ [[], ''Shutting down gracefully...''], [])
     \<and> (\<exists>e. cli_main sample_main None (Init \<lparr>in_output = ''open-zk.toml'', in_force = False\<rparr>) w' = Some (Err e, w', [], []))"
proof -
  let ?args = "\<lparr>in_output = ''open-zk.toml'', in_force = False\<rparr>"
  let ?sargs = "\<lparr>sv_config = ''open-zk.toml'', sv_poll_interval = 12, sv_oracle_address = None\<rparr>"
  let ?w = "[''open-zk.toml'' \<mapsto> ''default''] :: files"
  have sel: "me_path_exists sample_main p w \<longleftrightarrow> w p \<noteq> None" "me_write sample_main p c w = (Ok (), w(p \<mapsto> c))"
      "default_toml (me_to_toml sample_main) = ''default''" "me_sleep sample_main d w = w(''clock'' \<mapsto> ''12'')" for p c w d
    by (simp_all add: sample_main_def default_toml_def)
  obtain out where init: "cli_main sample_main None (Init ?args) Map.empty = Some (Ok (), ?w, out, [])"
    by (simp add: run_command_def init_execute_def sel act_bind_def on_system_def on_state_def in_world_def Let_def)
  have addr: "\<forall>a. sv_oracle_address ?sargs = Some a \<longrightarrow> (\<exists>x. me_parse_address sample_main a = Ok x)" by simp
  from init_then_serve [OF sample_files.config_files_axioms init _ addr, of "Some 2"] obtain pre e where
    "cli_main sample_main (Some 2) (Serve ?sargs) ?w =
       idles (me_sleep sample_main) (duration_from_secs 12) (Some 2) ?w pre"
    "cli_main sample_main None (Init ?args) ?w = Some (Err e, ?w, [], [])"
    by (auto simp: sel)
  with init show ?thesis
    by (intro exI [of _ ?w] exI [of _ out] exI [of _ pre]) (simp add: idles_def sel)
qed

theorem configured_turns_end_witness:
  "\<exists>c. to_sdk_config (default_cli_config\<lparr>cc_proving := proving_config_default\<lparr>vc_security := ''maximum''\<rparr>\<rparr> :: nat cli_config) = Ok c
     \<and> engine_iteration Release (\<lambda>_ w. w)
         \<lparr>en_config = serve_engine_config (config_resolve c) 12,
          en_monitor = mock_monitor Release ((mock_monitor_default_state (0, 0))\<lparr>cs_l2_safe_block := 5000\<rparr>),
          en_dispatcher = mock_dispatcher, en_event_tx = 0, en_event_rx = 0\<rparr>
         \<lparr>rs_world = (), rs_sent = []\<rparr> \<noteq> None"
proof -
  let ?cfg = "default_cli_config\<lparr>cc_proving := proving_config_default\<lparr>vc_security := ''maximum''\<rparr>\<rparr> :: nat cli_config"
  let ?mon = "mock_monitor Release ((mock_monitor_default_state (0, 0))\<lparr>cs_l2_safe_block := 5000\<rparr>) :: (unit, _) chain_monitor"
  obtain c where c: "to_sdk_config ?cfg = Ok c"
    by (simp add: to_sdk_config_Ok)
  let ?E = "\<lparr>en_config = serve_engine_config (config_resolve c) 12, en_monitor = ?mon,
          en_dispatcher = mock_dispatcher, en_event_tx = 0, en_event_rx = 0\<rparr>"
  have "engine_iteration Release (\<lambda>_ w. w) ?E \<lparr>rs_world = (), rs_sent = []\<rparr> \<noteq> None"
  proof (rule configured_turns_end [OF c, THEN conjunct1])
    fix w a b w'
    assume "cm_pending_range (en_monitor ?E) w = (Ok (Some (a, b)), w')"
    then have "b = 5000"
      by (auto simp: mock_monitor_def mock_monitor_default_state_def default_pending_range_def act_bind_def
          pending_of_state_eq Let_def split: if_splits)
    then show "fits_u64 (unat b + 1000)" by (simp add: fits_u64_def)
  qed (simp_all add: mock_monitor_def default_active_dispute_def Let_def)
  with c show ?thesis by blast
qed

end
