(* ===== verification/Guest_Images.thy ===== *)
theory Guest_Images
  imports Cli_Estimate
begin

text \<open>
  Which guest binaries a host contains: the build script of the RISC Zero guests
  (build/risc0/build.rs), the constants of its library (build/risc0/src/lib.rs), their re-export
  and the inclusion of the SP1 binary (host/src/elf.rs). The crate risc0-build, the directory
  of the build and the files it reads are parameters; the crate's contract is a locale.
\<close>

section \<open>The build script\<close>

text \<open>Paths are lists of directory names from the root; the cfg flags of the build are a record.\<close>

type_synonym path = "string list"

record guest_build =
  gb_rebuild_guest :: bool
  gb_debug_guest_build :: bool
  gb_debug_assertions :: bool

record 'd guest_options =
  go_features :: "string list"
  go_use_docker :: "'d option"

record guest_methods =
  gm_elf :: bytes
  gm_id :: "u32 list"

text \<open>
  Embedding compiles the named guests and writes \<open>methods.rs\<close> to the output directory, which
  \<open>rb_methods\<close> reads back.
\<close>

record ('w, 'd) risc0_build =
  rb_default_options :: "'d guest_options"
  rb_current_dir :: "'w \<Rightarrow> (string, path) outcome"
  rb_docker_options :: "path \<Rightarrow> (string, 'd) outcome"
  rb_embed_methods :: "(string \<rightharpoonup> 'd guest_options) \<Rightarrow> ('w, string, unit) action"
  rb_methods :: "'w \<Rightarrow> guest_methods option"

fun path_parent :: "path \<Rightarrow> path option" where
  "path_parent [] = None"
| "path_parent (d # ds) = Some (butlast (d # ds))"

definition expect_some :: "'a option \<Rightarrow> ('w, 'e, 'a) action" where
  "expect_some x = act_lift (expect (ok_or () x))"

definition docker_root :: "('w, 'd) risc0_build \<Rightarrow> ('w, string, path) action" where
  "docker_root B =
     act_bind (\<lambda>w. (expect (rb_current_dir B w), w)) (\<lambda>cwd.
     act_bind (expect_some (path_parent cwd)) (\<lambda>d. expect_some (path_parent d)))"

definition build_guest_options ::
  "guest_build \<Rightarrow> ('w, 'd) risc0_build \<Rightarrow> ('w, string, 'd guest_options) action" where
  "build_guest_options g B =
     (let opts = (rb_default_options B)\<lparr>go_features := go_features (rb_default_options B) @ [''risc0'']\<rparr>
      in if \<not> (gb_debug_guest_build g \<or> gb_debug_assertions g)
         then act_bind (docker_root B) (\<lambda>root.
              act_bind (act_lift (expect (rb_docker_options B root))) (\<lambda>docker.
              act_return (opts\<lparr>go_use_docker := Some docker\<rparr>)))
         else act_return opts)"

definition build_main :: "guest_build \<Rightarrow> ('w, 'd) risc0_build \<Rightarrow> ('w \<times> string list, string, unit) action" where
  "build_main g B =
     (\<lambda>(w, out). case (if gb_rebuild_guest g
         then act_bind (build_guest_options g B) (\<lambda>guest_options.
              rb_embed_methods B [''guest-range-ethereum-risc0'' \<mapsto> guest_options])
         else act_return ()) w of
       (Ok _, w') \<Rightarrow> (Ok (), w', out @ [''cargo:rerun-if-changed=src''])
     | (Err e, w') \<Rightarrow> (Err e, w', out)
     | (Panic p, w') \<Rightarrow> (Panic p, w', out))"

section \<open>The embedded binaries\<close>

text \<open>A constant is \<open>None\<close> where the file that defines it is missing and nothing compiles.\<close>

definition GUEST_RANGE_ETHEREUM_RISC0_ELF :: "guest_build \<Rightarrow> guest_methods option \<Rightarrow> bytes option" where
  "GUEST_RANGE_ETHEREUM_RISC0_ELF g methods =
     (if gb_rebuild_guest g then map_option gm_elf methods else Some [])"

definition GUEST_RANGE_ETHEREUM_RISC0_ID :: "guest_build \<Rightarrow> guest_methods option \<Rightarrow> u32 list option" where
  "GUEST_RANGE_ETHEREUM_RISC0_ID g methods =
     (if gb_rebuild_guest g then map_option gm_id methods else Some (replicate 8 0))"

definition include_range_ethereum_elf :: "(string \<rightharpoonup> bytes) \<Rightarrow> string \<Rightarrow> bytes option" where
  "include_range_ethereum_elf files manifest_dir =
     files (manifest_dir @ ''/../../guests/range-ethereum/sp1/target/elf-compilation''
       @ ''/riscv64im-succinct-zkvm-elf/release/guest-range-ethereum-sp1'')"

text \<open>The host's re-exports exist under its feature only.\<close>

definition elf_risc0 :: "features \<Rightarrow> guest_build \<Rightarrow> guest_methods option \<Rightarrow> (bytes option \<times> u32 list option) option" where
  "elf_risc0 ft g methods =
     (if ft_risc0 ft
      then Some (GUEST_RANGE_ETHEREUM_RISC0_ELF g methods, GUEST_RANGE_ETHEREUM_RISC0_ID g methods)
      else None)"

text \<open>
  The binaries of a compiled command line, with the SDKs it links. A backend whose feature is
  off embeds nothing.
\<close>

definition link_guests ::
  "features \<Rightarrow> guest_build \<Rightarrow> guest_methods option \<Rightarrow> (string \<rightharpoonup> bytes) \<Rightarrow> string
     \<Rightarrow> ('w, 'stdin, 'pk, 'vk, 'proof) sp1_sdk \<Rightarrow> ('w, 'b, 'env, 'receipt) risc0_sdk
     \<Rightarrow> ('w, 'stdin, 'pk, 'vk, 'proof, 'b, 'env, 'receipt) zkvms option" where
  "link_guests ft g methods files manifest_dir S R =
     Option.bind (if ft_sp1 ft then include_range_ethereum_elf files manifest_dir else Some []) (\<lambda>sp1_elf.
     case (case elf_risc0 ft g methods of None \<Rightarrow> (Some [], Some []) | Some constants \<Rightarrow> constants) of
       (risc0_elf, risc0_id) \<Rightarrow>
     Option.bind risc0_elf (\<lambda>elf. Option.bind risc0_id (\<lambda>image_id.
     Some \<lparr>zk_sp1 = S, zk_risc0 = R, zk_sp1_elf = sp1_elf, zk_risc0_elf = elf,
           zk_risc0_image_id = image_id\<rparr>)))"

section \<open>Behaviour of the script\<close>

lemma path_parent_snoc [simp]: "path_parent (ds @ [d]) = Some ds"
  by (cases ds) simp_all

lemma expect_some_apply [simp]:
  "expect_some (Some x) w = (Ok x, w)" "expect_some None w = (Panic ExpectFailed, w)"
  by (simp_all add: expect_some_def)

text \<open>Without the feature the script compiles nothing, reads nothing and cannot fail.\<close>

lemma build_main_prebuilt:
  "\<not> gb_rebuild_guest g \<Longrightarrow> build_main g B (w, out) = (Ok (), w, out @ [''cargo:rerun-if-changed=src''])"
  by (simp add: build_main_def)

text \<open>A release build without \<open>debug-guest-build\<close> mounts the repository, two levels up.\<close>

lemma docker_root_repository:
  "rb_current_dir B w = Ok (repo @ [''build'', ''risc0'']) \<Longrightarrow> docker_root B w = (Ok repo, w)"
  using path_parent_snoc [of "repo @ [''build'']" "''risc0''"] by (simp add: docker_root_def act_bind_def)

lemma docker_root_too_shallow:
  "rb_current_dir B w = Ok cwd \<Longrightarrow> length cwd \<le> 1 \<Longrightarrow> docker_root B w = (Panic ExpectFailed, w)"
  by (cases cwd) (auto simp: docker_root_def act_bind_def)

lemma build_guest_options_release:
  assumes "rb_current_dir B w = Ok (repo @ [''build'', ''risc0''])" and "rb_docker_options B repo = Ok docker"
  shows "build_guest_options g B w =
     (Ok ((rb_default_options B)\<lparr>go_features := go_features (rb_default_options B) @ [''risc0''],
            go_use_docker := (if gb_debug_guest_build g \<or> gb_debug_assertions g
                              then go_use_docker (rb_default_options B) else Some docker)\<rparr>), w)"
  using docker_root_repository [OF assms(1)] assms(2)
  by (simp add: build_guest_options_def act_bind_def)

text \<open>A local build never asks for the directory.\<close>

lemma build_guest_options_local:
  "gb_debug_guest_build g \<or> gb_debug_assertions g \<Longrightarrow>
     build_guest_options g B w =
       (Ok ((rb_default_options B)\<lparr>go_features := go_features (rb_default_options B) @ [''risc0'']\<rparr>), w)"
  by (auto simp: build_guest_options_def)

lemma build_main_rebuilt:
  "gb_rebuild_guest g \<Longrightarrow> build_guest_options g B w = (Ok opts, w) \<Longrightarrow>
     rb_embed_methods B [''guest-range-ethereum-risc0'' \<mapsto> opts] w = (Ok (), w') \<Longrightarrow>
     build_main g B (w, out) = (Ok (), w', out @ [''cargo:rerun-if-changed=src''])"
  by (simp add: build_main_def act_bind_def)

lemma build_main_embedded:
  assumes "build_main g B (w, out) = (Ok (), w', out')" and "gb_rebuild_guest g"
  obtains opts w1 where "build_guest_options g B w = (Ok opts, w1)"
    "rb_embed_methods B [''guest-range-ethereum-risc0'' \<mapsto> opts] w1 = (Ok (), w')"
  using assms
  by (auto simp: build_main_def split: prod.splits outcome.splits elim!: act_bindE)

section \<open>Contracts of the build crate and of the loader\<close>

text \<open>
  What risc0-build documents: a successful run leaves a generated file whose image id is the
  one of its binary. Both sides of the locale speak of the same world.
\<close>

locale risc0_build_laws =
  fixes B :: "('v, 'd) risc0_build" and image_id_of :: "bytes \<Rightarrow> u32 list"
  assumes embeds: "rb_embed_methods B guests w = (Ok (), w') \<Longrightarrow>
     \<exists>methods. rb_methods B w' = Some methods \<and> gm_id methods = image_id_of (gm_elf methods)"
begin

lemma built_constants:
  assumes "build_main g B (w, out) = (Ok (), w', out')" and "gb_rebuild_guest g"
  shows "\<exists>elf. GUEST_RANGE_ETHEREUM_RISC0_ELF g (rb_methods B w') = Some elf
     \<and> GUEST_RANGE_ETHEREUM_RISC0_ID g (rb_methods B w') = Some (image_id_of elf)"
proof -
  obtain opts w1 where "rb_embed_methods B [''guest-range-ethereum-risc0'' \<mapsto> opts] w1 = (Ok (), w')"
    by (rule build_main_embedded [OF assms])
  from embeds [OF this] assms(2) show ?thesis
    by (auto simp: GUEST_RANGE_ETHEREUM_RISC0_ELF_def GUEST_RANGE_ETHEREUM_RISC0_ID_def)
qed

end

text \<open>The SDK refuses a binary that is no program, the empty one in particular.\<close>

locale risc0_loader = risc0_sdk_laws +
  assumes rejects_empty: "r0_prove_with_opts R env [] opts w \<noteq> (Ok result, w')"
    and rejects_empty_default: "r0_prove R env [] w \<noteq> (Ok result, w')"
begin

lemma prove_needs_binary: "risc0_prove R p i m w = (Ok a, w') \<Longrightarrow> zp_elf p \<noteq> []"
  using rejects_empty by (auto simp: risc0_prove_def act_bind_Ok_iff Let_def)

lemma count_needs_binary: "risc0_count_cycles R p i w = (Ok c, w') \<Longrightarrow> zp_elf p \<noteq> []"
  using rejects_empty_default by (auto simp: risc0_count_cycles_def act_bind_Ok_iff)

end

section \<open>Which hosts can prove\<close>

lemma link_guests_risc0:
  assumes "link_guests ft g methods files dir S R = Some Z"
  shows "zk_risc0 Z = R"
    and "ft_risc0 ft \<Longrightarrow> GUEST_RANGE_ETHEREUM_RISC0_ELF g methods = Some (zk_risc0_elf Z)"
    and "ft_risc0 ft \<Longrightarrow> GUEST_RANGE_ETHEREUM_RISC0_ID g methods = Some (zk_risc0_image_id Z)"
  using assms by (auto simp: link_guests_def elf_risc0_def bind_eq_Some_conv split: prod.splits if_splits)

text \<open>The SP1 binary is read where the code is compiled, so a missing file is no command line at all.\<close>

lemma link_guests_sp1:
  "ft_sp1 ft \<Longrightarrow> include_range_ethereum_elf files dir = None \<Longrightarrow> link_guests ft g methods files dir S R = None"
  by (simp add: link_guests_def)

lemma placeholder_is_empty:
  assumes "link_guests ft g methods files dir S R = Some Z" and "ft_risc0 ft" and "zk_risc0_elf Z \<noteq> []"
  shows "gb_rebuild_guest g"
  using link_guests_risc0(2) [OF assms(1,2)] assms(3)
  by (auto simp: GUEST_RANGE_ETHEREUM_RISC0_ELF_def split: if_splits)

lemma run_prover_risc0:
  assumes "ri_backend intent = RiscZero" and "run_prover ft Z intent witness w = (Ok a, w')"
  shows "ft_risc0 ft \<and> risc0_prove (zk_risc0 Z)
      (risc_zero_program_new ''range-ethereum'' (zk_risc0_image_id Z) (zk_risc0_elf Z))
      \<lparr>zw_oracle_data = rw_oracle_data witness\<rparr> (ri_proving_mode intent) w = (Ok a, w')"
  using assms by (simp add: run_prover_def Let_def split: if_splits)

lemma run_cycle_count_risc0:
  assumes "ri_backend intent = RiscZero" and "run_cycle_count ft Z intent witness w = (Ok c, w')"
  shows "ft_risc0 ft \<and> risc0_count_cycles (zk_risc0 Z)
      (risc_zero_program_new ''range-ethereum'' (zk_risc0_image_id Z) (zk_risc0_elf Z))
      \<lparr>zw_oracle_data = rw_oracle_data witness\<rparr> w = (Ok c, w')"
  using assms by (simp add: run_cycle_count_def Let_def split: if_splits)

lemma program_fields [simp]:
  "zp_elf (risc_zero_program_new name ids elf) = elf"
  "zp_image_id (risc_zero_program_new name ids elf) = ids"
  "zp_image_id_bytes (risc_zero_program_new name ids elf) = image_id_to_bytes ids"
  by (simp_all add: risc_zero_program_new_def Let_def)

text \<open>
  C25: RISC Zero proofs need rebuilt guests. Take a command line linked with what its build
  script left. If it ever proves a range with the RISC Zero backend, or counts the cycles of
  one, it was built with \<open>rebuild-guest\<close>: the constants of any other build are an empty binary
  and a zero image id. A proof of a rebuilt one names the image id of the embedded binary and
  verifies for the embedded program.
\<close>

theorem risc0_needs_rebuild:
  assumes build: "risc0_build_laws B image_id_of" and loader: "risc0_loader R image_id_of"
    and script: "build_main g B (v, out) = (Ok (), v', out')"
    and link: "link_guests ft g (rb_methods B v') files dir S R = Some Z"
    and backend: "ri_backend intent = RiscZero"
  shows "(\<forall>c u'. run_cycle_count ft Z intent witness u = (Ok c, u') \<longrightarrow> gb_rebuild_guest g)
     \<and> (\<forall>a w'. run_prover ft Z intent witness w = (Ok a, w') \<longrightarrow>
          gb_rebuild_guest g
        \<and> pa_program_id a = be_word (image_id_to_bytes (image_id_of (zk_risc0_elf Z)))
        \<and> risc0_verify R (risc_zero_program_new ''range-ethereum'' (zk_risc0_image_id Z) (zk_risc0_elf Z)) a w'
            = (Ok True, w'))"
proof (intro conjI allI impI)
  note R = link_guests_risc0(1) [OF link]
  fix c u' assume "run_cycle_count ft Z intent witness u = (Ok c, u')"
  from run_cycle_count_risc0 [OF backend this] risc0_loader.count_needs_binary [OF loader]
  have "ft_risc0 ft" "zk_risc0_elf Z \<noteq> []" by (fastforce simp: R)+
  then show "gb_rebuild_guest g" by (rule placeholder_is_empty [OF link])
next
  note R = link_guests_risc0(1) [OF link]
  let ?p = "risc_zero_program_new ''range-ethereum'' (zk_risc0_image_id Z) (zk_risc0_elf Z)"
  fix a w' assume "run_prover ft Z intent witness w = (Ok a, w')"
  from run_prover_risc0 [OF backend this] have ft: "ft_risc0 ft"
    and run: "risc0_prove R ?p \<lparr>zw_oracle_data = rw_oracle_data witness\<rparr> (ri_proving_mode intent) w = (Ok a, w')"
    by (simp_all add: R)
  from risc0_loader.prove_needs_binary [OF loader run] show g: "gb_rebuild_guest g"
    by (intro placeholder_is_empty [OF link ft]) simp
  from risc0_build_laws.built_constants [OF build script g] link_guests_risc0(2,3) [OF link ft]
  have id: "zk_risc0_image_id Z = image_id_of (zk_risc0_elf Z)" by auto
  from risc0_sdk_laws.risc0_proved_verifies [OF risc0_loader.axioms(1) [OF loader] _ run] id
  show "risc0_verify R ?p a w' = (Ok True, w')" by simp
  from run id show "pa_program_id a = be_word (image_id_to_bytes (image_id_of (zk_risc0_elf Z)))"
    by (auto simp: risc0_prove_def act_bind_Ok_iff Let_def split: if_splits)
qed

section \<open>A build and a loader\<close>

definition strict_risc0 :: "(nat, bytes, bytes, bytes \<times> bytes) risc0_sdk" where
  "strict_risc0 = reference_risc0
     \<lparr>r0_prove_with_opts := (\<lambda>env elf opts w.
        if elf = [] then (Err ''malformed binary'', w) else r0_prove_with_opts reference_risc0 env elf opts w),
      r0_prove := (\<lambda>env elf w.
        if elf = [] then (Err ''malformed binary'', w) else r0_prove reference_risc0 env elf w)\<rparr>"

interpretation strict: risc0_loader strict_risc0 reference_image_id
  by unfold_locales (auto simp: strict_risc0_def reference_risc0_def pair_read_write split: if_splits)

definition sample_risc0_build :: "(guest_methods option, path) risc0_build" where
  "sample_risc0_build =
     \<lparr>rb_default_options = \<lparr>go_features = [], go_use_docker = None\<rparr>,
      rb_current_dir = (\<lambda>_. Ok [''repo'', ''build'', ''risc0'']), rb_docker_options = Ok,
      rb_embed_methods = (\<lambda>guests w.
        if guests ''guest-range-ethereum-risc0'' = None then (Err ''no guest'', w)
        else (Ok (), Some \<lparr>gm_elf = [2], gm_id = reference_image_id [2]\<rparr>)),
      rb_methods = id\<rparr>"

interpretation sample_build: risc0_build_laws sample_risc0_build reference_image_id
  by unfold_locales (auto simp: sample_risc0_build_def split: if_splits)

definition sample_guest_build :: "bool \<Rightarrow> guest_build" where
  "sample_guest_build rebuild =
     \<lparr>gb_rebuild_guest = rebuild, gb_debug_guest_build = False, gb_debug_assertions = False\<rparr>"

definition sample_linked ::
  "bool \<Rightarrow> (nat, bytes, bytes, bytes, bytes \<times> bytes, bytes, bytes, bytes \<times> bytes) zkvms option" where
  "sample_linked rebuild =
     link_guests \<lparr>ft_kona = True, ft_sp1 = False, ft_risc0 = True\<rparr> (sample_guest_build rebuild)
       (rb_methods sample_risc0_build
         (fst (snd (build_main (sample_guest_build rebuild) sample_risc0_build (None, []))))) Map.empty ''/repo/crates/cli'' reference_sp1 strict_risc0"

lemma sample_script:
  "build_main (sample_guest_build True) sample_risc0_build (None, []) =
     (Ok (), Some \<lparr>gm_elf = [2], gm_id = reference_image_id [2]\<rparr>, [''cargo:rerun-if-changed=src''])"
  "build_main (sample_guest_build False) sample_risc0_build (None, []) =
     (Ok (), None, [''cargo:rerun-if-changed=src''])"
  by (simp_all add: build_main_def sample_guest_build_def sample_risc0_build_def build_guest_options_def
      docker_root_def act_bind_def)

definition sample_risc0_intent :: resolved_intent where
  "sample_risc0_intent =
     \<lparr>ri_proof_mode = Beacon, ri_backend = RiscZero, ri_proving_mode = Groth16, ri_aggregation_window = 1\<rparr>"

theorem risc0_needs_rebuild_witness:
  "\<exists>Z a. sample_linked True = Some Z
     \<and> run_prover \<lparr>ft_kona = True, ft_sp1 = False, ft_risc0 = True\<rparr> Z sample_risc0_intent
         \<lparr>rw_boot_info = [], rw_oracle_data = [7], rw_blob_data = []\<rparr> 0 = (Ok a, 1)
     \<and> pa_program_id a = be_word (image_id_to_bytes (reference_image_id [2]))
     \<and> risc0_verify strict_risc0 (risc_zero_program_new ''range-ethereum'' (reference_image_id [2]) [2]) a 1
         = (Ok True, 1)"
proof -
  let ?ft = "\<lparr>ft_kona = True, ft_sp1 = False, ft_risc0 = True\<rparr>"
  let ?g = "sample_guest_build True"
  let ?Z = "\<lparr>zk_sp1 = reference_sp1, zk_risc0 = strict_risc0, zk_sp1_elf = [], zk_risc0_elf = [2],
      zk_risc0_image_id = reference_image_id [2]\<rparr>"
  let ?w = "\<lparr>rw_boot_info = [], rw_oracle_data = [7], rw_blob_data = []\<rparr>"
  let ?m = "Some \<lparr>gm_elf = [2], gm_id = reference_image_id [2]\<rparr>"
  have link: "link_guests ?ft ?g (rb_methods sample_risc0_build ?m) Map.empty ''/repo/crates/cli''
      reference_sp1 strict_risc0 = Some ?Z"
    by (simp add: link_guests_def elf_risc0_def GUEST_RANGE_ETHEREUM_RISC0_ELF_def GUEST_RANGE_ETHEREUM_RISC0_ID_def
        sample_guest_build_def sample_risc0_build_def)
  have backend: "ri_backend sample_risc0_intent = RiscZero" by (simp add: sample_risc0_intent_def)
  obtain a where run: "run_prover ?ft ?Z sample_risc0_intent ?w 0 = (Ok a, 1)"
    by (simp add: run_prover_def sample_risc0_intent_def Let_def risc0_prove_def build_env_def strict_risc0_def
        reference_risc0_def pair_write_def act_bind_def act_map_err_def)
  from risc0_needs_rebuild [OF sample_build.risc0_build_laws_axioms strict.risc0_loader_axioms
      sample_script(1) link backend] run
  have "pa_program_id a = be_word (image_id_to_bytes (reference_image_id [2]))
     \<and> risc0_verify strict_risc0 (risc_zero_program_new ''range-ethereum'' (reference_image_id [2]) [2]) a 1
         = (Ok True, 1)"
    by simp
  moreover have "sample_linked True = Some ?Z" using link by (simp add: sample_linked_def sample_script)
  ultimately show ?thesis using run by blast
qed

text \<open>The same command line without the feature links, and its proofs fail in the loader.\<close>

lemma placeholder_never_proves:
  "\<exists>Z. sample_linked False = Some Z
     \<and> run_prover \<lparr>ft_kona = True, ft_sp1 = False, ft_risc0 = True\<rparr> Z sample_risc0_intent
         \<lparr>rw_boot_info = [], rw_oracle_data = [7], rw_blob_data = []\<rparr> 0
       = (Err ''risc0 proving failed: malformed binary'', 0)"
  by (simp add: sample_linked_def sample_script link_guests_def elf_risc0_def GUEST_RANGE_ETHEREUM_RISC0_ELF_def
      GUEST_RANGE_ETHEREUM_RISC0_ID_def sample_guest_build_def run_prover_def sample_risc0_intent_def Let_def
      risc0_prove_def build_env_def strict_risc0_def reference_risc0_def act_bind_def act_map_err_def)

end
