(* ===== verification/Spec2Isabelle.thy ===== *)
theory Spec2Isabelle
  imports Engine_Steps Witness Da_Source Zkvm_Io Aggregation Pipeline Prover Pricing Rpc_Witness
    Contracts Onchain Composition Soundness Proving_Path Forgery
    Cli_Prove Cli_Estimate Cli_Service Cli_Deploy Cli_Main Guest_Images
begin

text \<open>
  A model of open-zk, a proving SDK for OP Stack rollups, and of the two contracts it talks to.

  The program. An orchestrator polls the L1 and L2 nodes for blocks that are safe on L2 but not
  yet proven on L1, cuts them into windows and dispatches one range proof per window and one
  aggregation (Beacon mode), or proves the range of a dispute (Sentinel mode). For a range the
  host collects every preimage that kona's derivation reads, serializes them as the witness and
  runs a zkVM backend. The range guest replays derivation and execution on the witness and
  commits a journal; the aggregation guest verifies range proofs and commits the journal of
  their chain. The submitter sends proofs to the L2 output oracle or the dispute game, whose
  state the monitor reads again. The command line drives these parts one by one.

  How the model stands to the code. A struct is a record with a field prefix, an enum a datatype,
  u64 and its relatives are words, a String its bytes as characters, a map from keys to bytes a
  partial function. A fallible function returns \<open>outcome\<close>: \<open>Ok\<close>, the error as \<open>Err\<close>, or
  \<open>Panic\<close>; asynchronous code is an action, a function from the world to an outcome and the next
  world. Arithmetic that can overflow takes the build, since it panics in a debug build and wraps
  in a release build. Code outside the repository (nodes, SDKs, kona, alloy, serde, toml, rkyv,
  the file system) is a field of a record that the definitions take; what is used of it is a
  named hypothesis or a locale, each interpreted on a concrete implementation.

  The theories, from the bottom.

  \<^item> Prelude, Json: outcomes, actions, \<open>u64\<close> arithmetic, byte orders, decimal texts, JSON values.
  \<^item> Core_Types (crates/core/src/types): the shared records and the ABI encodings of the journal
    and the boot information; locales \<open>journal_abi\<close>, \<open>boot_abi\<close>.
  \<^item> Intent (orchestrator/src/intent.rs), Config (sdk/src/config.rs, cli/src/config.rs): from a
    builder or a configuration file to a resolved intent.
  \<^item> Monitor (monitor.rs, mock_monitor.rs, rpc_monitor.rs), Dispatcher (dispatcher.rs), Planning
    and Engine (engine.rs), Engine_Props: traits as records of actions with their contracts as
    locales (\<open>range_monitor\<close>, \<open>dispatcher_contract\<close>); the planning loop refines the splitting of
    an interval of naturals; every run of the engine sends a word of a protocol automaton.
    Engine_Steps cuts the same code at its await points, where a dropped future stops; its steps
    agree with the turns, and its control states refine the automaton's phases.
  \<^item> Witness (adapter.rs, mock.rs, kv_store.rs of host/src/witness, guest/src/oracle.rs),
    Rpc_Witness (rpc.rs): the transport formats, the shared store with its aliases, and the
    provider that builds a witness from nodes and kona's native host.
  \<^item> Zkvm_Io (zkvm_io.rs, sp1_io.rs, risc0_io.rs; locale \<open>guest_stream\<close>), Da_Source (the Celestia
    and EigenDA sources; locale \<open>da_provider\<close>), Pipeline (guest/src/pipeline.rs and the range
    guests), Aggregation (guests/aggregation): exactly when a guest commits, and what.
  \<^item> Prover (host/src/prover; locales \<open>prover_contract\<close>, \<open>sp1_sdk_laws\<close>, \<open>risc0_sdk_laws\<close>), Pricing
    (host/src/pricing; locale \<open>f64_order\<close>).
  \<^item> Contracts (crates/contracts/src; locale \<open>submitter\<close>), Onchain (contracts/src/*.sol): the
    contracts as a step relation and as histories of transactions, invariants of reachable
    states, the transaction behind every proven output, and the Rust clients run against them.
  \<^item> Composition: whether the proofs of planned windows aggregate.
  \<^item> Soundness: what an output stored on chain says about runs of the guests. A proof system is a
    locale, \<open>proof_system\<close>, over the guest stream and the journal encoding: what a verifier accepts
    for a program's key, a run of that program committed; \<open>complete_proof_system\<close> extends it by the
    converse. Both are interpreted on an ideal system whose verifiers accept exactly the runs of
    the two guests. The theory gives the provenance of outputs, and two ways around it: trace
    extension to the last block number, and an aggregation over a program of the prover's choice.
  \<^item> Proving_Path: one request from the RPC provider's witness through the range guest, the prover
    and the submission to the oracle; locale \<open>kona_inputs\<close> ties kona's native host to its client.
  \<^item> Forgery: the guest's preimages are not compared with their keys; locale \<open>reading_kona\<close> is a
    client that only reads its store.
  \<^item> Cli_Prove (prove.rs, witness_helper.rs), Cli_Estimate (estimate.rs), Cli_Service (serve.rs,
    status.rs, init.rs), Cli_Deploy (fast_track.rs; locale \<open>address_text\<close>): the commands, as
    actions that also print; Cli_Main (main.rs): their dispatch, the file that init writes and what
    serve makes of it (locale \<open>config_files\<close>), and that configured engines keep polling.
  \<^item> Guest_Images (build/risc0, host/src/elf.rs; locales \<open>risc0_build_laws\<close>, \<open>risc0_loader\<close>): the
    build script of the RISC Zero guests, the binaries a command line embeds, and that only a
    build with \<open>rebuild-guest\<close> can prove with RISC Zero.

  Loops. A loop whose end is not guaranteed (\<open>plan_loop\<close>, \<open>run_loop\<close>) is a partial function with
  \<open>None\<close> for a run that never returns; returning is proved where it holds and so is diverging.
  The only fuels are the length of a text in \<open>str_trim\<close>, where every step removes a character,
  and the number of awaits before Ctrl-C in \<open>select_awaits\<close>, which is an input.

  Not modelled. Log output; parsing the command line's arguments (clap); module declarations and
  re-exports; tests; the cryptography of the proof systems and the verifier contracts, which are
  parameters. An interrupt of the service inside a monitor's or dispatcher's call is not
  distinguished from one before or after it. Operations on doubles are parameters with the order
  laws of IEEE 754 that the median needs.
\<close>

end
